(* ===== verification/Prelude.thy ===== *)
theory Prelude
  imports Main "HOL-Library.Word"
begin

text \<open>
  Shared vocabulary of the development: machine integer types, the fallible-result and
  state-passing types every component uses, and the generic lemmas about them.

  \<^item> \<open>'e + 'a\<close> is Rust's \<open>Result<A, E>\<close>: \<open>Inl\<close> is \<open>Err\<close>, \<open>Inr\<close> is \<open>Ok\<close>.
  \<^item> \<open>('w, 'e, 'a) io\<close> is an \<open>async fn\<close> or an effectful function: from the world before the
    call to its result and the world after it.  An awaited call of the environment may
    change the world in any way, which is how other tasks interleave at await points.
\<close>

named_theorems io_defs \<open>the definitions of the state-passing combinators\<close>
named_theorems item_frame \<open>what an operation leaves unchanged\<close>

type_synonym u8 = "8 word"
type_synonym u16 = "16 word"
type_synonym u32 = "32 word"
type_synonym u64 = "64 word"

type_synonym ('w, 'e, 'a) io = "'w \<Rightarrow> ('e + 'a) \<times> 'w"

section \<open>Signed 64-bit arithmetic of a release build\<close>

text \<open>
  \<open>i64\<close> values are modelled as \<open>int\<close>; where the code computes with them, the wrap-around of
  a release build (\<open>overflow-checks\<close> is off in Cargo.toml's release profile) is written out.
\<close>

definition wrap_i64 :: "int \<Rightarrow> int" where
  "wrap_i64 x = (x + 2 ^ 63) mod 2 ^ 64 - 2 ^ 63"

definition in_i64 :: "int \<Rightarrow> bool" where
  "in_i64 x \<longleftrightarrow> - (2 ^ 63) \<le> x \<and> x < 2 ^ 63"

lemma wrap_i64_id: "in_i64 x \<Longrightarrow> wrap_i64 x = x"
  by (simp add: wrap_i64_def in_i64_def)

lemma wrap_i64_range: "in_i64 (wrap_i64 x)"
proof -
  have "0 \<le> (x + 2 ^ 63) mod 2 ^ 64" "(x + 2 ^ 63) mod 2 ^ 64 < 2 ^ 64"
    by (rule pos_mod_sign, simp) (rule pos_mod_bound, simp)
  then show ?thesis unfolding wrap_i64_def in_i64_def by simp
qed

section \<open>Results\<close>

definition is_ok :: "'e + 'a \<Rightarrow> bool" where
  "is_ok r = (case r of Inl _ \<Rightarrow> False | Inr _ \<Rightarrow> True)"

definition ok_option :: "'e + 'a \<Rightarrow> 'a option" where
  "ok_option r = (case r of Inl _ \<Rightarrow> None | Inr a \<Rightarrow> Some a)"

definition unwrap_or :: "'e + 'a \<Rightarrow> 'a \<Rightarrow> 'a" where
  "unwrap_or r d = (case r of Inl _ \<Rightarrow> d | Inr a \<Rightarrow> a)"

definition map_ok :: "('a \<Rightarrow> 'b) \<Rightarrow> 'e + 'a \<Rightarrow> 'e + 'b" where
  "map_ok f r = (case r of Inl e \<Rightarrow> Inl e | Inr a \<Rightarrow> Inr (f a))"

definition map_err :: "('e \<Rightarrow> 'f) \<Rightarrow> 'e + 'a \<Rightarrow> 'f + 'a" where
  "map_err f r = (case r of Inl e \<Rightarrow> Inl (f e) | Inr a \<Rightarrow> Inr a)"

definition ok_or :: "'a option \<Rightarrow> 'e \<Rightarrow> 'e + 'a" where
  "ok_or x e = (case x of None \<Rightarrow> Inl e | Some a \<Rightarrow> Inr a)"

definition bind_res :: "'e + 'a \<Rightarrow> ('a \<Rightarrow> 'e + 'b) \<Rightarrow> 'e + 'b" where
  "bind_res r f = (case r of Inl e \<Rightarrow> Inl e | Inr a \<Rightarrow> f a)"

lemma result_simps [simp]:
  "is_ok (Inr a)" "\<not> is_ok (Inl e)"
  "ok_option (Inr a) = Some a" "ok_option (Inl e) = None"
  "unwrap_or (Inr a) d = a" "unwrap_or (Inl e) d = d"
  "map_ok f (Inr a) = Inr (f a)" "map_ok f (Inl e) = Inl e"
  "map_err g (Inr a) = Inr a" "map_err g (Inl e) = Inl (g e)"
  "ok_or (Some a) e = Inr a" "ok_or None e = Inl e"
  "bind_res (Inr a) h = h a" "bind_res (Inl e) h = Inl e"
  by (simp_all add: is_ok_def ok_option_def unwrap_or_def map_ok_def map_err_def ok_or_def
      bind_res_def)

lemma bind_res_eq_Inr:
  "bind_res r f = Inr b \<longleftrightarrow> (\<exists>a. r = Inr a \<and> f a = Inr b)"
  by (cases r) auto

lemma ok_or_eq_Inr: "ok_or x e = Inr a \<longleftrightarrow> x = Some a"
  by (cases x) auto

section \<open>Panics\<close>

text \<open>What a function returns that slices or indexes: it may panic instead.\<close>

datatype 'a ran = Panicked | Returned 'a

text \<open>\<open>?\<close> on an optional value that may have been computed with a panic.\<close>

fun bind_ran :: "'a option ran \<Rightarrow> ('a \<Rightarrow> 'b option ran) \<Rightarrow> 'b option ran" where
  "bind_ran Panicked f = Panicked"
| "bind_ran (Returned None) f = Returned None"
| "bind_ran (Returned (Some a)) f = f a"

section \<open>Effectful computations\<close>

definition ok_io :: "'a \<Rightarrow> ('w, 'e, 'a) io" where
  [io_defs]: "ok_io a = (\<lambda>w. (Inr a, w))"

definition err_io :: "'e \<Rightarrow> ('w, 'e, 'a) io" where
  [io_defs]: "err_io e = (\<lambda>w. (Inl e, w))"

text \<open>\<open>bind_io m f\<close> is \<open>let x = m.await?; f(x)\<close>: an error returns at once.\<close>

definition bind_io :: "('w, 'e, 'a) io \<Rightarrow> ('a \<Rightarrow> ('w, 'e, 'b) io) \<Rightarrow> ('w, 'e, 'b) io" where
  [io_defs]: "bind_io m f = (\<lambda>w. case m w of (Inl e, w') \<Rightarrow> (Inl e, w') | (Inr a, w') \<Rightarrow> f a w')"

text \<open>\<open>try_io m f\<close> is \<open>let r = m.await; f(r)\<close>, with the \<open>Result\<close> itself as the value.\<close>

definition try_io :: "('w, 'e, 'a) io \<Rightarrow> ('e + 'a \<Rightarrow> ('w, 'f, 'b) io) \<Rightarrow> ('w, 'f, 'b) io" where
  [io_defs]: "try_io m f = (\<lambda>w. case m w of (r, w') \<Rightarrow> f r w')"

definition lift_io :: "'e + 'a \<Rightarrow> ('w, 'e, 'a) io" where
  [io_defs]: "lift_io r = (\<lambda>w. (r, w))"

text \<open>Plain updates and reads of the world.\<close>

definition modify_io :: "('w \<Rightarrow> 'w) \<Rightarrow> ('w, 'e, unit) io" where
  [io_defs]: "modify_io f = (\<lambda>w. (Inr (), f w))"

definition read_io :: "('w \<Rightarrow> 'a) \<Rightarrow> ('w, 'e, 'a) io" where
  [io_defs]: "read_io f = (\<lambda>w. (Inr (f w), w))"

definition then_io :: "('w, 'e, 'a) io \<Rightarrow> ('w, 'e, 'b) io \<Rightarrow> ('w, 'e, 'b) io" where
  [io_defs]: "then_io m n = bind_io m (\<lambda>_. n)"

lemma io_run [simp]:
  "ok_io a w = (Inr a, w)"
  "err_io e w = (Inl e, w)"
  "lift_io r w = (r, w)"
  "modify_io f w = (Inr (), f w)"
  "read_io g w = (Inr (g w), w)"
  by (simp_all add: io_defs)

lemma bind_io_run:
  "bind_io m f w = (case m w of (Inl e, w') \<Rightarrow> (Inl e, w') | (Inr a, w') \<Rightarrow> f a w')"
  by (simp add: io_defs)

lemma try_io_run: "try_io m f w = (case m w of (r, w') \<Rightarrow> f r w')"
  by (simp add: io_defs)

lemma then_io_run:
  "then_io m n w = (case m w of (Inl e, w') \<Rightarrow> (Inl e, w') | (Inr a, w') \<Rightarrow> n w')"
  by (simp add: io_defs)

lemmas io_runs = bind_io_run try_io_run then_io_run

lemma bind_io_laws [simp]:
  "bind_io (ok_io a) f = f a"
  "bind_io (err_io e) f = err_io e"
  "bind_io m ok_io = m"
  "bind_io (bind_io m f) g = bind_io m (\<lambda>a. bind_io (f a) g)"
  by (auto simp: io_defs fun_eq_iff split: prod.splits sum.splits)

lemma bind_io_ok:
  "m w = (Inr a, w') \<Longrightarrow> bind_io m f w = f a w'"
  by (simp add: bind_io_run)

lemma bind_io_err:
  "m w = (Inl e, w') \<Longrightarrow> bind_io m f w = (Inl e, w')"
  by (simp add: bind_io_run)

lemma bind_io_Inr_iff:
  "bind_io m f w = (Inr b, w'') \<longleftrightarrow> (\<exists>a w'. m w = (Inr a, w') \<and> f a w' = (Inr b, w''))"
  by (auto simp: bind_io_run split: prod.splits sum.splits)

lemma bind_io_InrE:
  assumes "bind_io m f w = (Inr b, w'')"
  obtains a w' where "m w = (Inr a, w')" and "f a w' = (Inr b, w'')"
  using assms by (auto simp: bind_io_Inr_iff)

section \<open>Lists the components share\<close>

text \<open>\<open>Vec::retain\<close> is \<open>filter\<close>; \<open>iter().position\<close> and \<open>iter().find\<close> are the following.\<close>

fun position :: "('a \<Rightarrow> bool) \<Rightarrow> 'a list \<Rightarrow> nat option" where
  "position P [] = None"
| "position P (x # xs) = (if P x then Some 0 else map_option Suc (position P xs))"

lemma position_SomeD:
  "position P xs = Some i \<Longrightarrow> i < length xs \<and> P (xs ! i) \<and> (\<forall>j < i. \<not> P (xs ! j))"
proof (induction xs arbitrary: i)
  case (Cons x xs)
  then show ?case
    by (auto split: if_splits simp: less_Suc_eq_0_disj)
qed simp

lemma position_None_iff: "position P xs = None \<longleftrightarrow> (\<forall>x \<in> set xs. \<not> P x)"
  by (induction xs) auto

lemma position_first:
  "\<forall>x \<in> set xs. \<not> P x \<Longrightarrow> P y \<Longrightarrow> position P (xs @ y # ys) = Some (length xs)"
  by (induction xs) auto

text \<open>\<open>Vec::insert(i, x)\<close> for \<open>i \<le> len\<close> and \<open>Vec::remove(i)\<close> for \<open>i < len\<close>.\<close>

definition insert_at :: "nat \<Rightarrow> 'a \<Rightarrow> 'a list \<Rightarrow> 'a list" where
  "insert_at i x xs = take i xs @ x # drop i xs"

definition remove_at :: "nat \<Rightarrow> 'a list \<Rightarrow> 'a list" where
  "remove_at i xs = take i xs @ drop (Suc i) xs"

lemma length_insert_at [simp]: "length (insert_at i x xs) = Suc (length xs)"
  by (simp add: insert_at_def)

lemma length_remove_at: "i < length xs \<Longrightarrow> length (remove_at i xs) = length xs - 1"
  by (simp add: remove_at_def)

lemma set_remove_at_subset: "set (remove_at i xs) \<subseteq> set xs"
  by (auto simp: remove_at_def dest: in_set_takeD in_set_dropD)

lemma map_remove_at: "map f (remove_at i xs) = remove_at i (map f xs)"
  by (simp add: remove_at_def take_map drop_map)

lemma map_insert_at: "map f (insert_at i x xs) = insert_at i (f x) (map f xs)"
  by (simp add: insert_at_def take_map drop_map)

lemma take_drop_split:
  "set xs = set (take i xs) \<union> set (drop i xs)"
  "distinct xs \<longleftrightarrow> distinct (take i xs) \<and> distinct (drop i xs) \<and>
     set (take i xs) \<inter> set (drop i xs) = {}"
  using set_append [of "take i xs" "drop i xs"] distinct_append [of "take i xs" "drop i xs"]
  unfolding append_take_drop_id by blast+

lemma set_insert_at [simp]: "set (insert_at i x xs) = insert x (set xs)"
  unfolding insert_at_def take_drop_split(1) [of xs i] by auto

lemma distinct_insert_at:
  "distinct (insert_at i x xs) \<longleftrightarrow> distinct xs \<and> x \<notin> set xs"
  unfolding insert_at_def take_drop_split [of xs i] by auto

lemma distinct_remove_at:
  assumes "distinct xs" "i < length xs"
  shows "distinct (remove_at i xs)" and "set (remove_at i xs) = set xs - {xs ! i}"
proof -
  have xs: "xs = take i xs @ xs ! i # drop (Suc i) xs"
    using assms(2) by (rule id_take_nth_drop)
  have d: "distinct (take i xs @ xs ! i # drop (Suc i) xs)"
    using assms(1) xs by simp
  show "distinct (remove_at i xs)"
    using d by (auto simp: remove_at_def)
  have "set xs = set (take i xs) \<union> {xs ! i} \<union> set (drop (Suc i) xs)"
    by (subst xs) auto
  then show "set (remove_at i xs) = set xs - {xs ! i}"
    using d by (auto simp: remove_at_def)
qed

section \<open>Keys in the opposite order\<close>

text \<open>\<open>std::cmp::Reverse\<close>, as an order of the library, so that \<open>sort_key\<close> takes it for a key.\<close>

datatype 'a reverse = Reverse 'a

instantiation reverse :: (linorder) linorder
begin

fun less_eq_reverse :: "'a reverse \<Rightarrow> 'a reverse \<Rightarrow> bool" where
  "less_eq_reverse (Reverse a) (Reverse b) \<longleftrightarrow> b \<le> a"

fun less_reverse :: "'a reverse \<Rightarrow> 'a reverse \<Rightarrow> bool" where
  "less_reverse (Reverse a) (Reverse b) \<longleftrightarrow> b < a"

instance
proof
  fix x y z :: "'a reverse"
  show "(x < y) = (x \<le> y \<and> \<not> y \<le> x)" by (cases x; cases y) auto
  show "x \<le> x" by (cases x) simp
  show "x \<le> y \<Longrightarrow> y \<le> z \<Longrightarrow> x \<le> z" by (cases x; cases y; cases z) simp
  show "x \<le> y \<Longrightarrow> y \<le> x \<Longrightarrow> x = y" by (cases x; cases y) simp
  show "x \<le> y \<or> y \<le> x" by (cases x; cases y) auto
qed

end

end
