(* ===== verification/Rust_Strings.thy ===== *)
theory Rust_Strings
  imports Prelude
begin

text \<open>
  The part of Rust's \<open>str\<close> the program uses.  A \<open>String\<close> is its UTF-8 byte sequence, a
  \<open>string\<close> (a \<open>char\<close> is a byte), so \<open>len\<close>, byte slices and ASCII case mapping are the code's.
  Functions that look at Unicode white space recognise the multi-byte encodings of
  \<open>char::is_whitespace\<close>.
\<close>

named_theorems str_defs \<open>definitions of the string functions\<close>

section \<open>Prefixes, suffixes and substrings\<close>

definition starts_with :: "string \<Rightarrow> string \<Rightarrow> bool" where
  "starts_with s p \<longleftrightarrow> take (length p) s = p"

definition ends_with :: "string \<Rightarrow> string \<Rightarrow> bool" where
  "ends_with s p \<longleftrightarrow> starts_with (rev s) (rev p)"

definition strip_prefix :: "string \<Rightarrow> string \<Rightarrow> string option" where
  "strip_prefix p s = (if starts_with s p then Some (drop (length p) s) else None)"

definition strip_suffix :: "string \<Rightarrow> string \<Rightarrow> string option" where
  "strip_suffix p s =
     (if ends_with s p then Some (take (length s - length p) s) else None)"

fun find_str :: "string \<Rightarrow> string \<Rightarrow> nat option" where
  "find_str p [] = (if p = [] then Some 0 else None)"
| "find_str p (c # s) =
     (if starts_with (c # s) p then Some 0 else map_option Suc (find_str p s))"

definition contains_str :: "string \<Rightarrow> string \<Rightarrow> bool" where
  "contains_str s p \<longleftrightarrow> find_str p s \<noteq> None"

definition split_once_str :: "string \<Rightarrow> string \<Rightarrow> (string \<times> string) option" where
  "split_once_str p s =
     map_option (\<lambda>i. (take i s, drop (i + length p) s)) (find_str p s)"

lemma starts_with_append: "starts_with (p @ s) p"
  by (simp add: starts_with_def)

lemma starts_withE:
  assumes "starts_with s p" obtains r where "s = p @ r"
  using assms unfolding starts_with_def by (metis append_take_drop_id)

lemma starts_with_iff: "starts_with s p \<longleftrightarrow> (\<exists>r. s = p @ r)"
  by (auto simp: starts_with_append elim: starts_withE)

lemma ends_with_iff: "ends_with s p \<longleftrightarrow> (\<exists>r. s = r @ p)"
  unfolding ends_with_def starts_with_iff by (metis rev_append rev_rev_ident)

lemma ends_with_append: "ends_with (s @ p) p"
  by (simp add: ends_with_iff)

section \<open>Splitting at a character\<close>

fun split_once :: "char \<Rightarrow> string \<Rightarrow> (string \<times> string) option" where
  "split_once c [] = None"
| "split_once c (x # xs) =
     (if x = c then Some ([], xs) else map_option (\<lambda>(a, b). (x # a, b)) (split_once c xs))"

definition rsplit_once :: "char \<Rightarrow> string \<Rightarrow> (string \<times> string) option" where
  "rsplit_once c s = map_option (\<lambda>(a, b). (rev b, rev a)) (split_once c (rev s))"

fun split_char :: "char \<Rightarrow> string \<Rightarrow> string list" where
  "split_char c [] = [[]]"
| "split_char c (x # xs) =
     (if x = c then [] # split_char c xs
      else (case split_char c xs of [] \<Rightarrow> [[x]] | y # ys \<Rightarrow> (x # y) # ys))"

fun join_with :: "string \<Rightarrow> string list \<Rightarrow> string" where
  "join_with sep [] = []"
| "join_with sep [x] = x"
| "join_with sep (x # y # ys) = x @ sep @ join_with sep (y # ys)"

definition find_char :: "char \<Rightarrow> string \<Rightarrow> nat option" where
  "find_char c s = position (\<lambda>x. x = c) s"

definition rfind_char :: "char \<Rightarrow> string \<Rightarrow> nat option" where
  "rfind_char c s = map_option (\<lambda>i. length s - 1 - i) (find_char c (rev s))"

definition trim_end_chars :: "char list \<Rightarrow> string \<Rightarrow> string" where
  "trim_end_chars cs s = rev (dropWhile (\<lambda>c. c \<in> set cs) (rev s))"

definition trim_start_chars :: "char list \<Rightarrow> string \<Rightarrow> string" where
  "trim_start_chars cs s = dropWhile (\<lambda>c. c \<in> set cs) s"

lemma trim_end_chars_none:
  assumes "\<forall>c \<in> set s. c \<notin> set cs" "list_all (\<lambda>c. c \<in> set cs) e"
  shows "trim_end_chars cs (s @ e) = s"
proof -
  have keep: "\<forall>x \<in> set xs. \<not> P x \<Longrightarrow> dropWhile P xs = xs" for P and xs :: string
    by (cases xs) auto
  have "dropWhile (\<lambda>c. c \<in> set cs) (rev e @ rev s) = dropWhile (\<lambda>c. c \<in> set cs) (rev s)"
    using assms(2) by (intro dropWhile_append2) (simp add: list_all_iff)
  also have "\<dots> = rev s" using assms(1) by (intro keep) simp
  finally show ?thesis by (simp add: trim_end_chars_def)
qed

lemma split_once_Some_iff:
  "split_once c s = Some (a, b) \<longleftrightarrow> s = a @ c # b \<and> c \<notin> set a"
proof (induction s arbitrary: a)
  case (Cons x s)
  show ?case by (cases a) (auto simp: Cons.IH)
qed simp

lemma split_once_None_iff: "split_once c s = None \<longleftrightarrow> c \<notin> set s"
  by (induction s) auto

lemma rsplit_once_Some_iff:
  "rsplit_once c s = Some (a, b) \<longleftrightarrow> s = a @ c # b \<and> c \<notin> set b"
proof -
  have "rsplit_once c s = Some (a, b) \<longleftrightarrow> split_once c (rev s) = Some (rev b, rev a)"
    by (auto simp: rsplit_once_def)
  also have "\<dots> \<longleftrightarrow> rev s = rev b @ c # rev a \<and> c \<notin> set (rev b)"
    by (simp add: split_once_Some_iff)
  also have "rev s = rev b @ c # rev a \<longleftrightarrow> s = a @ c # b"
    by (metis append.assoc append_Cons append_Nil rev.simps(2) rev_append rev_swap)
  finally show ?thesis by simp
qed

lemma split_char_nonempty [simp]: "split_char c s \<noteq> []"
  by (induction s) (auto split: list.splits)

lemma split_char_pieces: "p \<in> set (split_char c s) \<Longrightarrow> c \<notin> set p"
proof (induction s arbitrary: p)
  case (Cons x xs)
  show ?case
  proof (cases "split_char c xs")
    case (Cons y ys)
    with Cons.prems Cons.IH show ?thesis by (auto split: if_splits)
  qed simp
qed simp

lemma split_char_append:
  "c \<notin> set a \<Longrightarrow> split_char c (a @ c # b) = a # split_char c b"
  by (induction a) auto

lemma split_char_single: "c \<notin> set a \<Longrightarrow> split_char c a = [a]"
  by (induction a) auto

lemma split_char_join:
  assumes "xs \<noteq> []" "\<forall>x \<in> set xs. c \<notin> set x"
  shows "split_char c (join_with [c] xs) = xs"
  using assms by (induction "[c]" xs rule: join_with.induct)
    (auto simp: split_char_append split_char_single)

lemma join_split_char: "join_with [c] (split_char c s) = s"
proof (induction s)
  case (Cons x xs)
  show ?case
  proof (cases "split_char c xs")
    case (Cons y ys)
    with Cons.IH show ?thesis by (cases ys) auto
  qed simp
qed simp

section \<open>White space\<close>

definition ascii_ws :: "char \<Rightarrow> bool" where
  "ascii_ws c \<longleftrightarrow> c \<in> {CHR 0x09, CHR 0x0A, CHR 0x0B, CHR 0x0C, CHR 0x0D, CHR 0x20}"

definition ws2 :: "string list" where
  "ws2 = [[CHR 0xC2, CHR 0x85], [CHR 0xC2, CHR 0xA0]]"

definition ws3 :: "string list" where
  "ws3 = [[CHR 0xE1, CHR 0x9A, CHR 0x80],
     [CHR 0xE2, CHR 0x80, CHR 0x80], [CHR 0xE2, CHR 0x80, CHR 0x81], [CHR 0xE2, CHR 0x80, CHR 0x82],
     [CHR 0xE2, CHR 0x80, CHR 0x83], [CHR 0xE2, CHR 0x80, CHR 0x84], [CHR 0xE2, CHR 0x80, CHR 0x85],
     [CHR 0xE2, CHR 0x80, CHR 0x86], [CHR 0xE2, CHR 0x80, CHR 0x87], [CHR 0xE2, CHR 0x80, CHR 0x88],
     [CHR 0xE2, CHR 0x80, CHR 0x89], [CHR 0xE2, CHR 0x80, CHR 0x8A], [CHR 0xE2, CHR 0x80, CHR 0xA8],
     [CHR 0xE2, CHR 0x80, CHR 0xA9], [CHR 0xE2, CHR 0x80, CHR 0xAF], [CHR 0xE2, CHR 0x81, CHR 0x9F],
     [CHR 0xE3, CHR 0x80, CHR 0x80]]"

text \<open>The byte length of the white-space character a string starts (ends) with, or 0.\<close>

definition ws_len :: "string \<Rightarrow> nat" where
  "ws_len s = (case s of [] \<Rightarrow> 0 | c # _ \<Rightarrow>
     if ascii_ws c then 1
     else if take 2 s \<in> set ws2 then 2
     else if take 3 s \<in> set ws3 then 3
     else 0)"

definition ws_len_end :: "string \<Rightarrow> nat" where
  "ws_len_end s = (case rev s of [] \<Rightarrow> 0 | c # _ \<Rightarrow>
     if ascii_ws c then 1
     else if rev (take 2 (rev s)) \<in> set ws2 then 2
     else if rev (take 3 (rev s)) \<in> set ws3 then 3
     else 0)"

lemma ws_len_Nil [simp]: "ws_len [] = 0" "ws_len_end [] = 0"
  by (simp_all add: ws_len_def ws_len_end_def)

function trim_start :: "string \<Rightarrow> string" where
  "trim_start s = (if ws_len s = 0 then s else trim_start (drop (ws_len s) s))"
  by pat_completeness auto
termination
proof (relation "measure length")
  fix s :: string
  assume "ws_len s \<noteq> 0"
  moreover from this have "s \<noteq> []" by auto
  ultimately show "(drop (ws_len s) s, s) \<in> measure length" by simp
qed simp

function trim_end :: "string \<Rightarrow> string" where
  "trim_end s = (if ws_len_end s = 0 then s else trim_end (take (length s - ws_len_end s) s))"
  by pat_completeness auto
termination
proof (relation "measure length")
  fix s :: string
  assume "ws_len_end s \<noteq> 0"
  moreover from this have "s \<noteq> []" by auto
  ultimately show "(take (length s - ws_len_end s) s, s) \<in> measure length" by simp
qed simp

declare trim_start.simps [simp del] trim_end.simps [simp del]

definition trim :: "string \<Rightarrow> string" where
  "trim s = trim_end (trim_start s)"

text \<open>Characters that are neither white space nor part of an encoding of it.\<close>

definition plain_char :: "char \<Rightarrow> bool" where
  "plain_char c \<longleftrightarrow> \<not> ascii_ws c \<and> (of_char c :: nat) < 128"

lemma plain_not_ws:
  assumes "plain_char c"
  shows "ws_len (c # s) = 0" and "ws_len_end (s @ [c]) = 0"
proof -
  have c: "\<not> ascii_ws c" "c \<notin> {CHR 0xC2, CHR 0xE1, CHR 0xE2, CHR 0xE3}"
    "c \<notin> {CHR 0x80, CHR 0x81, CHR 0x82, CHR 0x83, CHR 0x84, CHR 0x85, CHR 0x86, CHR 0x87, CHR 0x88,
       CHR 0x89, CHR 0x8A, CHR 0x9F, CHR 0xA0, CHR 0xA8, CHR 0xA9, CHR 0xAF}"
    using assms by (auto simp: plain_char_def)
  have "take n (c # s) \<notin> set ws2" "take n (c # s) \<notin> set ws3" for n
    using c(2) by (cases n; auto simp: ws2_def ws3_def)+
  from this(1) [of 2] this(2) [of 3] c(1) show "ws_len (c # s) = 0" by (simp add: ws_len_def)
  have "rev (take n (rev (s @ [c]))) \<notin> set ws2" "rev (take n (rev (s @ [c]))) \<notin> set ws3" for n
    using c(3) by (cases n; auto simp: ws2_def ws3_def append_eq_Cons_conv)+
  from this(1) [of 2] this(2) [of 3] c(1) show "ws_len_end (s @ [c]) = 0" by (simp add: ws_len_end_def)
qed

lemma trim_plain:
  assumes "list_all plain_char s" shows "trim s = s"
proof (cases s)
  case (Cons c r)
  have "ws_len s = 0" using assms Cons by (simp add: plain_not_ws)
  then have "trim_start s = s" by (subst trim_start.simps) simp
  moreover obtain t d where td: "s = t @ [d]" using Cons by (metis list.distinct(1) rev_exhaust)
  have "ws_len_end s = 0" using assms by (simp add: plain_not_ws td)
  then have "trim_end s = s" by (subst trim_end.simps) simp
  ultimately show ?thesis by (simp add: trim_def)
qed (simp add: trim_def trim_start.simps [of "[]"] trim_end.simps [of "[]"])

lemma trim_plain_newline:
  assumes "list_all plain_char s" shows "trim (s @ [CHR 0x0A]) = s"
proof -
  have e: "ws_len_end (t @ [CHR 0x0A]) = 1" for t by (simp add: ws_len_end_def ascii_ws_def)
  have end_step: "trim_end (s @ [CHR 0x0A]) = trim_end s"
    by (subst trim_end.simps) (simp add: e)
  show ?thesis
  proof (cases s)
    case Nil
    then show ?thesis
      by (simp add: trim_def trim_start.simps [of "[CHR 0x0A]"] trim_start.simps [of "[]"]
          trim_end.simps [of "[]"] ws_len_def ascii_ws_def)
  next
    case (Cons c r)
    then have "ws_len (s @ [CHR 0x0A]) = 0" using assms by (simp add: plain_not_ws)
    then have "trim (s @ [CHR 0x0A]) = trim_end s"
      by (simp add: trim_def trim_start.simps [of "s @ [CHR 0x0A]"] end_step)
    moreover have "trim s = trim_end s"
      using assms Cons by (simp add: trim_def trim_start.simps [of "c # r"] plain_not_ws)
    ultimately show ?thesis using trim_plain [OF assms] by simp
  qed
qed

text \<open>
  \<open>split_whitespace\<close>: the maximal pieces without white space.  Stepping by bytes is stepping
  by characters here, because the encodings of \<open>ws_len\<close> start with a leading byte.
\<close>

function split_ws :: "string \<Rightarrow> string \<Rightarrow> string list" where
  "split_ws acc s = (case s of
      [] \<Rightarrow> (if acc = [] then [] else [rev acc])
    | c # r \<Rightarrow>
       (if ws_len s = 0 then split_ws (c # acc) r
        else (if acc = [] then [] else [rev acc]) @ split_ws [] (drop (ws_len s) s)))"
  by pat_completeness auto
termination
  by (relation "measure (\<lambda>(acc, s). length s)") auto

declare split_ws.simps [simp del]

definition split_whitespace :: "string \<Rightarrow> string list" where
  "split_whitespace s = split_ws [] s"

section \<open>Lines\<close>

text \<open>
  \<open>str::lines\<close>: pieces ended by a line feed lose it and one carriage return before it; a last
  piece without line feed is kept as it is unless it is empty.
\<close>

definition strip_cr :: "string \<Rightarrow> string" where
  "strip_cr s = (case rev s of c # r \<Rightarrow> if c = CHR 0x0D then rev r else s | [] \<Rightarrow> s)"

definition str_lines :: "string \<Rightarrow> string list" where
  "str_lines s =
     (let ps = split_char CHR 0x0A s
      in map strip_cr (butlast ps) @ (if last ps = [] then [] else [last ps]))"

section \<open>ASCII case\<close>

definition ascii_lower :: "char \<Rightarrow> char" where
  "ascii_lower c = (let n = of_char c :: nat
     in if 65 \<le> n \<and> n \<le> 90 then char_of (n + 32) else c)"

definition ascii_upper :: "char \<Rightarrow> char" where
  "ascii_upper c = (let n = of_char c :: nat
     in if 97 \<le> n \<and> n \<le> 122 then char_of (n - 32) else c)"

definition to_ascii_lowercase :: "string \<Rightarrow> string" where
  "to_ascii_lowercase s = map ascii_lower s"

definition to_ascii_uppercase :: "string \<Rightarrow> string" where
  "to_ascii_uppercase s = map ascii_upper s"

definition eq_ignore_ascii_case :: "string \<Rightarrow> string \<Rightarrow> bool" where
  "eq_ignore_ascii_case a b \<longleftrightarrow> to_ascii_lowercase a = to_ascii_lowercase b"

section \<open>Numbers\<close>

text \<open>\<open>from_str_radix\<close> and \<open>parse\<close>: an optional sign, at least one digit, no overflow.\<close>

definition digit_val :: "char \<Rightarrow> nat option" where
  "digit_val c = (let n = of_char c :: nat
     in if 48 \<le> n \<and> n \<le> 57 then Some (n - 48)
        else if 97 \<le> n \<and> n \<le> 122 then Some (n - 87)
        else if 65 \<le> n \<and> n \<le> 90 then Some (n - 55)
        else None)"

fun parse_digits :: "nat \<Rightarrow> nat \<Rightarrow> string \<Rightarrow> nat option" where
  "parse_digits radix acc [] = Some acc"
| "parse_digits radix acc (c # s) = (case digit_val c of
      None \<Rightarrow> None
    | Some d \<Rightarrow> if d < radix then parse_digits radix (acc * radix + d) s else None)"

definition parse_radix :: "nat \<Rightarrow> nat \<Rightarrow> string \<Rightarrow> nat option" where
  "parse_radix radix bound s =
     (let t = (case s of [] \<Rightarrow> [] | c # r \<Rightarrow> if c = CHR ''+'' then r else s)
      in if t = [] then None
         else case parse_digits radix 0 t of
             None \<Rightarrow> None
           | Some n \<Rightarrow> if n < bound then Some n else None)"

definition parse_u16 :: "string \<Rightarrow> nat option" where
  "parse_u16 = parse_radix 10 (2 ^ 16)"

definition parse_u32 :: "string \<Rightarrow> nat option" where
  "parse_u32 = parse_radix 10 (2 ^ 32)"

definition parse_u64 :: "string \<Rightarrow> nat option" where
  "parse_u64 = parse_radix 10 (2 ^ 64)"

definition parse_i32 :: "string \<Rightarrow> int option" where
  "parse_i32 s = (case s of
      c # r \<Rightarrow>
        if c = CHR ''-'' then
          (if r = [] then None
           else case parse_digits 10 0 r of
               None \<Rightarrow> None
             | Some n \<Rightarrow> if n \<le> 2 ^ 31 then Some (- int n) else None)
        else map_option int (parse_radix 10 (2 ^ 31) s)
    | [] \<Rightarrow> None)"

definition digit_char :: "nat \<Rightarrow> char" where
  "digit_char d = char_of (48 + d)"

function show_radix :: "nat \<Rightarrow> nat \<Rightarrow> string" where
  "show_radix radix n =
     (if radix < 2 then [] else if n < radix then [digit_char n]
      else show_radix radix (n div radix) @ [digit_char (n mod radix)])"
  by pat_completeness auto
termination
  by (relation "measure (\<lambda>(r, n). n)") auto

declare show_radix.simps [simp del]

definition show_nat :: "nat \<Rightarrow> string" where
  "show_nat n = show_radix 10 n"

lemma digit_val_char: "d < 10 \<Longrightarrow> digit_val (digit_char d) = Some d"
  by (simp add: digit_val_def digit_char_def Let_def)

lemma parse_digits_append:
  "parse_digits r a (s @ t) =
     (case parse_digits r a s of None \<Rightarrow> None | Some b \<Rightarrow> parse_digits r b t)"
  by (induction s arbitrary: a) (auto split: option.splits)

lemma show_radix_nonempty: "2 \<le> r \<Longrightarrow> show_radix r n \<noteq> []"
  by (subst show_radix.simps) auto

lemma parse_show_radix:
  assumes "2 \<le> r" "r \<le> 10"
  shows "parse_digits r 0 (show_radix r n) = Some n"
  using assms
proof (induction r n rule: show_radix.induct)
  case (1 r n)
  show ?case
  proof (cases "n < r")
    case True
    with "1.prems" show ?thesis
      by (subst show_radix.simps) (auto simp: digit_val_char)
  next
    case False
    with "1" have IH: "parse_digits r 0 (show_radix r (n div r)) = Some (n div r)" by simp
    have m: "n mod r < r" using "1.prems" by simp
    then have "digit_val (digit_char (n mod r)) = Some (n mod r)"
      using "1.prems" by (intro digit_val_char) linarith
    with False "1.prems" IH m show ?thesis
      by (subst show_radix.simps) (auto simp: parse_digits_append)
  qed
qed

lemma show_radix_head:
  assumes "2 \<le> r" "r \<le> 10"
  shows "\<exists>d s. show_radix r n = digit_char d # s \<and> d < 10"
  using assms
proof (induction r n rule: show_radix.induct)
  case (1 r n)
  show ?case
  proof (cases "n < r")
    case True
    with "1.prems" show ?thesis by (subst show_radix.simps) auto
  next
    case False
    with "1" obtain d s where "show_radix r (n div r) = digit_char d # s" "d < 10" by auto
    with False "1.prems" show ?thesis by (subst show_radix.simps) auto
  qed
qed

lemma digit_char_sign: "d < 10 \<Longrightarrow> digit_char d \<noteq> CHR ''+'' \<and> digit_char d \<noteq> CHR ''-''"
proof -
  assume d: "d < 10"
  have "of_char (digit_char d) = (48 + d :: nat)"
    using d by (simp add: digit_char_def)
  then show ?thesis using d by auto
qed

lemma parse_show_nat:
  assumes "n < b" shows "parse_radix 10 b (show_nat n) = Some n"
proof -
  obtain d s where s: "show_radix 10 n = digit_char d # s" and d: "d < 10"
    using show_radix_head [of 10 n] by auto
  have "parse_digits 10 0 (digit_char d # s) = Some n"
    using parse_show_radix [of 10 n] s by simp
  with digit_char_sign [OF d] assms show ?thesis
    by (simp add: parse_radix_def show_nat_def s Let_def)
qed

end
