(* ===== verification/Errors.thy ===== *)
theory Errors
  imports Rust_Strings
begin

text \<open>
  \<open>src-tauri/src/error.rs\<close>: the error type every component returns, the texts users see, and the
  conversion of operating-system errors.  \<open>'a vresult\<close> is \<open>VResult<A>\<close>.
\<close>

datatype verror =
    Io string
  | Protocol string
  | ConnectionLost string
  | AuthFailed string
  | NotFound string
  | PermissionDenied string
  | Unsupported string
  | Cancelled
  | Timeout string
  | HostKeyChanged (hk_host: string) (hk_fingerprint: string) (hk_key_type: string)
      (hk_known_hosts_line: string)
  | UntrustedCertificate (uc_host: string) (uc_fingerprint: string) (uc_subject: string)
      (uc_issuer: string) (uc_not_before: string) (uc_not_after: string) (uc_reason: string)
  | OpenSshMissing
  | InvalidSession
  | Other string

type_synonym 'a vresult = "verror + 'a"
type_synonym ('w, 'a) vio = "('w, verror, 'a) io"

fun verror_display :: "verror \<Rightarrow> string" where
  "verror_display (Io t) = t"
| "verror_display (Protocol t) = t"
| "verror_display (ConnectionLost t) = ''Connection lost: '' @ t"
| "verror_display (AuthFailed t) = ''Authentication failed: '' @ t"
| "verror_display (NotFound t) = ''Not found: '' @ t"
| "verror_display (PermissionDenied t) = ''Permission denied: '' @ t"
| "verror_display (Unsupported t) = ''Unsupported operation: '' @ t"
| "verror_display Cancelled = ''Cancelled''"
| "verror_display (Timeout t) = ''Timed out: '' @ t"
| "verror_display (HostKeyChanged _ _ _ _) = ''Host key changed''"
| "verror_display (UntrustedCertificate _ _ _ _ _ _ _) = ''Untrusted TLS certificate''"
| "verror_display OpenSshMissing = ''OpenSSH client not found''"
| "verror_display InvalidSession = ''Invalid session''"
| "verror_display (Other t) = t"

text \<open>The \<open>std::io::ErrorKind\<close>s the conversion tells apart; every other kind is \<open>KindOther\<close>.\<close>

datatype io_kind =
    KindNotFound
  | KindPermissionDenied
  | KindTimedOut
  | KindConnectionReset
  | KindConnectionAborted
  | KindBrokenPipe
  | KindUnexpectedEof
  | KindOther

record io_error =
  ioe_kind :: io_kind
  ioe_text :: string

definition from_io_error :: "io_error \<Rightarrow> verror" where
  "from_io_error e = (case ioe_kind e of
      KindNotFound \<Rightarrow> NotFound (ioe_text e)
    | KindPermissionDenied \<Rightarrow> PermissionDenied (ioe_text e)
    | KindTimedOut \<Rightarrow> Timeout (ioe_text e)
    | KindConnectionReset \<Rightarrow> ConnectionLost (ioe_text e)
    | KindConnectionAborted \<Rightarrow> ConnectionLost (ioe_text e)
    | KindBrokenPipe \<Rightarrow> ConnectionLost (ioe_text e)
    | KindUnexpectedEof \<Rightarrow> ConnectionLost (ioe_text e)
    | KindOther \<Rightarrow> Io (ioe_text e))"

definition from_elapsed :: "string \<Rightarrow> verror" where
  "from_elapsed t = Timeout t"

definition from_serde_error :: "string \<Rightarrow> verror" where
  "from_serde_error t = Other t"

end
