(* ===== verification/Remote_Paths.thy ===== *)
theory Remote_Paths
  imports Rust_Strings
begin

text \<open>
  \<open>src-tauri/src/protocol/path.rs\<close>: the slash-separated paths of the servers.  The lemmas give
  the algebra the transfers and listings rest on: \<open>parent\<close> and \<open>basename\<close> undo \<open>join\<close>, and
  \<open>normalize_path\<close> yields an absolute path without empty, \<open>.\<close> or \<open>..\<close> segments and is idempotent.
\<close>

definition join :: "string \<Rightarrow> string \<Rightarrow> string" where
  "join base name =
     (if starts_with name ''/'' then name
      else if base = [] \<or> base = ''/'' then ''/'' @ name
      else if ends_with base ''/'' then base @ name
      else base @ ''/'' @ name)"

definition parent :: "string \<Rightarrow> string" where
  "parent path =
     (let trimmed = trim_end_chars [CHR ''/''] path
      in case rfind_char CHR ''/'' trimmed of
          None \<Rightarrow> ''/''
        | Some i \<Rightarrow> if i = 0 then ''/'' else take i trimmed)"

definition basename :: "string \<Rightarrow> string" where
  "basename path =
     (let trimmed = trim_end_chars [CHR ''/''] path
      in case rfind_char CHR ''/'' trimmed of
          Some i \<Rightarrow> drop (i + 1) trimmed
        | None \<Rightarrow> trimmed)"

fun normalize_segments :: "string list \<Rightarrow> string list \<Rightarrow> string list" where
  "normalize_segments parts [] = parts"
| "normalize_segments parts (segment # rest) =
     (if segment = [] \<or> segment = ''.'' then normalize_segments parts rest
      else if segment = ''..'' then normalize_segments (butlast parts) rest
      else normalize_segments (parts @ [segment]) rest)"

definition normalize_path :: "string \<Rightarrow> string" where
  "normalize_path path =
     (let parts = normalize_segments [] (split_char CHR ''/'' path)
      in if parts = [] then ''/'' else ''/'' @ join_with ''/'' parts)"

definition resolve_link_target :: "string \<Rightarrow> string \<Rightarrow> string" where
  "resolve_link_target link_path target =
     (if starts_with target ''/'' then normalize_path target
      else normalize_path (join (parent link_path) target))"

section \<open>Joining and splitting\<close>

lemma rfind_char_Some:
  "c \<notin> set b \<Longrightarrow> rfind_char c (a @ c # b) = Some (length a)"
  using position_first [of "rev b" "\<lambda>x. x = c" c "rev a"]
  by (force simp: rfind_char_def find_char_def)

lemma rfind_char_None: "c \<notin> set s \<Longrightarrow> rfind_char c s = None"
  by (auto simp: rfind_char_def find_char_def position_None_iff)

lemma trim_end_chars_keep:
  "s \<noteq> [] \<Longrightarrow> last s \<notin> set cs \<Longrightarrow> trim_end_chars cs (a @ s) = a @ s"
  by (cases s rule: rev_cases) (auto simp: trim_end_chars_def)

text \<open>A name a directory entry can have: not empty and without a slash.\<close>

definition entry_name :: "string \<Rightarrow> bool" where
  "entry_name n \<longleftrightarrow> n \<noteq> [] \<and> CHR ''/'' \<notin> set n"

lemma entry_name_last: "entry_name n \<Longrightarrow> last n \<noteq> CHR ''/''"
  unfolding entry_name_def by (metis last_in_set)

lemma split_at_name:
  assumes "entry_name n"
  shows "basename (a @ ''/'' @ n) = n"
    and "parent (a @ ''/'' @ n) = (if a = [] then ''/'' else a)"
proof -
  have t: "trim_end_chars [CHR ''/''] (a @ ''/'' @ n) = a @ ''/'' @ n"
    using trim_end_chars_keep [of n "[CHR ''/'']" "a @ ''/''"] assms entry_name_last
    by (simp add: entry_name_def)
  have r: "rfind_char CHR ''/'' (a @ ''/'' @ n) = Some (length a)"
    using rfind_char_Some [of "CHR ''/''" n a] assms by (simp add: entry_name_def)
  show "basename (a @ ''/'' @ n) = n"
    unfolding basename_def Let_def t r by simp
  show "parent (a @ ''/'' @ n) = (if a = [] then ''/'' else a)"
    unfolding parent_def Let_def t r by simp
qed

lemma basename_plain: "entry_name n \<Longrightarrow> basename n = n"
  using trim_end_chars_keep [of n "[CHR ''/'']" "[]"] entry_name_last
  by (simp add: basename_def entry_name_def rfind_char_None Let_def)

text \<open>What \<open>join\<close> leaves of the directory: one trailing slash is absorbed.\<close>

definition dir_stem :: "string \<Rightarrow> string" where
  "dir_stem d = (if ends_with d ''/'' then butlast d else d)"

lemma join_entry:
  assumes "entry_name n"
  shows "join d n = dir_stem d @ ''/'' @ n"
proof -
  have n: "\<not> starts_with n ''/''"
    using assms by (cases n) (auto simp: entry_name_def starts_with_def)
  show ?thesis
  proof (cases "ends_with d ''/''")
    case True
    then obtain r where "d = r @ ''/''" by (auto simp: ends_with_iff)
    with True n show ?thesis by (cases "r = []") (auto simp: join_def dir_stem_def)
  next
    case False
    moreover have "ends_with ''/'' ''/''" by (simp add: ends_with_iff)
    ultimately show ?thesis using n by (auto simp: join_def dir_stem_def)
  qed
qed

lemma basename_join: "entry_name n \<Longrightarrow> basename (join d n) = n"
  by (simp only: join_entry split_at_name)

lemma parent_join:
  "entry_name n \<Longrightarrow> parent (join d n) = (if dir_stem d = [] then ''/'' else dir_stem d)"
  by (simp only: join_entry split_at_name)

lemma join_absolute: "starts_with n ''/'' \<Longrightarrow> join d n = n"
  by (simp add: join_def)

section \<open>Normalisation\<close>

definition clean_segment :: "string \<Rightarrow> bool" where
  "clean_segment s \<longleftrightarrow> entry_name s \<and> s \<noteq> ''.'' \<and> s \<noteq> ''..''"

lemma normalize_segments_clean:
  assumes "\<forall>s \<in> set parts. clean_segment s" "\<forall>s \<in> set segs. CHR ''/'' \<notin> set s"
  shows "\<forall>s \<in> set (normalize_segments parts segs). clean_segment s"
  using assms
proof (induction parts segs rule: normalize_segments.induct)
  case (2 parts seg rest)
  have rest: "\<forall>s \<in> set rest. CHR ''/'' \<notin> set s" and seg: "CHR ''/'' \<notin> set seg"
    using "2.prems"(2) by simp_all
  consider "seg = [] \<or> seg = ''.''" | "seg \<noteq> []" "seg \<noteq> ''.''" "seg = ''..''"
    | "seg \<noteq> []" "seg \<noteq> ''.''" "seg \<noteq> ''..''" by blast
  then show ?case
  proof cases
    case 1
    then show ?thesis using "2.IH"(1) [OF 1 "2.prems"(1) rest] by simp
  next
    case 2
    have "\<forall>s \<in> set (butlast parts). clean_segment s"
      using "2.prems"(1) by (meson in_set_butlastD)
    from "2.IH"(2) [OF _ 2(3) this rest] 2(1,2)
    have "\<forall>s \<in> set (normalize_segments (butlast parts) rest). clean_segment s" by blast
    with 2 show ?thesis by auto
  next
    case 3
    have "\<forall>s \<in> set (parts @ [seg]). clean_segment s"
      using "2.prems"(1) 3 seg by (simp add: clean_segment_def entry_name_def)
    from "2.IH"(3) [OF _ 3(3) this rest] 3(1,2)
    have "\<forall>s \<in> set (normalize_segments (parts @ [seg]) rest). clean_segment s" by blast
    with 3 show ?thesis by auto
  qed
qed simp

lemma normalize_segments_id:
  "\<forall>s \<in> set segs. clean_segment s \<Longrightarrow> normalize_segments parts segs = parts @ segs"
  by (induction parts segs rule: normalize_segments.induct)
    (auto simp: clean_segment_def entry_name_def)

lemma normalize_shape:
  obtains parts where "\<forall>s \<in> set parts. clean_segment s"
    and "normalize_path path = ''/'' @ join_with ''/'' parts"
proof
  let ?parts = "normalize_segments [] (split_char CHR ''/'' path)"
  show "\<forall>s \<in> set ?parts. clean_segment s"
    by (rule normalize_segments_clean) (auto dest: split_char_pieces)
  show "normalize_path path = ''/'' @ join_with ''/'' ?parts"
    by (simp add: normalize_path_def Let_def)
qed

lemma normalize_clean:
  assumes "\<forall>s \<in> set parts. clean_segment s"
  shows "normalize_path (''/'' @ join_with ''/'' parts) = ''/'' @ join_with ''/'' parts"
proof (cases "parts = []")
  case True
  then show ?thesis by (simp add: normalize_path_def)
next
  case False
  have "split_char CHR ''/'' (join_with ''/'' parts) = parts"
    using False assms by (intro split_char_join) (auto simp: clean_segment_def entry_name_def)
  then show ?thesis
    using False assms normalize_segments_id [of parts "[]"] by (simp add: normalize_path_def Let_def)
qed

lemma normalize_idem: "normalize_path (normalize_path path) = normalize_path path"
  using normalize_shape [of path] normalize_clean by metis

lemma split_normalize:
  assumes "\<forall>s \<in> set parts. clean_segment s" "parts \<noteq> []"
  shows "split_char CHR ''/'' (''/'' @ join_with ''/'' parts) = [] # parts"
  using assms by (simp add: split_char_join clean_segment_def entry_name_def)

text \<open>
  Every segment of a normalised path is an ordinary name, so a link target never climbs: this
  is what \<open>resolve_link_target\<close> promises for links of a server's listing.
\<close>

lemma normalize_segments_of_result:
  assumes "s \<in> set (split_char CHR ''/'' (normalize_path path))" "s \<noteq> []"
  shows "clean_segment s"
proof -
  obtain parts where p: "\<forall>s \<in> set parts. clean_segment s"
    and n: "normalize_path path = ''/'' @ join_with ''/'' parts"
    by (rule normalize_shape)
  show ?thesis
  proof (cases "parts = []")
    case True
    with assms n show ?thesis by simp
  next
    case False
    with assms p n split_normalize [OF p False] show ?thesis by auto
  qed
qed

lemma resolve_link_target_normal:
  "normalize_path (resolve_link_target l t) = resolve_link_target l t"
  by (simp add: resolve_link_target_def normalize_idem)

text \<open>The resolved target of a symbolic link is an absolute normalised path: it starts with a
  slash, none of its non-empty segments is \<open>.\<close> or \<open>..\<close>, and normalising it again changes
  nothing, whatever link path and target text the server sends.\<close>

theorem resolve_link_target_safe:
  "starts_with (resolve_link_target l t) ''/'' \<and>
   list_all (\<lambda>s. s = [] \<or> clean_segment s)
     (split_char CHR ''/'' (resolve_link_target l t)) \<and>
   normalize_path (resolve_link_target l t) = resolve_link_target l t"
proof -
  obtain p where p: "resolve_link_target l t = normalize_path p"
    unfolding resolve_link_target_def by (cases "starts_with t ''/''") auto
  obtain parts where "normalize_path p = ''/'' @ join_with ''/'' parts"
    by (rule normalize_shape)
  then have "starts_with (normalize_path p) ''/''" by (simp add: starts_with_def)
  with p normalize_segments_of_result [of _ p] normalize_idem [of p] show ?thesis
    by (auto simp: list_all_iff)
qed

text \<open>A listed name joined to its directory is taken apart again: the base name is the entry's
  name and the parent is the directory without the one slash \<open>join\<close> absorbed.\<close>

theorem join_roundtrip:
  assumes "entry_name n"
  shows "basename (join d n) = n \<and>
    parent (join d n) = (if dir_stem d = [] then ''/'' else dir_stem d)"
  using assms by (simp only: basename_join parent_join simp_thms)

theorem join_roundtrip_witness:
  "entry_name ''b.txt'' \<and> basename (join ''/a/'' ''b.txt'') = ''b.txt'' \<and>
   parent (join ''/a/'' ''b.txt'') = ''/a''"
proof -
  have n: "entry_name ''b.txt''" by (simp add: entry_name_def)
  show ?thesis
    using n join_roundtrip [OF n, of "''/a/''"] by (simp add: dir_stem_def ends_with_def starts_with_def)
qed

end
