(* ===== verification/Protocol_Types.thy ===== *)
theory Protocol_Types
  imports Errors Remote_Paths
begin

text \<open>
  \<open>src-tauri/src/protocol/mod.rs\<close>: protocols, directory entries and the interface
  (\<open>RemoteClient\<close>, \<open>RemoteReader\<close>, \<open>RemoteWriter\<close>) the transfers use, as records of effectful
  operations over the world \<open>'w\<close>; and the two enumerations of \<open>protocol/ftp/client.rs\<close> that the
  site model stores.
\<close>

datatype protocol = Ftp | FtpsExplicit | FtpsImplicit | Sftp

definition default_port :: "protocol \<Rightarrow> u16" where
  "default_port p = (case p of Ftp \<Rightarrow> 21 | FtpsExplicit \<Rightarrow> 21 | FtpsImplicit \<Rightarrow> 990 | Sftp \<Rightarrow> 22)"

definition is_ftp_family :: "protocol \<Rightarrow> bool" where
  "is_ftp_family p \<longleftrightarrow> \<not> (case p of Sftp \<Rightarrow> True | _ \<Rightarrow> False)"

datatype transfer_mode = TmDefault | TmPassive | TmActive

datatype encoding_mode = EncAuto | EncUtf8 | EncCustom string

datatype entry_kind = KFile | KDir | KSymlink | KOther

record remote_entry =
  re_name :: string
  re_path :: string
  re_kind :: entry_kind
  re_size :: u64
  re_mtime :: "int option"
  re_permissions :: "u32 option"
  re_owner :: "string option"
  re_group :: "string option"
  re_link_target :: "string option"
  re_link_broken :: bool
  re_target_is_dir :: "bool option"

definition plain_entry :: "string \<Rightarrow> entry_kind \<Rightarrow> u64 \<Rightarrow> int option \<Rightarrow> remote_entry" where
  "plain_entry path kind sz mtime =
     \<lparr>re_name = basename path, re_path = path, re_kind = kind, re_size = sz, re_mtime = mtime,
      re_permissions = None, re_owner = None, re_group = None, re_link_target = None,
      re_link_broken = False, re_target_is_dir = None\<rparr>"

definition is_dir_like :: "remote_entry \<Rightarrow> bool" where
  "is_dir_like e \<longleftrightarrow>
     re_kind e = KDir \<or> (re_kind e = KSymlink \<and> re_target_is_dir e = Some True)"

type_synonym bytes = "u8 list"

text \<open>\<open>as_bytes\<close> and the reading of a byte slice as text.\<close>

definition as_bytes :: "string \<Rightarrow> bytes" where
  "as_bytes s = map (\<lambda>c. of_nat (of_char c)) s"

definition bytes_text :: "bytes \<Rightarrow> string" where
  "bytes_text bs = map (\<lambda>b. char_of (unat b)) bs"

lemma char_of_byte_of_char: "char_of (unat (of_nat (of_char c) :: u8)) = c"
proof -
  have "(of_char c :: nat) < 2 ^ 8" by (simp add: of_char_of [symmetric] del: of_char_of)
  then show ?thesis by (simp add: unat_of_nat)
qed

lemma bytes_text_as_bytes [simp]: "bytes_text (as_bytes s) = s"
  by (simp add: bytes_text_def as_bytes_def char_of_byte_of_char comp_def)

lemma length_as_bytes [simp]: "length (as_bytes s) = length s"
  by (simp add: as_bytes_def)

text \<open>
  The traits.  \<open>rr_read n\<close> fills a buffer of \<open>n\<close> bytes and returns what was read, the empty list
  at the end of the file.
\<close>

record 'w remote_reader =
  rr_read :: "nat \<Rightarrow> ('w, bytes) vio"
  rr_finish :: "('w, unit) vio"

record 'w remote_writer =
  rw_write :: "bytes \<Rightarrow> ('w, unit) vio"
  rw_finish :: "('w, unit) vio"

record 'w remote_client =
  rc_supports_multiplexing :: bool
  rc_initial_dir :: "('w, string) vio"
  rc_realpath :: "string \<Rightarrow> ('w, string) vio"
  rc_list :: "string \<Rightarrow> ('w, remote_entry list) vio"
  rc_stat :: "string \<Rightarrow> ('w, remote_entry) vio"
  rc_readlink :: "string \<Rightarrow> ('w, string) vio"
  rc_mkdir :: "string \<Rightarrow> ('w, unit) vio"
  rc_rmdir :: "string \<Rightarrow> ('w, unit) vio"
  rc_remove :: "string \<Rightarrow> ('w, unit) vio"
  rc_rename :: "string \<Rightarrow> string \<Rightarrow> ('w, unit) vio"
  rc_chmod :: "string \<Rightarrow> u32 \<Rightarrow> ('w, unit) vio"
  rc_touch :: "string \<Rightarrow> ('w, unit) vio"
  rc_open_read :: "string \<Rightarrow> u64 \<Rightarrow> ('w, 'w remote_reader) vio"
  rc_open_write :: "string \<Rightarrow> u64 \<Rightarrow> ('w, 'w remote_writer) vio"
  rc_keepalive :: "('w, unit) vio"
  rc_disconnect :: "('w, unit) vio"
  rc_supported_hashes :: "string list"
  rc_hash :: "string \<Rightarrow> string \<Rightarrow> ('w, string option) vio"

text \<open>The trait's default methods: no server-side hashes.\<close>

definition default_supported_hashes :: "string list" where
  "default_supported_hashes = []"

definition default_hash :: "string \<Rightarrow> string \<Rightarrow> ('w, string option) vio" where
  "default_hash path algo = ok_io None"

end
