(* ===== verification/Conflict.thy ===== *)
theory Conflict
  imports Protocol_Types
begin

text \<open>
  \<open>src-tauri/src/transfer/conflict.rs\<close> and the enumerations of \<open>transfer/mod.rs\<close>: what a transfer
  does when its target exists.  The lemmas bound the offset a resumed transfer writes at and
  show that a renamed target is new.
\<close>

datatype direction = Download | Upload | Copy

datatype conflict_policy = Ask | Overwrite | Skip | Rename | Resume | OverwriteIfNewer

datatype conflict_action =
    ActOverwrite | ActSkip | ActRename | ActResume | ActOverwriteIfNewer

definition as_policy :: "conflict_action \<Rightarrow> conflict_policy" where
  "as_policy a = (case a of
      ActOverwrite \<Rightarrow> Overwrite
    | ActSkip \<Rightarrow> Skip
    | ActRename \<Rightarrow> Rename
    | ActResume \<Rightarrow> Resume
    | ActOverwriteIfNewer \<Rightarrow> OverwriteIfNewer)"

record conflict_answer =
  ca_action :: conflict_action
  ca_apply_to_all :: bool

record conflict_prompt =
  cp_item_id :: string
  cp_session_id :: string
  cp_direction :: direction
  cp_source_path :: string
  cp_source_size :: u64
  cp_source_mtime :: "int option"
  cp_target_path :: string
  cp_target_size :: u64
  cp_target_mtime :: "int option"

record file_facts =
  ff_size :: u64
  ff_mtime :: "int option"

datatype resolution = RWrite (rs_offset: u64) (rs_rename: bool) | RSkip

definition resolve :: "conflict_policy \<Rightarrow> file_facts \<Rightarrow> file_facts \<Rightarrow> resolution" where
  "resolve policy source existing = (case policy of
      Ask \<Rightarrow> RWrite 0 False
    | Overwrite \<Rightarrow> RWrite 0 False
    | Skip \<Rightarrow> RSkip
    | Rename \<Rightarrow> RWrite 0 True
    | Resume \<Rightarrow>
        if ff_size existing < ff_size source then RWrite (ff_size existing) False
        else if ff_size existing = ff_size source then RSkip
        else RWrite 0 False
    | OverwriteIfNewer \<Rightarrow> (case (ff_mtime source, ff_mtime existing) of
          (Some s, Some e) \<Rightarrow> if s > e then RWrite 0 False else RSkip
        | (Some _, None) \<Rightarrow> RWrite 0 False
        | _ \<Rightarrow> RSkip))"

section \<open>Fresh names\<close>

definition name_parts :: "string \<Rightarrow> string \<times> string" where
  "name_parts name = (case rsplit_once CHR ''.'' name of
      Some (s, e) \<Rightarrow> if s \<noteq> [] then (s, ''.'' @ e) else (name, [])
    | None \<Rightarrow> (name, []))"

definition numbered_name :: "string \<Rightarrow> nat \<Rightarrow> string" where
  "numbered_name name n =
     (case name_parts name of (stem, ext) \<Rightarrow> stem @ '' ('' @ show_nat n @ '')'' @ ext)"

text \<open>\<open>(1..10_000).map(..).find(..)\<close>, from \<open>n\<close> on.\<close>

function find_fresh :: "(nat \<Rightarrow> string) \<Rightarrow> (string \<Rightarrow> bool) \<Rightarrow> nat \<Rightarrow> string option" where
  "find_fresh mk ex n =
     (if n < 10000 then if \<not> ex (mk n) then Some (mk n) else find_fresh mk ex (Suc n) else None)"
  by pat_completeness auto
termination
  by (relation "measure (\<lambda>(mk, ex, n). 10000 - n)") auto

declare find_fresh.simps [simp del]

definition unique_name :: "string \<Rightarrow> string \<Rightarrow> (string \<Rightarrow> bool) \<Rightarrow> string" where
  "unique_name uuid name ex = (case find_fresh (numbered_name name) ex 1 of
      Some c \<Rightarrow> c
    | None \<Rightarrow> (case name_parts name of (stem, ext) \<Rightarrow> stem @ '' ('' @ uuid @ '')'' @ ext))"

lemma find_fresh_Some:
  "find_fresh mk ex n = Some c \<Longrightarrow> \<exists>k. n \<le> k \<and> k < 10000 \<and> c = mk k \<and> \<not> ex c"
proof (induction mk ex n rule: find_fresh.induct)
  case (1 mk ex n)
  then show ?case
    by (subst (asm) (2) find_fresh.simps) (fastforce split: if_splits dest: Suc_leD)
qed

lemma find_fresh_None:
  "find_fresh mk ex n = None \<Longrightarrow> n \<le> k \<Longrightarrow> k < 10000 \<Longrightarrow> ex (mk k)"
proof (induction mk ex n rule: find_fresh.induct)
  case (1 mk ex n)
  from "1.prems" have n: "n < 10000" by simp
  with "1.prems"(1) have e: "ex (mk n)" and r: "find_fresh mk ex (Suc n) = None"
    by (simp_all add: find_fresh.simps [of mk ex n] split: if_splits)
  show ?case
    using "1.IH" [OF n _ r] "1.prems" e by (cases "k = n") auto
qed

lemma show_nat_inj: "show_nat m = show_nat n \<Longrightarrow> m = n"
proof -
  assume e: "show_nat m = show_nat n"
  have "m < m + n + 1" and "n < m + n + 1" by auto
  then have "Some m = Some n"
    using parse_show_nat [of m "m + n + 1"] parse_show_nat [of n "m + n + 1"] e by metis
  then show "m = n" by blast
qed

lemma numbered_name_inj: "inj (numbered_name name)"
  by (rule injI) (auto simp: numbered_name_def split: prod.splits dest: show_nat_inj)

lemma numbered_name_ne: "numbered_name name n \<noteq> name"
proof -
  obtain s e where p: "name_parts name = (s, e)" by force
  then have "name = s @ e"
    by (auto simp: name_parts_def rsplit_once_Some_iff split: option.splits if_splits)
  with p show ?thesis by (simp add: numbered_name_def)
qed

text \<open>The name \<open>unique_name\<close> proposes for a renamed target is in use by no sibling, whenever the
  directory has fewer than 9999 entries: one of the numbers 1 to 9999 is always free.\<close>

theorem unique_name_fresh:
  assumes "length siblings < 9999"
  shows "unique_name uuid name (\<lambda>c. c \<in> set siblings) \<notin> set siblings"
proof (cases "find_fresh (numbered_name name) (\<lambda>c. c \<in> set siblings) 1")
  case None
  then have "numbered_name name ` {1..<10000} \<subseteq> set siblings"
    by (auto dest: find_fresh_None)
  then have "card (numbered_name name ` {1..<10000}) \<le> card (set siblings)"
    by (intro card_mono) auto
  moreover have "card (numbered_name name ` {1..<10000}) = 9999"
    by (subst card_image, rule inj_on_subset [OF numbered_name_inj], simp_all)
  ultimately show ?thesis using card_length [of siblings] assms by simp
next
  case (Some c)
  then show ?thesis
    using find_fresh_Some [OF Some] by (auto simp: unique_name_def)
qed

theorem unique_name_fresh_witness:
  "length [''a.txt'', ''a (1).txt''] < 9999 \<and>
   unique_name [] ''a.txt'' (\<lambda>c. c \<in> set [''a.txt'', ''a (1).txt'']) \<notin> set [''a.txt'', ''a (1).txt'']"
proof -
  have l: "length [''a.txt'', ''a (1).txt''] < 9999" by simp
  show ?thesis using l unique_name_fresh [OF l, of "[]" "''a.txt''"] by blast
qed

section \<open>Resolution\<close>

lemma resolve_offset:
  "resolve policy source existing = RWrite off rn \<Longrightarrow>
     off = 0 \<or> off = ff_size existing \<and> ff_size existing < ff_size source"
  by (cases policy) (auto simp: resolve_def split: if_splits option.splits)

text \<open>The offset a conflict resolution lets a transfer write at is 0 or the size of the existing
  target, and in the second case the target is strictly shorter than the source, so a resumed
  transfer never starts beyond either file; only the \<open>Rename\<close> policy renames.\<close>

theorem resolve_offset_bound:
  assumes "resolve policy source existing = RWrite off rn"
  shows "(off = 0 \<or> off = ff_size existing \<and> ff_size existing < ff_size source) \<and>
    (rn \<longleftrightarrow> policy = Rename)"
  using assms
  by (cases policy) (auto simp: resolve_def split: if_splits option.splits)

theorem resolve_offset_bound_witness:
  "resolve Resume \<lparr>ff_size = 100, ff_mtime = None\<rparr> \<lparr>ff_size = 40, ff_mtime = None\<rparr> = RWrite 40 False
   \<and> ((40::u64) = 0 \<or> (40::u64) = 40 \<and> (40::u64) < 100)"
proof -
  have r: "resolve Resume \<lparr>ff_size = 100, ff_mtime = None\<rparr> \<lparr>ff_size = 40, ff_mtime = None\<rparr>
    = RWrite 40 False" by (simp add: resolve_def)
  show ?thesis using r resolve_offset_bound [OF r] by simp
qed

lemma resolve_same_facts:
  "resolve Resume f f = RSkip" "resolve OverwriteIfNewer f f = RSkip" "resolve Skip f g = RSkip"
  by (auto simp: resolve_def split: option.splits)

end
