(* ===== verification/Settings.thy ===== *)
theory Settings
  imports Conflict
begin

text \<open>
  \<open>src-tauri/src/settings.rs\<close>: the application settings, their defaults, and the store, whose
  current value changes only when the file was written.
\<close>

datatype theme = Dark | Light | System

datatype symlink_download = Follow | CopyLink

record app_settings =
  st_theme :: theme
  st_language :: string
  st_default_conflict_policy :: conflict_policy
  st_cache_ttl_secs :: u64
  st_default_local_dir :: string
  st_show_hidden :: bool
  st_local_pane_left :: bool
  st_confirm_delete :: bool
  st_symlink_download :: symlink_download
  st_max_retries :: u32
  st_retry_backoff_ms :: u64
  st_keepalive_secs :: u32
  st_timeout_secs :: u32
  st_bandwidth_limit_kbps :: u64
  st_verify_hash :: bool
  st_max_successful_history :: nat
  st_system_icons :: bool

definition default_settings :: app_settings where
  "default_settings =
     \<lparr>st_theme = Dark, st_language = ''pt-BR'', st_default_conflict_policy = Ask,
      st_cache_ttl_secs = 1, st_default_local_dir = [], st_show_hidden = False,
      st_local_pane_left = True, st_confirm_delete = True, st_symlink_download = Follow,
      st_max_retries = 3, st_retry_backoff_ms = 2000, st_keepalive_secs = 30,
      st_timeout_secs = 30, st_bandwidth_limit_kbps = 0, st_verify_hash = False,
      st_max_successful_history = 500, st_system_icons = True\<rparr>"

text \<open>
  \<open>load\<close> takes what reading and parsing the settings file gave; \<open>save\<close> takes the outcomes of
  serialising (serde) and of writing the file.
\<close>

definition settings_load :: "app_settings option \<Rightarrow> app_settings" where
  "settings_load stored = (case stored of None \<Rightarrow> default_settings | Some s \<Rightarrow> s)"

definition settings_save ::
  "(app_settings \<Rightarrow> string + string) \<Rightarrow> (string \<Rightarrow> string + unit) \<Rightarrow> app_settings \<Rightarrow> app_settings
     \<Rightarrow> unit vresult \<times> app_settings" where
  "settings_save to_json write_file new current = (case to_json new of
      Inl e \<Rightarrow> (Inl (from_serde_error e), current)
    | Inr text \<Rightarrow> (case write_file text of
          Inl e \<Rightarrow> (Inl (Io (''failed to save settings: '' @ e)), current)
        | Inr _ \<Rightarrow> (Inr (), new)))"

lemma settings_save_cases:
  "settings_save j f new cur = (r, cur') \<Longrightarrow> cur' = (if r = Inr () then new else cur)"
  by (auto simp: settings_save_def split: sum.splits)

end
