(* ===== verification/Site_Model.thy ===== *)
theory Site_Model
  imports Settings
begin

text \<open>
  \<open>src-tauri/src/sites/model.rs\<close>: the site manager's tree, and the part of \<open>session.rs\<close>'s
  \<open>Session\<close> the transfer queue looks at.  A freshly generated UUID is an argument.
\<close>

datatype logon_type = Anonymous | Normal | AskLogon | Interactive | KeyFile

datatype server_type = SvAuto | SvUnix | SvWindows

record sftp_settings =
  sf_key_path :: string
  sf_use_agent :: bool
  sf_proxy_jump :: string
  sf_extra_options :: "string list"

record site_config =
  sc_id :: string
  sc_name :: string
  sc_protocol :: protocol
  sc_host :: string
  sc_port :: u16
  sc_logon_type :: logon_type
  sc_user :: string
  sc_color :: "string option"
  sc_comments :: string
  sc_local_dir :: string
  sc_remote_dir :: string
  sc_sync_browsing :: bool
  sc_server_type :: server_type
  sc_bypass_proxy :: bool
  sc_transfer_mode :: transfer_mode
  sc_ascii_mode :: bool
  sc_max_connections :: u32
  sc_conflict_policy :: "conflict_policy option"
  sc_encoding :: encoding_mode
  sc_sftp :: sftp_settings
  sc_keepalive_secs :: u32
  sc_timeout_secs :: u32

definition default_sftp_settings :: sftp_settings where
  "default_sftp_settings =
     \<lparr>sf_key_path = [], sf_use_agent = False, sf_proxy_jump = [], sf_extra_options = []\<rparr>"

definition default_site :: "string \<Rightarrow> site_config" where
  "default_site uuid =
     \<lparr>sc_id = uuid, sc_name = [], sc_protocol = Sftp, sc_host = [], sc_port = default_port Sftp,
      sc_logon_type = Normal, sc_user = [], sc_color = None, sc_comments = [], sc_local_dir = [],
      sc_remote_dir = [], sc_sync_browsing = False, sc_server_type = SvAuto,
      sc_bypass_proxy = False, sc_transfer_mode = TmDefault, sc_ascii_mode = False,
      sc_max_connections = 2, sc_conflict_policy = None, sc_encoding = EncAuto,
      sc_sftp = default_sftp_settings, sc_keepalive_secs = 30, sc_timeout_secs = 30\<rparr>"

definition effective_port :: "site_config \<Rightarrow> u16" where
  "effective_port s = (if sc_port s = 0 then default_port (sc_protocol s) else sc_port s)"

definition display_name :: "site_config \<Rightarrow> string" where
  "display_name s =
     (if trim (sc_name s) = [] then sc_host s @ '':'' @ show_nat (unat (effective_port s))
      else sc_name s)"

record bookmark =
  bk_id :: string
  bk_name :: string
  bk_local_dir :: string
  bk_remote_dir :: string
  bk_sync_browsing :: bool

definition default_bookmark :: "string \<Rightarrow> bookmark" where
  "default_bookmark uuid =
     \<lparr>bk_id = uuid, bk_name = [], bk_local_dir = [], bk_remote_dir = [], bk_sync_browsing = False\<rparr>"

datatype site_node =
    Folder (sn_id: string) (sn_name: string) (sn_children: "site_node list")
  | Site (sn_site: site_config) (sn_bookmarks: "bookmark list")

definition folder_node :: "string \<Rightarrow> string \<Rightarrow> site_node list \<Rightarrow> site_node" where
  "folder_node uuid name children = Folder uuid name children"

definition site_leaf :: "site_config \<Rightarrow> site_node" where
  "site_leaf s = Site s []"

record site_tree =
  tr_root :: "site_node list"

text \<open>The walk of \<open>all_sites\<close>, which pushes onto \<open>out\<close>.\<close>

fun walk :: "site_node list \<Rightarrow> site_config list \<Rightarrow> site_config list" where
  "walk [] out = out"
| "walk (Folder _ _ children # nodes) out = walk nodes (walk children out)"
| "walk (Site s _ # nodes) out = walk nodes (out @ [s])"

definition all_sites :: "site_tree \<Rightarrow> site_config list" where
  "all_sites t = walk (tr_root t) []"

definition site_ids :: "site_tree \<Rightarrow> string list" where
  "site_ids t = map sc_id (all_sites t)"

text \<open>The sites of a node in depth-first order, as the specification of the walk.\<close>

fun node_sites :: "site_node \<Rightarrow> site_config list" where
  "node_sites (Folder _ _ children) = concat (map node_sites children)"
| "node_sites (Site s _) = [s]"

lemma walk_eq: "walk nodes out = out @ concat (map node_sites nodes)"
  by (induction nodes out rule: walk.induct) auto

lemma all_sites_eq: "all_sites t = concat (map node_sites (tr_root t))"
  by (simp add: all_sites_def walk_eq)

text \<open>A session as the queue sees it: its identity and its site.\<close>

record session =
  ss_id :: string
  ss_site :: site_config

definition max_transfers :: "'z session_scheme \<Rightarrow> nat" where
  "max_transfers s = unat (max (sc_max_connections (ss_site s)) 1)"

lemma max_transfers_pos: "0 < max_transfers s"
proof -
  have "max (sc_max_connections (ss_site s)) 1 \<noteq> 0"
    by (metis max.cobounded2 word_not_simps(1) zero_neq_one antisym word_zero_le)
  then show ?thesis by (simp add: max_transfers_def unat_gt_0)
qed

end
