(* ===== verification/Transfer_Types.thy ===== *)
theory Transfer_Types
  imports Site_Model "HOL-Library.AList"
begin

text \<open>
  \<open>src-tauri/src/transfer/mod.rs\<close> and the data types of \<open>transfer/queue.rs\<close>: the transfer item,
  what a caller asks to transfer, and the shared state of the queue.

  The state keeps what the code shares between the scheduler, the workers and the commands:
  a control handle or a conflict channel is the index of a cell, because a worker holds the
  handle it was started with while the tables that map item ids to handles change.
\<close>

datatype transfer_status = Queued | Active | Paused | Failed | Done | Skipped

record transfer_item =
  ti_id :: string
  ti_session_id :: "string option"
  ti_site_id :: string
  ti_site_name :: string
  ti_direction :: direction
  ti_local_path :: string
  ti_remote_path :: string
  ti_is_dir :: bool
  ti_size :: "u64 option"
  ti_source_mtime :: "int option"
  ti_transferred :: u64
  ti_status :: transfer_status
  ti_priority :: int
  ti_error :: "string option"
  ti_attempts :: u32
  ti_created_at :: int
  ti_finished_at :: "int option"
  ti_speed_bps :: u64
  ti_follow_symlink :: bool
  ti_conflict_policy :: "conflict_policy option"
  ti_link_target :: "string option"
  ti_batch :: "string option"
  ti_target_session_id :: "string option"
  ti_target_path :: "string option"
  ti_retry_after :: "int option"

definition copy_target :: "transfer_item \<Rightarrow> string" where
  "copy_target i = (case ti_target_path i of None \<Rightarrow> [] | Some p \<Rightarrow> p)"

definition is_pending :: "transfer_item \<Rightarrow> bool" where
  "is_pending i \<longleftrightarrow>
     (case ti_status i of Queued \<Rightarrow> True | Active \<Rightarrow> True | Paused \<Rightarrow> True | _ \<Rightarrow> False)"

record queue_request =
  qr_session_id :: string
  qr_direction :: direction
  qr_local_path :: string
  qr_remote_path :: string
  qr_is_dir :: bool
  qr_size :: "u64 option"
  qr_mtime :: "int option"
  qr_priority :: int
  qr_follow_symlink :: bool
  qr_conflict_policy :: "conflict_policy option"
  qr_start_paused :: bool
  qr_link_target :: "string option"
  qr_batch :: "string option"
  qr_target_session_id :: "string option"
  qr_target_path :: "string option"

definition default_true :: bool where
  "default_true = True"

record queue_snapshot =
  qs_items :: "transfer_item list"
  qs_history :: "transfer_item list"

record batch_counts =
  bs_pending :: nat
  bs_failed :: nat

record queue_stats =
  qt_active :: nat
  qt_queued :: nat
  qt_failed :: nat
  qt_paused :: nat
  qt_speed_bps :: u64
  qt_remaining_bytes :: u64

text \<open>A \<open>Control\<close>: its cancellation token and its pausing flag.\<close>

record control_cell =
  cc_cancelled :: bool
  cc_pausing :: bool

text \<open>A oneshot channel for the answer to a conflict prompt.\<close>

datatype channel =
    ChOpen
  | ChAnswered conflict_answer
  | ChSenderDropped
  | ChReceiverGone

datatype queue_event =
    EvProgress string u64 u64 "u64 option"
  | EvConflict conflict_prompt
  | EvSnapshot queue_snapshot
  | EvStats queue_stats

record queue_state =
  q_items :: "transfer_item list"
  q_history :: "transfer_item list"
  q_controls :: "(string \<times> nat) list"
  q_cells :: "control_cell list"
  q_conflicts :: "(string \<times> nat) list"
  q_channels :: "channel list"
  q_apply_all :: "(string \<times> conflict_policy) list"
  q_settings :: app_settings
  q_notified :: bool
  q_dirty :: bool
  q_snapshot_dirty :: bool
  q_stored :: "queue_snapshot option"
  q_events :: "queue_event list"

definition item_ids :: "'z queue_state_scheme \<Rightarrow> string list" where
  "item_ids q = map ti_id (q_items q)"

text \<open>The first item \<open>iter_mut().find\<close> returns is changed in place.\<close>

fun update_first :: "('a \<Rightarrow> bool) \<Rightarrow> ('a \<Rightarrow> 'a) \<Rightarrow> 'a list \<Rightarrow> 'a list" where
  "update_first P f [] = []"
| "update_first P f (x # xs) = (if P x then f x # xs else x # update_first P f xs)"

lemma length_update_first [simp]: "length (update_first P f xs) = length xs"
  by (induction xs) auto

lemma update_first_none: "\<forall>x \<in> set xs. \<not> P x \<Longrightarrow> update_first P f xs = xs"
  by (induction xs) auto

lemma map_update_first: "(\<And>x. g (f x) = g x) \<Longrightarrow> map g (update_first P f xs) = map g xs"
  by (induction xs) auto

lemma map_other_key:
  "k \<notin> g ` set xs \<Longrightarrow> map (\<lambda>x. if g x = k then f x else x) xs = xs"
  by (rule map_idI) auto

lemma update_first_distinct:
  "distinct (map g xs) \<Longrightarrow>
     update_first (\<lambda>x. g x = k) f xs = map (\<lambda>x. if g x = k then f x else x) xs"
  by (induction xs) (auto simp: map_other_key [symmetric])

lemma find_distinct:
  "distinct (map g xs) \<Longrightarrow> x \<in> set xs \<Longrightarrow> find (\<lambda>y. g y = g x) xs = Some x"
  by (induction xs) (auto simp: image_iff)

end
