(* ===== verification/Transfer_Queue.thy ===== *)
theory Transfer_Queue
  imports Transfer_Types
begin

text \<open>
  \<open>src-tauri/src/transfer/queue.rs\<close>, the operations other than the scheduler: each is a
  function of the queue's state, under the locks the method takes.  The time of day, fresh
  UUIDs and the session table are arguments.
\<close>

section \<open>Reading and updating items\<close>

definition changed :: "'z queue_state_scheme \<Rightarrow> 'z queue_state_scheme" where
  "changed q = q\<lparr>q_dirty := True, q_snapshot_dirty := True, q_notified := True\<rparr>"

definition get_item :: "string \<Rightarrow> 'z queue_state_scheme \<Rightarrow> transfer_item option" where
  "get_item key q = find (\<lambda>i. ti_id i = key) (q_items q)"

definition update_item ::
  "string \<Rightarrow> (transfer_item \<Rightarrow> transfer_item) \<Rightarrow> 'z queue_state_scheme \<Rightarrow> bool \<times> 'z queue_state_scheme" where
  "update_item key f q = (case position (\<lambda>i. ti_id i = key) (q_items q) of
      Some _ \<Rightarrow> (True, q\<lparr>q_items := update_first (\<lambda>i. ti_id i = key) f (q_items q)\<rparr>)
    | None \<Rightarrow> (False, q))"

definition control_of :: "string \<Rightarrow> 'z queue_state_scheme \<Rightarrow> nat option" where
  "control_of key q = map_of (q_controls q) key"

definition drop_control :: "string \<Rightarrow> 'z queue_state_scheme \<Rightarrow> 'z queue_state_scheme" where
  "drop_control key q = q\<lparr>q_controls := AList.delete key (q_controls q)\<rparr>"

text \<open>\<open>pausing.store(p)\<close> and \<open>token.cancel()\<close> on one control.\<close>

definition cancel_cell :: "bool \<Rightarrow> nat \<Rightarrow> 'z queue_state_scheme \<Rightarrow> 'z queue_state_scheme" where
  "cancel_cell p h q =
     q\<lparr>q_cells := (q_cells q)[h := \<lparr>cc_cancelled = True, cc_pausing = p\<rparr>]\<rparr>"

definition emit :: "queue_event \<Rightarrow> 'z queue_state_scheme \<Rightarrow> 'z queue_state_scheme" where
  "emit e q = q\<lparr>q_events := q_events q @ [e]\<rparr>"

definition snapshot :: "'z queue_state_scheme \<Rightarrow> queue_snapshot" where
  "snapshot q = \<lparr>qs_items = q_items q, qs_history = q_history q\<rparr>"

definition add_stats :: "transfer_item \<Rightarrow> queue_stats \<Rightarrow> queue_stats" where
  "add_stats i st =
     (let st = (case ti_status i of
          Active \<Rightarrow> st\<lparr>qt_active := qt_active st + 1, qt_speed_bps := qt_speed_bps st + ti_speed_bps i\<rparr>
        | Queued \<Rightarrow> st\<lparr>qt_queued := qt_queued st + 1\<rparr>
        | Failed \<Rightarrow> st\<lparr>qt_failed := qt_failed st + 1\<rparr>
        | Paused \<Rightarrow> st\<lparr>qt_paused := qt_paused st + 1\<rparr>
        | _ \<Rightarrow> st);
        sz = (case ti_size i of None \<Rightarrow> 0 | Some n \<Rightarrow> n)
      in if is_pending i \<and> \<not> ti_is_dir i
         then st\<lparr>qt_remaining_bytes := qt_remaining_bytes st +
                  (if sz < ti_transferred i then 0 else sz - ti_transferred i)\<rparr>
         else st)"

definition zero_stats :: queue_stats where
  "zero_stats = \<lparr>qt_active = 0, qt_queued = 0, qt_failed = 0, qt_paused = 0, qt_speed_bps = 0,
     qt_remaining_bytes = 0\<rparr>"

definition stats :: "'z queue_state_scheme \<Rightarrow> queue_stats" where
  "stats q = fold add_stats (q_items q) zero_stats"

section \<open>Adding items\<close>

definition build_item :: "string \<Rightarrow> int \<Rightarrow> 'y session_scheme \<Rightarrow> queue_request \<Rightarrow> transfer_item" where
  "build_item uuid now s r =
     \<lparr>ti_id = uuid, ti_session_id = Some (ss_id s), ti_site_id = sc_id (ss_site s),
      ti_site_name = display_name (ss_site s), ti_direction = qr_direction r,
      ti_local_path = qr_local_path r, ti_remote_path = qr_remote_path r,
      ti_is_dir = qr_is_dir r, ti_size = qr_size r, ti_source_mtime = qr_mtime r,
      ti_transferred = 0, ti_status = (if qr_start_paused r then Paused else Queued),
      ti_priority = qr_priority r, ti_error = None, ti_attempts = 0, ti_created_at = now,
      ti_finished_at = None, ti_speed_bps = 0, ti_follow_symlink = qr_follow_symlink r,
      ti_conflict_policy = qr_conflict_policy r, ti_link_target = qr_link_target r,
      ti_batch = qr_batch r, ti_target_session_id = qr_target_session_id r,
      ti_target_path = qr_target_path r, ti_retry_after = None\<rparr>"

text \<open>The loop of \<open>add\<close>: the \<open>n\<close>-th item gets the \<open>n\<close>-th fresh key.\<close>

fun build_items ::
  "(string \<Rightarrow> 'y session_scheme vresult) \<Rightarrow> (nat \<Rightarrow> string) \<Rightarrow> (nat \<Rightarrow> int) \<Rightarrow> nat
     \<Rightarrow> queue_request list \<Rightarrow> transfer_item list vresult" where
  "build_items sessions uuid clock n [] = Inr []"
| "build_items sessions uuid clock n (r # rs) =
     bind_res (sessions (qr_session_id r)) (\<lambda>s.
     bind_res (case qr_target_session_id r of
          Some t \<Rightarrow> map_ok (\<lambda>_. ()) (sessions t) | None \<Rightarrow> Inr ()) (\<lambda>_.
     bind_res (build_items sessions uuid clock (Suc n) rs) (\<lambda>items.
       Inr (build_item (uuid n) (clock n) s r # items))))"

definition add ::
  "(string \<Rightarrow> 'y session_scheme vresult) \<Rightarrow> (nat \<Rightarrow> string) \<Rightarrow> (nat \<Rightarrow> int) \<Rightarrow> queue_request list
     \<Rightarrow> 'z queue_state_scheme \<Rightarrow> string list vresult \<times> 'z queue_state_scheme" where
  "add sessions uuid clock rs q = (case build_items sessions uuid clock 0 rs of
      Inl e \<Rightarrow> (Inl e, q)
    | Inr new \<Rightarrow> (Inr (map ti_id new), changed (q\<lparr>q_items := q_items q @ new\<rparr>)))"

definition insert_children ::
  "string \<Rightarrow> transfer_item list \<Rightarrow> 'z queue_state_scheme \<Rightarrow> 'z queue_state_scheme" where
  "insert_children parent_id children q =
     (let p = (case position (\<lambda>i. ti_id i = parent_id) (q_items q) of
          Some p \<Rightarrow> p + 1 | None \<Rightarrow> length (q_items q));
        step = (\<lambda>(offset, child) items. insert_at (p + offset) child items)
      in changed (q\<lparr>q_items := fold step (enumerate 0 children) (q_items q)\<rparr>))"

definition batch_status :: "string \<Rightarrow> 'z queue_state_scheme \<Rightarrow> batch_counts" where
  "batch_status b q =
     fold (\<lambda>i st. if ti_status i = Failed then st\<lparr>bs_failed := bs_failed st + 1\<rparr>
                 else if is_pending i then st\<lparr>bs_pending := bs_pending st + 1\<rparr> else st)
       (filter (\<lambda>i. ti_batch i = Some b) (q_items q)) \<lparr>bs_pending = 0, bs_failed = 0\<rparr>"

section \<open>What workers report\<close>

definition record_progress ::
  "string \<Rightarrow> u64 \<Rightarrow> u64 \<Rightarrow> u64 option \<Rightarrow> 'z queue_state_scheme \<Rightarrow> 'z queue_state_scheme" where
  "record_progress key transferred speed sz q =
     (case update_item key (\<lambda>i.
          let i = i\<lparr>ti_transferred := transferred, ti_speed_bps := speed\<rparr>
          in if sz \<noteq> None then i\<lparr>ti_size := sz\<rparr> else i) q of
        (updated, q') \<Rightarrow> if updated then emit (EvProgress key transferred speed sz) q' else q')"

definition finish_item :: "int \<Rightarrow> transfer_status \<Rightarrow> string option \<Rightarrow> transfer_item \<Rightarrow> transfer_item" where
  "finish_item now status err i =
     i\<lparr>ti_status := status, ti_error := err, ti_speed_bps := 0, ti_finished_at := Some now\<rparr>"

definition complete ::
  "int \<Rightarrow> string \<Rightarrow> transfer_status \<Rightarrow> string option \<Rightarrow> 'z queue_state_scheme \<Rightarrow> 'z queue_state_scheme" where
  "complete now key status err q = (case position (\<lambda>i. ti_id i = key) (q_items q) of
      None \<Rightarrow> q
    | Some index \<Rightarrow>
        let item = finish_item now status err (q_items q ! index);
            q' = (if status = Done \<or> status = Skipped then
                q\<lparr>q_items := remove_at index (q_items q),
                  q_history := take (max (st_max_successful_history (q_settings q)) 10)
                    (item # q_history q)\<rparr>
              else q\<lparr>q_items := (q_items q)[index := item]\<rparr>)
        in changed (drop_control key q'))"

definition schedule_retry ::
  "int \<Rightarrow> string \<Rightarrow> string \<Rightarrow> int \<Rightarrow> 'z queue_state_scheme \<Rightarrow> 'z queue_state_scheme" where
  "schedule_retry now key err delay q =
     changed (drop_control key (snd (update_item key (\<lambda>i.
       i\<lparr>ti_status := Queued, ti_error := Some err, ti_speed_bps := 0,
         ti_retry_after := Some (wrap_i64 (now + wrap_i64 delay))\<rparr>) q)))"

definition set_paused :: "string \<Rightarrow> 'z queue_state_scheme \<Rightarrow> 'z queue_state_scheme" where
  "set_paused key q =
     changed (drop_control key (snd (update_item key (\<lambda>i.
       i\<lparr>ti_status := Paused, ti_speed_bps := 0\<rparr>) q)))"

section \<open>What users ask for\<close>

definition pause :: "string \<Rightarrow> 'z queue_state_scheme \<Rightarrow> 'z queue_state_scheme" where
  "pause key q = (case control_of key q of
      Some h \<Rightarrow> cancel_cell True h q
    | None \<Rightarrow> changed (snd (update_item key (\<lambda>i.
          if ti_status i = Queued then i\<lparr>ti_status := Paused\<rparr> else i) q)))"

definition requeue :: "transfer_item \<Rightarrow> transfer_item" where
  "requeue i = i\<lparr>ti_status := Queued, ti_error := None, ti_attempts := 0, ti_retry_after := None\<rparr>"

definition resume :: "string \<Rightarrow> 'z queue_state_scheme \<Rightarrow> 'z queue_state_scheme" where
  "resume key q = changed (snd (update_item key (\<lambda>i.
      if ti_status i = Paused \<or> ti_status i = Failed then requeue i else i) q))"

text \<open>Dropping a channel's sender wakes its receiver with an error.\<close>

definition drop_sender :: "channel \<Rightarrow> channel" where
  "drop_sender c = (case c of ChOpen \<Rightarrow> ChSenderDropped | _ \<Rightarrow> c)"

definition drop_conflict :: "string \<Rightarrow> 'z queue_state_scheme \<Rightarrow> 'z queue_state_scheme" where
  "drop_conflict key q = (case map_of (q_conflicts q) key of
      None \<Rightarrow> q
    | Some c \<Rightarrow> q\<lparr>q_conflicts := AList.delete key (q_conflicts q),
                 q_channels := (q_channels q)[c := drop_sender (q_channels q ! c)]\<rparr>)"

definition remove_item :: "string \<Rightarrow> 'z queue_state_scheme \<Rightarrow> 'z queue_state_scheme" where
  "remove_item key q =
     (let q1 = (case control_of key q of Some h \<Rightarrow> cancel_cell False h q | None \<Rightarrow> q);
          q2 = q1\<lparr>q_items := filter (\<lambda>i. ti_id i \<noteq> key) (q_items q1)\<rparr>
      in changed (drop_conflict key q2))"

definition remove_batch :: "string \<Rightarrow> 'z queue_state_scheme \<Rightarrow> 'z queue_state_scheme" where
  "remove_batch b q =
     fold remove_item (map ti_id (filter (\<lambda>i. ti_batch i = Some b) (q_items q))) q"

definition move_item :: "string \<Rightarrow> nat \<Rightarrow> 'z queue_state_scheme \<Rightarrow> 'z queue_state_scheme" where
  "move_item key new_index q = (case position (\<lambda>i. ti_id i = key) (q_items q) of
      None \<Rightarrow> q
    | Some current \<Rightarrow>
        let item = q_items q ! current;
            rest = remove_at current (q_items q);
            target = min new_index (length rest)
        in changed (q\<lparr>q_items := insert_at target item rest\<rparr>))"

definition set_priority :: "string \<Rightarrow> int \<Rightarrow> 'z queue_state_scheme \<Rightarrow> 'z queue_state_scheme" where
  "set_priority key p q = changed (snd (update_item key (\<lambda>i. i\<lparr>ti_priority := p\<rparr>) q))"

definition pause_all :: "'z queue_state_scheme \<Rightarrow> 'z queue_state_scheme" where
  "pause_all q =
     fold pause (map ti_id (filter (\<lambda>i. ti_status i = Queued \<or> ti_status i = Active) (q_items q))) q"

definition resume_all :: "'z queue_state_scheme \<Rightarrow> 'z queue_state_scheme" where
  "resume_all q = fold resume (map ti_id (filter (\<lambda>i. ti_status i = Paused) (q_items q))) q"

definition retry_failed :: "'z queue_state_scheme \<Rightarrow> 'z queue_state_scheme" where
  "retry_failed q =
     changed (q\<lparr>q_items := map (\<lambda>i. if ti_status i = Failed then requeue i else i) (q_items q)\<rparr>)"

definition remove_failed :: "'z queue_state_scheme \<Rightarrow> 'z queue_state_scheme" where
  "remove_failed q = changed (q\<lparr>q_items := filter (\<lambda>i. ti_status i \<noteq> Failed) (q_items q)\<rparr>)"

definition clear :: "'z queue_state_scheme \<Rightarrow> 'z queue_state_scheme" where
  "clear q =
     (let q1 = fold (cancel_cell False) (map snd (q_controls q)) q
      in changed (q1\<lparr>q_items := [], q_conflicts := [],
           q_channels := fold (\<lambda>c chs. chs[c := drop_sender (chs ! c)]) (map snd (q_conflicts q1))
             (q_channels q1)\<rparr>))"

definition clear_history :: "'z queue_state_scheme \<Rightarrow> 'z queue_state_scheme" where
  "clear_history q = changed (q\<lparr>q_history := []\<rparr>)"

definition bind_session :: "string \<Rightarrow> string \<Rightarrow> 'z queue_state_scheme \<Rightarrow> 'z queue_state_scheme" where
  "bind_session site_id session_id q = changed (q\<lparr>q_items := map (\<lambda>i.
      if ti_site_id i = site_id \<and> ti_session_id i = None
      then i\<lparr>ti_session_id := Some session_id\<rparr> else i) (q_items q)\<rparr>)"

definition unbind_session :: "string \<Rightarrow> 'z queue_state_scheme \<Rightarrow> 'z queue_state_scheme" where
  "unbind_session session_id q =
     (let ids = map ti_id (filter (\<lambda>i. ti_session_id i = Some session_id) (q_items q));
          q1 = fold pause ids q
      in changed (q1\<lparr>q_items := map (\<lambda>i. if ti_session_id i = Some session_id
             then i\<lparr>ti_session_id := None\<rparr> else i) (q_items q1),
           q_apply_all := AList.delete session_id (q_apply_all q1)\<rparr>))"

section \<open>Conflict prompts\<close>

definition answer_conflict ::
  "string \<Rightarrow> conflict_answer \<Rightarrow> 'z queue_state_scheme \<Rightarrow> bool \<times> 'z queue_state_scheme" where
  "answer_conflict key answer q = (case map_of (q_conflicts q) key of
      None \<Rightarrow> (False, q)
    | Some c \<Rightarrow>
        let q1 = q\<lparr>q_conflicts := AList.delete key (q_conflicts q)\<rparr>
        in if q_channels q ! c = ChOpen
           then (True, q1\<lparr>q_channels := (q_channels q)[c := ChAnswered answer]\<rparr>)
           else (False, q1))"

definition effective_policy ::
  "transfer_item \<Rightarrow> 'y session_scheme \<Rightarrow> 'z queue_state_scheme \<Rightarrow> conflict_policy" where
  "effective_policy i s q = (case ti_conflict_policy i of
      Some p \<Rightarrow> p
    | None \<Rightarrow> (case map_of (q_apply_all q) (ss_id s) of
          Some p \<Rightarrow> p
        | None \<Rightarrow> (case sc_conflict_policy (ss_site s) of
              Some p \<Rightarrow> p
            | None \<Rightarrow> st_default_conflict_policy (q_settings q))))"

text \<open>
  \<open>ask_conflict\<close> suspends: \<open>wait c\<close> is what the rest of the program did to the queue until
  channel \<open>c\<close> was resolved or the timeout fired; the channel's cell then tells which.
\<close>

definition open_prompt :: "conflict_prompt \<Rightarrow> 'z queue_state_scheme \<Rightarrow> nat \<times> 'z queue_state_scheme" where
  "open_prompt p q =
     (let key = cp_item_id p;
          q1 = drop_conflict key q;
          c = length (q_channels q1)
      in (c, emit (EvConflict p) (q1\<lparr>q_conflicts := AList.update key c (q_conflicts q1),
             q_channels := q_channels q1 @ [ChOpen]\<rparr>)))"

definition close_prompt ::
  "string \<Rightarrow> nat \<Rightarrow> 'z queue_state_scheme \<Rightarrow> conflict_answer vresult \<times> 'z queue_state_scheme" where
  "close_prompt session_id c q =
     (let q1 = q\<lparr>q_channels := (q_channels q)[c := ChReceiverGone]\<rparr>
      in case q_channels q ! c of
          ChAnswered a \<Rightarrow> (Inr a, if ca_apply_to_all a
              then q1\<lparr>q_apply_all := AList.update session_id (as_policy (ca_action a)) (q_apply_all q1)\<rparr>
              else q1)
        | ChSenderDropped \<Rightarrow> (Inl Cancelled, q1)
        | _ \<Rightarrow> (Inl (Timeout ''conflict prompt unanswered''), q1))"

definition ask_conflict ::
  "(nat \<Rightarrow> 'z queue_state_scheme \<Rightarrow> 'z queue_state_scheme) \<Rightarrow> conflict_prompt
     \<Rightarrow> ('z queue_state_scheme, conflict_answer) vio" where
  "ask_conflict wait p q = (case open_prompt p q of
      (c, q1) \<Rightarrow> close_prompt (cp_session_id p) c (wait c q1))"

section \<open>Starting, persisting and emitting\<close>

definition restore_item :: "transfer_item \<Rightarrow> transfer_item" where
  "restore_item i =
     (let i = i\<lparr>ti_session_id := None, ti_speed_bps := 0\<rparr>
      in if ti_status i = Active then i\<lparr>ti_status := Queued\<rparr> else i)"

definition new_queue :: "queue_snapshot option \<Rightarrow> app_settings \<Rightarrow> queue_state" where
  "new_queue stored settings =
     (let s = (case stored of Some s \<Rightarrow> s | None \<Rightarrow> \<lparr>qs_items = [], qs_history = []\<rparr>)
      in \<lparr>q_items = map restore_item (qs_items s), q_history = qs_history s, q_controls = [],
          q_cells = [], q_conflicts = [], q_channels = [], q_apply_all = [],
          q_settings = settings, q_notified = False, q_dirty = False, q_snapshot_dirty = True,
          q_stored = stored, q_events = []\<rparr>)"

text \<open>
  \<open>write\<close> is the outcome of serialising and writing the queue file: \<open>None\<close> when either failed,
  and what reading the file gives afterwards (serde skips \<open>retry_after\<close>).
\<close>

definition stored_item :: "transfer_item \<Rightarrow> transfer_item" where
  "stored_item i = i\<lparr>ti_retry_after := None\<rparr>"

definition persist :: "bool \<Rightarrow> 'z queue_state_scheme \<Rightarrow> 'z queue_state_scheme" where
  "persist write_ok q =
     (let stored = \<lparr>qs_items = filter (\<lambda>i. is_pending i \<or> ti_status i = Failed) (q_items q),
          qs_history = q_history q\<rparr>
      in if write_ok
         then q\<lparr>q_stored := Some \<lparr>qs_items = map stored_item (qs_items stored),
                  qs_history = map stored_item (qs_history stored)\<rparr>\<rparr>
         else q)"

definition emit_snapshot :: "'z queue_state_scheme \<Rightarrow> 'z queue_state_scheme" where
  "emit_snapshot q = emit (EvSnapshot (snapshot q)) q"

definition emit_stats :: "'z queue_state_scheme \<Rightarrow> 'z queue_state_scheme" where
  "emit_stats q = emit (EvStats (stats q)) q"

definition clear_apply_all_when_idle :: "'z queue_state_scheme \<Rightarrow> 'z queue_state_scheme" where
  "clear_apply_all_when_idle q =
     (if \<not> list_ex is_pending (q_items q) then q\<lparr>q_apply_all := []\<rparr> else q)"

end
