(* ===== verification/Queue_Dispatch.thy ===== *)
theory Queue_Dispatch
  imports Transfer_Queue
begin

text \<open>
  The scheduler of \<open>transfer/queue.rs\<close>: \<open>dispatch\<close> marks the items to start while it holds the
  item lock (\<open>mark_items\<close>), then starts them one by one (\<open>start_item\<close>), between which other
  tasks may run; \<open>tick\<close> is one iteration of \<open>scheduler_loop\<close>.  The lemmas show that handling
  the sessions one after the other chooses the same items as choosing for all of them at once.
\<close>

section \<open>Marking\<close>

definition active_count :: "string \<Rightarrow> transfer_item list \<Rightarrow> nat" where
  "active_count sid items =
     length (filter (\<lambda>i. ti_session_id i = Some sid \<and> ti_status i = Active) items)"

definition eligible :: "int \<Rightarrow> string \<Rightarrow> transfer_item \<Rightarrow> bool" where
  "eligible now sid i \<longleftrightarrow> ti_session_id i = Some sid \<and> ti_status i = Queued \<and>
     (case ti_retry_after i of None \<Rightarrow> True | Some t \<Rightarrow> t \<le> now)"

definition candidates :: "int \<Rightarrow> string \<Rightarrow> transfer_item list \<Rightarrow> nat list" where
  "candidates now sid items = filter (\<lambda>k. eligible now sid (items ! k)) [0..<length items]"

text \<open>\<open>sort_by_key\<close> is stable, and so is \<open>sort_key\<close>.\<close>

definition chosen :: "int \<Rightarrow> 'y session_scheme \<Rightarrow> transfer_item list \<Rightarrow> nat list" where
  "chosen now s items =
     (let free = max_transfers s - active_count (ss_id s) items
      in take free (sort_key (\<lambda>k. Reverse (ti_priority (items ! k))) (candidates now (ss_id s) items)))"

definition activate :: "transfer_item \<Rightarrow> transfer_item" where
  "activate i = i\<lparr>ti_status := Active, ti_retry_after := None\<rparr>"

definition mark_index ::
  "nat \<Rightarrow> transfer_item list \<times> string list \<Rightarrow> transfer_item list \<times> string list" where
  "mark_index k = (\<lambda>(items, to_start). (items[k := activate (items ! k)], to_start @ [ti_id (items ! k)]))"

definition dispatch_session ::
  "int \<Rightarrow> 'y session_scheme \<Rightarrow> transfer_item list \<times> string list \<Rightarrow> transfer_item list \<times> string list" where
  "dispatch_session now s = (\<lambda>(items, to_start).
     if max_transfers s - active_count (ss_id s) items = 0 then (items, to_start)
     else fold mark_index (chosen now s items) (items, to_start))"

definition mark_items ::
  "int \<Rightarrow> 'y session_scheme list \<Rightarrow> 'z queue_state_scheme \<Rightarrow> string list \<times> 'z queue_state_scheme" where
  "mark_items now sessions q =
     (case fold (dispatch_session now) sessions (q_items q, []) of
        (items, to_start) \<Rightarrow> (to_start, q\<lparr>q_items := items\<rparr>))"

section \<open>Starting\<close>

text \<open>One iteration of the second loop: a new control, registered under the id; the worker is
  spawned with the control's handle, the result.\<close>

definition start_item :: "string \<Rightarrow> 'z queue_state_scheme \<Rightarrow> nat \<times> 'z queue_state_scheme" where
  "start_item key q =
     (length (q_cells q),
      q\<lparr>q_cells := q_cells q @ [\<lparr>cc_cancelled = False, cc_pausing = False\<rparr>],
        q_controls := AList.update key (length (q_cells q)) (q_controls q),
        q_snapshot_dirty := True\<rparr>)"

fun start_items ::
  "string list \<Rightarrow> 'z queue_state_scheme \<Rightarrow> (string \<times> nat) list \<times> 'z queue_state_scheme" where
  "start_items [] q = ([], q)"
| "start_items (key # keys) q =
     (case start_item key q of (h, q1) \<Rightarrow>
        case start_items keys q1 of (started, q2) \<Rightarrow> ((key, h) # started, q2))"

definition dispatch ::
  "int \<Rightarrow> 'y session_scheme list \<Rightarrow> 'z queue_state_scheme
     \<Rightarrow> (string \<times> nat) list \<times> 'z queue_state_scheme" where
  "dispatch now sessions q = (case mark_items now sessions q of
      (to_start, q1) \<Rightarrow> start_items to_start q1)"

text \<open>One iteration of \<open>scheduler_loop\<close> after it has been woken; \<open>write_ok\<close> is the outcome of
  writing the queue file.\<close>

definition tick ::
  "int \<Rightarrow> 'y session_scheme list \<Rightarrow> bool \<Rightarrow> 'z queue_state_scheme
     \<Rightarrow> (string \<times> nat) list \<times> 'z queue_state_scheme" where
  "tick now sessions write_ok q = (case dispatch now sessions (q\<lparr>q_notified := False\<rparr>) of
     (started, q1) \<Rightarrow>
       let q2 = (if q_snapshot_dirty q1 then emit_snapshot (q1\<lparr>q_snapshot_dirty := False\<rparr>) else q1);
           q3 = (if q_dirty q2 then persist write_ok (q2\<lparr>q_dirty := False\<rparr>) else q2)
       in (started, clear_apply_all_when_idle (emit_stats q3)))"

section \<open>What one session's pass does\<close>

lemma activate_simps [simp]:
  "ti_status (activate i) = Active" "ti_id (activate i) = ti_id i"
  "ti_session_id (activate i) = ti_session_id i" "ti_priority (activate i) = ti_priority i"
  by (simp_all add: activate_def)

definition activate_at :: "nat set \<Rightarrow> transfer_item list \<Rightarrow> transfer_item list" where
  "activate_at K items = map (\<lambda>k. if k \<in> K then activate (items ! k) else items ! k) [0..<length items]"

lemma length_activate_at [simp]: "length (activate_at K items) = length items"
  by (simp add: activate_at_def)

lemma nth_activate_at:
  "k < length items \<Longrightarrow> activate_at K items ! k = (if k \<in> K then activate (items ! k) else items ! k)"
  by (simp add: activate_at_def)

lemma activate_at_fields:
  assumes "k < length items"
  shows "ti_session_id (activate_at K items ! k) = ti_session_id (items ! k)"
    and "ti_id (activate_at K items ! k) = ti_id (items ! k)"
    and "ti_status (activate_at K items ! k) = Active \<longleftrightarrow> k \<in> K \<or> ti_status (items ! k) = Active"
  using assms by (simp_all add: nth_activate_at)

lemma activate_at_empty [simp]: "activate_at {} items = items"
  by (simp add: activate_at_def map_nth)

lemma map_id_activate_at [simp]: "map ti_id (activate_at K items) = map ti_id items"
  by (rule nth_equalityI) (simp_all add: nth_activate_at)

lemma fold_mark_index:
  "distinct ks \<Longrightarrow> set ks \<subseteq> {..<length items} \<Longrightarrow>
   fold mark_index ks (items, ts) =
     (activate_at (set ks) items, ts @ map (\<lambda>k. ti_id (items ! k)) ks)"
proof (induction ks rule: rev_induct)
  case (snoc k ks)
  then have k: "k < length items" "k \<notin> set ks" by auto
  have "(activate_at (set ks) items)[k := activate (items ! k)] = activate_at (insert k (set ks)) items"
    using k by (intro nth_equalityI) (auto simp: nth_activate_at nth_list_update)
  with snoc k show ?case by (simp add: mark_index_def nth_activate_at)
qed simp

text \<open>The order of the sorted candidates: by falling priority, then by position.\<close>

lemma sorted_insort_key_lex:
  fixes f :: "nat \<Rightarrow> 'a :: linorder"
  assumes "sorted_wrt (\<lambda>a b. f a < f b \<or> f a = f b \<and> a < b) ys" "\<forall>y \<in> set ys. x < y"
  shows "sorted_wrt (\<lambda>a b. f a < f b \<or> f a = f b \<and> a < b) (insort_key f x ys)"
  using assms
proof (induction ys)
  case (Cons y ys)
  show ?case
  proof (cases "f x \<le> f y")
    case True
    with Cons.prems show ?thesis by (fastforce dest: le_imp_less_or_eq)
  next
    case False
    with Cons show ?thesis by (auto simp: set_insort_key)
  qed
qed simp

lemma sorted_sort_key_lex:
  fixes f :: "nat \<Rightarrow> 'a :: linorder"
  assumes "sorted_wrt (<) xs"
  shows "sorted_wrt (\<lambda>a b. f a < f b \<or> f a = f b \<and> a < b) (sort_key f xs)"
  using assms
proof (induction xs)
  case (Cons x xs)
  then show ?case by (simp add: sorted_insort_key_lex)
qed simp

lemma candidates_sorted: "sorted_wrt (<) (candidates now sid items)"
  unfolding candidates_def by (intro sorted_wrt_filter) simp

lemma set_candidates:
  "set (candidates now sid items) = {k. k < length items \<and> eligible now sid (items ! k)}"
  by (auto simp: candidates_def)

lemma chosen_subset: "set (chosen now s items) \<subseteq> set (candidates now (ss_id s) items)"
  by (auto simp: chosen_def Let_def dest: in_set_takeD)

lemma chosen_bound: "k \<in> set (chosen now s items) \<Longrightarrow> k < length items"
  using chosen_subset [of now s items] by (auto simp: set_candidates)

lemma chosen_eligible:
  "k \<in> set (chosen now s items) \<Longrightarrow> eligible now (ss_id s) (items ! k)"
  using chosen_subset [of now s items] by (auto simp: set_candidates)

lemma distinct_chosen: "distinct (chosen now s items)"
  by (simp add: chosen_def Let_def distinct_take candidates_def)

lemma length_chosen:
  "length (chosen now s items) = min (length (candidates now (ss_id s) items))
     (max_transfers s - active_count (ss_id s) items)"
  by (simp add: chosen_def Let_def)

lemma dispatch_session_eq:
  "dispatch_session now s (items, ts) =
     (activate_at (set (chosen now s items)) items,
      ts @ map (\<lambda>k. ti_id (items ! k)) (chosen now s items))"
proof (cases "max_transfers s - active_count (ss_id s) items = 0")
  case True
  then have "chosen now s items = []" by (simp add: chosen_def)
  with True show ?thesis by (simp add: dispatch_session_def)
next
  case False
  then show ?thesis
    using fold_mark_index [OF distinct_chosen, of now s items items ts] chosen_bound
    by (auto simp: dispatch_session_def)
qed

section \<open>What a whole pass does\<close>

lemma active_count_card:
  "active_count sid items =
     card {k. k < length items \<and> ti_session_id (items ! k) = Some sid \<and> ti_status (items ! k) = Active}"
  by (simp add: active_count_def length_filter_conv_card)

lemma sort_key_eq:
  assumes "\<forall>x \<in> set xs. f x = g x"
  shows "sort_key f xs = sort_key g xs"
proof -
  have insort: "\<forall>y \<in> insert x (set ys). f y = g y \<Longrightarrow> insort_key f x ys = insort_key g x ys" for x ys
    by (induction ys) auto
  show ?thesis using assms by (induction xs) (auto intro: insort)
qed

lemma chosen_other:
  assumes K: "\<forall>k \<in> K. ti_session_id (items ! k) \<noteq> Some (ss_id s)"
  shows "chosen now s (activate_at K items) = chosen now s items"
proof -
  have "candidates now (ss_id s) (activate_at K items) = candidates now (ss_id s) items"
    unfolding candidates_def length_activate_at
    by (rule filter_cong) (use K in \<open>auto simp: nth_activate_at eligible_def\<close>)
  moreover have "active_count (ss_id s) (activate_at K items) = active_count (ss_id s) items"
    unfolding active_count_card length_activate_at
    by (rule arg_cong [where f = card]) (use K in \<open>auto simp: nth_activate_at split: if_splits\<close>)
  moreover have "sort_key (\<lambda>k. Reverse (ti_priority (activate_at K items ! k))) (candidates now (ss_id s) items)
      = sort_key (\<lambda>k. Reverse (ti_priority (items ! k))) (candidates now (ss_id s) items)"
    by (rule sort_key_eq) (auto simp: set_candidates nth_activate_at)
  ultimately show ?thesis by (simp add: chosen_def)
qed

lemma activate_at_twice: "activate_at K (activate_at L items) = activate_at (L \<union> K) items"
  by (intro nth_equalityI) (auto simp: nth_activate_at activate_def)

lemma chosen_session:
  "k \<in> set (chosen now s items) \<Longrightarrow> ti_session_id (items ! k) = Some (ss_id s)"
  using chosen_eligible [of k now s items] by (simp add: eligible_def)

lemma mark_sessions:
  "distinct (map ss_id sessions) \<Longrightarrow>
   fold (dispatch_session now) sessions (items, ts) =
     (activate_at (\<Union>s \<in> set sessions. set (chosen now s items)) items,
      ts @ concat (map (\<lambda>s. map (\<lambda>k. ti_id (items ! k)) (chosen now s items)) sessions))"
proof (induction sessions arbitrary: items ts)
  case (Cons s ss)
  let ?items = "activate_at (set (chosen now s items)) items"
  have same: "chosen now s' ?items = chosen now s' items" if "s' \<in> set ss" for s'
    using that Cons.prems chosen_session [of _ now s items] by (intro chosen_other) force
  have ids: "map (\<lambda>k. ti_id (?items ! k)) (chosen now s' items)
      = map (\<lambda>k. ti_id (items ! k)) (chosen now s' items)" for s'
    by (auto simp: nth_activate_at dest: chosen_bound)
  have U: "(\<Union>s' \<in> set ss. set (chosen now s' ?items)) = (\<Union>s' \<in> set ss. set (chosen now s' items))"
    using same by auto
  have cc: "concat (map (\<lambda>s'. map (\<lambda>k. ti_id (?items ! k)) (chosen now s' ?items)) ss)
      = concat (map (\<lambda>s'. map (\<lambda>k. ti_id (items ! k)) (chosen now s' items)) ss)"
    by (rule arg_cong [where f = concat], rule map_cong) (simp_all add: same ids)
  from Cons.prems have d: "distinct (map ss_id ss)" by simp
  show ?case
    unfolding fold_Cons comp_apply dispatch_session_eq Cons.IH [OF d] U cc activate_at_twice
    by simp
qed simp

definition chosen_set :: "int \<Rightarrow> 'y session_scheme list \<Rightarrow> transfer_item list \<Rightarrow> nat set" where
  "chosen_set now sessions items = (\<Union>s \<in> set sessions. set (chosen now s items))"

lemma mark_items_eq:
  assumes "distinct (map ss_id sessions)"
  shows "mark_items now sessions q =
    (concat (map (\<lambda>s. map (\<lambda>k. ti_id (q_items q ! k)) (chosen now s (q_items q))) sessions),
     q\<lparr>q_items := activate_at (chosen_set now sessions (q_items q)) (q_items q)\<rparr>)"
  by (simp add: mark_items_def mark_sessions [OF assms] chosen_set_def)

lemma chosen_set_of_session:
  assumes "distinct (map ss_id sessions)" "s \<in> set sessions"
    and "ti_session_id (items ! k) = Some (ss_id s)"
  shows "k \<in> chosen_set now sessions items \<longleftrightarrow> k \<in> set (chosen now s items)"
proof
  assume "k \<in> chosen_set now sessions items"
  then obtain s' where s': "s' \<in> set sessions" "k \<in> set (chosen now s' items)"
    by (auto simp: chosen_set_def)
  then have "ss_id s' = ss_id s" using chosen_session [OF s'(2)] assms(3) by simp
  then have "s' = s" using assms(1,2) s'(1) by (auto simp: distinct_map dest: inj_onD)
  with s' show "k \<in> set (chosen now s items)" by simp
qed (use assms in \<open>auto simp: chosen_set_def\<close>)

lemma start_items_frame [simp]:
  "q_items (snd (start_items keys q)) = q_items q"
  by (induction keys arbitrary: q) (simp_all add: start_item_def split_beta)

lemma start_items_keys [simp]: "map fst (fst (start_items keys q)) = keys"
  by (induction keys arbitrary: q) (simp_all add: start_item_def split_beta)

lemma dispatch_items:
  assumes "distinct (map ss_id sessions)"
  shows "q_items (snd (dispatch now sessions q)) =
    activate_at (chosen_set now sessions (q_items q)) (q_items q)"
  by (simp add: dispatch_def mark_items_eq [OF assms])

lemma dispatch_active_count:
  assumes "distinct (map ss_id sessions)" "s \<in> set sessions"
  shows "active_count (ss_id s) (q_items (snd (dispatch now sessions q))) =
    active_count (ss_id s) (q_items q) + length (chosen now s (q_items q))"
proof -
  let ?items = "q_items q" and ?C = "set (chosen now s (q_items q))"
  let ?A = "{k. k < length ?items \<and> ti_session_id (?items ! k) = Some (ss_id s) \<and>
     ti_status (?items ! k) = Active}"
  let ?K = "chosen_set now sessions ?items"
  have *: "{k. k < length ?items \<and> ti_session_id (activate_at ?K ?items ! k) = Some (ss_id s) \<and>
       ti_status (activate_at ?K ?items ! k) = Active} = ?A \<union> ?C"
    using chosen_set_of_session [OF assms, of ?items _ now] chosen_bound [of _ now s ?items]
      chosen_session [of _ now s ?items]
    by (auto simp: activate_at_fields)
  moreover have "?A \<inter> ?C = {}"
    using chosen_eligible [of _ now s ?items] by (auto simp: eligible_def)
  moreover have "card ?C = length (chosen now s ?items)"
    by (simp add: distinct_card distinct_chosen)
  ultimately show ?thesis
    unfolding dispatch_items [OF assms(1)] active_count_card length_activate_at *
    by (simp add: card_Un_disjoint)
qed

section \<open>Properties\<close>

text \<open>A scheduler pass never takes a session above its limit of simultaneous transfers: the
  transfers active for a session afterwards are at most \<open>max_transfers\<close>, or, where more were
  already active, as many as before.\<close>

theorem dispatch_session_limit:
  assumes "distinct (map ss_id sessions)" "s \<in> set sessions"
  shows "active_count (ss_id s) (q_items (snd (dispatch now sessions q)))
    \<le> max (max_transfers s) (active_count (ss_id s) (q_items q))"
  unfolding dispatch_active_count [OF assms] length_chosen by auto

text \<open>C2: The scheduler leaves an item that is due waiting only when its session has no free slot,
  and then every item it started for that session has a higher priority, or the same priority
  and an earlier place in the queue.\<close>

theorem dispatch_priority_fifo:
  assumes "distinct (map ss_id sessions)" "s \<in> set sessions"
    and "j < length (q_items q)" "eligible now (ss_id s) (q_items q ! j)"
    and "ti_status (q_items (snd (dispatch now sessions q)) ! j) \<noteq> Active"
  shows "max_transfers s \<le> active_count (ss_id s) (q_items (snd (dispatch now sessions q))) \<and>
    list_all (\<lambda>k. ti_session_id (q_items q ! k) \<noteq> Some (ss_id s) \<or>
        ti_status (q_items q ! k) = Active \<or>
        ti_status (q_items (snd (dispatch now sessions q)) ! k) \<noteq> Active \<or>
        ti_priority (q_items q ! j) < ti_priority (q_items q ! k) \<or>
        ti_priority (q_items q ! j) = ti_priority (q_items q ! k) \<and> k < j)
      [0..<length (q_items q)]"
proof -
  let ?items = "q_items q"
  let ?cs = "candidates now (ss_id s) ?items"
  let ?f = "\<lambda>k. Reverse (ti_priority (?items ! k))"
  define free where "free = max_transfers s - active_count (ss_id s) ?items"
  have ch: "chosen now s ?items = take free (sort_key ?f ?cs)"
    by (simp add: chosen_def free_def)
  have j: "j \<in> set ?cs" "j \<notin> set (chosen now s ?items)"
    using assms(3,4,5) chosen_set_of_session [OF assms(1,2), of ?items j now]
    by (auto simp: set_candidates dispatch_items [OF assms(1)] nth_activate_at eligible_def)
  then have drop: "j \<in> set (drop free (sort_key ?f ?cs))"
    using take_drop_split(1) [of "sort_key ?f ?cs" free] by (auto simp: ch)
  then have len: "free \<le> length ?cs"
    by (metis drop_all length_sort list.set(1) empty_iff nat_le_linear)
  have order: "?f k < ?f j \<or> ?f k = ?f j \<and> k < j" if "k \<in> set (chosen now s ?items)" for k
    using sorted_sort_key_lex [OF candidates_sorted, of ?f now "ss_id s" ?items] that drop
    unfolding ch by (subst (asm) append_take_drop_id [of free, symmetric])
      (auto simp only: sorted_wrt_append)
  have "max_transfers s \<le> active_count (ss_id s) (q_items (snd (dispatch now sessions q)))"
    unfolding dispatch_active_count [OF assms(1,2)] ch using len by (simp add: free_def)
  moreover have "ti_priority (?items ! j) < ti_priority (?items ! k) \<or>
      ti_priority (?items ! j) = ti_priority (?items ! k) \<and> k < j"
    if "k < length ?items" "ti_session_id (?items ! k) = Some (ss_id s)"
      "ti_status (?items ! k) \<noteq> Active" "ti_status (q_items (snd (dispatch now sessions q)) ! k) = Active"
    for k
    using order [of k] chosen_set_of_session [OF assms(1,2) that(2), of now] that
    by (auto simp: dispatch_items [OF assms(1)] nth_activate_at split: if_splits)
  ultimately show ?thesis
    unfolding list_all_iff by (metis atLeastLessThan_iff set_upt)
qed

text \<open>A session with two slots, and a queue with three items of different priorities.\<close>

definition sample_session :: session where
  "sample_session = \<lparr>ss_id = ''s'', ss_site = default_site ''site''\<rparr>"

definition sample_request :: "int \<Rightarrow> queue_request" where
  "sample_request p =
     \<lparr>qr_session_id = ''s'', qr_direction = Download, qr_local_path = ''/tmp/a'',
      qr_remote_path = ''/a'', qr_is_dir = False, qr_size = Some 10, qr_mtime = None,
      qr_priority = p, qr_follow_symlink = default_true, qr_conflict_policy = None,
      qr_start_paused = False, qr_link_target = None, qr_batch = None,
      qr_target_session_id = None, qr_target_path = None\<rparr>"

definition sample_queue :: queue_state where
  "sample_queue =
     (let item = (\<lambda>key p. build_item key 0 sample_session (sample_request p))
      in (new_queue None default_settings)
           \<lparr>q_items := [item ''a'' 0, item ''b'' 0, item ''c'' 5]\<rparr>)"

lemma sample_sessions: "distinct (map ss_id [sample_session])" "sample_session \<in> set [sample_session]"
  by simp_all

lemma sample_dispatch:
  "map ti_status (q_items (snd (dispatch 0 [sample_session] sample_queue))) = [Active, Queued, Active]"
  by code_simp

lemma sample_queue_simps:
  "length (q_items sample_queue) = 3" "eligible 0 ''s'' (q_items sample_queue ! 1)"
  by code_simp+

theorem dispatch_session_limit_witness:
  "active_count ''s'' (q_items (snd (dispatch 0 [sample_session] sample_queue)))
    \<le> max (max_transfers sample_session) (active_count ''s'' (q_items sample_queue))"
  using dispatch_session_limit [OF sample_sessions, of 0 sample_queue]
  by (simp add: sample_session_def)

theorem dispatch_priority_fifo_witness:
  "max_transfers sample_session
    \<le> active_count ''s'' (q_items (snd (dispatch 0 [sample_session] sample_queue)))"
proof -
  have st: "ti_status (q_items (snd (dispatch 0 [sample_session] sample_queue)) ! 1) \<noteq> Active"
    using arg_cong [OF sample_dispatch, of "\<lambda>xs. xs ! 1"] by code_simp
  have e: "eligible 0 (ss_id sample_session) (q_items sample_queue ! 1)"
    using sample_queue_simps(2) by (simp add: sample_session_def)
  have l: "1 < length (q_items sample_queue)" using sample_queue_simps(1) by simp
  show ?thesis
    using dispatch_priority_fifo [OF sample_sessions l e st] by (simp add: sample_session_def)
qed

end
