(* ===== verification/Queue_Frames.thy ===== *)
theory Queue_Frames
  imports Queue_Dispatch
begin

text \<open>
  What the queue's operations leave unchanged.  The workers rely on three tables: the activity of
  the listed items, the controls, and the cells the controls point to.  Operations fall into
  three groups: those that change none of these but may drop items (\<open>quiet\<close>), those a
  worker ends with, which settle its own item (\<open>settles\<close>), and those that add fresh waiting
  items (\<open>grows\<close>).
\<close>

definition activity :: "'z queue_state_scheme \<Rightarrow> (string \<times> bool) list" where
  "activity q = map (\<lambda>i. (ti_id i, ti_status i = Active)) (q_items q)"

lemma map_fst_activity [simp]: "map fst (activity q) = item_ids q"
  by (simp add: activity_def item_ids_def comp_def)

lemma item_ids_activity: "set (item_ids q) = fst ` set (activity q)"
  by (metis map_fst_activity list.set_map)

text \<open>No control cell disappears, and none that was cancelled is un-cancelled.\<close>

definition cells_le :: "'z queue_state_scheme \<Rightarrow> 'z queue_state_scheme \<Rightarrow> bool" where
  "cells_le q q' \<longleftrightarrow> length (q_cells q) = length (q_cells q') \<and>
     (\<forall>h < length (q_cells q). cc_cancelled (q_cells q ! h) \<longrightarrow> cc_cancelled (q_cells q' ! h))"

lemma cells_le_same [simp]: "q_cells q' = q_cells q \<Longrightarrow> cells_le q q'"
  by (simp add: cells_le_def)

lemma cells_le_trans: "cells_le p q \<Longrightarrow> cells_le q r \<Longrightarrow> cells_le p r"
  by (simp add: cells_le_def)

lemma cells_le_length: "cells_le q q' \<Longrightarrow> length (q_cells q') = length (q_cells q)"
  by (simp add: cells_le_def)

definition quiet :: "'z queue_state_scheme \<Rightarrow> 'z queue_state_scheme \<Rightarrow> bool" where
  "quiet q q' \<longleftrightarrow> (distinct (item_ids q) \<longrightarrow> distinct (item_ids q')) \<and>
     set (activity q') \<subseteq> set (activity q) \<and>
     q_controls q' = q_controls q \<and> cells_le q q'"

definition settles :: "string \<Rightarrow> 'z queue_state_scheme \<Rightarrow> 'z queue_state_scheme \<Rightarrow> bool" where
  "settles key q q' \<longleftrightarrow> (distinct (item_ids q) \<longrightarrow> distinct (item_ids q') \<and>
       set (activity q') \<subseteq> insert (key, False) (set (activity q) - {(key, True)})) \<and>
     set (item_ids q') \<subseteq> set (item_ids q) \<and>
     (q_controls q' = AList.delete key (q_controls q) \<or>
      key \<notin> set (item_ids q') \<and> q_controls q' = q_controls q) \<and>
     cells_le q q'"

definition grows :: "string list \<Rightarrow> 'z queue_state_scheme \<Rightarrow> 'z queue_state_scheme \<Rightarrow> bool" where
  "grows new q q' \<longleftrightarrow>
     (distinct (item_ids q @ new) \<longrightarrow> distinct (item_ids q')) \<and>
     set (activity q') \<subseteq> set (activity q) \<union> (\<lambda>k. (k, False)) ` set new \<and>
     q_controls q' = q_controls q \<and> cells_le q q'"

lemma quiet_refl [simp]: "quiet q q"
  by (simp add: quiet_def)

lemma quiet_trans: "quiet p q \<Longrightarrow> quiet q r \<Longrightarrow> quiet p r"
  by (auto simp: quiet_def intro: cells_le_trans)

lemma quiet_fold: "(\<And>x q. quiet q (f x q)) \<Longrightarrow> quiet q (fold f xs q)"
  by (induction xs arbitrary: q) (auto intro: quiet_trans)

lemma quiet_ids: "quiet q q' \<Longrightarrow> set (item_ids q') \<subseteq> set (item_ids q)"
  by (auto simp: quiet_def item_ids_activity)

section \<open>Quiet operations\<close>

text \<open>An operation that changes the item list and nothing else of the three tables.\<close>

lemma quiet_items:
  assumes "q_controls q' = q_controls q" "cells_le q q'"
    and "activity q' = activity q"
  shows "quiet q q'"
proof -
  have "item_ids q' = item_ids q" using assms(3) by (metis map_fst_activity)
  with assms show ?thesis by (simp add: quiet_def)
qed

lemma quiet_filter:
  assumes "q_controls q' = q_controls q" "cells_le q q'"
    and "q_items q' = filter P (q_items q)"
  shows "quiet q q'"
  using assms by (auto simp: quiet_def item_ids_def activity_def distinct_map inj_on_def)

lemma changed_sel [simp]:
  "q_items (changed q) = q_items q" "q_history (changed q) = q_history q"
  "q_controls (changed q) = q_controls q" "q_cells (changed q) = q_cells q"
  "q_conflicts (changed q) = q_conflicts q" "q_channels (changed q) = q_channels q"
  "q_apply_all (changed q) = q_apply_all q" "q_settings (changed q) = q_settings q"
  by (simp_all add: changed_def)

lemma update_item_items:
  "q_items (snd (update_item key f q)) = update_first (\<lambda>i. ti_id i = key) f (q_items q)"
proof (cases "position (\<lambda>i. ti_id i = key) (q_items q)")
  case None
  moreover from None have "\<forall>i \<in> set (q_items q). ti_id i \<noteq> key" by (simp add: position_None_iff)
  ultimately show ?thesis by (simp add: update_item_def update_first_none)
qed (simp add: update_item_def)

lemma update_item_sel [simp]:
  "q_history (snd (update_item key f q)) = q_history q"
  "q_controls (snd (update_item key f q)) = q_controls q"
  "q_cells (snd (update_item key f q)) = q_cells q"
  "q_conflicts (snd (update_item key f q)) = q_conflicts q"
  "q_channels (snd (update_item key f q)) = q_channels q"
  "q_apply_all (snd (update_item key f q)) = q_apply_all q"
  "q_settings (snd (update_item key f q)) = q_settings q"
  by (simp_all add: update_item_def split: option.splits)

lemma activity_update_item:
  assumes "\<And>i. ti_id (f i) = ti_id i" "\<And>i. (ti_status (f i) = Active) = (ti_status i = Active)"
  shows "activity (snd (update_item key f q)) = activity q"
  unfolding activity_def update_item_items by (rule map_update_first) (simp add: assms)

lemma activity_changed [simp]: "activity (changed q) = activity q"
  by (simp add: activity_def)

lemma quiet_update_item [intro]:
  assumes "\<And>i. ti_id (f i) = ti_id i" "\<And>i. (ti_status (f i) = Active) = (ti_status i = Active)"
  shows "quiet q (snd (update_item key f q))"
  by (rule quiet_items) (simp_all add: activity_update_item assms)

lemma cells_le_changed [simp]: "cells_le q (changed q') = cells_le q q'"
  by (simp add: cells_le_def)

lemma quiet_changed [simp]: "quiet q (changed q') = quiet q q'"
  by (simp add: quiet_def activity_def item_ids_def)

lemma cancel_cell_sel [simp]:
  "q_items (cancel_cell p h q) = q_items q" "q_controls (cancel_cell p h q) = q_controls q"
  "cells_le q (cancel_cell p h q)"
  "q_conflicts (cancel_cell p h q) = q_conflicts q" "q_channels (cancel_cell p h q) = q_channels q"
  by (auto simp: cancel_cell_def cells_le_def)
    (metis control_cell.select_convs(1) nth_list_update_eq nth_list_update_neq)

lemma quiet_cancel_cell [simp]: "quiet q (cancel_cell p h q)"
  by (rule quiet_items) (simp_all add: activity_def)

lemma quiet_emit [simp]: "quiet q (emit e q)"
  by (rule quiet_items) (simp_all add: activity_def emit_def)

lemma quiet_drop_conflict [simp]: "quiet q (drop_conflict key q)"
  by (rule quiet_items) (simp_all add: activity_def drop_conflict_def split: option.splits)

lemma quiet_record_progress [simp]: "quiet q (record_progress key t s sz q)"
proof -
  let ?f = "\<lambda>i. let i = i\<lparr>ti_transferred := t, ti_speed_bps := s\<rparr>
      in if sz \<noteq> None then i\<lparr>ti_size := sz\<rparr> else i"
  have "quiet q (snd (update_item key ?f q))" by (rule quiet_update_item) (simp_all add: Let_def)
  then show ?thesis
    unfolding record_progress_def by (auto split: prod.split intro: quiet_trans)
qed

lemma quiet_pause [simp]: "quiet q (pause key q)"
proof (cases "control_of key q")
  case None
  have "quiet q (snd (update_item key (\<lambda>i. if ti_status i = Queued then i\<lparr>ti_status := Paused\<rparr> else i) q))"
    by (rule quiet_update_item) simp_all
  with None show ?thesis by (simp add: pause_def)
qed (simp add: pause_def)

lemma quiet_resume [simp]: "quiet q (resume key q)"
proof -
  have "quiet q (snd (update_item key
      (\<lambda>i. if ti_status i = Paused \<or> ti_status i = Failed then requeue i else i) q))"
    by (rule quiet_update_item) (auto simp: requeue_def)
  then show ?thesis by (simp add: resume_def)
qed

lemma quiet_remove_item [simp]: "quiet q (remove_item key q)"
proof -
  define q1 where "q1 = (case control_of key q of Some h \<Rightarrow> cancel_cell False h q | None \<Rightarrow> q)"
  have "quiet q q1" by (simp add: q1_def split: option.split)
  moreover have "quiet q1 (q1\<lparr>q_items := filter (\<lambda>i. ti_id i \<noteq> key) (q_items q1)\<rparr>)"
    by (rule quiet_filter) simp_all
  ultimately show ?thesis
    by (auto simp: remove_item_def Let_def q1_def [symmetric] intro: quiet_trans)
qed

lemma quiet_remove_batch [simp]: "quiet q (remove_batch b q)"
  by (simp add: remove_batch_def quiet_fold)

lemma quiet_set_priority [simp]: "quiet q (set_priority key p q)"
  by (simp add: set_priority_def quiet_update_item)

lemma quiet_pause_all [simp]: "quiet q (pause_all q)"
  by (simp add: pause_all_def quiet_fold)

lemma quiet_resume_all [simp]: "quiet q (resume_all q)"
  by (simp add: resume_all_def quiet_fold)

lemma quiet_retry_failed [simp]: "quiet q (retry_failed q)"
  by (auto simp: retry_failed_def activity_def requeue_def intro!: quiet_items)

lemma quiet_remove_failed [simp]: "quiet q (remove_failed q)"
  by (auto simp: remove_failed_def intro: quiet_filter)

lemma quiet_clear [simp]: "quiet q (clear q)"
proof -
  have "quiet q (fold (cancel_cell False) (map snd (q_controls q)) q)" by (simp add: quiet_fold)
  then show ?thesis
    by (simp add: clear_def Let_def quiet_def activity_def item_ids_def cells_le_def)
qed

lemma quiet_clear_history [simp]: "quiet q (clear_history q)"
  by (simp add: clear_history_def quiet_def activity_def item_ids_def)

lemma quiet_bind_session [simp]: "quiet q (bind_session site sess q)"
  by (auto simp: bind_session_def activity_def intro!: quiet_items)

lemma quiet_unbind_session [simp]: "quiet q (unbind_session sess q)"
proof -
  define q1 where "q1 = fold pause (map ti_id (filter (\<lambda>i. ti_session_id i = Some sess) (q_items q))) q"
  have "quiet q q1" by (simp add: q1_def quiet_fold)
  then show ?thesis
    unfolding unbind_session_def Let_def q1_def [symmetric] quiet_changed
    by (rule quiet_trans) (rule quiet_items, simp_all add: activity_def)
qed

lemma quiet_move_item [simp]: "quiet q (move_item key n q)"
proof (cases "position (\<lambda>i. ti_id i = key) (q_items q)")
  case (Some c)
  then have c: "c < length (q_items q)" by (auto dest: position_SomeD)
  let ?rest = "remove_at c (q_items q)"
  let ?q' = "q\<lparr>q_items := insert_at (min n (length ?rest)) (q_items q ! c) ?rest\<rparr>"
  have d: "distinct (item_ids ?q')" if "distinct (item_ids q)"
    using distinct_remove_at [of "map ti_id (q_items q)" c] that c
    by (simp add: item_ids_def map_insert_at map_remove_at distinct_insert_at)
  moreover have "set (q_items ?q') \<subseteq> set (q_items q)"
    using c set_remove_at_subset [of c "q_items q"] by auto
  ultimately have "quiet q ?q'" by (auto simp: quiet_def activity_def)
  with Some show ?thesis by (simp add: move_item_def Let_def)
qed (simp add: move_item_def)

lemma quiet_answer_conflict [simp]: "quiet q (snd (answer_conflict key a q))"
  by (rule quiet_items) (simp_all add: activity_def answer_conflict_def Let_def split: option.split)

lemma quiet_open_prompt [simp]: "quiet q (snd (open_prompt p q))"
proof -
  have "quiet (drop_conflict k q) (drop_conflict k q\<lparr>q_conflicts := cs, q_channels := chs\<rparr>)" for k cs chs
    by (rule quiet_items) (simp_all add: activity_def)
  then show ?thesis
    unfolding open_prompt_def Let_def snd_conv
    by (meson quiet_trans quiet_drop_conflict quiet_emit)
qed

lemma quiet_close_prompt [simp]: "quiet q (snd (close_prompt sess c q))"
  by (rule quiet_items) (simp_all add: activity_def close_prompt_def Let_def split: channel.split)

lemma quiet_persist [simp]: "quiet q (persist ok q)"
  by (rule quiet_items) (simp_all add: activity_def persist_def Let_def)

lemma quiet_clear_apply_all [simp]: "quiet q (clear_apply_all_when_idle q)"
  by (rule quiet_items) (simp_all add: activity_def clear_apply_all_when_idle_def)

end
