(* ===== verification/Queue_System.thy ===== *)
theory Queue_System
  imports Queue_Frames
begin

text \<open>
  The queue with everything that acts on it: the scheduler task, the workers it spawned, and the
  commands of the user.  A step is one critical section: the scheduler marks items and starts
  them in separate steps, a worker reads, reports and ends in separate steps, so every
  interleaving the locks allow is a path of \<open>sys_step\<close>.  The invariant says that an item is active
  exactly when it is being started or a worker runs it, and that its control is that worker's.
\<close>

section \<open>Workers as the queue sees them\<close>

datatype outcome = ODone | OSkipped | OPaused | OCancelled

definition interrupted :: "control_cell \<Rightarrow> outcome option" where
  "interrupted c = (if \<not> cc_cancelled c then None
     else Some (if cc_pausing c then OPaused else OCancelled))"

text \<open>How a worker run ends: the \<open>match\<close> at the end of \<open>run\<close>, with \<open>handle_failure\<close>'s two cases.\<close>

datatype worker_end =
    EndOutcome outcome
  | EndFailed string u32
  | EndRetry string u32 int

fun run_end :: "int \<Rightarrow> string \<Rightarrow> worker_end \<Rightarrow> 'z queue_state_scheme \<Rightarrow> 'z queue_state_scheme" where
  "run_end now key (EndOutcome ODone) q = complete now key Done None q"
| "run_end now key (EndOutcome OSkipped) q = complete now key Skipped None q"
| "run_end now key (EndOutcome OPaused) q = set_paused key q"
| "run_end now key (EndOutcome OCancelled) q = remove_item key q"
| "run_end now key (EndFailed err attempts) q =
     complete now key Failed (Some err) (snd (update_item key (\<lambda>i. i\<lparr>ti_attempts := attempts\<rparr>) q))"
| "run_end now key (EndRetry err attempts delay) q =
     schedule_retry now key err delay (snd (update_item key (\<lambda>i. i\<lparr>ti_attempts := attempts\<rparr>) q))"

datatype user_op =
    UPause string | UResume string | URemove string | URemoveBatch string | UMove string nat
  | USetPriority string int | UPauseAll | UResumeAll | URetryFailed | URemoveFailed | UClear
  | UClearHistory | UBind string string | UUnbind string | UAnswer string conflict_answer

fun run_user :: "user_op \<Rightarrow> 'z queue_state_scheme \<Rightarrow> 'z queue_state_scheme" where
  "run_user (UPause key) q = pause key q"
| "run_user (UResume key) q = resume key q"
| "run_user (URemove key) q = remove_item key q"
| "run_user (URemoveBatch b) q = remove_batch b q"
| "run_user (UMove key n) q = move_item key n q"
| "run_user (USetPriority key p) q = set_priority key p q"
| "run_user UPauseAll q = pause_all q"
| "run_user UResumeAll q = resume_all q"
| "run_user URetryFailed q = retry_failed q"
| "run_user URemoveFailed q = remove_failed q"
| "run_user UClear q = clear q"
| "run_user UClearHistory q = clear_history q"
| "run_user (UBind site sess) q = bind_session site sess q"
| "run_user (UUnbind sess) q = unbind_session sess q"
| "run_user (UAnswer key a) q = snd (answer_conflict key a q)"

datatype worker_op =
    WProgress u64 u64 "u64 option"
  | WPlan u64 string string
  | WPlanCopy u64 string
  | WOpenPrompt conflict_prompt
  | WClosePrompt string nat

fun run_worker :: "string \<Rightarrow> worker_op \<Rightarrow> 'z queue_state_scheme \<Rightarrow> 'z queue_state_scheme" where
  "run_worker key (WProgress t s sz) q = record_progress key t s sz q"
| "run_worker key (WPlan sz local remote) q = snd (update_item key (\<lambda>i.
     i\<lparr>ti_size := Some sz, ti_local_path := local, ti_remote_path := remote\<rparr>) q)"
| "run_worker key (WPlanCopy sz target) q = snd (update_item key (\<lambda>i.
     i\<lparr>ti_size := Some sz, ti_target_path := Some target\<rparr>) q)"
| "run_worker key (WOpenPrompt p) q = snd (open_prompt p q)"
| "run_worker key (WClosePrompt sess c) q = snd (close_prompt sess c q)"

section \<open>The step relation\<close>

record sys =
  sy_queue :: queue_state
  sy_starting :: "string list"
  sy_running :: "(string \<times> nat) list"

definition fresh_ids :: "string list \<Rightarrow> sys \<Rightarrow> bool" where
  "fresh_ids new s \<longleftrightarrow> distinct new \<and>
     set new \<inter> (set (item_ids (sy_queue s)) \<union> set (sy_starting s) \<union> fst ` set (sy_running s)
       \<union> fst ` set (q_controls (sy_queue s))) = {}"

definition end_allowed :: "control_cell \<Rightarrow> worker_end \<Rightarrow> bool" where
  "end_allowed c e \<longleftrightarrow> (case e of
      EndOutcome OPaused \<Rightarrow> interrupted c = Some OPaused
    | EndOutcome OCancelled \<Rightarrow> interrupted c = Some OCancelled
    | _ \<Rightarrow> True)"

inductive sys_step :: "sys \<Rightarrow> sys \<Rightarrow> bool" where
  add_step: "add (sessions :: string \<Rightarrow> session vresult) uuid clock rs (sy_queue s) = (Inr new, q') \<Longrightarrow> fresh_ids new s \<Longrightarrow>
     sys_step s (s\<lparr>sy_queue := q'\<rparr>)"
| user_step: "sys_step s (s\<lparr>sy_queue := run_user u (sy_queue s)\<rparr>)"
| mark_step: "sy_starting s = [] \<Longrightarrow> distinct (map ss_id (sessions :: session list)) \<Longrightarrow>
     mark_items now sessions (sy_queue s) = (ts, q') \<Longrightarrow>
     sys_step s (s\<lparr>sy_queue := q', sy_starting := ts\<rparr>)"
| start_step: "sy_starting s = key # keys \<Longrightarrow> start_item key (sy_queue s) = (h, q') \<Longrightarrow>
     sys_step s (s\<lparr>sy_queue := q', sy_starting := keys, sy_running := sy_running s @ [(key, h)]\<rparr>)"
| persist_step: "sys_step s (s\<lparr>sy_queue := persist ok (sy_queue s)\<rparr>)"
| idle_step: "sys_step s (s\<lparr>sy_queue := clear_apply_all_when_idle (sy_queue s)\<rparr>)"
| emit_step: "sys_step s (s\<lparr>sy_queue := emit e (sy_queue s)\<rparr>)"
| work_step: "(key, h) \<in> set (sy_running s) \<Longrightarrow>
     sys_step s (s\<lparr>sy_queue := run_worker key w (sy_queue s)\<rparr>)"
| children_step: "(key, h) \<in> set (sy_running s) \<Longrightarrow> fresh_ids (map ti_id children) s \<Longrightarrow>
     list_all (\<lambda>i. ti_status i = Queued) children \<Longrightarrow>
     sys_step s (s\<lparr>sy_queue := insert_children key children (sy_queue s)\<rparr>)"
| end_step: "(key, h) \<in> set (sy_running s) \<Longrightarrow> end_allowed (q_cells (sy_queue s) ! h) e \<Longrightarrow>
     sys_step s (s\<lparr>sy_queue := run_end now key e (sy_queue s),
       sy_running := remove1 (key, h) (sy_running s)\<rparr>)"
| gone_step: "(key, h) \<in> set (sy_running s) \<Longrightarrow> get_item key (sy_queue s) = None \<Longrightarrow>
     sys_step s (s\<lparr>sy_running := remove1 (key, h) (sy_running s)\<rparr>)"

inductive_cases sys_stepE: "sys_step s s'"

inductive reachable :: "sys \<Rightarrow> bool" where
  start: "distinct (map ti_id (qs_items stored)) \<Longrightarrow>
     reachable \<lparr>sy_queue = new_queue (Some stored) settings, sy_starting = [], sy_running = []\<rparr>"
| step: "reachable s \<Longrightarrow> sys_step s s' \<Longrightarrow> reachable s'"

section \<open>The invariant\<close>

definition owners :: "sys \<Rightarrow> string list" where
  "owners s = sy_starting s @ map fst (sy_running s)"

definition sys_ok :: "sys \<Rightarrow> bool" where
  "sys_ok s \<longleftrightarrow>
     distinct (item_ids (sy_queue s)) \<and>
     distinct (owners s) \<and> distinct (map snd (sy_running s)) \<and>
     (\<forall>(k, a) \<in> set (activity (sy_queue s)). a \<longleftrightarrow> k \<in> set (owners s)) \<and>
     (\<forall>(k, h) \<in> set (sy_running s).
        control_of k (sy_queue s) = Some h \<and> h < length (q_cells (sy_queue s))) \<and>
     (\<forall>k \<in> set (item_ids (sy_queue s)). control_of k (sy_queue s) \<noteq> None \<longrightarrow> k \<in> fst ` set (sy_running s))"

lemma sys_okD:
  assumes "sys_ok s"
  shows "distinct (item_ids (sy_queue s))" "distinct (owners s)" "distinct (map snd (sy_running s))"
    "(k, a) \<in> set (activity (sy_queue s)) \<Longrightarrow> a \<longleftrightarrow> k \<in> set (owners s)"
    "(k, h) \<in> set (sy_running s) \<Longrightarrow> control_of k (sy_queue s) = Some h"
    "(k, h) \<in> set (sy_running s) \<Longrightarrow> h < length (q_cells (sy_queue s))"
    "k \<in> set (item_ids (sy_queue s)) \<Longrightarrow> control_of k (sy_queue s) = Some h' \<Longrightarrow>
       k \<in> fst ` set (sy_running s)"
  using assms by (auto simp: sys_ok_def)

lemma sys_ok_quiet:
  assumes ok: "sys_ok s" and q: "quiet (sy_queue s) q'"
  shows "sys_ok (s\<lparr>sy_queue := q'\<rparr>)"
proof -
  have ctl: "control_of k q' = control_of k (sy_queue s)" for k
    using q by (simp add: quiet_def control_of_def)
  have len: "length (q_cells q') = length (q_cells (sy_queue s))"
    using q by (simp add: quiet_def cells_le_length)
  have act: "set (activity q') \<subseteq> set (activity (sy_queue s))" "distinct (item_ids q')"
    using q sys_okD(1) [OF ok] by (simp_all add: quiet_def)
  from ok act quiet_ids [OF q] show ?thesis
    unfolding sys_ok_def owners_def by (simp add: ctl len) blast
qed

section \<open>Worker endings settle their item\<close>

lemma settles_quiet:
  assumes "quiet q q1" "settles key q1 q'"
  shows "settles key q q'"
proof -
  have "set (item_ids q') \<subseteq> set (item_ids q)"
    using assms quiet_ids [OF assms(1)] unfolding settles_def by blast
  then show ?thesis using assms unfolding settles_def quiet_def
    by (auto intro: cells_le_trans)
qed

lemma drop_control_sel [simp]:
  "q_items (drop_control key q) = q_items q" "q_cells (drop_control key q) = q_cells q"
  "q_controls (drop_control key q) = AList.delete key (q_controls q)"
  by (simp_all add: drop_control_def)

lemma settles_changed [simp]: "settles key q (changed q') = settles key q q'"
  by (simp add: settles_def activity_def item_ids_def)

lemma settles_update_item:
  assumes "\<And>i. ti_id (f i) = ti_id i" "\<And>i. ti_status (f i) \<noteq> Active"
  shows "settles key q (drop_control key (snd (update_item key f q)))"
proof -
  let ?q' = "drop_control key (snd (update_item key f q))"
  have ids: "item_ids ?q' = item_ids q"
    unfolding item_ids_def by (simp add: update_item_items map_update_first assms)
  have "set (activity ?q') \<subseteq> insert (key, False) (set (activity q) - {(key, True)})"
    if "distinct (item_ids q)"
    using that assms
    by (auto simp: activity_def item_ids_def update_item_items update_first_distinct split: if_splits)
  then show ?thesis by (simp add: settles_def ids)
qed

lemma complete_cases:
  obtains (absent) "key \<notin> set (item_ids q)" "complete now key st err q = q"
  | (moved) i where "i < length (q_items q)" "ti_id (q_items q ! i) = key" "st = Done \<or> st = Skipped"
      "complete now key st err q = changed (drop_control key (q\<lparr>q_items := remove_at i (q_items q),
         q_history := take (max (st_max_successful_history (q_settings q)) 10)
            (finish_item now st err (q_items q ! i) # q_history q)\<rparr>))"
  | (kept) i where "i < length (q_items q)" "ti_id (q_items q ! i) = key" "st \<noteq> Done" "st \<noteq> Skipped"
      "complete now key st err q = changed (drop_control key (q\<lparr>q_items :=
         (q_items q)[i := finish_item now st err (q_items q ! i)]\<rparr>))"
proof (cases "position (\<lambda>i. ti_id i = key) (q_items q)")
  case None
  then have "key \<notin> set (item_ids q)" by (auto simp: position_None_iff item_ids_def)
  with None that(1) show ?thesis by (simp add: complete_def)
next
  case (Some i)
  then have "i < length (q_items q)" "ti_id (q_items q ! i) = key" by (auto dest: position_SomeD)
  with Some that(2,3) show ?thesis by (cases "st = Done \<or> st = Skipped") (auto simp: complete_def Let_def)
qed

lemma finish_item_simps [simp]:
  "ti_id (finish_item now st err i) = ti_id i" "ti_status (finish_item now st err i) = st"
  by (simp_all add: finish_item_def)

lemma settles_gone:
  assumes "set (activity q') \<subseteq> set (activity q)" "cells_le q q'"
    and "distinct (item_ids q) \<Longrightarrow> distinct (item_ids q') \<and> key \<notin> set (item_ids q')"
    and "q_controls q' = AList.delete key (q_controls q) \<or>
      key \<notin> set (item_ids q') \<and> q_controls q' = q_controls q"
  shows "settles key q q'"
proof -
  have "(key, True) \<notin> set (activity q')" if "key \<notin> set (item_ids q')"
    using that by (force simp: item_ids_activity)
  with assms show ?thesis by (auto simp: settles_def item_ids_activity)
qed

lemma settles_complete:
  assumes "st \<noteq> Active"
  shows "settles key q (complete now key st err q)"
proof (cases rule: complete_cases [of key q now st err])
  case absent
  then show ?thesis by (auto intro: settles_gone)
next
  case (moved i)
  let ?q' = "drop_control key (q\<lparr>q_items := remove_at i (q_items q), q_history :=
    take (max (st_max_successful_history (q_settings q)) 10)
      (finish_item now st err (q_items q ! i) # q_history q)\<rparr>)"
  have ids: "item_ids ?q' = remove_at i (item_ids q)" by (simp add: item_ids_def map_remove_at)
  have sub: "set (activity ?q') \<subseteq> set (activity q)"
    using set_remove_at_subset [of i "q_items q"] by (auto simp: activity_def)
  have gone: "key \<notin> set (item_ids ?q')" if "distinct (item_ids q)"
    unfolding ids using distinct_remove_at [OF that] moved by (simp add: item_ids_def)
  have "distinct (item_ids ?q')" if "distinct (item_ids q)"
    unfolding ids using distinct_remove_at [OF that] moved by (simp add: item_ids_def)
  with sub gone show ?thesis
    unfolding moved(4) settles_changed by (intro settles_gone) simp_all
next
  case (kept i)
  let ?q' = "drop_control key (q\<lparr>q_items := (q_items q)[i := finish_item now st err (q_items q ! i)]\<rparr>)"
  have ids: "item_ids ?q' = item_ids q"
    using kept by (simp add: item_ids_def map_update list_update_same_conv)
  have "set (activity ?q') \<subseteq> insert (key, False) (set (activity q) - {(key, True)})"
    if d: "distinct (item_ids q)"
  proof
    fix x assume "x \<in> set (activity ?q')"
    then obtain j where j: "j < length (q_items q)"
      "x = (ti_id (q_items ?q' ! j), ti_status (q_items ?q' ! j) = Active)"
      by (auto simp: activity_def in_set_conv_nth)
    show "x \<in> insert (key, False) (set (activity q) - {(key, True)})"
    proof (cases "j = i")
      case True
      with j kept assms show ?thesis by simp
    next
      case False
      then have "ti_id (q_items q ! j) \<noteq> key"
        using d j(1) kept(1,2) by (auto simp: item_ids_def distinct_conv_nth)
      with False j show ?thesis by (auto simp: activity_def)
    qed
  qed
  then show ?thesis unfolding kept(5) settles_changed unfolding settles_def by (simp add: ids)
qed

lemma settles_remove_item: "settles key q (remove_item key q)"
proof -
  have "key \<notin> set (item_ids (remove_item key q))"
    by (auto simp: remove_item_def Let_def item_ids_def drop_conflict_def split: option.splits)
  then show ?thesis
    using quiet_remove_item [of q key] by (intro settles_gone) (simp_all add: quiet_def)
qed

lemma settles_run_end: "settles key q (run_end now key e q)"
proof (cases e)
  case (EndOutcome x)
  then show ?thesis
    by (cases x) (simp_all add: settles_complete settles_remove_item set_paused_def settles_update_item)
next
  case (EndFailed err att)
  have "quiet q (snd (update_item key (\<lambda>i. i\<lparr>ti_attempts := att\<rparr>) q))" by (rule quiet_update_item) simp_all
  with EndFailed show ?thesis by (simp add: settles_quiet settles_complete)
next
  case (EndRetry err att delay)
  have "quiet q (snd (update_item key (\<lambda>i. i\<lparr>ti_attempts := att\<rparr>) q))" by (rule quiet_update_item) simp_all
  with EndRetry show ?thesis
    by (simp add: schedule_retry_def settles_quiet settles_update_item)
qed

end
