(* ===== verification/Queue_Invariant.thy ===== *)
theory Queue_Invariant
  imports Queue_System
begin

text \<open>
  The invariant of \<open>Queue_System\<close> holds in every reachable state, by rule induction with one lemma
  per group of steps; and what follows for pausing and cancelling.
\<close>

lemma control_of_delete:
  "q_controls q' = AList.delete k (q_controls q) \<Longrightarrow>
     control_of j q' = (if j = k then None else control_of j q)"
  by (simp add: control_of_def delete_conv')

lemma remove1_owner:
  assumes "distinct (map fst xs)" "(k, h) \<in> set xs"
  shows "set (remove1 (k, h) xs) = {p \<in> set xs. fst p \<noteq> k}"
proof -
  have "p = (k, h) \<longleftrightarrow> fst p = k" if "p \<in> set xs" for p
    using that eq_key_imp_eq_value [OF assms, of "snd p"] by (metis fst_conv prod.collapse)
  moreover have "set (remove1 (k, h) xs) = set xs - {(k, h)}"
    using assms(1) by (simp add: distinct_map set_remove1_eq)
  ultimately show ?thesis by blast
qed

lemma distinct_map_remove1: "distinct (map f xs) \<Longrightarrow> distinct (map f (remove1 x xs))"
  by (meson distinct_map distinct_remove1 inj_on_subset set_remove1_subset)

lemma sys_okI:
  assumes "distinct (item_ids (sy_queue s))" "distinct (owners s)" "distinct (map snd (sy_running s))"
    and "\<And>k a. (k, a) \<in> set (activity (sy_queue s)) \<Longrightarrow> a \<longleftrightarrow> k \<in> set (owners s)"
    and "\<And>k h. (k, h) \<in> set (sy_running s) \<Longrightarrow>
      control_of k (sy_queue s) = Some h \<and> h < length (q_cells (sy_queue s))"
    and "\<And>k h. k \<in> set (item_ids (sy_queue s)) \<Longrightarrow> control_of k (sy_queue s) \<noteq> None \<Longrightarrow>
      k \<in> fst ` set (sy_running s)"
  shows "sys_ok s"
  unfolding sys_ok_def using assms by auto

lemma sys_ok_settles:
  assumes ok: "sys_ok s" and r: "(k, h) \<in> set (sy_running s)"
    and q: "settles k (sy_queue s) q'"
  shows "sys_ok (s\<lparr>sy_queue := q', sy_running := remove1 (k, h) (sy_running s)\<rparr>)"
proof -
  let ?q = "sy_queue s" and ?run = "remove1 (k, h) (sy_running s)"
  note D = sys_okD [OF ok]
  have dr: "distinct (map fst (sy_running s))" and k: "k \<notin> set (sy_starting s)"
    using D(2) r by (force simp: owners_def)+
  note R1 = remove1_owner [OF dr r] and R2 = distinct_map_remove1 [OF dr] and R3 = distinct_map_remove1 [OF D(3)]
  have run: "fst ` set ?run = fst ` set (sy_running s) - {k}" by (auto simp: R1)
  have ids: "distinct (item_ids q')" "set (item_ids q') \<subseteq> set (item_ids ?q)"
    and len: "length (q_cells q') = length (q_cells ?q)"
    and act: "set (activity q') \<subseteq> insert (k, False) (set (activity ?q) - {(k, True)})"
    using q D(1) by (simp_all add: settles_def cells_le_length)
  have ctl: "control_of j q' = control_of j ?q" if "j \<noteq> k" for j
    using q that control_of_delete [of q' k ?q j] by (auto simp: settles_def control_of_def)
  have gone: "k \<notin> set (item_ids q') \<or> control_of k q' = None"
    using q control_of_delete [of q' k ?q k] by (auto simp: settles_def)
  have 1: "distinct (sy_starting s @ map fst ?run)"
    using D(2) R2 run by (auto simp: owners_def)
  have 2: "a \<longleftrightarrow> j \<in> set (sy_starting s) \<union> fst ` set ?run" if "(j, a) \<in> set (activity q')" for j a
  proof (cases "j = k")
    case True
    have "(k, a) \<notin> set (activity ?q) \<or> a"
      using D(4) [of k a] r by (force simp: owners_def)
    with True that act k run show ?thesis by auto
  next
    case False
    then have "(j, a) \<in> set (activity ?q)" using that act by auto
    with False run show ?thesis using D(4) [of j a] by (auto simp: owners_def)
  qed
  have 3: "control_of j q' = Some g \<and> g < length (q_cells q')" if "(j, g) \<in> set ?run" for j g
    using that D(5,6) [of j g] by (simp add: R1 ctl len)
  have 4: "j \<in> fst ` set ?run" if "j \<in> set (item_ids q')" "control_of j q' \<noteq> None" for j
    using that gone ids(2) ctl [of j] D(7) [of j] unfolding run by (cases "j = k") auto
  show ?thesis
    by (rule sys_okI) (use ids 1 2 3 4 R3 in \<open>simp_all add: owners_def\<close>)
qed

lemma sys_ok_grows:
  assumes ok: "sys_ok s" and f: "fresh_ids new s" and q: "grows new (sy_queue s) q'"
  shows "sys_ok (s\<lparr>sy_queue := q'\<rparr>)"
proof -
  let ?q = "sy_queue s"
  note D = sys_okD [OF ok]
  have d: "distinct (item_ids q')"
    using q D(1) f by (auto simp: grows_def fresh_ids_def)
  have ctl: "control_of k q' = control_of k ?q" for k using q by (simp add: grows_def control_of_def)
  have len: "length (q_cells q') = length (q_cells ?q)" using q by (simp add: grows_def cells_le_length)
  have act: "set (activity q') \<subseteq> set (activity ?q) \<union> (\<lambda>k. (k, False)) ` set new"
    using q by (simp add: grows_def)
  have own: "k \<notin> set (owners s)" "control_of k ?q = None" if "k \<in> set new" for k
    using that f by (auto simp: fresh_ids_def owners_def control_of_def map_of_eq_None_iff)
  have 2: "a \<longleftrightarrow> k \<in> set (owners s)" if "(k, a) \<in> set (activity q')" for k a
    using that act own(1) D(4) [of k a] by auto
  have 4: "k \<in> fst ` set (sy_running s)" if "k \<in> set (item_ids q')" "control_of k ?q \<noteq> None" for k
  proof -
    have "k \<in> set (item_ids ?q)" using that act own(2) by (auto simp: item_ids_activity)
    with that D(7) show ?thesis by auto
  qed
  have own_same: "owners (s\<lparr>sy_queue := q'\<rparr>) = owners s" by (simp add: owners_def)
  show ?thesis
    by (rule sys_okI) (use d D(2,3,5,6) 2 4 own_same in \<open>simp_all add: ctl len\<close>)
qed

lemma map_of_activity_activate:
  "activity (q\<lparr>q_items := activate_at K (q_items q)\<rparr>) =
     map (\<lambda>k. (ti_id (q_items q ! k), k \<in> K \<or> ti_status (q_items q ! k) = Active)) [0..<length (q_items q)]"
  by (rule nth_equalityI) (simp_all add: activity_def activate_at_fields)

lemma distinct_chosen_concat:
  "distinct (map ss_id ss) \<Longrightarrow> distinct (concat (map (\<lambda>s. chosen now s items) ss))"
proof (induction ss)
  case (Cons s ss)
  have "set (chosen now s items) \<inter> set (chosen now s' items) = {}" if "s' \<in> set ss" for s'
    using that Cons.prems chosen_session [of _ now s items] chosen_session [of _ now s' items] by force
  with Cons show ?case by (auto simp: distinct_chosen)
qed simp

lemma sys_ok_mark:
  assumes ok: "sys_ok s" and st: "sy_starting s = []" and d: "distinct (map ss_id sessions)"
    and m: "mark_items now sessions (sy_queue s) = (ts, q')"
  shows "sys_ok (s\<lparr>sy_queue := q', sy_starting := ts\<rparr>)"
proof -
  let ?q = "sy_queue s" and ?items = "q_items (sy_queue s)"
  define ks where "ks = concat (map (\<lambda>s. chosen now s ?items) sessions)"
  note D = sys_okD [OF ok]
  have K: "chosen_set now sessions ?items = set ks" by (auto simp: chosen_set_def ks_def)
  have dks: "distinct ks" unfolding ks_def by (rule distinct_chosen_concat [OF d])
  have ts: "ts = map (\<lambda>k. ti_id (?items ! k)) ks"
    and q': "q' = ?q\<lparr>q_items := activate_at (set ks) ?items\<rparr>"
    using m mark_items_eq [OF d, of now ?q] by (simp_all add: K map_concat comp_def ks_def)
  have bound: "k < length ?items" "ti_status (?items ! k) = Queued" if "k \<in> set ks" for k
    using that chosen_bound chosen_eligible by (force simp: eligible_def ks_def)+
  have inj: "j = k" if "j < length ?items" "k < length ?items" "ti_id (?items ! j) = ti_id (?items ! k)" for j k
    using that D(1) by (auto simp: item_ids_def distinct_conv_nth)
  have dts: "distinct ts"
    unfolding ts distinct_map
    using dks inj bound(1) by (auto simp: inj_on_def)
  have act: "ti_id (?items ! k) \<in> fst ` set (sy_running s) \<longleftrightarrow> ti_status (?items ! k) = Active"
    if "k < length ?items" for k
    using D(4) [of "ti_id (?items ! k)" "ti_status (?items ! k) = Active"] that st
    by (auto simp: activity_def owners_def)
  have mem: "ti_id (?items ! k) \<in> set ts \<longleftrightarrow> k \<in> set ks" if "k < length ?items" for k
  proof
    assume "ti_id (?items ! k) \<in> set ts"
    then obtain j where "j \<in> set ks" "ti_id (?items ! k) = ti_id (?items ! j)" by (auto simp: ts)
    with inj [OF that] bound(1) show "k \<in> set ks" by metis
  qed (simp add: ts)
  have 1: "distinct (ts @ map fst (sy_running s))"
  proof -
    have "x \<notin> fst ` set (sy_running s)" if "x \<in> set ts" for x
      using that act bound unfolding ts by auto (metis fst_conv image_eqI transfer_status.distinct(1))
    with dts D(2) st show ?thesis by (auto simp: owners_def)
  qed
  have 2: "a \<longleftrightarrow> k \<in> set ts \<union> fst ` set (sy_running s)" if ka: "(k, a) \<in> set (activity q')" for k a
  proof -
    obtain j where j: "j < length ?items"
      "(k, a) = (ti_id (?items ! j), j \<in> set ks \<or> ti_status (?items ! j) = Active)"
      using ka unfolding q' map_of_activity_activate set_map by (elim imageE) simp
    then show ?thesis using act [OF j(1)] mem [OF j(1)] by simp
  qed
  have ids: "item_ids q' = item_ids ?q" unfolding q' item_ids_def by simp
  have cs: "control_of k q' = control_of k ?q" "q_cells q' = q_cells ?q" for k
    by (simp_all add: q' control_of_def)
  show ?thesis
    by (rule sys_okI) (use D(1,3,5,6,7) 1 2 in \<open>auto simp: owners_def ids cs\<close>)
qed

lemma sys_ok_start:
  assumes ok: "sys_ok s" and st: "sy_starting s = key # keys"
    and h: "start_item key (sy_queue s) = (h, q')"
  shows "sys_ok (s\<lparr>sy_queue := q', sy_starting := keys, sy_running := sy_running s @ [(key, h)]\<rparr>)"
proof -
  let ?q = "sy_queue s"
  note D = sys_okD [OF ok]
  have hq: "h = length (q_cells ?q)" and len: "length (q_cells q') = Suc (length (q_cells ?q))"
    and items: "activity q' = activity ?q" "item_ids q' = item_ids ?q"
    and ctl: "control_of j q' = (if j = key then Some h else control_of j ?q)" for j
    using h by (auto simp: start_item_def activity_def item_ids_def control_of_def update_conv')
  have nr: "key \<notin> fst ` set (sy_running s)" using D(2) st by (auto simp: owners_def)
  have 1: "distinct (keys @ map fst (sy_running s) @ [key])"
    using D(2) st by (auto simp: owners_def)
  have 2: "distinct (map snd (sy_running s) @ [h])"
    using D(3,6) hq by fastforce
  have 3: "a \<longleftrightarrow> k \<in> set keys \<union> insert key (fst ` set (sy_running s))" if "(k, a) \<in> set (activity ?q)" for k a
    using D(4) [OF that] st by (auto simp: owners_def)
  have 4: "control_of k q' = Some g \<and> g < length (q_cells q')"
    if "(k, g) \<in> insert (key, h) (set (sy_running s))" for k g
    using that nr D(5,6) [of k g] hq by (force simp: ctl len)
  have 5: "k \<in> insert key (fst ` set (sy_running s))"
    if "k \<in> set (item_ids ?q)" "control_of k q' \<noteq> None" for k
    using that D(7) [of k] by (auto simp: ctl split: if_splits)
  show ?thesis
    by (rule sys_okI) (use D(1) 1 2 3 4 5 in \<open>simp_all add: owners_def items\<close>)
qed

section \<open>Every reachable state\<close>

lemma quiet_run_user: "quiet q (run_user u q)"
  by (cases u) simp_all

lemma quiet_run_worker: "quiet q (run_worker key w q)"
  by (cases w) (simp_all add: quiet_update_item)

lemma build_items_status:
  "build_items sessions uuid clock n rs = Inr items \<Longrightarrow>
     \<forall>i \<in> set items. ti_status i \<in> {Queued, Paused}"
proof (induction rs arbitrary: n items)
  case (Cons r rs)
  obtain s rest where "sessions (qr_session_id r) = Inr s" and "build_items sessions uuid clock (Suc n) rs = Inr rest"
    and "items = build_item (uuid n) (clock n) s r # rest"
    using Cons.prems by (simp add: bind_res_eq_Inr) blast
  with Cons.IH [of "Suc n" rest] show ?case by (simp add: build_item_def)
qed simp

lemma grows_add:
  assumes "add sessions uuid clock rs q = (Inr new, q')"
  shows "grows new q q'"
proof -
  from assms obtain items where b: "build_items sessions uuid clock 0 rs = Inr items"
    and n: "new = map ti_id items" and q': "q' = changed (q\<lparr>q_items := q_items q @ items\<rparr>)"
    by (auto simp: add_def split: sum.splits)
  have "\<forall>i \<in> set items. ti_status i \<noteq> Active"
    using build_items_status [OF b] by auto
  then show ?thesis
    by (auto simp: grows_def q' n item_ids_def activity_def)
qed

lemma insert_block:
  "p \<le> length xs \<Longrightarrow>
   fold (\<lambda>(offset, child) items. insert_at (p + offset) child items) (enumerate n cs)
     (take p xs @ ys @ drop p xs) = take p xs @ ys @ cs @ drop p xs"
  if "length ys = n"
  using that
proof (induction cs arbitrary: n ys)
  case (Cons c cs)
  have "insert_at (p + n) c (take p xs @ ys @ drop p xs) = take p xs @ (ys @ [c]) @ drop p xs"
    using Cons.prems by (simp add: insert_at_def)
  with Cons.IH [of "ys @ [c]" "Suc n"] Cons.prems show ?case by simp
qed simp

lemma insert_children_items:
  "q_items (insert_children key cs q) =
     (case position (\<lambda>i. ti_id i = key) (q_items q) of
        Some p \<Rightarrow> take (p + 1) (q_items q) @ cs @ drop (p + 1) (q_items q)
      | None \<Rightarrow> q_items q @ cs)"
proof (cases "position (\<lambda>i. ti_id i = key) (q_items q)")
  case None
  then show ?thesis
    using insert_block [of "[]" 0 "length (q_items q)" "q_items q" cs]
    by (simp add: insert_children_def)
next
  case (Some p)
  then have "p + 1 \<le> length (q_items q)" by (auto dest: position_SomeD)
  with Some show ?thesis
    using insert_block [of "[]" 0 "p + 1" "q_items q" cs]
    by (simp add: insert_children_def del: take_Suc_Cons)
qed

lemma grows_insert_children:
  assumes "list_all (\<lambda>i. ti_status i = Queued) children"
  shows "grows (map ti_id children) q (insert_children key children q)"
proof -
  obtain xs ys where x: "q_items q = xs @ ys"
    "q_items (insert_children key children q) = xs @ children @ ys"
  proof (cases "position (\<lambda>i. ti_id i = key) (q_items q)")
    case None
    show ?thesis by (rule that [of "q_items q" "[]"]) (simp_all add: insert_children_items None)
  next
    case (Some p)
    show ?thesis
      by (rule that [of "take (p + 1) (q_items q)" "drop (p + 1) (q_items q)"])
        (simp_all add: insert_children_items Some)
  qed
  have "q_controls (insert_children key children q) = q_controls q"
    "q_cells (insert_children key children q) = q_cells q"
    by (simp_all add: insert_children_def Let_def)
  with assms show ?thesis
    by (auto simp: grows_def item_ids_def activity_def x list_all_iff)
qed

lemma sys_ok_init:
  assumes "distinct (map ti_id (qs_items stored))"
  shows "sys_ok \<lparr>sy_queue = new_queue (Some stored) settings, sy_starting = [], sy_running = []\<rparr>"
proof (rule sys_okI)
  have "ti_status (restore_item i) \<noteq> Active" "ti_id (restore_item i) = ti_id i" for i
    by (simp_all add: restore_item_def Let_def)
  with assms show "distinct (item_ids (sy_queue
      \<lparr>sy_queue = new_queue (Some stored) settings, sy_starting = [], sy_running = []\<rparr>))"
    and "\<And>k a. (k, a) \<in> set (activity (sy_queue
      \<lparr>sy_queue = new_queue (Some stored) settings, sy_starting = [], sy_running = []\<rparr>)) \<Longrightarrow>
      a \<longleftrightarrow> k \<in> set (owners \<lparr>sy_queue = new_queue (Some stored) settings, sy_starting = [], sy_running = []\<rparr>)"
    by (auto simp: new_queue_def item_ids_def activity_def owners_def comp_def)
qed (auto simp: owners_def new_queue_def control_of_def)

lemma sys_ok_step: "sys_step s s' \<Longrightarrow> sys_ok s \<Longrightarrow> sys_ok s'"
proof (induction rule: sys_step.induct)
  case (add_step sessions uuid clock rs s new q')
  then show ?case using sys_ok_grows [OF _ _ grows_add] by blast
next
  case (children_step key h s children)
  then show ?case using sys_ok_grows [OF _ _ grows_insert_children] by blast
next
  case (gone_step key h s)
  have "key \<notin> set (item_ids (sy_queue s))"
    using gone_step.hyps(2) by (auto simp: get_item_def find_None_iff item_ids_def)
  then have "settles key (sy_queue s) (sy_queue s)" by (auto intro: settles_gone)
  with gone_step show ?case using sys_ok_settles [of s key h "sy_queue s"] by simp
qed (blast intro: sys_ok_quiet quiet_run_user quiet_run_worker quiet_persist quiet_clear_apply_all
    quiet_emit sys_ok_mark sys_ok_start sys_ok_settles settles_run_end)+

lemma reachable_sys_ok: "reachable s \<Longrightarrow> sys_ok s"
  by (induction rule: reachable.induct) (auto intro: sys_ok_init sys_ok_step)

end
