(* ===== verification/Queue_Properties.thy ===== *)
theory Queue_Properties
  imports Queue_Invariant "HOL-Library.Multiset"
begin

text \<open>
  The properties of the queue: who owns an active item, what pausing and removing reach, what a
  worker's end keeps, how a restart recovers, and how a conflict prompt is answered.
\<close>

section \<open>Ownership\<close>

text \<open>C1: In every state the queue can reach, under every interleaving of the scheduler, the workers
  and the user's commands, item ids are unique, no item is being started or run twice, and an
  item is \<open>Active\<close> exactly when the scheduler is starting it or one worker runs it.\<close>

theorem active_items_owned:
  assumes "reachable s"
  shows "distinct (item_ids (sy_queue s)) \<and> distinct (owners s) \<and>
    list_all (\<lambda>i. ti_status i = Active \<longleftrightarrow> ti_id i \<in> set (owners s)) (q_items (sy_queue s))"
proof -
  have ok: "sys_ok s" using assms by (rule reachable_sys_ok)
  have "ti_status i = Active \<longleftrightarrow> ti_id i \<in> set (owners s)" if "i \<in> set (q_items (sy_queue s))" for i
    using sys_okD(4) [OF ok, of "ti_id i" "ti_status i = Active"] that by (auto simp: activity_def)
  with sys_okD(1,2) [OF ok] show ?thesis by (simp add: list_all_iff)
qed

text \<open>A concrete run: restart with one stored item, bind the session, mark the item, start it.\<close>

definition sample_stored :: queue_snapshot where
  "sample_stored = \<lparr>qs_items = [build_item ''a'' 0 sample_session (sample_request 0)], qs_history = []\<rparr>"

definition sample_sys0 :: sys where
  "sample_sys0 = \<lparr>sy_queue = new_queue (Some sample_stored) default_settings, sy_starting = [], sy_running = []\<rparr>"

definition sample_sys1 :: sys where
  "sample_sys1 = sample_sys0\<lparr>sy_queue := run_user (UBind ''site'' ''s'') (sy_queue sample_sys0)\<rparr>"

definition sample_sys2 :: sys where
  "sample_sys2 = sample_sys1\<lparr>sy_queue := snd (mark_items 0 [sample_session] (sy_queue sample_sys1)),
     sy_starting := fst (mark_items 0 [sample_session] (sy_queue sample_sys1))\<rparr>"

definition sample_sys3 :: sys where
  "sample_sys3 = sample_sys2\<lparr>sy_queue := snd (start_item ''a'' (sy_queue sample_sys2)),
     sy_starting := [], sy_running := sy_running sample_sys2 @ [(''a'', fst (start_item ''a'' (sy_queue sample_sys2)))]\<rparr>"

lemma sample_reachable2: "reachable sample_sys2"
proof -
  have "reachable sample_sys0"
    unfolding sample_sys0_def by (rule reachable.start) (simp add: sample_stored_def)
  then have "reachable sample_sys1"
    unfolding sample_sys1_def by (rule reachable.step) (rule user_step)
  moreover have st: "sy_starting sample_sys1 = []" by (simp add: sample_sys1_def sample_sys0_def)
  have "sys_step sample_sys1 sample_sys2"
    unfolding sample_sys2_def
    by (rule mark_step [OF st sample_sessions(1) prod.collapse [symmetric]])
  ultimately show ?thesis using reachable.step by blast
qed

lemma sample_reachable: "reachable sample_sys3"
proof -
  have st: "sy_starting sample_sys2 = ''a'' # []" by code_simp
  have "sys_step sample_sys2 sample_sys3"
    unfolding sample_sys3_def by (rule start_step [OF st prod.collapse [symmetric]])
  then show ?thesis using sample_reachable2 reachable.step by blast
qed

lemma sample_state: "sy_running sample_sys3 = [(''a'', 0)]" "owners sample_sys3 = [''a'']"
  "sy_starting sample_sys2 = [''a'']" "item_ids (sy_queue sample_sys2) = [''a'']"
  by code_simp+

theorem active_items_owned_witness:
  "distinct (owners sample_sys3) \<and> owners sample_sys3 = [''a''] \<and>
   list_all (\<lambda>i. ti_status i = Active \<longleftrightarrow> ti_id i \<in> set (owners sample_sys3)) (q_items (sy_queue sample_sys3))"
  using active_items_owned [OF sample_reachable] sample_state by blast

section \<open>Pausing and removing\<close>



lemma sys_step_cells:
  assumes "sys_step s s'" "h < length (q_cells (sy_queue s))" "cc_cancelled (q_cells (sy_queue s) ! h)"
  shows "h < length (q_cells (sy_queue s')) \<and> cc_cancelled (q_cells (sy_queue s') ! h)"
proof -
  have le: "cells_le (sy_queue s) q' \<Longrightarrow> h < length (q_cells q') \<and> cc_cancelled (q_cells q' ! h)" for q'
    using assms(2,3) by (simp add: cells_le_def)
  have quiet: "quiet (sy_queue s) q' \<Longrightarrow> h < length (q_cells q') \<and> cc_cancelled (q_cells q' ! h)" for q'
    by (simp add: quiet_def le)
  show ?thesis
    using assms(1)
  proof cases
    case (add_step sessions uuid clock rs new q')
    then show ?thesis using grows_add [OF add_step(2)] by (simp add: grows_def le)
  next
    case (mark_step sessions now ts q')
    then have "q_cells q' = q_cells (sy_queue s)"
      using mark_items_eq [of sessions now "sy_queue s"] by auto
    with mark_step(1) show ?thesis using assms(2,3) by simp
  next
    case (start_step key keys h' q')
    then show ?thesis using assms(2,3) by (auto simp: start_item_def nth_append)
  next
    case (children_step key h' children)
    then show ?thesis
      using grows_insert_children [of children "sy_queue s" key] by (simp add: grows_def le)
  next
    case (end_step key h' e)
    then show ?thesis using settles_run_end [of key "sy_queue s" _ e] by (simp add: settles_def le)
  qed (use assms quiet [OF quiet_run_user] quiet [OF quiet_run_worker] quiet [OF quiet_persist]
      quiet [OF quiet_clear_apply_all] quiet [OF quiet_emit] in simp_all)
qed

text \<open>Cancelling a worker cannot be undone: whatever the rest of the program does, a control that
  was cancelled stays cancelled (and registered at its place) in every later state.\<close>

theorem cancellation_is_final:
  assumes "sys_step\<^sup>*\<^sup>* s s'" "h < length (q_cells (sy_queue s))" "cc_cancelled (q_cells (sy_queue s) ! h)"
  shows "h < length (q_cells (sy_queue s')) \<and> cc_cancelled (q_cells (sy_queue s') ! h)"
  using assms(1)
proof (induction rule: rtranclp_induct)
  case (step t u)
  then show ?case using sys_step_cells by blast
qed (use assms in simp)

theorem cancellation_is_final_witness:
  "cc_cancelled (q_cells (resume ''a'' (pause ''a'' (sy_queue sample_sys3))) ! 0)"
proof -
  let ?s = "sample_sys3\<lparr>sy_queue := run_user (UPause ''a'') (sy_queue sample_sys3)\<rparr>"
  have "sys_step ?s (?s\<lparr>sy_queue := run_user (UResume ''a'') (sy_queue ?s)\<rparr>)" by (rule user_step)
  then have star: "sys_step\<^sup>*\<^sup>* ?s (?s\<lparr>sy_queue := run_user (UResume ''a'') (sy_queue ?s)\<rparr>)" by simp
  have c: "0 < length (q_cells (sy_queue ?s))" "cc_cancelled (q_cells (sy_queue ?s) ! 0)"
    by code_simp+
  have q: "sy_queue (?s\<lparr>sy_queue := run_user (UResume ''a'') (sy_queue ?s)\<rparr>) =
    resume ''a'' (pause ''a'' (sy_queue sample_sys3))" by simp
  show ?thesis using cancellation_is_final [OF star c] unfolding q by blast
qed

text \<open>Pausing an item between the scheduler's marking it and registering its control has no effect:
  the item stays as it is and its worker starts with a control that is not cancelled.\<close>

theorem pause_while_starting_lost:
  assumes "reachable s" "key \<in> set (sy_starting s)" "key \<in> set (item_ids (sy_queue s))"
  shows "q_items (pause key (sy_queue s)) = q_items (sy_queue s) \<and>
    (case start_item key (pause key (sy_queue s)) of (h, q') \<Rightarrow> interrupted (q_cells q' ! h) = None)"
proof -
  let ?q = "sy_queue s"
  let ?f = "\<lambda>i. if ti_status i = Queued then i\<lparr>ti_status := Paused\<rparr> else i"
  have ok: "sys_ok s" using assms(1) by (rule reachable_sys_ok)
  note D = sys_okD [OF ok]
  have "key \<notin> fst ` set (sy_running s)" using D(2) assms(2) by (auto simp: owners_def)
  then have "control_of key ?q = None" using D(7) [OF assms(3)] by (cases "control_of key ?q") auto
  then have p: "pause key ?q = changed (snd (update_item key ?f ?q))" by (simp add: pause_def)
  have active: "ti_status i = Active" if "i \<in> set (q_items ?q)" "ti_id i = key" for i
  proof -
    have "(key, ti_status i = Active) \<in> set (activity ?q)" using that by (auto simp: activity_def)
    from D(4) [OF this] assms(2) show ?thesis by (simp add: owners_def)
  qed
  have "q_items (pause key ?q) = map (\<lambda>i. if ti_id i = key then ?f i else i) (q_items ?q)"
    using D(1) by (simp add: p update_item_items update_first_distinct item_ids_def)
  also have "\<dots> = q_items ?q" by (rule map_idI) (use active in auto)
  finally show ?thesis by (simp add: start_item_def interrupted_def)
qed

theorem pause_while_starting_lost_witness:
  "q_items (pause ''a'' (sy_queue sample_sys2)) = q_items (sy_queue sample_sys2)"
  using pause_while_starting_lost [OF sample_reachable2, of "''a''"] sample_state by simp

section \<open>Where expanded children go\<close>

text \<open>The children a directory expands into take their place right after the directory, in
  listing order, while everything before and after keeps its order; a directory that was removed
  while it was being expanded still has its children added, at the end of the queue.\<close>

theorem children_placed:
  assumes "q_items q = before @ dir # after"
    and "list_all (\<lambda>i. ti_id i \<noteq> ti_id dir) before"
    and "list_all (\<lambda>i. ti_id i \<noteq> ti_id dir) after"
  shows "q_items (insert_children (ti_id dir) cs q) = before @ dir # cs @ after \<and>
    q_items (insert_children (ti_id dir) cs (remove_item (ti_id dir) q)) = before @ after @ cs"
proof -
  let ?p = "\<lambda>i. ti_id i = ti_id dir"
  have no: "filter (\<lambda>i. ti_id i \<noteq> ti_id dir) xs = xs"
    if "list_all (\<lambda>i. ti_id i \<noteq> ti_id dir) xs" for xs
    using that by (simp add: filter_id_conv list_all_iff)
  have pos: "position ?p (q_items q) = Some (length before)"
    unfolding assms(1) using assms(2) by (intro position_first) (auto simp: list_all_iff)
  have rem: "q_items (remove_item (ti_id dir) q) = before @ after"
    using no [OF assms(2)] no [OF assms(3)]
    by (simp add: remove_item_def Let_def drop_conflict_def assms(1) split: option.split)
  have "position ?p (before @ after) = None"
    using assms(2,3) by (auto simp: position_None_iff list_all_iff)
  with pos rem show ?thesis by (simp add: insert_children_items assms(1))
qed

theorem children_placed_witness:
  "map ti_id (q_items (insert_children ''b'' [(q_items sample_queue ! 0)\<lparr>ti_id := ''x''\<rparr>] sample_queue))
     = [''a'', ''b'', ''x'', ''c''] \<and>
   map ti_id (q_items (insert_children ''b'' [(q_items sample_queue ! 0)\<lparr>ti_id := ''x''\<rparr>]
     (remove_item ''b'' sample_queue))) = [''a'', ''c'', ''x'']"
proof -
  let ?i = "\<lambda>n. q_items sample_queue ! n" and ?x = "(q_items sample_queue ! 0)\<lparr>ti_id := ''x''\<rparr>"
  have ids: "ti_id (?i 0) = ''a''" "ti_id (?i 1) = ''b''" "ti_id (?i 2) = ''c''"
    "ti_id (?i (Suc 0)) = ''b''"
    by (simp_all add: sample_queue_def Let_def build_item_def)
  have split: "q_items sample_queue = [?i 0] @ ?i 1 # [?i 2]"
    by (simp add: sample_queue_def Let_def)
  have h: "list_all (\<lambda>i. ti_id i \<noteq> ti_id (?i 1)) [?i 0]" "list_all (\<lambda>i. ti_id i \<noteq> ti_id (?i 1)) [?i 2]"
    by (simp_all add: ids)
  show ?thesis using children_placed [OF split h, of "[?x]"] unfolding ids by (simp add: ids)
qed

section \<open>What the end of a worker keeps\<close>

definition all_ids :: "'z queue_state_scheme \<Rightarrow> string multiset" where
  "all_ids q = mset (item_ids q @ map ti_id (q_history q))"

lemma all_ids_changed [simp]: "all_ids (changed q) = all_ids q"
  by (simp add: all_ids_def item_ids_def)

lemma all_ids_update_item:
  "(\<And>i. ti_id (f i) = ti_id i) \<Longrightarrow> all_ids (snd (update_item key f q)) = all_ids q"
  by (simp add: all_ids_def item_ids_def update_item_items map_update_first)

lemma all_ids_drop_control [simp]: "all_ids (drop_control key q) = all_ids q"
  by (simp add: all_ids_def item_ids_def drop_control_def)

lemma mset_remove_at:
  assumes "i < length xs"
  shows "mset xs = add_mset (xs ! i) (mset (remove_at i xs))"
proof -
  have "mset xs = mset (take i xs @ xs ! i # drop (Suc i) xs)"
    using id_take_nth_drop [OF assms] by simp
  then show ?thesis by (simp add: remove_at_def)
qed

lemma drop_control_history [simp]: "q_history (drop_control key q) = q_history q"
  by (simp add: drop_control_def)

lemma all_ids_complete:
  assumes "length (q_history q) < max (st_max_successful_history (q_settings q)) 10"
  shows "all_ids (complete now key st err q) = all_ids q"
proof (cases rule: complete_cases [of key q now st err])
  case (moved i)
  let ?cap = "max (st_max_successful_history (q_settings q)) 10"
  have "mset (item_ids q) = add_mset key (mset (remove_at i (item_ids q)))"
    using mset_remove_at [of i "item_ids q"] moved(1,2) by (simp add: item_ids_def)
  moreover have "take ?cap (x # q_history q) = x # q_history q" for x
    using assms by simp
  ultimately show ?thesis
    using moved(2) by (simp add: moved(4) all_ids_def item_ids_def map_remove_at)
next
  case (kept i)
  then have "(map ti_id (q_items q))[i := key] = map ti_id (q_items q)"
    by (simp add: list_update_same_conv)
  with kept show ?thesis by (simp add: kept(5) all_ids_def item_ids_def map_update)
qed simp



section \<open>Restarting\<close>

text \<open>C17: A transfer that was waiting or running when the program stopped is taken up again: after the
  queue file is read back and its site is connected, the item is listed with the same paths and
  progress and the scheduler may start it at once, even when it was waiting for a retry.\<close>

theorem restart_recovers:
  assumes "i \<in> set (q_items q)" "ti_status i = Queued \<or> ti_status i = Active"
  shows "\<exists>j \<in> set (q_items (bind_session (ti_site_id i) sess
      (new_queue (q_stored (persist True q)) settings))).
    ti_id j = ti_id i \<and> eligible now sess j \<and> ti_transferred j = ti_transferred i \<and>
    ti_local_path j = ti_local_path i \<and> ti_remote_path j = ti_remote_path i"
proof -
  let ?bind = "\<lambda>k. if ti_site_id k = ti_site_id i \<and> ti_session_id k = None
      then k\<lparr>ti_session_id := Some sess\<rparr> else k"
  let ?j = "?bind (restore_item (stored_item i))"
  have "q_items (bind_session (ti_site_id i) sess (new_queue (q_stored (persist True q)) settings)) =
    map ?bind (map restore_item (map stored_item
      (filter (\<lambda>i. is_pending i \<or> ti_status i = Failed) (q_items q))))"
    by (simp add: bind_session_def new_queue_def persist_def Let_def)
  moreover have "is_pending i" using assms(2) by (auto simp: is_pending_def)
  ultimately have "?j \<in> set (q_items (bind_session (ti_site_id i) sess
      (new_queue (q_stored (persist True q)) settings)))"
    using assms(1) by auto
  moreover have "ti_id ?j = ti_id i \<and> eligible now sess ?j \<and> ti_transferred ?j = ti_transferred i \<and>
    ti_local_path ?j = ti_local_path i \<and> ti_remote_path ?j = ti_remote_path i"
    using assms(2) by (auto simp: restore_item_def stored_item_def eligible_def Let_def)
  ultimately show ?thesis by blast
qed

theorem restart_recovers_witness:
  "\<exists>j \<in> set (q_items (bind_session ''site'' ''s2''
      (new_queue (q_stored (persist True (sy_queue sample_sys3))) default_settings))).
    ti_id j = ''a'' \<and> eligible 0 ''s2'' j"
proof -
  let ?i = "hd (q_items (sy_queue sample_sys3))"
  have m: "?i \<in> set (q_items (sy_queue sample_sys3))" by code_simp
  have a: "ti_status ?i = Queued \<or> ti_status ?i = Active" by code_simp
  have n: "ti_site_id ?i = ''site''" "ti_id ?i = ''a''" by code_simp+
  show ?thesis using restart_recovers [OF m a, of "''s2''" default_settings 0] unfolding n by blast
qed

section \<open>Conflict prompts\<close>

text \<open>C11: An answer to a pending conflict prompt reaches the worker that asked, and an answer given for
  all conflicts becomes the policy of every item of that session that has none of its own; if
  the item is removed instead, the worker sees a cancellation.\<close>

theorem conflict_answered:
  assumes "open_prompt p q = (c, q1)" "answer_conflict (cp_item_id p) a q1 = (ok, q2)"
    and "close_prompt (ss_id s) c q2 = (r, q3)"
  shows "ok \<and> r = Inr a \<and> (ca_apply_to_all a \<longrightarrow> ti_conflict_policy i = None \<longrightarrow>
      effective_policy i s q3 = as_policy (ca_action a)) \<and>
    fst (close_prompt (ss_id s) c (remove_item (cp_item_id p) q1)) = Inl Cancelled"
proof -
  let ?k = "cp_item_id p"
  let ?q0 = "drop_conflict ?k q"
  have c: "c = length (q_channels ?q0)"
    and q1: "q1 = emit (EvConflict p) (?q0\<lparr>q_conflicts := AList.update ?k c (q_conflicts ?q0),
         q_channels := q_channels ?q0 @ [ChOpen]\<rparr>)"
    using assms(1) by (auto simp: open_prompt_def Let_def)
  have m: "map_of (q_conflicts q1) ?k = Some c" "q_channels q1 ! c = ChOpen" "c < length (q_channels q1)"
    by (simp_all add: q1 emit_def update_conv' c)
  then have a: "ok" "q_channels q2 ! c = ChAnswered a" "q_apply_all q2 = q_apply_all q1"
    using assms(2) by (auto simp: answer_conflict_def Let_def)
  then have r: "r = Inr a"
    and pol: "ca_apply_to_all a \<Longrightarrow> map_of (q_apply_all q3) (ss_id s) = Some (as_policy (ca_action a))"
    using assms(3) by (auto simp: close_prompt_def Let_def update_conv')
  have "q_channels (remove_item ?k q1) ! c = ChSenderDropped"
    using m by (auto simp: remove_item_def Let_def drop_conflict_def drop_sender_def split: option.split)
  then have "fst (close_prompt (ss_id s) c (remove_item ?k q1)) = Inl Cancelled"
    by (simp add: close_prompt_def Let_def)
  with a r pol show ?thesis by (auto simp: effective_policy_def)
qed

definition sample_prompt :: conflict_prompt where
  "sample_prompt = \<lparr>cp_item_id = ''a'', cp_session_id = ''s'', cp_direction = Download,
     cp_source_path = ''/a'', cp_source_size = 10, cp_source_mtime = None,
     cp_target_path = ''/tmp/a'', cp_target_size = 4, cp_target_mtime = None\<rparr>"

definition sample_answer :: conflict_answer where
  "sample_answer = \<lparr>ca_action = ActResume, ca_apply_to_all = True\<rparr>"

theorem conflict_answered_witness:
  "effective_policy (q_items sample_queue ! 0) sample_session
     (snd (close_prompt (ss_id sample_session) (fst (open_prompt sample_prompt sample_queue))
       (snd (answer_conflict (cp_item_id sample_prompt) sample_answer
         (snd (open_prompt sample_prompt sample_queue)))))) = Resume"
proof -
  have i: "ti_conflict_policy (q_items sample_queue ! 0) = None" "ca_apply_to_all sample_answer"
    "as_policy (ca_action sample_answer) = Resume"
    by code_simp+
  show ?thesis
    using conflict_answered [where p = sample_prompt and q = sample_queue and a = sample_answer
        and s = sample_session and i = "q_items sample_queue ! 0",
        OF prod.collapse [symmetric] prod.collapse [symmetric] prod.collapse [symmetric]] i
    by simp
qed

end
