(* ===== verification/Transfer_Pump.thy ===== *)
theory Transfer_Pump
  imports Queue_System Protocol_Types
begin

text \<open>
  The loop that moves a file's bytes (in \<open>download\<close>, \<open>upload\<close> and \<open>copy_remote_file\<close> of
  \<open>transfer/worker.rs\<close>), over any reader and writer.  A remote peer can send without end, so the
  loop has fuel and \<open>None\<close> is running out of it.  The locales state what a reader and a writer
  promise; inside, the loop is proved to move exactly the bytes that were to be read, and to
  return once its fuel exceeds their number.
\<close>

type_synonym ('w, 'a) wio = "'w \<Rightarrow> ('a vresult \<times> 'w) option"

definition once :: "('w, 'a) vio \<Rightarrow> ('w, 'a) wio" where
  [io_defs]: "once m = (\<lambda>w. Some (m w))"

definition bind_wio :: "('w, 'a) wio \<Rightarrow> ('a \<Rightarrow> ('w, 'b) wio) \<Rightarrow> ('w, 'b) wio" where
  [io_defs]: "bind_wio m f = (\<lambda>w. case m w of
      None \<Rightarrow> None
    | Some (Inl e, w') \<Rightarrow> Some (Inl e, w')
    | Some (Inr a, w') \<Rightarrow> f a w')"

definition buffer_size :: nat where
  "buffer_size = 128 * 1024"

text \<open>
  One iteration: stop when interrupted, read a buffer, stop at the end, write it, report the
  progress and wait for the bandwidth limit (\<open>beat\<close>, which carries the progress tracker).
\<close>

fun pump ::
  "nat \<Rightarrow> ('w \<Rightarrow> outcome option) \<Rightarrow> (nat \<Rightarrow> ('w, bytes) vio) \<Rightarrow> (bytes \<Rightarrow> ('w, unit) vio)
     \<Rightarrow> (nat \<Rightarrow> 'p \<Rightarrow> 'w \<Rightarrow> 'p \<times> 'w) \<Rightarrow> 'p \<Rightarrow> ('w, outcome \<times> 'p) wio" where
  "pump 0 check rd wr beat p w = None"
| "pump (Suc n) check rd wr beat p w = (case check w of
      Some out \<Rightarrow> Some (Inr (out, p), w)
    | None \<Rightarrow> (case rd buffer_size w of
          (Inl e, w1) \<Rightarrow> Some (Inl e, w1)
        | (Inr bs, w1) \<Rightarrow>
            if bs = [] then Some (Inr (ODone, p), w1)
            else (case wr bs w1 of
                (Inl e, w2) \<Rightarrow> Some (Inl e, w2)
              | (Inr _, w2) \<Rightarrow> (case beat (length bs) p w2 of
                    (p', w3) \<Rightarrow> pump n check rd wr beat p' w3))))"

section \<open>What readers and writers promise\<close>

locale byte_source =
  fixes rd :: "nat \<Rightarrow> ('w, bytes) vio" and remaining :: "'w \<Rightarrow> bytes"
  assumes read_prefix: "rd n w = (Inr bs, w') \<Longrightarrow> remaining w = bs @ remaining w'"
    and read_bound: "rd n w = (Inr bs, w') \<Longrightarrow> length bs \<le> n"
    and read_end: "rd n w = (Inr [], w') \<Longrightarrow> 0 < n \<Longrightarrow> remaining w = []"

locale byte_sink =
  fixes wr :: "bytes \<Rightarrow> ('w, unit) vio" and written :: "'w \<Rightarrow> bytes"
  assumes write_append: "wr bs w = (Inr (), w') \<Longrightarrow> written w' = written w @ bs"

locale byte_pipe = byte_source rd remaining + byte_sink wr written
  for rd :: "nat \<Rightarrow> ('w, bytes) vio" and remaining :: "'w \<Rightarrow> bytes"
    and wr :: "bytes \<Rightarrow> ('w, unit) vio" and written :: "'w \<Rightarrow> bytes" +
  fixes check :: "'w \<Rightarrow> outcome option" and beat :: "nat \<Rightarrow> 'p \<Rightarrow> 'w \<Rightarrow> 'p \<times> 'w"
  assumes read_written: "rd n w = (r, w') \<Longrightarrow> written w' = written w"
    and write_remaining: "wr bs w = (Inr (), w') \<Longrightarrow> remaining w' = remaining w"
    and beat_frame: "beat n p w = (p', w') \<Longrightarrow> remaining w' = remaining w \<and> written w' = written w"
begin

lemma pump_moves:
  "pump n check rd wr beat p w = Some (Inr (out, p'), w') \<Longrightarrow>
     written w' @ remaining w' = written w @ remaining w"
proof (induction n arbitrary: p w)
  case (Suc n)
  show ?case
  proof (cases "check w")
    case (Some o1)
    with Suc.prems show ?thesis by simp
  next
    case None
    note chk = None
    obtain r w1 where r: "rd buffer_size w = (r, w1)" by force
    with chk Suc.prems obtain bs where bs: "r = Inr bs" by (cases r) auto
    have rd: "remaining w = bs @ remaining w1" "written w1 = written w"
      using read_prefix [OF r [unfolded bs]] read_written [OF r] by simp_all
    show ?thesis
    proof (cases "bs = []")
      case True
      with chk r bs Suc.prems rd show ?thesis by simp
    next
      case False
      obtain u w2 where u: "wr bs w1 = (u, w2)" by force
      obtain p2 w3 where t: "beat (length bs) p w2 = (p2, w3)" by force
      from chk r bs False u t Suc.prems have ok: "u = Inr ()"
        and rest: "pump n check rd wr beat p2 w3 = Some (Inr (out, p'), w')"
        by (cases u; simp)+
      from Suc.IH [OF rest] beat_frame [OF t] write_append [OF u [unfolded ok]]
        write_remaining [OF u [unfolded ok]] rd
      show ?thesis by simp
    qed
  qed
qed simp

lemma pump_done:
  "pump n check rd wr beat p w = Some (Inr (ODone, p'), w') \<Longrightarrow>
     (\<And>w. check w \<noteq> Some ODone) \<Longrightarrow> written w' = written w @ remaining w \<and> remaining w' = []"
proof (induction n arbitrary: p w)
  case (Suc n)
  show ?case
  proof (cases "check w")
    case (Some o1)
    with Suc.prems show ?thesis by auto
  next
    case None
    note chk = None
    obtain r w1 where r: "rd buffer_size w = (r, w1)" by force
    with chk Suc.prems(1) obtain bs where bs: "r = Inr bs" by (cases r) auto
    have rd: "remaining w = bs @ remaining w1" "written w1 = written w"
      using read_prefix [OF r [unfolded bs]] read_written [OF r] by simp_all
    show ?thesis
    proof (cases "bs = []")
      case True
      then have "remaining w = []"
        using read_end [of buffer_size w w1] r bs by (simp add: buffer_size_def)
      with True chk r bs Suc.prems(1) rd show ?thesis by simp
    next
      case False
      obtain u w2 where u: "wr bs w1 = (u, w2)" by force
      obtain p2 w3 where t: "beat (length bs) p w2 = (p2, w3)" by force
      from chk r bs False u t Suc.prems(1) have ok: "u = Inr ()"
        and rest: "pump n check rd wr beat p2 w3 = Some (Inr (ODone, p'), w')"
        by (cases u; simp)+
      from Suc.IH [OF rest Suc.prems(2)] beat_frame [OF t] write_append [OF u [unfolded ok]]
        write_remaining [OF u [unfolded ok]] rd
      show ?thesis by simp
    qed
  qed
qed simp

lemma pump_total:
  "length (remaining w) < n \<Longrightarrow> \<exists>r. pump n check rd wr beat p w = Some r"
proof (induction n arbitrary: p w)
  case (Suc n)
  show ?case
  proof (cases "check w")
    case None
    note chk = None
    obtain r w1 where r: "rd buffer_size w = (r, w1)" by force
    show ?thesis
    proof (cases r)
      case (Inr bs)
      show ?thesis
      proof (cases "bs = []")
        case False
        obtain u w2 where u: "wr bs w1 = (u, w2)" by force
        obtain p2 w3 where t: "beat (length bs) p w2 = (p2, w3)" by force
        show ?thesis
        proof (cases u)
          case (Inr x)
          have "length (remaining w3) < length (remaining w)"
            using read_prefix [OF r [unfolded \<open>r = Inr bs\<close>]] False beat_frame [OF t]
              write_remaining [of bs w1 w2] u Inr by (cases bs) auto
          then have "length (remaining w3) < n" using Suc.prems by simp
          from Suc.IH [OF this] show ?thesis using chk r \<open>r = Inr bs\<close> False u Inr t by simp
        qed (use chk r Inr False u in simp)
      qed (use chk r Inr in simp)
    qed (use chk r in simp)
  qed simp
qed simp

end

end
