(* ===== verification/Digests.thy ===== *)
theory Digests
  imports Transfer_Pump
begin

text \<open>
  Digests of local files, in \<open>transfer/worker.rs\<close>: \<open>local_digest\<close> and \<open>hash_stream\<close>.  The hash functions
  are those of the crates \<open>sha2\<close>, \<open>sha1\<close> and \<open>md5\<close>: a hasher is known by the calls of \<open>update\<close> made on it, and
  \<open>hasher\<close> gives what \<open>finalize\<close> returns after them.
\<close>

type_synonym hasher = "bytes list \<Rightarrow> bytes"

record hash_algos =
  ha_sha256 :: hasher
  ha_sha1 :: hasher
  ha_md5 :: hasher

text \<open>The loop of \<open>hash_stream\<close>, which ends with the file; a file may grow for ever, so it has fuel.\<close>

fun hash_loop :: "nat \<Rightarrow> (nat \<Rightarrow> ('w, bytes) vio) \<Rightarrow> bytes list \<Rightarrow> ('w, bytes list) wio" where
  "hash_loop 0 rd updates w = None"
| "hash_loop (Suc n) rd updates w = (case rd buffer_size w of
      (Inl e, w1) \<Rightarrow> Some (Inl e, w1)
    | (Inr bs, w1) \<Rightarrow> if bs = [] then Some (Inr updates, w1) else hash_loop n rd (updates @ [bs]) w1)"

definition hash_stream :: "nat \<Rightarrow> hasher \<Rightarrow> (bytes \<Rightarrow> string) \<Rightarrow> (nat \<Rightarrow> ('w, bytes) vio) \<Rightarrow> ('w, string) wio" where
  "hash_stream fuel hash hex rd =
     bind_wio (hash_loop fuel rd []) (\<lambda>updates. once (ok_io (hex (hash updates))))"

definition choose_hash :: "hash_algos \<Rightarrow> string \<Rightarrow> hasher" where
  "choose_hash algos algo = (if algo = ''sha256'' then ha_sha256 algos
     else if algo = ''sha1'' then ha_sha1 algos
     else ha_md5 algos)"

definition local_digest ::
  "nat \<Rightarrow> hash_algos \<Rightarrow> (bytes \<Rightarrow> string) \<Rightarrow> (string \<Rightarrow> ('w, 'f) vio) \<Rightarrow> ('f \<Rightarrow> nat \<Rightarrow> ('w, bytes) vio)
     \<Rightarrow> string \<Rightarrow> string \<Rightarrow> ('w, string) wio" where
  "local_digest fuel algos hex open_file read_file path algo =
     bind_wio (once (open_file path)) (\<lambda>file. hash_stream fuel (choose_hash algos algo) hex (read_file file))"

section \<open>The digest of the contents\<close>

text \<open>What the crates promise of a hasher: updates add up.\<close>

locale streaming_hash =
  fixes hash :: hasher
  assumes updates_add: "hash updates = hash [concat updates]"

context byte_source
begin

lemma hash_loop_updates:
  "hash_loop n rd updates w = Some (Inr updates', w') \<Longrightarrow> concat updates' = concat updates @ remaining w"
proof (induction n arbitrary: updates w)
  case (Suc n)
  obtain r w1 where r: "rd buffer_size w = (r, w1)" by force
  with Suc.prems obtain bs where bs: "r = Inr bs" by (cases r) auto
  have rest: "remaining w = bs @ remaining w1" using read_prefix r bs by simp
  show ?case
  proof (cases "bs = []")
    case True
    with Suc.prems r bs read_end [of buffer_size w w1] show ?thesis by (simp add: buffer_size_def)
  next
    case False
    with Suc.prems r bs have "hash_loop n rd (updates @ [bs]) w1 = Some (Inr updates', w')" by simp
    from Suc.IH [OF this] rest show ?thesis by simp
  qed
qed simp

lemma hash_loop_returns: "length (remaining w) < n \<Longrightarrow> \<exists>y. hash_loop n rd updates w = Some y"
proof (induction n arbitrary: updates w)
  case (Suc n)
  obtain r w1 where r: "rd buffer_size w = (r, w1)" by force
  show ?case
  proof (cases r)
    case (Inr bs)
    with r have "remaining w = bs @ remaining w1" using read_prefix by simp
    with Suc.prems have "bs \<noteq> [] \<Longrightarrow> length (remaining w1) < n" by (cases bs) auto
    with Suc.IH r Inr show ?thesis by simp
  qed (use r in simp)
qed simp

lemma hash_stream_whole:
  assumes "streaming_hash hash" "length (remaining w) < fuel"
  shows "\<exists>r w'. hash_stream fuel hash hex rd w = Some (r, w') \<and> (\<forall>d. r = Inr d \<longrightarrow> d = hex (hash [remaining w]))"
proof -
  obtain r w' where loop: "hash_loop fuel rd [] w = Some (r, w')"
    using hash_loop_returns [OF assms(2), of "[]"] by force
  show ?thesis
  proof (cases r)
    case (Inr updates)
    with loop have "concat updates = remaining w" using hash_loop_updates [of fuel "[]" w updates w'] by simp
    then have "hash updates = hash [remaining w]" using streaming_hash.updates_add [OF assms(1), of updates] by simp
    with loop Inr show ?thesis by (simp add: hash_stream_def bind_wio_def once_def)
  qed (use loop in \<open>simp add: hash_stream_def bind_wio_def once_def\<close>)
qed

end

text \<open>A hasher of that kind: the sum of the bytes.\<close>

definition byte_sum :: hasher where
  "byte_sum updates = [sum_list (concat updates)]"

interpretation byte_sum: streaming_hash byte_sum
  by unfold_locales (simp add: byte_sum_def)

text \<open>C28: The digest of a local file is that of its contents, however the reads cut them into pieces, and it is
  found with any fuel that exceeds their length.\<close>

theorem local_digest_of_contents:
  assumes "byte_source (read_file f) remaining" "streaming_hash (choose_hash algos algo)"
    and "open_file path w = (Inr f, w1)" "length (remaining w1) < fuel"
  shows "\<exists>r w2. local_digest fuel algos hex open_file read_file path algo w = Some (r, w2) \<and>
    (\<forall>d. r = Inr d \<longrightarrow> d = hex (choose_hash algos algo [remaining w1]))"
  using byte_source.hash_stream_whole [OF assms(1,2,4), of hex] assms(3)
  by (simp add: local_digest_def bind_wio_def once_def)

text \<open>A file that is read a byte at a time.\<close>

definition read_byte :: "unit \<Rightarrow> nat \<Rightarrow> (bytes, bytes) vio" where
  "read_byte f n w = (Inr (take (min n 1) w), drop (min n 1) w)"

interpretation read_byte: byte_source "read_byte ()" "\<lambda>w. w"
  by unfold_locales (auto simp: read_byte_def min_def split: if_splits)

definition as_text :: "bytes \<Rightarrow> string" where
  "as_text bs = map (\<lambda>b. char_of (unat b)) bs"

theorem local_digest_of_contents_witness:
  "\<exists>r w2. local_digest 4 \<lparr>ha_sha256 = byte_sum, ha_sha1 = byte_sum, ha_md5 = byte_sum\<rparr> as_text (\<lambda>p w. (Inr (), w))
      read_byte ''/f'' ''sha256'' [40, 1, 24] = Some (r, w2) \<and> (\<forall>d. r = Inr d \<longrightarrow> d = ''A'')"
proof -
  let ?algos = "\<lparr>ha_sha256 = byte_sum, ha_sha1 = byte_sum, ha_md5 = byte_sum\<rparr>"
  have "streaming_hash (choose_hash ?algos ''sha256'')" by (simp add: choose_hash_def byte_sum.streaming_hash_axioms)
  moreover have "as_text (choose_hash ?algos ''sha256'' [[40, 1, 24]]) = ''A''"
    by code_simp
  moreover have "byte_source (read_byte ()) (\<lambda>w. w)" by (rule read_byte.byte_source_axioms)
  ultimately show ?thesis
    using local_digest_of_contents [of read_byte "()" "\<lambda>w. w" ?algos "''sha256''" "\<lambda>p w. (Inr (), w)" "''/f''" "[40, 1, 24]" "[40, 1, 24]" 4 as_text]
    by simp
qed

end
