(* ===== verification/Logging.thy ===== *)
theory Logging
  imports Errors
begin

text \<open>
  \<open>src-tauri/src/logging.rs\<close>: the lines of a session's log by kind, and the pruning of old log
  files.  The sinks (the window, the log file) are outside the program.
\<close>

datatype log_line =
    LogStatus string
  | LogCommand string
  | LogResponse string
  | LogError string
  | LogTrace string

text \<open>What the log file takes: the filter named by the environment, when it can be parsed, or the default.\<close>

definition log_filter :: "(string \<Rightarrow> string option) \<Rightarrow> (string \<Rightarrow> bool) \<Rightarrow> string" where
  "log_filter env parses = (case env ''VAULTRA_LOG'' of
      Some text \<Rightarrow> if parses text then text else ''info,vaultra_lib=debug''
    | None \<Rightarrow> ''info,vaultra_lib=debug'')"

definition max_log_files :: nat where
  "max_log_files = 7"

text \<open>The loop over the sorted file names: which files are removed, oldest first.\<close>

function prune_loop :: "string list \<Rightarrow> string list \<Rightarrow> string list \<times> string list" where
  "prune_loop files removed =
     (if max_log_files < length files then prune_loop (remove_at 0 files) (removed @ [files ! 0])
      else (files, removed))"
  by pat_completeness auto
termination
  by (relation "measure (\<lambda>(files, removed). length files)") (auto simp: remove_at_def max_log_files_def)

declare prune_loop.simps [simp del]

text \<open>\<open>sort\<close> orders the paths; the daily log files sort by date.\<close>

definition prune_old_logs :: "(string list \<Rightarrow> string list) \<Rightarrow> string list option \<Rightarrow> string list" where
  "prune_old_logs sort_paths entries = (case entries of None \<Rightarrow> []
     | Some files \<Rightarrow> snd (prune_loop (sort_paths files) []))"

lemma prune_loop_eq:
  "prune_loop files removed =
     (drop (length files - max_log_files) files, removed @ take (length files - max_log_files) files)"
proof (induction files removed rule: prune_loop.induct)
  case (1 files removed)
  show ?case
  proof (cases "max_log_files < length files")
    case True
    then obtain f fs where f: "files = f # fs" by (cases files) auto
    with True have n: "length files - max_log_files = Suc (length fs - max_log_files)" by auto
    show ?thesis
      using "1.IH" [OF True] True
      by (subst prune_loop.simps) (simp add: f n remove_at_def Suc_diff_le)
  next
    case False
    then show ?thesis by (subst prune_loop.simps) simp
  qed
qed

lemma prune_old_logs_eq:
  "prune_old_logs sort_paths (Some files) =
     take (length (sort_paths files) - max_log_files) (sort_paths files)"
  by (simp add: prune_old_logs_def prune_loop_eq)

section \<open>Writing a line\<close>

datatype level = LevelError | LevelInfo | LevelDebug

definition log_level :: "log_line \<Rightarrow> level" where
  "log_level line = (case line of LogError _ \<Rightarrow> LevelError | LogTrace _ \<Rightarrow> LevelDebug | _ \<Rightarrow> LevelInfo)"

definition log_text :: "log_line \<Rightarrow> string" where
  "log_text line = (case line of LogStatus t \<Rightarrow> t | LogCommand t \<Rightarrow> t | LogResponse t \<Rightarrow> t | LogError t \<Rightarrow> t | LogTrace t \<Rightarrow> t)"

record log_message =
  lm_session_id :: "string option"
  lm_line :: log_line
  lm_ts :: int

text \<open>A logger knows whether there is a window to tell, and its session; the sinks are the log file and what
  the window was sent.\<close>

record logger =
  lo_app :: bool
  lo_session_id :: "string option"

record log_sinks =
  ls_file :: "(level \<times> string option \<times> string) list"
  ls_window :: "log_message list"

definition logger_new :: "bool \<Rightarrow> string option \<Rightarrow> logger" where
  "logger_new app session_id = \<lparr>lo_app = app, lo_session_id = session_id\<rparr>"

definition logger_log :: "logger \<Rightarrow> int \<Rightarrow> log_line \<Rightarrow> log_sinks \<Rightarrow> log_sinks" where
  "logger_log lg now line s =
     (let s1 = s\<lparr>ls_file := ls_file s @ [(log_level line, lo_session_id lg, log_text line)]\<rparr>
      in if lo_app lg
         then s1\<lparr>ls_window := ls_window s1 @ [\<lparr>lm_session_id = lo_session_id lg, lm_line = line, lm_ts = now\<rparr>]\<rparr>
         else s1)"

end
