(* ===== verification/Utf8.thy ===== *)
theory Utf8
  imports Rust_Strings
begin

text \<open>
  UTF-8 as the standard library decodes it.  \<open>utf8_step\<close> looks at the sequence a non-empty byte
  string starts with: its length and whether it encodes a character.  \<open>from_utf8_lossy\<close> is
  \<open>String::from_utf8_lossy\<close>: every maximal ill-formed sequence becomes U+FFFD.
\<close>

definition byte_at :: "string \<Rightarrow> nat \<Rightarrow> nat" where
  "byte_at s i = (if i < length s then of_char (s ! i) else 0)"

definition is_cont :: "nat \<Rightarrow> bool" where
  "is_cont n \<longleftrightarrow> 128 \<le> n \<and> n \<le> 191"

definition second3_ok :: "nat \<Rightarrow> nat \<Rightarrow> bool" where
  "second3_ok b c \<longleftrightarrow>
     (if b = 224 then 160 \<le> c \<and> c \<le> 191
      else if b = 237 then 128 \<le> c \<and> c \<le> 159
      else is_cont c)"

definition second4_ok :: "nat \<Rightarrow> nat \<Rightarrow> bool" where
  "second4_ok b c \<longleftrightarrow>
     (if b = 240 then 144 \<le> c \<and> c \<le> 191
      else if b = 244 then 128 \<le> c \<and> c \<le> 143
      else is_cont c)"

definition utf8_step :: "string \<Rightarrow> nat \<times> bool" where
  "utf8_step s =
     (let b0 = byte_at s 0; b1 = byte_at s 1; b2 = byte_at s 2; b3 = byte_at s 3
      in if b0 < 128 then (1, True)
         else if 194 \<le> b0 \<and> b0 \<le> 223 then (if is_cont b1 then (2, True) else (1, False))
         else if 224 \<le> b0 \<and> b0 \<le> 239 then
           (if \<not> second3_ok b0 b1 then (1, False)
            else if \<not> is_cont b2 then (2, False) else (3, True))
         else if 240 \<le> b0 \<and> b0 \<le> 244 then
           (if \<not> second4_ok b0 b1 then (1, False)
            else if \<not> is_cont b2 then (2, False)
            else if \<not> is_cont b3 then (3, False) else (4, True))
         else (1, False))"

definition replacement_char :: string where
  "replacement_char = [CHR 0xEF, CHR 0xBF, CHR 0xBD]"

lemma utf8_step_pos: "0 < fst (utf8_step s)"
  by (simp add: utf8_step_def Let_def)

lemma byte_at_pos: "0 < byte_at s i \<Longrightarrow> i < length s"
  by (simp add: byte_at_def split: if_splits)

lemma is_cont_pos: "is_cont n \<Longrightarrow> 0 < n"
  by (simp add: is_cont_def)

lemma utf8_step_le: "s \<noteq> [] \<Longrightarrow> fst (utf8_step s) \<le> length s"
proof -
  assume ne: "s \<noteq> []"
  have p3: "second3_ok b (byte_at s 1) \<Longrightarrow> 1 < length s" for b
    by (rule byte_at_pos) (auto simp: second3_ok_def is_cont_def split: if_splits)
  have p4: "second4_ok b (byte_at s 1) \<Longrightarrow> 1 < length s" for b
    by (rule byte_at_pos) (auto simp: second4_ok_def is_cont_def split: if_splits)
  have c: "is_cont (byte_at s i) \<Longrightarrow> i < length s" for i
    by (rule byte_at_pos) (rule is_cont_pos)
  show ?thesis
    using ne p3 [of "byte_at s 0"] p4 [of "byte_at s 0"] c [of 1] c [of 2] c [of 3]
    by (auto simp: utf8_step_def Let_def Suc_le_eq)
qed

function from_utf8_lossy :: "string \<Rightarrow> string" where
  "from_utf8_lossy s =
     (if s = [] then []
      else let (n, ok) = utf8_step s
           in (if ok then take n s else replacement_char) @ from_utf8_lossy (drop n s))"
  by pat_completeness auto
termination
proof (relation "measure length")
  fix s :: string and x n ok
  assume "s \<noteq> []" "x = utf8_step s" "(n, ok) = x"
  then have "0 < n" using utf8_step_pos [of s] by (metis fst_conv)
  with \<open>s \<noteq> []\<close> show "(drop n s, s) \<in> measure length" by simp
qed simp

function utf8_chars :: "string \<Rightarrow> string list" where
  "utf8_chars s =
     (if s = [] then [] else take (fst (utf8_step s)) s # utf8_chars (drop (fst (utf8_step s)) s))"
  by pat_completeness auto
termination
  using utf8_step_pos by (relation "measure length") auto

function utf8_valid :: "string \<Rightarrow> bool" where
  "utf8_valid s =
     (if s = [] then True
      else snd (utf8_step s) \<and> utf8_valid (drop (fst (utf8_step s)) s))"
  by pat_completeness auto
termination
  using utf8_step_pos by (relation "measure length") auto

declare from_utf8_lossy.simps [simp del] utf8_chars.simps [simp del] utf8_valid.simps [simp del]

lemma utf8_empty [simp]:
  "from_utf8_lossy [] = []" "utf8_chars [] = []" "utf8_valid []"
  by (simp_all add: from_utf8_lossy.simps utf8_chars.simps utf8_valid.simps)

lemma from_utf8_lossy_step:
  "s \<noteq> [] \<Longrightarrow> from_utf8_lossy s =
     (if snd (utf8_step s) then take (fst (utf8_step s)) s else replacement_char)
       @ from_utf8_lossy (drop (fst (utf8_step s)) s)"
  by (subst from_utf8_lossy.simps) (simp add: case_prod_beta)

text \<open>Decoding well-formed bytes returns them unchanged.\<close>

lemma from_utf8_lossy_valid: "utf8_valid s \<Longrightarrow> from_utf8_lossy s = s"
proof (induction s rule: utf8_valid.induct)
  case (1 s)
  show ?case
  proof (cases "s = []")
    case False
    from "1.prems" False have v: "snd (utf8_step s)" "utf8_valid (drop (fst (utf8_step s)) s)"
      by (simp_all add: utf8_valid.simps [of s])
    with False "1.IH" show ?thesis by (simp add: from_utf8_lossy_step)
  qed simp
qed

lemma utf8_chars_concat: "concat (utf8_chars s) = s"
proof (induction s rule: utf8_chars.induct)
  case (1 s)
  then show ?case by (subst utf8_chars.simps) auto
qed

text \<open>An accepted sequence is decided by its own bytes.\<close>

lemma utf8_step_valid_iff:
  "utf8_step s = (n, True) \<longleftrightarrow>
     (byte_at s 0 < 128 \<and> n = 1) \<or>
     (194 \<le> byte_at s 0 \<and> byte_at s 0 \<le> 223 \<and> is_cont (byte_at s 1) \<and> n = 2) \<or>
     (224 \<le> byte_at s 0 \<and> byte_at s 0 \<le> 239 \<and> second3_ok (byte_at s 0) (byte_at s 1) \<and>
        is_cont (byte_at s 2) \<and> n = 3) \<or>
     (240 \<le> byte_at s 0 \<and> byte_at s 0 \<le> 244 \<and> second4_ok (byte_at s 0) (byte_at s 1) \<and>
        is_cont (byte_at s 2) \<and> is_cont (byte_at s 3) \<and> n = 4)"
  unfolding utf8_step_def Let_def by (cases "byte_at s 0 < 128") auto

lemma utf8_step_cong:
  assumes "utf8_step s = (n, True)" "\<And>i. i < n \<Longrightarrow> byte_at s' i = byte_at s i"
  shows "utf8_step s' = (n, True)"
proof -
  have n: "0 < n" using assms(1) utf8_step_pos [of s] by simp
  then have agree: "byte_at s' 0 = byte_at s 0"
    "2 \<le> n \<longrightarrow> byte_at s' 1 = byte_at s 1"
    "3 \<le> n \<longrightarrow> byte_at s' 2 = byte_at s 2"
    "4 \<le> n \<longrightarrow> byte_at s' 3 = byte_at s 3"
    using assms(2) by simp_all
  show ?thesis
    using assms(1) [unfolded utf8_step_valid_iff] unfolding utf8_step_valid_iff
    by (elim disjE conjE) (use agree in simp_all)
qed

lemma utf8_step_extend:
  assumes "utf8_step s = (n, True)" "s \<noteq> []"
  shows "utf8_step (s @ t) = (n, True)"
proof (rule utf8_step_cong [OF assms(1)])
  fix i assume "i < n"
  moreover have "n \<le> length s" using utf8_step_le [OF assms(2)] assms(1) by simp
  ultimately show "byte_at (s @ t) i = byte_at s i" by (simp add: byte_at_def nth_append)
qed

lemma utf8_step_take:
  assumes "utf8_step s = (n, True)" "s \<noteq> []"
  shows "utf8_step (take n s) = (n, True)"
proof (rule utf8_step_cong [OF assms(1)])
  fix i assume "i < n"
  then show "byte_at (take n s) i = byte_at s i" by (simp add: byte_at_def)
qed

lemma utf8_valid_append: "utf8_valid s \<Longrightarrow> utf8_valid t \<Longrightarrow> utf8_valid (s @ t)"
proof (induction s rule: utf8_valid.induct)
  case (1 s)
  show ?case
  proof (cases "s = []")
    case False
    from "1.prems" False have v: "snd (utf8_step s)" "utf8_valid (drop (fst (utf8_step s)) s)"
      by (simp_all add: utf8_valid.simps [of s])
    have "utf8_step (s @ t) = utf8_step s"
      using v(1) utf8_step_extend [OF _ False, of "fst (utf8_step s)" t] by (simp add: prod_eq_iff)
    moreover have "utf8_valid (drop (fst (utf8_step s)) s @ t)"
      using "1.IH" False v "1.prems"(2) by blast
    moreover have "drop (fst (utf8_step s)) (s @ t) = drop (fst (utf8_step s)) s @ t"
      using utf8_step_le [OF False] by simp
    ultimately show ?thesis using v False by (subst utf8_valid.simps) simp
  qed (use "1.prems" in simp)
qed

lemma utf8_step_replacement: "utf8_step replacement_char = (3, True)"
  by (simp add: utf8_step_def replacement_char_def byte_at_def second3_ok_def is_cont_def Let_def)

lemma utf8_valid_replacement: "utf8_valid replacement_char"
  by (subst utf8_valid.simps) (simp only: utf8_step_replacement, simp add: replacement_char_def)

lemma utf8_valid_step:
  assumes "s \<noteq> []" "snd (utf8_step s)"
  shows "utf8_valid (take (fst (utf8_step s)) s)"
proof -
  let ?n = "fst (utf8_step s)"
  have "utf8_step s = (?n, True)" using assms(2) by (simp add: prod_eq_iff)
  then have "utf8_step (take ?n s) = (?n, True)" using assms(1) by (rule utf8_step_take)
  then show ?thesis by (subst utf8_valid.simps) simp
qed

text \<open>Whatever the server sent, the decoded string is well-formed.\<close>

lemma utf8_valid_from_utf8_lossy: "utf8_valid (from_utf8_lossy s)"
proof (induction s rule: from_utf8_lossy.induct)
  case (1 s)
  show ?case
  proof (cases "s = []")
    case False
    have "utf8_valid (from_utf8_lossy (drop (fst (utf8_step s)) s))"
      using "1.IH" [OF False refl] by (metis prod.collapse)
    then show ?thesis
      unfolding from_utf8_lossy_step [OF False]
      by (intro utf8_valid_append)
        (use utf8_valid_step [OF False] utf8_valid_replacement in \<open>auto\<close>)
  qed simp
qed

text \<open>Plain ASCII is well-formed.\<close>

lemma utf8_valid_ascii: "\<forall>c \<in> set s. of_char c < (128::nat) \<Longrightarrow> utf8_valid s"
proof (induction s)
  case (Cons c s)
  have "utf8_step (c # s) = (1, True)"
    using Cons.prems by (simp add: utf8_step_def byte_at_def)
  with Cons show ?case by (subst utf8_valid.simps) simp
qed simp

end
