(* ===== verification/Ssh_Process.thy ===== *)
theory Ssh_Process
  imports Logging Utf8
begin

text \<open>
  \<open>src-tauri/src/protocol/sftp/process.rs\<close>: the command line the OpenSSH client is started with,
  the collection of its diagnostics, and how they are turned into an error.  Processes, the
  environment, paths of the operating system and the \<open>regex\<close> crate's matches are arguments.
\<close>

record ssh_options =
  so_host :: string
  so_port :: u16
  so_user :: "string option"
  so_identity_file :: "string option"
  so_proxy_jump :: "string option"
  so_extra_options :: "string list"
  so_keepalive_secs :: u32
  so_connect_timeout_secs :: u32
  so_auto_accept_hostkey :: bool
  so_disable_password :: bool

definition ssh_target :: "ssh_options \<Rightarrow> string" where
  "ssh_target o1 = (case so_user o1 of
      Some u \<Rightarrow> if u \<noteq> [] then u @ ''@'' @ so_host o1 else so_host o1
    | None \<Rightarrow> so_host o1)"

text \<open>\<open>trim_start_matches\<close> with a string.\<close>

function trim_prefixes :: "string \<Rightarrow> string \<Rightarrow> string" where
  "trim_prefixes p s =
     (if p \<noteq> [] \<and> s \<noteq> [] \<and> starts_with s p then trim_prefixes p (drop (length p) s) else s)"
  by pat_completeness auto
termination
  by (relation "measure (\<lambda>(p, s). length s)") auto

declare trim_prefixes.simps [simp del]

definition trimmed :: "string option \<Rightarrow> string option" where
  "trimmed x = (case x of None \<Rightarrow> None | Some s \<Rightarrow> if trim s = [] then None else Some (trim s))"

definition extra_args :: "string list \<Rightarrow> string list" where
  "extra_args opts = concat (map (\<lambda>o1.
     let o2 = trim (trim_prefixes ''-o'' (trim o1))
     in if o2 = [] then [] else [''-o'' @ o2]) opts)"

definition ssh_args :: "ssh_options \<Rightarrow> string list" where
  "ssh_args o1 =
     [''-s'', ''-p'', show_nat (unat (so_port o1)), ''-oBatchMode=no'', ''-oNumberOfPasswordPrompts=3'',
      ''-oLogLevel=INFO'']
     @ [''-oStrictHostKeyChecking='' @ (if so_auto_accept_hostkey o1 then ''accept-new'' else ''ask'')]
     @ (if so_keepalive_secs o1 > 0
        then [''-oServerAliveInterval='' @ show_nat (unat (so_keepalive_secs o1)), ''-oServerAliveCountMax=3'']
        else [])
     @ (if so_connect_timeout_secs o1 > 0
        then [''-oConnectTimeout='' @ show_nat (unat (so_connect_timeout_secs o1))] else [])
     @ (case trimmed (so_identity_file o1) of
          Some key \<Rightarrow> [''-i'', key, ''-oIdentitiesOnly=yes''] | None \<Rightarrow> [])
     @ (if so_disable_password o1
        then [''-oPasswordAuthentication=no'', ''-oKbdInteractiveAuthentication=no''] else [])
     @ (case trimmed (so_proxy_jump o1) of Some jump \<Rightarrow> [''-J'', jump] | None \<Rightarrow> [])
     @ extra_args (so_extra_options o1)
     @ [ssh_target o1, ''sftp'']"

section \<open>Finding the tools\<close>

definition find_ssh ::
  "(string \<Rightarrow> string \<Rightarrow> string) \<Rightarrow> (string \<Rightarrow> bool) \<Rightarrow> string option \<Rightarrow> string list option \<Rightarrow> string option" where
  "find_ssh pjoin ex system_root path_dirs =
     (let in_path = (case path_dirs of None \<Rightarrow> None
          | Some dirs \<Rightarrow> find ex (map (\<lambda>d. pjoin d ''ssh.exe'') dirs))
      in case system_root of
          None \<Rightarrow> in_path
        | Some root \<Rightarrow>
            let c = pjoin (pjoin (pjoin root ''System32'') ''OpenSSH'') ''ssh.exe''
            in if ex c then Some c else in_path)"

definition find_ssh_tool :: "(string \<Rightarrow> string \<Rightarrow> string) \<Rightarrow> string option \<Rightarrow> string \<Rightarrow> string option" where
  "find_ssh_tool with_file_name ssh name = map_option (\<lambda>p. with_file_name p name) ssh"

text \<open>\<open>ssh -V\<close>: \<open>run\<close> gives its standard error and output.\<close>

definition ssh_version :: "string option \<Rightarrow> (string \<Rightarrow> (string \<times> string) option) \<Rightarrow> string option" where
  "ssh_version ssh run = (case ssh of None \<Rightarrow> None
    | Some p \<Rightarrow> (case run p of None \<Rightarrow> None
        | Some (err, out) \<Rightarrow>
            let err' = trim (from_utf8_lossy err); out' = trim (from_utf8_lossy out)
            in Some (if err' = [] then out' else err')))"

definition keygen_target :: "string \<Rightarrow> u16 \<Rightarrow> string" where
  "keygen_target host port =
     (if port = 22 then host else ''['' @ host @ '']:'' @ show_nat (unat port))"

definition forget_host_key ::
  "string option \<Rightarrow> (string \<Rightarrow> string list \<Rightarrow> 'w \<Rightarrow> (io_error + bool \<times> string) \<times> 'w) \<Rightarrow> string \<Rightarrow> u16
     \<Rightarrow> ('w, unit) vio" where
  "forget_host_key keygen run host port = (case keygen of
      None \<Rightarrow> err_io OpenSshMissing
    | Some tool \<Rightarrow> (\<lambda>w. case run tool [''-R'', keygen_target host port] w of
          (Inl e, w') \<Rightarrow> (Inl (from_io_error e), w')
        | (Inr (success, err), w') \<Rightarrow>
            if success then (Inr (), w')
            else (Inl (Other (''ssh-keygen -R failed: '' @ from_utf8_lossy err)), w')))"

section \<open>Diagnostics\<close>

definition max_stderr_lines :: nat where
  "max_stderr_lines = 500"

text \<open>One line of the \<open>relay_stderr\<close> loop: what is logged and what is kept.\<close>

definition relay_line :: "string \<Rightarrow> log_line list \<times> string list \<Rightarrow> log_line list \<times> string list" where
  "relay_line raw = (\<lambda>(log, sink).
     let line = trim raw
     in if line = [] then (log, sink)
        else let lower = to_ascii_lowercase line;
                 is_problem = list_ex (contains_str lower) [''warning'', ''error'', ''denied'', ''failed''];
                 log' = log @ [if is_problem then LogError (''ssh: '' @ line) else LogTrace (''ssh: '' @ line)]
             in (log', if length sink < max_stderr_lines then sink @ [line] else sink))"

definition relay_stderr :: "string list \<Rightarrow> log_line list \<times> string list \<Rightarrow> log_line list \<times> string list" where
  "relay_stderr = fold relay_line"

record ssh_captures =
  cap_fingerprint :: "string \<Rightarrow> string option"
  cap_key_type :: "string \<Rightarrow> string option"
  cap_known_hosts :: "string \<Rightarrow> string option"

definition captured :: "string option \<Rightarrow> string" where
  "captured x = (case x of Some s \<Rightarrow> s | None \<Rightarrow> [])"

definition ssh_failure :: "ssh_captures \<Rightarrow> ssh_options \<Rightarrow> string list \<Rightarrow> verror \<Rightarrow> verror" where
  "ssh_failure re o1 lines fallback =
     (let joined = join_with [CHR 0x0A] lines; has = contains_str joined
      in if has ''REMOTE HOST IDENTIFICATION HAS CHANGED'' then
           HostKeyChanged (so_host o1 @ '':'' @ show_nat (unat (so_port o1)))
             (captured (cap_fingerprint re joined)) (captured (cap_key_type re joined))
             (captured (cap_known_hosts re joined))
         else if has ''Host key verification failed'' then AuthFailed ''host key rejected''
         else if has ''Permission denied'' then
           AuthFailed ''permission denied (wrong password or key not accepted)''
         else if has ''Too many authentication failures'' then AuthFailed ''too many authentication failures''
         else if has ''Could not resolve hostname'' then
           ConnectionLost (''could not resolve host '' @ so_host o1)
         else if has ''Connection refused'' then ConnectionLost ''connection refused''
         else if has ''timed out'' then Timeout ''connection timed out''
         else if has ''subsystem request failed'' then
           Unsupported ''server does not offer the sftp subsystem''
         else (case find (\<lambda>l. \<not> starts_with l ''debug'') (rev lines) of
             Some last_line \<Rightarrow> Protocol (verror_display fallback @ '' (ssh: '' @ last_line @ '')'')
           | None \<Rightarrow> fallback))"

text \<open>
  \<open>connect\<close>: start the askpass server and the process, shake hands over its pipes.  \<open>handshake\<close>
  runs over the started process and \<open>stderr\<close> gives the lines collected when it has failed.
\<close>

definition ssh_connect ::
  "ssh_captures \<Rightarrow> string option \<Rightarrow> ('w, unit) vio \<Rightarrow> ('w, unit) vio
     \<Rightarrow> (string \<Rightarrow> string list \<Rightarrow> 'w \<Rightarrow> (string + 'p) \<times> 'w) \<Rightarrow> ('p \<Rightarrow> ('w, 'c) vio)
     \<Rightarrow> ('p \<Rightarrow> 'w \<Rightarrow> 'w) \<Rightarrow> ('w \<Rightarrow> string list) \<Rightarrow> ssh_options \<Rightarrow> ('w, 'c) vio" where
  "ssh_connect re ssh start_askpass self_exe spawn handshake reap stderr_lines o1 = (case ssh of
      None \<Rightarrow> err_io OpenSshMissing
    | Some exe \<Rightarrow>
        then_io start_askpass (then_io self_exe (\<lambda>w. case spawn exe (ssh_args o1) w of
          (Inl e, w1) \<Rightarrow> (Inl (Io (''failed to start ssh.exe: '' @ e)), w1)
        | (Inr child, w1) \<Rightarrow> (case handshake child w1 of
              (Inr client, w2) \<Rightarrow> (Inr client, w2)
            | (Inl e, w2) \<Rightarrow>
                let w3 = reap child w2
                in (Inl (ssh_failure re o1 (stderr_lines w3) e), w3)))))"

section \<open>Properties\<close>

lemma relay_line_bound:
  "length (snd st) \<le> max_stderr_lines \<Longrightarrow> length (snd (relay_line l st)) \<le> max_stderr_lines"
  by (auto simp: relay_line_def Let_def split: prod.splits)

lemma relay_stderr_bound:
  "length (snd st) \<le> max_stderr_lines \<Longrightarrow> length (snd (relay_stderr ls st)) \<le> max_stderr_lines"
  unfolding relay_stderr_def by (induction ls arbitrary: st) (simp_all add: relay_line_bound del: split_paired_All)

text \<open>How OpenSSH reads such a command line: \<open>-p\<close>, \<open>-i\<close> and \<open>-J\<close> take the next argument, another
  argument that starts with a dash is an option, and the first one that does not is the
  destination.\<close>

fun ssh_operands :: "string list \<Rightarrow> string list" where
  "ssh_operands [] = []"
| "ssh_operands (a # args) =
     (if a = ''-p'' \<or> a = ''-i'' \<or> a = ''-J'' then (case args of [] \<Rightarrow> [] | _ # r \<Rightarrow> ssh_operands r)
      else if starts_with a ''-'' then ssh_operands args
      else a # args)"

lemma operands_flags:
  "list_all (\<lambda>a. starts_with a ''-o'') xs \<Longrightarrow> ssh_operands (xs @ ys) = ssh_operands ys"
  by (induction xs) (auto simp: starts_with_iff)

lemma extra_args_flags: "list_all (\<lambda>a. starts_with a ''-o'') (extra_args opts)"
  by (auto simp: extra_args_def list_all_iff starts_with_iff Let_def split: if_splits)

lemma ssh_operands_args:
  "ssh_operands (ssh_args o1) = ssh_operands [ssh_target o1, ''sftp'']"
proof -
  have opt: "ssh_operands (extra_args (so_extra_options o1) @ [ssh_target o1, ''sftp'']) =
      ssh_operands [ssh_target o1, ''sftp'']"
    by (rule operands_flags [OF extra_args_flags])
  show ?thesis
    unfolding ssh_args_def
    by (cases "trimmed (so_identity_file o1)"; cases "trimmed (so_proxy_jump o1)")
      (simp_all add: opt starts_with_def del: ssh_operands.simps(2),
       simp_all add: opt starts_with_def)
qed

text \<open>Whatever keys, jump hosts and extra options a site has, the destination OpenSSH connects to
  is the site's \<open>user@host\<close> and the subsystem is \<open>sftp\<close>, provided the destination does not start
  with a dash.\<close>

theorem ssh_destination:
  assumes "\<not> starts_with (ssh_target o1) ''-''"
  shows "ssh_operands (ssh_args o1) = [ssh_target o1, ''sftp'']"
  unfolding ssh_operands_args using assms by (auto simp: starts_with_def)

definition sample_ssh :: ssh_options where
  "sample_ssh = \<lparr>so_host = ''example.org'', so_port = 2222, so_user = Some ''me'',
     so_identity_file = Some ''C:/key'', so_proxy_jump = Some ''jump'',
     so_extra_options = [''-oCompression=yes'', '' ''], so_keepalive_secs = 30,
     so_connect_timeout_secs = 30, so_auto_accept_hostkey = False, so_disable_password = False\<rparr>"

theorem ssh_destination_witness:
  "ssh_operands (ssh_args sample_ssh) = [''me@example.org'', ''sftp'']"
proof -
  have t: "ssh_target sample_ssh = ''me@example.org''" by (simp add: ssh_target_def sample_ssh_def)
  have h: "\<not> starts_with (ssh_target sample_ssh) ''-''" by (simp add: t starts_with_def)
  show ?thesis using ssh_destination [OF h] by (simp add: t)
qed

text \<open>A site without user name whose host starts with \<open>-o\<close> is not connected to at all: its host is
  passed where OpenSSH reads it as an option, and the subsystem name becomes the destination.\<close>

theorem ssh_host_read_as_option:
  assumes "so_user o1 = None" "so_host o1 = ''-o'' @ setting"
  shows "ssh_operands (ssh_args o1) = [''sftp''] \<and> (''-o'' @ setting) \<in> set (ssh_args o1)"
proof -
  have t: "ssh_target o1 = ''-o'' @ setting" using assms by (simp add: ssh_target_def)
  have "ssh_target o1 \<in> set (ssh_args o1)" by (simp add: ssh_args_def)
  with t show ?thesis unfolding ssh_operands_args by (simp add: starts_with_def)
qed

theorem ssh_host_read_as_option_witness:
  "ssh_operands (ssh_args (sample_ssh\<lparr>so_user := None, so_host := ''-oProxyCommand=calc''\<rparr>)) = [''sftp'']"
proof -
  have u: "so_user (sample_ssh\<lparr>so_user := None, so_host := ''-oProxyCommand=calc''\<rparr>) = None"
    and h: "so_host (sample_ssh\<lparr>so_user := None, so_host := ''-oProxyCommand=calc''\<rparr>)
      = ''-o'' @ ''ProxyCommand=calc''" by simp_all
  show ?thesis using ssh_host_read_as_option [OF u h] by blast
qed

end
