(* ===== verification/Askpass.thy ===== *)
theory Askpass
  imports Errors Utf8
begin

text \<open>
  \<open>src-tauri/src/askpass.rs\<close>: the classification of OpenSSH's prompts, the line protocol between
  the askpass helper and the program, and the broker of the prompts shown to the user.  Base64 is
  the \<open>base64\<close> crate's and the regular expressions are the \<open>regex\<close> crate's: arguments.
\<close>

datatype prompt_kind = Secret | Confirm | HostKey | Info

definition classify_prompt :: "string \<Rightarrow> string \<Rightarrow> prompt_kind" where
  "classify_prompt ssh_kind text =
     (let lower = to_ascii_lowercase text
      in if contains_str lower ''(yes/no''
         then if contains_str lower ''authenticity of host'' \<or> contains_str lower ''fingerprint''
              then HostKey else Confirm
         else if ssh_kind = ''confirm'' then Confirm
         else if ssh_kind = ''none'' then Info
         else Secret)"

section \<open>The line protocol\<close>

definition cancel_token :: string where
  "cancel_token = ''!cancel''"

text \<open>\<open>read_line\<close>: up to and including the first line feed; the rest stays unread.\<close>

fun read_line :: "string \<Rightarrow> string \<times> string" where
  "read_line [] = ([], [])"
| "read_line (c # s) = (if c = CHR 0x0A then ([c], s)
     else case read_line s of (l, r) \<Rightarrow> (c # l, r))"

definition client_request :: "(string \<Rightarrow> string) \<Rightarrow> string \<Rightarrow> string \<Rightarrow> string" where
  "client_request b64 kind prompt = kind @ [CHR 0x0A] @ b64 prompt @ [CHR 0x0A]"

definition client_reply ::
  "(string \<Rightarrow> string option) \<Rightarrow> string \<Rightarrow> string option option" where
  "client_reply unb64 input =
     (let line = trim_end_chars [CHR 0x0D, CHR 0x0A] (fst (read_line input))
      in if line = cancel_token then Some None
         else map_option (\<lambda>d. Some (from_utf8_lossy d)) (unb64 line))"

text \<open>\<open>askpass_client\<close>: the pipe is tried up to fifty times; \<open>exchange\<close> is the conversation over
  an open pipe, from what is written to what can be read.\<close>

fun askpass_client ::
  "(string \<Rightarrow> string) \<Rightarrow> (string \<Rightarrow> string option) \<Rightarrow> (nat \<Rightarrow> (string \<Rightarrow> string) option) \<Rightarrow> nat
     \<Rightarrow> string \<Rightarrow> string \<Rightarrow> string option option" where
  "askpass_client b64 unb64 pipe 0 kind prompt = None"
| "askpass_client b64 unb64 pipe (Suc tries) kind prompt =
     (case pipe tries of
        Some exchange \<Rightarrow> client_reply unb64 (exchange (client_request b64 kind prompt))
      | None \<Rightarrow> askpass_client b64 unb64 pipe tries kind prompt)"

definition client_retries :: nat where
  "client_retries = 50"

text \<open>\<open>serve_prompt\<close>: the two request lines, the handler's answer, the reply line.\<close>

definition serve_prompt ::
  "(string \<Rightarrow> string) \<Rightarrow> (string \<Rightarrow> string option) \<Rightarrow> (prompt_kind \<Rightarrow> string \<Rightarrow> 'w \<Rightarrow> string option \<times> 'w)
     \<Rightarrow> string \<Rightarrow> 'w \<Rightarrow> string \<times> 'w" where
  "serve_prompt b64 unb64 on_prompt input w =
     (case read_line input of (kind_line, rest) \<Rightarrow>
        case read_line rest of (prompt_line, _) \<Rightarrow>
          let prompt = (case unb64 (trim prompt_line) of Some d \<Rightarrow> from_utf8_lossy d | None \<Rightarrow> []);
              kind = classify_prompt (trim kind_line) prompt
          in case on_prompt kind prompt w of
               (Some answer, w') \<Rightarrow> (b64 answer @ [CHR 0x0A], w')
             | (None, w') \<Rightarrow> (cancel_token @ [CHR 0x0A], w'))"

text \<open>The exit code and output of the helper process: \<open>maybe_run_askpass_client\<close>.\<close>

definition askpass_exit :: "string option option \<Rightarrow> nat \<times> string" where
  "askpass_exit r = (case r of Some (Some answer) \<Rightarrow> (0, answer @ [CHR 0x0A]) | _ \<Rightarrow> (1, []))"

lemma read_line_append:
  "CHR 0x0A \<notin> set l \<Longrightarrow> read_line (l @ CHR 0x0A # r) = (l @ [CHR 0x0A], r)"
  by (induction l) auto

text \<open>The characters of standard base64, as the \<open>base64\<close> crate documents them.\<close>

definition b64_alphabet :: string where
  "b64_alphabet = ''ABCDEFGHIJKLMNOPQRSTUVWXYZabcdefghijklmnopqrstuvwxyz0123456789+/=''"

lemma b64_alphabet_plain: "list_all (\<lambda>c. plain_char c \<and> c \<noteq> CHR ''!'') b64_alphabet"
  by code_simp

text \<open>C35: The askpass helper receives exactly the answer the program's handler gave for OpenSSH's
  prompt: the request and the reply survive the line protocol, and a cancelled prompt cannot be
  mistaken for an answer, even for an empty one.\<close>

theorem askpass_exchange:
  assumes "\<forall>x. set (b64 x) \<subseteq> set b64_alphabet" "\<forall>x. unb64 (b64 x) = Some x"
    and "kind = [] \<or> kind = ''confirm'' \<or> kind = ''none''" "utf8_valid prompt"
    and "on_prompt (classify_prompt kind prompt) prompt w = (answer, w')"
    and "case answer of None \<Rightarrow> True | Some a \<Rightarrow> utf8_valid a"
  shows "client_reply unb64 (fst (serve_prompt b64 unb64 on_prompt (client_request b64 kind prompt) w))
    = Some answer"
proof -
  have plain: "list_all plain_char (b64 x)" "CHR ''!'' \<notin> set (b64 x)" for x
    using assms(1) b64_alphabet_plain by (auto simp: list_all_iff)
  have lf: "CHR 0x0A \<notin> set (b64 x)" "CHR 0x0D \<notin> set (b64 x)" for x
    using plain(1) [of x] by (auto simp: list_all_iff plain_char_def ascii_ws_def)
  have k: "CHR 0x0A \<notin> set kind" "list_all plain_char kind"
    using assms(3) by (auto simp: plain_char_def ascii_ws_def)
  have req: "read_line (client_request b64 kind prompt) = (kind @ [CHR 0x0A], b64 prompt @ [CHR 0x0A])"
    using read_line_append [OF k(1), of "b64 prompt @ [CHR 0x0A]"] by (simp add: client_request_def)
  have line: "read_line (b64 x @ [CHR 0x0A]) = (b64 x @ [CHR 0x0A], [])" for x
    using read_line_append [OF lf(1), of x "[]"] by simp
  have trim_line: "trim_end_chars [CHR 0x0D, CHR 0x0A] (b64 x @ [CHR 0x0A]) = b64 x" for x
    using lf [of x] by (intro trim_end_chars_none) auto
  have cancel: "b64 x \<noteq> cancel_token" for x
    using plain(2) [of x] by (auto simp: cancel_token_def)
  have served: "serve_prompt b64 unb64 on_prompt (client_request b64 kind prompt) w =
    (case answer of Some a \<Rightarrow> (b64 a @ [CHR 0x0A], w') | None \<Rightarrow> (cancel_token @ [CHR 0x0A], w'))"
    using assms(2,4,5)
    by (simp add: serve_prompt_def req line trim_plain_newline plain k from_utf8_lossy_valid Let_def
        split: option.split)
  show ?thesis
  proof (cases answer)
    case None
    have "client_reply unb64 (cancel_token @ [CHR 0x0A]) = Some None"
      by (simp add: client_reply_def cancel_token_def trim_end_chars_def)
    with None served show ?thesis by simp
  next
    case (Some a)
    with assms(6) have "from_utf8_lossy a = a" by (simp add: from_utf8_lossy_valid)
    with Some served assms(2) cancel show ?thesis by (simp add: client_reply_def line trim_line Let_def)
  qed
qed

text \<open>An encoding in the alphabet, for the witness: each bit of a byte as a letter.\<close>

fun bits_of :: "nat \<Rightarrow> nat \<Rightarrow> string" where
  "bits_of 0 n = []"
| "bits_of (Suc k) n = (if n mod 2 = 1 then CHR ''B'' else CHR ''A'') # bits_of k (n div 2)"

fun of_bits :: "string \<Rightarrow> nat" where
  "of_bits [] = 0"
| "of_bits (c # s) = (if c = CHR ''B'' then 1 else 0) + 2 * of_bits s"

definition sample_encode :: "string \<Rightarrow> string" where
  "sample_encode s = concat (map (\<lambda>c. bits_of 8 (of_char c)) s)"

fun sample_decode :: "nat \<Rightarrow> string \<Rightarrow> string" where
  "sample_decode 0 s = []"
| "sample_decode (Suc n) s = char_of (of_bits (take 8 s)) # sample_decode n (drop 8 s)"

lemma length_bits_of [simp]: "length (bits_of k n) = k"
  by (induction k n rule: bits_of.induct) auto

lemma of_bits_bits_of: "of_bits (bits_of k n) = n mod 2 ^ k"
proof (induction k n rule: bits_of.induct)
  case (2 k n)
  then show ?case by (simp add: mod_mult2_eq [of n 2 "2 ^ k"])
qed simp

lemma sample_decode_encode: "sample_decode (length (sample_encode s) div 8) (sample_encode s) = s"
proof (induction s)
  case (Cons c s)
  have "(of_char c :: nat) < 2 ^ 8" by (simp add: of_char_of [symmetric] del: of_char_of)
  then have "char_of (of_bits (bits_of 8 (of_char c))) = c" by (simp add: of_bits_bits_of)
  moreover have "sample_encode (c # s) = bits_of 8 (of_char c) @ sample_encode s"
    by (simp add: sample_encode_def)
  moreover have "(8 + k) div 8 = Suc (k div 8)" for k :: nat by simp
  ultimately show ?case using Cons.IH by simp
qed (simp add: sample_encode_def)

lemma sample_encode_alphabet: "set (sample_encode s) \<subseteq> set b64_alphabet"
proof -
  have "set (bits_of k n) \<subseteq> {CHR ''A'', CHR ''B''}" for k n
    by (induction k n rule: bits_of.induct) auto
  then show ?thesis by (fastforce simp: sample_encode_def b64_alphabet_def)
qed

theorem askpass_exchange_witness:
  "client_reply (\<lambda>l. Some (sample_decode (length l div 8) l))
     (fst (serve_prompt sample_encode (\<lambda>l. Some (sample_decode (length l div 8) l))
       (\<lambda>k t w. (Some ''secret'', w)) (client_request sample_encode [] ''Password:'') ()))
   = Some (Some ''secret'')"
proof -
  have v: "utf8_valid ''Password:''" "utf8_valid ''secret''" by (simp_all add: utf8_valid_ascii)
  show ?thesis
    by (rule askpass_exchange) (use v sample_encode_alphabet sample_decode_encode in simp_all)
qed

section \<open>The prompts shown to the user\<close>

record host_key_prompt =
  hp_host :: string
  hp_key_type :: string
  hp_fingerprint :: string

text \<open>\<open>host_re\<close> and \<open>key_re\<close> give the captured groups of the two regular expressions' first matches.\<close>

definition parse_hostkey_prompt ::
  "(string \<Rightarrow> string option) \<Rightarrow> (string \<Rightarrow> (string \<times> string) option) \<Rightarrow> string \<Rightarrow> host_key_prompt" where
  "parse_hostkey_prompt host_re key_re text =
     (let host = (case host_re text of Some h \<Rightarrow> h | None \<Rightarrow> []);
          (key_type, fingerprint) = (case key_re text of Some kf \<Rightarrow> kf | None \<Rightarrow> ([], []))
      in \<lparr>hp_host = host, hp_key_type = key_type, hp_fingerprint = fingerprint\<rparr>)"

record ui_prompt =
  up_prompt_id :: string
  up_session_id :: string
  up_kind :: prompt_kind
  up_text :: string
  up_details :: "host_key_prompt option"

text \<open>A pending prompt's channel: open, or what was sent.\<close>

datatype prompt_channel = PcOpen | PcSent "string option" | PcGone

record prompt_broker =
  pb_pending :: "(string \<times> nat) list"
  pb_channels :: "prompt_channel list"
  pb_shown :: "ui_prompt list"

definition broker_open ::
  "(string \<Rightarrow> host_key_prompt) \<Rightarrow> string \<Rightarrow> string \<Rightarrow> prompt_kind \<Rightarrow> string
     \<Rightarrow> prompt_broker \<Rightarrow> nat \<times> prompt_broker" where
  "broker_open details uuid sess kind text b =
     (let c = length (pb_channels b)
      in (c, b\<lparr>pb_pending := (uuid, c) # pb_pending b, pb_channels := pb_channels b @ [PcOpen],
           pb_shown := pb_shown b @ [\<lparr>up_prompt_id = uuid, up_session_id = sess, up_kind = kind,
             up_text = text,
             up_details = (if kind = HostKey then Some (details text) else None)\<rparr>]\<rparr>))"

definition broker_close :: "string \<Rightarrow> nat \<Rightarrow> prompt_broker \<Rightarrow> string option \<times> prompt_broker" where
  "broker_close uuid c b = (case pb_channels b ! c of
      PcSent answer \<Rightarrow> (answer, b\<lparr>pb_channels := (pb_channels b)[c := PcGone]\<rparr>)
    | _ \<Rightarrow> (None, b\<lparr>pb_pending := filter (\<lambda>p. fst p \<noteq> uuid) (pb_pending b),
                 pb_channels := (pb_channels b)[c := PcGone]\<rparr>))"

text \<open>\<open>ask\<close>: \<open>wait c\<close> is what happened until channel \<open>c\<close> was resolved or the timeout fired.\<close>

definition broker_ask ::
  "(nat \<Rightarrow> prompt_broker \<Rightarrow> prompt_broker) \<Rightarrow> (string \<Rightarrow> host_key_prompt) \<Rightarrow> string
     \<Rightarrow> string \<Rightarrow> prompt_kind \<Rightarrow> string \<Rightarrow> prompt_broker \<Rightarrow> string option \<times> prompt_broker" where
  "broker_ask wait details uuid sess kind text b =
     (case broker_open details uuid sess kind text b of (c, b1) \<Rightarrow> broker_close uuid c (wait c b1))"

definition broker_answer :: "string \<Rightarrow> string option \<Rightarrow> prompt_broker \<Rightarrow> bool \<times> prompt_broker" where
  "broker_answer uuid answer b = (case map_of (pb_pending b) uuid of
      None \<Rightarrow> (False, b)
    | Some c \<Rightarrow>
        let b1 = b\<lparr>pb_pending := filter (\<lambda>p. fst p \<noteq> uuid) (pb_pending b)\<rparr>
        in if pb_channels b ! c = PcOpen
           then (True, b1\<lparr>pb_channels := (pb_channels b)[c := PcSent answer]\<rparr>)
           else (False, b1))"

section \<open>The helper process and the pipe\<close>

definition env_pipe :: string where
  "env_pipe = ''VAULTRA_ASKPASS_PIPE''"

text \<open>\<open>maybe_run_askpass_client\<close>: \<open>None\<close> when this process is the application itself, else the exit code and
  the output of the helper; \<open>open_pipe\<close> opens a pipe by name.\<close>

definition maybe_run_askpass_client ::
  "(string \<Rightarrow> string) \<Rightarrow> (string \<Rightarrow> string option) \<Rightarrow> (string \<Rightarrow> nat \<Rightarrow> (string \<Rightarrow> string) option)
     \<Rightarrow> (string \<Rightarrow> string option) \<Rightarrow> string list \<Rightarrow> (nat \<times> string) option" where
  "maybe_run_askpass_client b64 unb64 open_pipe env args = (case env env_pipe of
      None \<Rightarrow> None
    | Some pipe \<Rightarrow> if pipe = [] then None
        else let prompt = join_with '' '' (drop 1 args);
                 kind = (case env ''SSH_ASKPASS_PROMPT'' of Some k \<Rightarrow> k | None \<Rightarrow> [])
          in Some (askpass_exit (askpass_client b64 unb64 (open_pipe pipe) client_retries kind prompt)))"

definition askpass_pipe_name :: "string \<Rightarrow> string" where
  "askpass_pipe_name uuid = [CHR 0x5C, CHR 0x5C, CHR ''.'', CHR 0x5C] @ ''pipe'' @ [CHR 0x5C] @ ''vaultra-askpass-'' @ uuid"

text \<open>What the accept loop sees: the server object is dropped, or somebody connects (with an error, or with
  the input of a connection) and the next instance of the pipe can be created or not.\<close>

datatype pipe_event = PipeStop | PipeFailed | PipeConnected string bool

text \<open>The inputs of the connections that are served, and of those that are closed unanswered.\<close>

fun pipe_server :: "pipe_event list \<Rightarrow> string list \<times> string list" where
  "pipe_server [] = ([], [])"
| "pipe_server (PipeStop # es) = ([], [])"
| "pipe_server (PipeFailed # es) = ([], [])"
| "pipe_server (PipeConnected input created # es) =
     (if \<not> created then ([], [input])
      else case pipe_server es of (served, closed) \<Rightarrow> (input # served, closed))"

definition askpass_start :: "string \<Rightarrow> string + unit \<Rightarrow> string vresult" where
  "askpass_start uuid first = (case first of
      Inl e \<Rightarrow> Inl (Io (''failed to create askpass pipe: '' @ e))
    | Inr _ \<Rightarrow> Inr (askpass_pipe_name uuid))"

lemma pipe_server_answers:
  "length (fst (pipe_server es)) + length (snd (pipe_server es)) \<le> length es \<and> length (snd (pipe_server es)) \<le> 1"
  by (induction es rule: pipe_server.induct) (auto split: prod.splits)

text \<open>A connection that is closed without a reply, as the loop does when it cannot create the next pipe,
  is taken by the helper for an empty answer: it prints an empty line and succeeds.\<close>

theorem closed_pipe_is_answer:
  assumes "unb64 [] = Some []"
  shows "askpass_exit (client_reply unb64 []) = (0, [CHR 0x0A])"
proof -
  have "trim_end_chars [CHR 0x0D, CHR 0x0A] [] = []" by (simp add: trim_end_chars_def)
  with assms have "client_reply unb64 [] = Some (Some (from_utf8_lossy []))"
    by (simp add: client_reply_def cancel_token_def Let_def)
  then show ?thesis by (simp add: askpass_exit_def from_utf8_lossy_valid)
qed

theorem closed_pipe_is_answer_witness:
  "askpass_exit (client_reply (\<lambda>s. if s = [] then Some [] else None) []) = (0, [CHR 0x0A])"
  by (rule closed_pipe_is_answer) simp

end
