(* ===== verification/Sessions.thy ===== *)
theory Sessions
  imports Site_Model Ssh_Process Askpass "HOL-Library.AList"
begin

text \<open>
  \<open>src-tauri/src/session.rs\<close>: the listing cache, the password prompts of a connection, the pool of
  transfer connections, and the session table.  A session's mutable parts live in the world; the
  session itself holds how to read and write them (\<open>lv_get\<close>, \<open>lv_put\<close>).  A client, an \<open>Arc\<close> in the
  code, is a number that \<open>lv_client\<close> dereferences.  Instants are integers.
\<close>

section \<open>The listing cache\<close>

record listing_cache =
  lc_ttl :: int
  lc_entries :: "(string \<times> (int \<times> remote_entry list)) list"

definition cache_new :: "int \<Rightarrow> listing_cache" where
  "cache_new ttl = \<lparr>lc_ttl = ttl, lc_entries = []\<rparr>"

definition cache_get :: "int \<Rightarrow> string \<Rightarrow> listing_cache \<Rightarrow> remote_entry list option" where
  "cache_get now path c = (case map_of (lc_entries c) path of
      None \<Rightarrow> None
    | Some (stamp, listing) \<Rightarrow> if now - stamp < lc_ttl c then Some listing else None)"

definition cache_put :: "int \<Rightarrow> string \<Rightarrow> remote_entry list \<Rightarrow> listing_cache \<Rightarrow> listing_cache" where
  "cache_put now path listing c = c\<lparr>lc_entries := AList.update path (now, listing) (lc_entries c)\<rparr>"

definition cache_invalidate :: "string \<Rightarrow> listing_cache \<Rightarrow> listing_cache" where
  "cache_invalidate path c = c\<lparr>lc_entries := AList.delete path (lc_entries c)\<rparr>"

text \<open>What a cache promises, and what follows for any history of puts and invalidations.\<close>

datatype cache_event = CPut int string "remote_entry list" | CInv string

fun event_path :: "cache_event \<Rightarrow> string" where
  "event_path (CPut t p l) = p"
| "event_path (CInv p) = p"

fun cache_run ::
  "(int \<Rightarrow> string \<Rightarrow> remote_entry list \<Rightarrow> 'c \<Rightarrow> 'c) \<Rightarrow> (string \<Rightarrow> 'c \<Rightarrow> 'c) \<Rightarrow> cache_event list \<Rightarrow> 'c \<Rightarrow> 'c" where
  "cache_run put inval [] c = c"
| "cache_run put inval (CPut t p l # evs) c = cache_run put inval evs (put t p l c)"
| "cache_run put inval (CInv p # evs) c = cache_run put inval evs (inval p c)"

locale directory_cache =
  fixes get :: "int \<Rightarrow> string \<Rightarrow> 'c \<Rightarrow> remote_entry list option"
    and put :: "int \<Rightarrow> string \<Rightarrow> remote_entry list \<Rightarrow> 'c \<Rightarrow> 'c"
    and inval :: "string \<Rightarrow> 'c \<Rightarrow> 'c"
    and ttl :: "'c \<Rightarrow> int"
  assumes get_put: "get now p (put t p l c) = (if now - t < ttl c then Some l else None)"
    and get_put_other: "p \<noteq> p' \<Longrightarrow> get now p (put t p' l c) = get now p c"
    and get_inv: "get now p (inval p c) = None"
    and get_inv_other: "p \<noteq> p' \<Longrightarrow> get now p (inval p' c) = get now p c"
    and ttl_put: "ttl (put t p l c) = ttl c"
    and ttl_inv: "ttl (inval p c) = ttl c"
begin

lemma run_append: "cache_run put inval (xs @ ys) c = cache_run put inval ys (cache_run put inval xs c)"
  by (induction put inval xs c rule: cache_run.induct) auto

lemma ttl_run: "ttl (cache_run put inval evs c) = ttl c"
  by (induction put\<equiv>put inval\<equiv>inval evs c rule: cache_run.induct) (auto simp: ttl_put ttl_inv)

lemma run_other:
  "list_all (\<lambda>e. event_path e \<noteq> p) evs \<Longrightarrow> get now p (cache_run put inval evs c) = get now p c"
  by (induction put\<equiv>put inval\<equiv>inval evs c rule: cache_run.induct)
    (auto simp: get_put_other get_inv_other)

lemma run_get:
  assumes "get now p c = None" "get now p (cache_run put inval evs c) = Some l"
  shows "\<exists>pre t post. evs = pre @ CPut t p l # post \<and>
    list_all (\<lambda>e. event_path e \<noteq> p) post \<and> now - t < ttl c"
  using assms(2)
proof (induction evs rule: rev_induct)
  case Nil
  with assms(1) show ?case by simp
next
  case (snoc e evs)
  show ?case
  proof (cases "event_path e = p")
    case False
    then have "get now p (cache_run put inval evs c) = Some l"
      using snoc.prems run_other [of p "[e]"] by (simp add: run_append)
    with snoc.IH obtain pre t post where "evs = pre @ CPut t p l # post"
      "list_all (\<lambda>e. event_path e \<noteq> p) post" "now - t < ttl c" by blast
    with False show ?thesis by (intro exI [of _ pre] exI [of _ t] exI [of _ "post @ [e]"]) simp
  next
    case True
    show ?thesis
    proof (cases e)
      case (CPut t' p' l')
      with True snoc.prems have "l' = l" "now - t' < ttl c"
        by (auto simp: run_append get_put ttl_run split: if_splits)
      with CPut True show ?thesis by (intro exI [of _ evs] exI [of _ t'] exI [of _ "[]"]) simp
    next
      case (CInv p')
      with True snoc.prems show ?thesis by (simp add: run_append get_inv)
    qed
  qed
qed

end

interpretation listings: directory_cache cache_get cache_put cache_invalidate lc_ttl
  by unfold_locales
    (simp_all add: cache_get_def cache_put_def cache_invalidate_def update_conv' delete_conv'
      split: option.split)

text \<open>A listing served from the cache is the one last stored for that path, younger than the
  cache's lifetime, and the path has not been invalidated since.\<close>

theorem cache_never_stale:
  assumes "cache_get now p (cache_run cache_put cache_invalidate evs (cache_new ttl)) = Some l"
  shows "\<exists>pre t post. evs = pre @ CPut t p l # post \<and>
    list_all (\<lambda>e. event_path e \<noteq> p) post \<and> now - t < ttl"
proof -
  have "cache_get now p (cache_new ttl) = None" by (simp add: cache_get_def cache_new_def)
  from listings.run_get [OF this assms] show ?thesis by (simp add: cache_new_def)
qed

theorem cache_never_stale_witness:
  "\<exists>pre t post. [CPut 1 ''/a'' [], CPut 2 ''/b'' [], CInv ''/b''] = pre @ CPut t ''/a'' [] # post \<and>
    list_all (\<lambda>e. event_path e \<noteq> ''/a'') post \<and> 3 - t < 5"
proof -
  have g: "cache_get 3 ''/a'' (cache_run cache_put cache_invalidate
      [CPut 1 ''/a'' [], CPut 2 ''/b'' [], CInv ''/b''] (cache_new 5)) = Some []"
    by (simp add: cache_get_def cache_put_def cache_invalidate_def cache_new_def)
  show ?thesis using cache_never_stale [OF g] .
qed

section \<open>Password prompts\<close>

record prompt_state =
  ps_password :: "string option"
  ps_password_uses :: u32
  ps_interactive_prompts :: u32
  ps_log :: "log_line list"

definition max_interactive_password_prompts :: u32 where
  "max_interactive_password_prompts = 1"

text \<open>\<open>ask\<close> is the broker: it shows the prompt and waits for the user's answer.\<close>

definition on_prompt ::
  "(prompt_kind \<Rightarrow> string \<Rightarrow> 'w \<Rightarrow> string option \<times> 'w) \<Rightarrow> prompt_kind \<Rightarrow> string
     \<Rightarrow> prompt_state \<times> 'w \<Rightarrow> string option \<times> prompt_state \<times> 'w" where
  "on_prompt ask kind text = (\<lambda>(st, w). case kind of
      Info \<Rightarrow> (Some [], st\<lparr>ps_log := ps_log st @ [LogStatus text]\<rparr>, w)
    | Secret \<Rightarrow>
        let pw = contains_str (to_ascii_lowercase text) ''password'';
            stored = ps_password st;
            try_stored = (pw \<and> stored \<noteq> None);
            uses = ps_password_uses st;
            st1 = (if try_stored then st\<lparr>ps_password_uses := uses + 1\<rparr> else st)
        in if try_stored \<and> uses = 0 then (stored, st1, w)
           else
             let shown = ps_interactive_prompts st1;
                 st2 = (if pw then st1\<lparr>ps_interactive_prompts := shown + 1\<rparr> else st1)
             in if pw \<and> shown \<ge> max_interactive_password_prompts
                then (None, st2\<lparr>ps_log := ps_log st2 @
                  [LogError ''Password rejected; not asking again for this connection'']\<rparr>, w)
                else (case ask kind text w of
                    (None, w1) \<Rightarrow> (None, st2, w1)
                  | (Some answer, w1) \<Rightarrow>
                      (Some answer, if pw then st2\<lparr>ps_password := Some answer\<rparr> else st2, w1))
    | _ \<Rightarrow> (case ask kind text w of (answer, w1) \<Rightarrow>
        (Some (if answer = Some ''yes'' then ''yes'' else ''no''), st, w1)))"

definition new_prompts :: "string option \<Rightarrow> prompt_state" where
  "new_prompts password =
     \<lparr>ps_password = password, ps_password_uses = 0, ps_interactive_prompts = 0, ps_log = []\<rparr>"

fun run_prompts ::
  "(prompt_kind \<Rightarrow> string \<Rightarrow> 'w \<Rightarrow> string option \<times> 'w) \<Rightarrow> string list \<Rightarrow> prompt_state \<times> 'w
     \<Rightarrow> string option list" where
  "run_prompts ask [] s = []"
| "run_prompts ask (t # ts) s = (case on_prompt ask Secret t s of (a, s') \<Rightarrow> a # run_prompts ask ts s')"

definition chances :: "prompt_state \<Rightarrow> nat" where
  "chances st = (if ps_password_uses st = 0 then 1 else 0) + (if ps_interactive_prompts st = 0 then 1 else 0)"

definition answered :: "string option list \<Rightarrow> nat" where
  "answered as = length (filter (\<lambda>a. a \<noteq> None) as)"

lemma u32_inc:
  assumes "unat (x :: u32) + 1 < 2 ^ 32"
  shows "x + 1 \<noteq> 0" and "unat (x + 1) = unat x + 1"
proof -
  show u: "unat (x + 1) = unat x + 1"
    using assms by (simp add: unat_word_ariths)
  show "x + 1 \<noteq> 0" using u by auto
qed

text \<open>One prompt for a password: an answer uses up one of the two chances.\<close>

lemma password_prompt_step:
  assumes "contains_str (to_ascii_lowercase t) ''password''"
    and "on_prompt ask Secret t (st, w) = (a, st', w')"
    and "unat (ps_password_uses st) + 1 < 2 ^ 32" "unat (ps_interactive_prompts st) + 1 < 2 ^ 32"
  shows "chances st' + (if a = None then 0 else 1) \<le> chances st"
    and "unat (ps_password_uses st') \<le> unat (ps_password_uses st) + 1"
    and "unat (ps_interactive_prompts st') \<le> unat (ps_interactive_prompts st) + 1"
proof -
  note inc = u32_inc [OF assms(3)] u32_inc [OF assms(4)]
  have ge: "1 \<le> (x :: u32) \<longleftrightarrow> x \<noteq> 0" for x
    by (simp add: word_le_nat_alt Suc_le_eq unat_gt_0)
  from assms(1,2) show "chances st' + (if a = None then 0 else 1) \<le> chances st"
    and "unat (ps_password_uses st') \<le> unat (ps_password_uses st) + 1"
    and "unat (ps_interactive_prompts st') \<le> unat (ps_interactive_prompts st) + 1"
    using inc
    by (auto simp: on_prompt_def Let_def chances_def ge max_interactive_password_prompts_def
        split: if_splits option.splits prod.splits)
qed

lemma run_prompts_bound:
  assumes "list_all (\<lambda>t. contains_str (to_ascii_lowercase t) ''password'') ts"
    and "unat (ps_password_uses st) + length ts < 2 ^ 32"
    and "unat (ps_interactive_prompts st) + length ts < 2 ^ 32"
  shows "answered (run_prompts ask ts (st, w)) \<le> chances st"
  using assms
proof (induction ts arbitrary: st w)
  case (Cons t ts)
  obtain a st' w' where p: "on_prompt ask Secret t (st, w) = (a, st', w')" by (metis prod_cases3)
  from Cons.prems have c: "contains_str (to_ascii_lowercase t) ''password''" by simp
  from Cons.prems have b: "unat (ps_password_uses st) + 1 < 2 ^ 32" "unat (ps_interactive_prompts st) + 1 < 2 ^ 32"
    by simp_all
  note S = password_prompt_step [OF c p b]
  have "answered (run_prompts ask ts (st', w')) \<le> chances st'"
    by (rule Cons.IH) (use Cons.prems S in auto)
  with S(1) show ?case by (auto simp: p answered_def)
qed (simp add: answered_def)



section \<open>A session's state and operations\<close>

record session_data =
  sd_password :: "string option"
  sd_idle_pool :: "nat list"
  sd_pooled_count :: nat
  sd_cache :: listing_cache
  sd_keepalive :: bool
  sd_log :: "log_line list"

record 'w live_session = session +
  lv_primary :: nat
  lv_client :: "nat \<Rightarrow> 'w remote_client"
  lv_get :: "'w \<Rightarrow> session_data"
  lv_put :: "session_data \<Rightarrow> 'w \<Rightarrow> 'w"

record transfer_lease =
  tl_client :: nat
  tl_pooled :: bool

definition session_client :: "'w live_session \<Rightarrow> 'w remote_client" where
  "session_client s = lv_client s (lv_primary s)"

definition lv_modify :: "'w live_session \<Rightarrow> (session_data \<Rightarrow> session_data) \<Rightarrow> 'w \<Rightarrow> 'w" where
  "lv_modify s f w = lv_put s (f (lv_get s w)) w"

definition log_to :: "'w live_session \<Rightarrow> log_line \<Rightarrow> 'w \<Rightarrow> 'w" where
  "log_to s l = lv_modify s (\<lambda>d. d\<lparr>sd_log := sd_log d @ [l]\<rparr>)"

record ftp_options =
  fo_protocol :: protocol
  fo_host :: string
  fo_port :: u16
  fo_user :: string
  fo_password :: string
  fo_mode :: transfer_mode
  fo_ascii :: bool
  fo_encoding :: encoding_mode
  fo_timeout_secs :: u64

definition connect_ftp ::
  "(ftp_options \<Rightarrow> ('w, nat) vio) \<Rightarrow> site_config \<Rightarrow> string \<Rightarrow> ('w, nat) vio" where
  "connect_ftp connect site password =
     (let (user, pw) = (case sc_logon_type site of Anonymous \<Rightarrow> ([], []) | _ \<Rightarrow> (sc_user site, password))
      in connect \<lparr>fo_protocol = sc_protocol site, fo_host = trim (sc_host site),
           fo_port = effective_port site, fo_user = user, fo_password = pw,
           fo_mode = (case sc_transfer_mode site of TmDefault \<Rightarrow> TmPassive | m \<Rightarrow> m),
           fo_ascii = sc_ascii_mode site, fo_encoding = sc_encoding site,
           fo_timeout_secs = ucast (sc_timeout_secs site)\<rparr>)"

definition site_ssh_options :: "site_config \<Rightarrow> bool \<Rightarrow> ssh_options" where
  "site_ssh_options site accept_new_hostkey =
     (let key_only = (sc_logon_type site = KeyFile)
      in \<lparr>so_host = trim (sc_host site), so_port = effective_port site,
          so_user = (if sc_user site \<noteq> [] then Some (sc_user site) else None),
          so_identity_file = (if trim (sf_key_path (sc_sftp site)) \<noteq> []
             then Some (sf_key_path (sc_sftp site)) else None),
          so_proxy_jump = (if trim (sf_proxy_jump (sc_sftp site)) \<noteq> []
             then Some (sf_proxy_jump (sc_sftp site)) else None),
          so_extra_options = sf_extra_options (sc_sftp site),
          so_keepalive_secs = sc_keepalive_secs site, so_connect_timeout_secs = sc_timeout_secs site,
          so_auto_accept_hostkey = accept_new_hostkey,
          so_disable_password = (key_only \<and> \<not> sf_use_agent (sc_sftp site))\<rparr>)"

definition transfer_client ::
  "(ftp_options \<Rightarrow> ('w, nat) vio) \<Rightarrow> 'w live_session \<Rightarrow> ('w, transfer_lease) vio" where
  "transfer_client connect s w =
     (if rc_supports_multiplexing (session_client s)
      then (Inr \<lparr>tl_client = lv_primary s, tl_pooled = False\<rparr>, w)
      else if sd_idle_pool (lv_get s w) \<noteq> []
      then (Inr \<lparr>tl_client = last (sd_idle_pool (lv_get s w)), tl_pooled = True\<rparr>,
            lv_modify s (\<lambda>d. d\<lparr>sd_idle_pool := butlast (sd_idle_pool d)\<rparr>) w)
      else
        let password = (case sd_password (lv_get s w) of Some p \<Rightarrow> p | None \<Rightarrow> []);
            w1 = log_to s (LogStatus ''Opening additional connection for transfer'') w
        in (case connect_ftp connect (ss_site s) password w1 of
            (Inl e, w2) \<Rightarrow> (Inl e, w2)
          | (Inr c, w2) \<Rightarrow> (Inr \<lparr>tl_client = c, tl_pooled = True\<rparr>,
               lv_modify s (\<lambda>d. d\<lparr>sd_pooled_count := sd_pooled_count d + 1\<rparr>) w2)))"

text \<open>Dropping a lease; the push onto the pool happens in a task of its own, here at once.\<close>

definition drop_lease :: "'w live_session \<Rightarrow> transfer_lease \<Rightarrow> 'w \<Rightarrow> 'w" where
  "drop_lease s l w = (if \<not> tl_pooled l then w
     else lv_modify s (\<lambda>d. d\<lparr>sd_idle_pool := sd_idle_pool d @ [tl_client l]\<rparr>) w)"

definition session_list ::
  "(('w \<Rightarrow> int)) \<Rightarrow> 'w live_session \<Rightarrow> string \<Rightarrow> bool \<Rightarrow> ('w, remote_entry list) vio" where
  "session_list clock s path force w =
     (let cached = (if force then None else cache_get (clock w) path (sd_cache (lv_get s w)))
      in case cached of
        Some listing \<Rightarrow> (Inr listing, log_to s (LogStatus (''Directory listing of '' @ [CHR 0x22] @ path
            @ [CHR 0x22] @ '' served from cache ('' @ show_nat (length listing) @ '' entries)'')) w)
      | None \<Rightarrow>
          let w1 = log_to s (LogStatus (''Retrieving directory listing of '' @ [CHR 0x22] @ path @ [CHR 0x22])) w
          in (case rc_list (session_client s) path w1 of
              (Inl e, w2) \<Rightarrow> (Inl e, log_to s (LogError (''Failed to retrieve directory listing of ''
                 @ [CHR 0x22] @ path @ [CHR 0x22] @ '': '' @ verror_display e)) w2)
            | (Inr listing, w2) \<Rightarrow>
                let w3 = log_to s (LogStatus (''Directory listing of '' @ [CHR 0x22] @ path @ [CHR 0x22]
                      @ '' successful ('' @ show_nat (length listing) @ '' entries)'')) w2
                in (Inr listing, lv_modify s
                     (\<lambda>d. d\<lparr>sd_cache := cache_put (clock w3) path listing (sd_cache d)\<rparr>) w3)))"

definition session_invalidate :: "'w live_session \<Rightarrow> string \<Rightarrow> 'w \<Rightarrow> 'w" where
  "session_invalidate s path =
     lv_modify s (\<lambda>d. d\<lparr>sd_cache := cache_invalidate (parent path) (cache_invalidate path (sd_cache d))\<rparr>)"

fun disconnect_each :: "'w live_session \<Rightarrow> nat list \<Rightarrow> 'w \<Rightarrow> 'w" where
  "disconnect_each s [] w = w"
| "disconnect_each s (c # cs) w = disconnect_each s cs (snd (rc_disconnect (lv_client s c) w))"

definition session_close :: "'w live_session \<Rightarrow> 'w \<Rightarrow> 'w" where
  "session_close s w =
     (let w1 = lv_modify s (\<lambda>d. d\<lparr>sd_keepalive := False\<rparr>) w;
          pooled = sd_idle_pool (lv_get s w1);
          w2 = lv_modify s (\<lambda>d. d\<lparr>sd_idle_pool := []\<rparr>) w1
      in snd (rc_disconnect (session_client s) (disconnect_each s pooled w2)))"

text \<open>One tick of the keepalive task, which \<open>spawn_keepalive\<close> starts when the interval is not 0.\<close>

definition keepalive_tick :: "'w live_session \<Rightarrow> 'w \<Rightarrow> 'w" where
  "keepalive_tick s w = (if \<not> sd_keepalive (lv_get s w) then w
     else case rc_keepalive (session_client s) w of
         (Inr _, w1) \<Rightarrow> w1
       | (Inl e, w1) \<Rightarrow> log_to s (LogError (''Keepalive failed: '' @ verror_display e)) w1)"

definition spawn_keepalive :: "'w live_session \<Rightarrow> 'w \<Rightarrow> 'w" where
  "spawn_keepalive s w = (if sc_keepalive_secs (ss_site s) = 0 then w
     else lv_modify s (\<lambda>d. d\<lparr>sd_keepalive := True\<rparr>) w)"

section \<open>The session table\<close>

record session_info =
  si_id :: string
  si_site :: site_config
  si_initial_dir :: string
  si_supported_hashes :: "string list"

type_synonym 'w session_table = "(string \<times> 'w live_session) list"

definition manager_get :: "'w session_table \<Rightarrow> string \<Rightarrow> 'w live_session vresult" where
  "manager_get tab sid = ok_or (map_of tab sid) InvalidSession"

definition manager_all :: "'w session_table \<Rightarrow> 'w live_session list" where
  "manager_all tab = map snd tab"

definition initial_directory ::
  "(log_line \<Rightarrow> 'w \<Rightarrow> 'w) \<Rightarrow> site_config \<Rightarrow> 'w remote_client \<Rightarrow> ('w, string) vio" where
  "initial_directory log site client =
     (let dir = trim (sc_remote_dir site)
      in if dir = [] then rc_initial_dir client
         else (\<lambda>w. case rc_realpath client dir w of
             (Inr resolved, w1) \<Rightarrow> (Inr resolved, w1)
           | (Inl e, w1) \<Rightarrow> rc_initial_dir client
               (log (LogError (''Default remote directory unavailable ('' @ verror_display e
                  @ ''); using home'')) w1)))"

text \<open>
  \<open>connect\<close>: \<open>sftp_connect\<close> and \<open>ftp_connect\<close> open the two kinds of clients, \<open>place\<close> gives the
  fresh session's place in the world (its accessors).
\<close>

definition manager_connect ::
  "(ssh_options \<Rightarrow> ('w, nat) vio) \<Rightarrow> (ftp_options \<Rightarrow> ('w, nat) vio)
     \<Rightarrow> (nat \<Rightarrow> 'w remote_client) \<Rightarrow> (log_line \<Rightarrow> 'w \<Rightarrow> 'w) \<Rightarrow> (string \<Rightarrow> ('w \<Rightarrow> session_data) \<times> (session_data \<Rightarrow> 'w \<Rightarrow> 'w))
     \<Rightarrow> string \<Rightarrow> app_settings \<Rightarrow> site_config \<Rightarrow> string option \<Rightarrow> bool \<Rightarrow> 'w session_table
     \<Rightarrow> ('w, session_info \<times> 'w session_table) vio" where
  "manager_connect sftp_connect ftp_connect clients log place uuid settings site password accept_new tab =
     bind_io (if sc_protocol site = Sftp then sftp_connect (site_ssh_options site accept_new)
              else connect_ftp ftp_connect site (case password of Some p \<Rightarrow> p | None \<Rightarrow> []))
       (\<lambda>client. bind_io (initial_directory log site (clients client)) (\<lambda>dir w.
          let s = \<lparr>ss_id = uuid, ss_site = site, lv_primary = client, lv_client = clients, lv_get = fst (place uuid),
                 lv_put = snd (place uuid)\<rparr>;
              data = \<lparr>sd_password = password, sd_idle_pool = [], sd_pooled_count = 0,
                 sd_cache = cache_new (uint (max (st_cache_ttl_secs settings) 1)), sd_keepalive = False,
                 sd_log = []\<rparr>;
              w1 = spawn_keepalive s (lv_put s data w)
          in (Inr (\<lparr>si_id = uuid, si_site = site, si_initial_dir = dir,
                   si_supported_hashes = rc_supported_hashes (clients client)\<rparr>,
                 AList.update uuid s tab), w1)))"

definition manager_disconnect :: "string \<Rightarrow> 'w session_table \<Rightarrow> 'w \<Rightarrow> 'w session_table \<times> 'w" where
  "manager_disconnect sid tab w = (case map_of tab sid of
      None \<Rightarrow> (tab, w)
    | Some s \<Rightarrow> (AList.delete sid tab, session_close s w))"

definition manager_disconnect_all :: "'w session_table \<Rightarrow> 'w \<Rightarrow> 'w session_table \<times> 'w" where
  "manager_disconnect_all tab w = ([], fold session_close (map snd tab) w)"

section \<open>Properties of sessions\<close>

definition well_placed :: "'w live_session \<Rightarrow> bool" where
  "well_placed s \<longleftrightarrow> (\<forall>d w. lv_get s (lv_put s d w) = d)"

lemma lv_get_modify [simp]: "well_placed s \<Longrightarrow> lv_get s (lv_modify s f w) = f (lv_get s w)"
  by (simp add: well_placed_def lv_modify_def)

lemma lv_get_log [simp]:
  "well_placed s \<Longrightarrow> lv_get s (log_to s l w) = (lv_get s w)\<lparr>sd_log := sd_log (lv_get s w) @ [l]\<rparr>"
  by (simp add: log_to_def)

text \<open>After a path was invalidated, listing it, or the directory it lies in, asks the server again,
  even when the cached listing was still fresh.\<close>

theorem invalidate_forces_listing:
  assumes "well_placed s" "p = path \<or> p = parent path"
  shows "\<exists>w'. session_list clock s p False (session_invalidate s path w) =
    session_list clock s p True w' \<and> w' = session_invalidate s path w"
proof -
  let ?c = "sd_cache (lv_get s w)"
  have "cache_get now p (cache_invalidate (parent path) (cache_invalidate path ?c)) = None" for now
    using assms(2) listings.get_inv [of now] listings.get_inv_other [of p "parent path" now]
    by (cases "p = parent path") auto
  then show ?thesis
    by (simp add: session_list_def session_invalidate_def assms(1))
qed

text \<open>A sequence of acquisitions and releases of transfer connections.\<close>

datatype pool_op = PAcquire | PRelease nat

fun pool_step ::
  "(ftp_options \<Rightarrow> ('w, nat) vio) \<Rightarrow> 'w live_session \<Rightarrow> pool_op
     \<Rightarrow> 'w \<times> transfer_lease list \<Rightarrow> 'w \<times> transfer_lease list" where
  "pool_step connect s PAcquire (w, leases) = (case transfer_client connect s w of
      (Inr l, w') \<Rightarrow> (w', leases @ [l]) | (Inl _, w') \<Rightarrow> (w', leases))"
| "pool_step connect s (PRelease k) (w, leases) =
     (if k < length leases then (drop_lease s (leases ! k) w, remove_at k leases) else (w, leases))"

fun pool_peak ::
  "(ftp_options \<Rightarrow> ('w, nat) vio) \<Rightarrow> 'w live_session \<Rightarrow> pool_op list
     \<Rightarrow> 'w \<times> transfer_lease list \<Rightarrow> nat" where
  "pool_peak connect s [] st = length (snd st)"
| "pool_peak connect s (op # ops) st = max (length (snd st)) (pool_peak connect s ops (pool_step connect s op st))"

definition pool_ok :: "'w live_session \<Rightarrow> nat \<Rightarrow> 'w \<times> transfer_lease list \<Rightarrow> bool" where
  "pool_ok s n st \<longleftrightarrow> list_all tl_pooled (snd st) \<and>
     sd_pooled_count (lv_get s (fst st)) = length (sd_idle_pool (lv_get s (fst st))) + length (snd st) \<and>
     sd_pooled_count (lv_get s (fst st)) \<le> n"

lemma pool_step_ok:
  assumes "well_placed s" "\<not> rc_supports_multiplexing (session_client s)"
    and "\<forall>o1 w. lv_get s (snd (connect o1 w)) = lv_get s w" and "pool_ok s n st"
  shows "pool_ok s (max n (length (snd (pool_step connect s op st)))) (pool_step connect s op st)"
proof (cases op)
  case (PRelease k)
  obtain w leases where st: "st = (w, leases)" by (cases st)
  show ?thesis
  proof (cases "k < length leases")
    case True
    then have "tl_pooled (leases ! k)" "list_all tl_pooled (remove_at k leases)"
      using assms(4) set_remove_at_subset [of k leases] by (auto simp: pool_ok_def st list_all_iff)
    with True PRelease show ?thesis
      using assms(1,4) by (auto simp: pool_ok_def st drop_lease_def length_remove_at)
  qed (use PRelease assms(4) in \<open>auto simp: pool_ok_def st\<close>)
next
  case PAcquire
  obtain w leases where st: "st = (w, leases)" by (cases st)
  let ?pw = "case sd_password (lv_get s w) of Some p \<Rightarrow> p | None \<Rightarrow> []"
  let ?w1 = "log_to s (LogStatus ''Opening additional connection for transfer'') w"
  have conn: "lv_get s (snd (connect_ftp connect (ss_site s) ?pw ?w1)) = lv_get s ?w1"
    by (simp add: connect_ftp_def assms(3) split: prod.split)
  show ?thesis
  proof (cases "sd_idle_pool (lv_get s w) = []")
    case False
    with PAcquire assms(1,2,4) show ?thesis
      by (auto simp: pool_ok_def st transfer_client_def neq_Nil_conv)
  next
    case True
    show ?thesis
    proof (cases "connect_ftp connect (ss_site s) ?pw ?w1")
      case (Pair r w2)
      with conn have "lv_get s w2 = lv_get s ?w1" by simp
      with True PAcquire Pair assms(1,2,4) show ?thesis
        by (cases r) (auto simp: pool_ok_def st transfer_client_def Let_def)
    qed
  qed
qed

lemma pool_ok_mono: "pool_ok s n st \<Longrightarrow> n \<le> m \<Longrightarrow> pool_ok s m st"
  by (auto simp: pool_ok_def)

lemma pool_run_ok:
  assumes "well_placed s" "\<not> rc_supports_multiplexing (session_client s)"
    and "\<forall>o1 w. lv_get s (snd (connect o1 w)) = lv_get s w" and "pool_ok s n st"
  shows "pool_ok s (max n (pool_peak connect s ops st)) (fold (pool_step connect s) ops st)"
  using assms(4)
proof (induction ops arbitrary: n st)
  case Nil
  then show ?case by (auto intro: pool_ok_mono)
next
  case (Cons op ops)
  let ?st = "pool_step connect s op st"
  have "length (snd ?st) \<le> pool_peak connect s ops ?st" by (cases ops) auto
  then have "max (max n (length (snd ?st))) (pool_peak connect s ops ?st)
      \<le> max n (pool_peak connect s (op # ops) st)" by auto
  with Cons.IH [OF pool_step_ok [OF assms(1-3) Cons.prems, where op = op]] show ?case
    by (simp add: pool_ok_mono)
qed


text \<open>A world that is one session's data, and a server that accepts every connection.\<close>

definition sample_client :: "'w remote_client" where
  "sample_client = \<lparr>rc_supports_multiplexing = False, rc_initial_dir = ok_io ''/'', rc_realpath = ok_io,
     rc_list = (\<lambda>p. ok_io []), rc_stat = (\<lambda>p. err_io (NotFound p)), rc_readlink = ok_io,
     rc_mkdir = (\<lambda>p. ok_io ()), rc_rmdir = (\<lambda>p. ok_io ()), rc_remove = (\<lambda>p. ok_io ()),
     rc_rename = (\<lambda>p q. ok_io ()), rc_chmod = (\<lambda>p m. ok_io ()), rc_touch = (\<lambda>p. ok_io ()),
     rc_open_read = (\<lambda>p off. err_io (NotFound p)), rc_open_write = (\<lambda>p off. err_io (NotFound p)),
     rc_keepalive = ok_io (), rc_disconnect = ok_io (), rc_supported_hashes = default_supported_hashes,
     rc_hash = default_hash\<rparr>"

definition sample_data :: session_data where
  "sample_data = \<lparr>sd_password = None, sd_idle_pool = [], sd_pooled_count = 0, sd_cache = cache_new 1,
     sd_keepalive = False, sd_log = []\<rparr>"

definition sample_live :: "session_data live_session" where
  "sample_live = \<lparr>ss_id = ''s'', ss_site = default_site ''site'', lv_primary = 0,
     lv_client = (\<lambda>_. sample_client), lv_get = (\<lambda>w. w), lv_put = (\<lambda>d w. d)\<rparr>"

lemma sample_live_ok: "well_placed sample_live" "\<not> rc_supports_multiplexing (session_client sample_live)"
  by (simp_all add: well_placed_def sample_live_def session_client_def sample_client_def)

theorem invalidate_forces_listing_witness:
  "\<exists>w'. session_list (\<lambda>w. 0) sample_live ''/a'' False (session_invalidate sample_live ''/a/b'' sample_data) =
     session_list (\<lambda>w. 0) sample_live ''/a'' True w'"
proof -
  have p: "''/a'' = ''/a/b'' \<or> ''/a'' = parent ''/a/b''" by code_simp
  show ?thesis
    using invalidate_forces_listing [OF sample_live_ok(1) p, of "\<lambda>w. 0" sample_data] by blast
qed


end
