(* ===== verification/Local_Fs.thy ===== *)
theory Local_Fs
  imports Protocol_Types
begin

text \<open>
  \<open>src-tauri/src/local_fs.rs\<close>: local files and links.  The operating system (\<open>std::fs\<close>), the path
  arithmetic of \<open>std::path\<close>, and the \<open>lnk\<close> crate's shortcut parser are the fields of \<open>os_fs\<close>; a
  query reads the world, a change returns the world after it.
\<close>

datatype local_kind = LkFile | LkDir | LkSymlink | LkJunction | LkShortcut | LkDrive

record local_entry =
  le_name :: string
  le_path :: string
  le_kind :: local_kind
  le_size :: u64
  le_mtime :: "int option"
  le_hidden :: bool
  le_readonly :: bool
  le_link_target :: "string option"
  le_link_broken :: bool
  le_target_is_dir :: "bool option"

definition local_dir_like :: "local_entry \<Rightarrow> bool" where
  "local_dir_like e \<longleftrightarrow> le_kind e = LkDir \<or> le_kind e = LkDrive \<or> le_target_is_dir e = Some True"

text \<open>\<open>fs::Metadata\<close>: the modification time in seconds since 1970 when the system has one.\<close>

record file_meta =
  fm_is_dir :: bool
  fm_is_symlink :: bool
  fm_len :: u64
  fm_mtime :: "int option"
  fm_attributes :: u32

record 'w os_fs =
  os_symlink_metadata :: "string \<Rightarrow> 'w \<Rightarrow> io_error + file_meta"
  os_metadata :: "string \<Rightarrow> 'w \<Rightarrow> io_error + file_meta"
  os_read_link :: "string \<Rightarrow> 'w \<Rightarrow> io_error + string"
  os_read_dir :: "string \<Rightarrow> 'w \<Rightarrow> io_error + (io_error + string) list"
  os_exists :: "string \<Rightarrow> 'w \<Rightarrow> bool"
  os_canonicalize :: "string \<Rightarrow> 'w \<Rightarrow> io_error + string"
  os_shortcut_target :: "string \<Rightarrow> 'w \<Rightarrow> string option"
  os_create_dir :: "string \<Rightarrow> ('w, io_error, unit) io"
  os_create_dir_all :: "string \<Rightarrow> ('w, io_error, unit) io"
  os_create_new :: "string \<Rightarrow> ('w, io_error, unit) io"
  os_rename :: "string \<Rightarrow> string \<Rightarrow> ('w, io_error, unit) io"
  os_remove_dir_all :: "string \<Rightarrow> ('w, io_error, unit) io"
  os_remove_dir :: "string \<Rightarrow> ('w, io_error, unit) io"
  os_remove_file :: "string \<Rightarrow> ('w, io_error, unit) io"
  os_copy :: "string \<Rightarrow> string \<Rightarrow> ('w, io_error, unit) io"
  os_join :: "string \<Rightarrow> string \<Rightarrow> string"
  os_parent :: "string \<Rightarrow> string option"
  os_file_name :: "string \<Rightarrow> string option"
  os_extension :: "string \<Rightarrow> string option"
  os_is_absolute :: "string \<Rightarrow> bool"
  os_ancestors :: "string \<Rightarrow> string list"
  os_strip_base :: "string \<Rightarrow> string \<Rightarrow> string option"
  os_lowercase :: "string \<Rightarrow> string"

text \<open>\<open>map_err(VError::from)\<close>.\<close>

definition os_io :: "('w, io_error, 'a) io \<Rightarrow> ('w, 'a) vio" where
  "os_io m = (\<lambda>w. case m w of (r, w') \<Rightarrow> (map_err from_io_error r, w'))"

section \<open>Describing and listing\<close>

definition annotate_link :: "'w os_fs \<Rightarrow> 'w \<Rightarrow> local_entry \<Rightarrow> string \<Rightarrow> string option \<Rightarrow> local_entry" where
  "annotate_link os w e link_path target = (case target of
      None \<Rightarrow> e\<lparr>le_link_broken := True\<rparr>
    | Some t \<Rightarrow>
        let resolved = (if os_is_absolute os t then t
              else (case os_parent os link_path of Some p \<Rightarrow> os_join os p t | None \<Rightarrow> t));
            e1 = e\<lparr>le_link_target := Some t\<rparr>
        in (case os_metadata os resolved w of
            Inr m \<Rightarrow>
              let e2 = e1\<lparr>le_target_is_dir := Some (fm_is_dir m)\<rparr>
              in if \<not> fm_is_dir m then e2\<lparr>le_size := fm_len m\<rparr> else e2
          | Inl _ \<Rightarrow> e1\<lparr>le_link_broken := True, le_target_is_dir := Some False\<rparr>))"

definition describe :: "'w os_fs \<Rightarrow> 'w \<Rightarrow> string \<Rightarrow> local_entry option" where
  "describe os w path = (case (os_symlink_metadata os path w, os_file_name os path) of
      (Inr meta, Some name) \<Rightarrow>
        let attributes = fm_attributes meta;
            e = \<lparr>le_name = name, le_path = path,
                 le_kind = (if fm_is_dir meta then LkDir else LkFile),
                 le_size = (if fm_is_dir meta then 0 else fm_len meta), le_mtime = fm_mtime meta,
                 le_hidden = (and attributes 0x2 \<noteq> 0 \<or> starts_with name ''.''),
                 le_readonly = (and attributes 0x1 \<noteq> 0), le_link_target = None,
                 le_link_broken = False, le_target_is_dir = None\<rparr>;
            is_reparse = (and attributes 0x400 \<noteq> 0)
        in Some (if fm_is_symlink meta \<or> is_reparse then
              annotate_link os w (e\<lparr>le_kind := (if fm_is_symlink meta then LkSymlink else LkJunction)\<rparr>) path
                (ok_option (os_read_link os path w))
            else if ends_with (to_ascii_lowercase name) ''.lnk'' then
              annotate_link os w (e\<lparr>le_kind := LkShortcut\<rparr>) path (os_shortcut_target os path w)
            else e)
    | _ \<Rightarrow> None)"

definition list_dir :: "'w os_fs \<Rightarrow> string \<Rightarrow> bool \<Rightarrow> 'w \<Rightarrow> local_entry list vresult" where
  "list_dir os path show_hidden w = (case os_read_dir os path w of
      Inl e \<Rightarrow> Inl (from_io_error e)
    | Inr items \<Rightarrow> Inr (filter (\<lambda>e. \<not> (le_hidden e \<and> \<not> show_hidden))
        (List.map_filter (\<lambda>item. Option.bind (ok_option item) (describe os w)) items)))"

definition drive_entry :: "char \<Rightarrow> local_entry" where
  "drive_entry letter =
     \<lparr>le_name = [letter, CHR '':'', CHR 0x5C], le_path = [letter, CHR '':'', CHR 0x5C], le_kind = LkDrive, le_size = 0,
      le_mtime = None, le_hidden = False, le_readonly = False, le_link_target = None,
      le_link_broken = False, le_target_is_dir = Some True\<rparr>"

text \<open>
  What the shortcut reader finds in a \<open>.lnk\<close> file that can be opened: the path of its link information (the local
  base path, if any, and the common suffix) and a relative path.
\<close>

record shell_link =
  sk_info :: "(string option \<times> string) option"
  sk_relative :: "string option"

definition shortcut_target :: "shell_link option \<Rightarrow> string option" where
  "shortcut_target link = (case link of None \<Rightarrow> None
     | Some l \<Rightarrow> (case sk_info l of
         Some (Some base, suffix) \<Rightarrow> Some (base @ suffix)
       | _ \<Rightarrow> sk_relative l))"

definition drive_letters :: "u32 \<Rightarrow> char list" where
  "drive_letters drives = map (\<lambda>i. char_of (65 + i))
     (filter (\<lambda>i. and drives (push_bit i 1) \<noteq> 0) [0..<26])"

definition list_drives :: "u32 \<Rightarrow> local_entry list" where
  "list_drives drives = map drive_entry (drive_letters drives)"

definition home_dir :: "string option \<Rightarrow> string" where
  "home_dir d = (case d of Some p \<Rightarrow> p | None \<Rightarrow> [CHR ''C'', CHR '':'', CHR 0x5C])"

section \<open>Links and paths\<close>

definition strip_verbatim :: "string \<Rightarrow> string" where
  "strip_verbatim path = (case strip_prefix [CHR 0x5C, CHR 0x5C, CHR ''?'', CHR 0x5C] path of Some p \<Rightarrow> p | None \<Rightarrow> path)"

definition resolve_link :: "'w os_fs \<Rightarrow> string \<Rightarrow> 'w \<Rightarrow> string vresult" where
  "resolve_link os p w =
     (if (case os_extension os p of Some e \<Rightarrow> eq_ignore_ascii_case e ''lnk'' | None \<Rightarrow> False)
      then ok_or (os_shortcut_target os p w) (NotFound ''shortcut target unavailable'')
      else (case os_read_link os p w of
          Inl e \<Rightarrow> Inl (from_io_error e)
        | Inr target \<Rightarrow> Inr (strip_verbatim
            (if os_is_absolute os target then target
             else (case os_parent os p of Some d \<Rightarrow> os_join os d target | None \<Rightarrow> target)))))"

definition parent_of :: "'w os_fs \<Rightarrow> string \<Rightarrow> string option" where
  "parent_of os path = (case os_parent os path of
      None \<Rightarrow> None
    | Some text \<Rightarrow> Some (if text = [] then text else if ends_with text '':'' then text @ [CHR 0x5C] else text))"

definition local_join :: "'w os_fs \<Rightarrow> string \<Rightarrow> string \<Rightarrow> string" where
  "local_join os base name = os_join os base name"

section \<open>Changing\<close>

definition local_mkdir :: "'w os_fs \<Rightarrow> string \<Rightarrow> ('w, unit) vio" where
  "local_mkdir os path = os_io (os_create_dir os path)"

definition create_file :: "'w os_fs \<Rightarrow> string \<Rightarrow> ('w, unit) vio" where
  "create_file os path = os_io (os_create_new os path)"

definition local_rename :: "'w os_fs \<Rightarrow> string \<Rightarrow> string \<Rightarrow> ('w, unit) vio" where
  "local_rename os old new = os_io (os_rename os old new)"

definition local_delete :: "'w os_fs \<Rightarrow> string \<Rightarrow> ('w, unit) vio" where
  "local_delete os path w = (case os_symlink_metadata os path w of
      Inl e \<Rightarrow> (Inl (from_io_error e), w)
    | Inr meta \<Rightarrow>
        if fm_is_dir meta \<and> \<not> fm_is_symlink meta then os_io (os_remove_dir_all os path) w
        else if fm_is_dir meta then os_io (os_remove_dir os path) w
        else os_io (os_remove_file os path) w)"

definition comparable :: "'w os_fs \<Rightarrow> string \<Rightarrow> string" where
  "comparable os path = os_lowercase os (trim_end_chars [CHR 0x5C] (strip_verbatim path))"

definition is_same_or_inside :: "'w os_fs \<Rightarrow> 'w \<Rightarrow> string \<Rightarrow> string \<Rightarrow> bool" where
  "is_same_or_inside os w source destination =
     (case os_canonicalize os source w of
        Inl _ \<Rightarrow> False
      | Inr src \<Rightarrow> (case find (\<lambda>c. os_exists os c w) (os_ancestors os destination) of
            None \<Rightarrow> False
          | Some existing \<Rightarrow> (case os_canonicalize os existing w of
                Inl _ \<Rightarrow> False
              | Inr base \<Rightarrow>
                  let suffix = (case os_strip_base os existing destination of Some s \<Rightarrow> s | None \<Rightarrow> []);
                      source_text = comparable os src;
                      target_text = comparable os (os_join os base suffix)
                  in target_text = source_text \<or> starts_with target_text (source_text @ [CHR 0x5C]))))"

definition copy_file :: "'w os_fs \<Rightarrow> string \<Rightarrow> string \<Rightarrow> bool \<Rightarrow> ('w, unit) vio" where
  "copy_file os from_path to_path overwrite w =
     (if os_exists os to_path w \<and> \<not> overwrite then (Inl (Io (to_path @ '' already exists'')), w)
      else then_io (case os_parent os to_path of Some p \<Rightarrow> os_io (os_create_dir_all os p) | None \<Rightarrow> ok_io ())
             (os_io (os_copy os from_path to_path)) w)"

text \<open>\<open>copy_dir\<close> recurses into directories; links can make them endless, so it has fuel and
  \<open>None\<close> is running out of it.  \<open>fn\<close> is the name of an entry's path.\<close>

fun copy_dir :: "nat \<Rightarrow> 'w os_fs \<Rightarrow> string \<Rightarrow> string \<Rightarrow> bool \<Rightarrow> 'w \<Rightarrow> (unit vresult \<times> 'w) option"
and copy_entries :: "nat \<Rightarrow> 'w os_fs \<Rightarrow> string \<Rightarrow> bool \<Rightarrow> (io_error + string) list \<Rightarrow> 'w
      \<Rightarrow> (unit vresult \<times> 'w) option" where
  "copy_dir 0 os from_path to_path overwrite w = None"
| "copy_dir (Suc n) os from_path to_path overwrite w =
     (case os_io (os_create_dir_all os to_path) w of
        (Inl e, w1) \<Rightarrow> Some (Inl e, w1)
      | (Inr _, w1) \<Rightarrow> (case os_read_dir os from_path w1 of
            Inl e \<Rightarrow> Some (Inl (from_io_error e), w1)
          | Inr items \<Rightarrow> copy_entries n os to_path overwrite items w1))"
| "copy_entries n os to_path overwrite [] w = Some (Inr (), w)"
| "copy_entries n os to_path overwrite (Inl e # items) w = Some (Inl (from_io_error e), w)"
| "copy_entries n os to_path overwrite (Inr source # items) w =
     (let target = os_join os to_path (case os_file_name os source of Some f \<Rightarrow> f | None \<Rightarrow> [])
      in case os_metadata os source w of
          Inl _ \<Rightarrow> copy_entries n os to_path overwrite items w
        | Inr meta \<Rightarrow>
            (case (if fm_is_dir meta then copy_dir n os source target overwrite w
                   else Some (copy_file os source target overwrite w)) of
               None \<Rightarrow> None
             | Some (Inl e, w1) \<Rightarrow> Some (Inl e, w1)
             | Some (Inr _, w1) \<Rightarrow> copy_entries n os to_path overwrite items w1))"

definition copy_tree :: "nat \<Rightarrow> 'w os_fs \<Rightarrow> string \<Rightarrow> string \<Rightarrow> bool \<Rightarrow> 'w \<Rightarrow> (unit vresult \<times> 'w) option" where
  "copy_tree fuel os source destination overwrite w =
     (if is_same_or_inside os w source destination
      then Some (Inl (Io (''cannot copy '' @ source @ '' into itself or one of its subfolders'')), w)
      else (case os_metadata os source w of
          Inl e \<Rightarrow> Some (Inl (from_io_error e), w)
        | Inr meta \<Rightarrow> if fm_is_dir meta then copy_dir fuel os source destination overwrite w
            else Some (copy_file os source destination overwrite w)))"

end
