(* ===== verification/Transfer_Worker.thy ===== *)
theory Transfer_Worker
  imports Digests Queue_Dispatch Sessions Local_Fs
begin

text \<open>
  \<open>src-tauri/src/transfer/worker.rs\<close>: what a worker does for one item.  The world is the queue's
  state (extended by whatever the environment keeps), so that every awaited operation may find
  the queue changed by the user or by other workers.  \<open>worker_env\<close> holds what the worker calls:
  the clock, fresh ids, the session table, the bandwidth limiter, the local file system.
\<close>

record 'w worker_env =
  we_now :: "'w \<Rightarrow> int"
  we_instant :: "'w \<Rightarrow> int"
  we_uuid :: "nat \<Rightarrow> 'w \<Rightarrow> string"
  we_session :: "string \<Rightarrow> 'w \<Rightarrow> 'w live_session vresult"
  we_connect :: "ftp_options \<Rightarrow> ('w, nat) vio"
  we_wait :: "nat \<Rightarrow> 'w \<Rightarrow> 'w"
  we_consume :: "nat \<Rightarrow> 'w \<Rightarrow> 'w"
  we_speed :: "u64 \<Rightarrow> int \<Rightarrow> u64"
  we_os :: "'w os_fs"
  we_symlink_dir :: "string \<Rightarrow> string \<Rightarrow> ('w, io_error, unit) io"
  we_symlink_file :: "string \<Rightarrow> string \<Rightarrow> ('w, io_error, unit) io"
  we_open_write :: "string \<Rightarrow> bool \<Rightarrow> ('w, nat) vio"
  we_set_len :: "nat \<Rightarrow> u64 \<Rightarrow> ('w, unit) vio"
  we_seek :: "nat \<Rightarrow> u64 \<Rightarrow> ('w, unit) vio"
  we_write_all :: "nat \<Rightarrow> bytes \<Rightarrow> ('w, unit) vio"
  we_flush :: "nat \<Rightarrow> ('w, unit) vio"
  we_set_modified :: "nat \<Rightarrow> int \<Rightarrow> 'w \<Rightarrow> 'w"
  we_open_read :: "string \<Rightarrow> ('w, nat) vio"
  we_read_file :: "nat \<Rightarrow> nat \<Rightarrow> ('w, bytes) vio"
  we_hashes :: hash_algos
  we_hex :: "bytes \<Rightarrow> string"
  we_seconds :: "u64 \<Rightarrow> string"

type_synonym 'z qworld = "'z queue_state_scheme"

section \<open>Children of a directory\<close>

definition child_of ::
  "string \<Rightarrow> int \<Rightarrow> transfer_item \<Rightarrow> string \<Rightarrow> string \<Rightarrow> bool \<Rightarrow> u64 option \<Rightarrow> int option \<Rightarrow> transfer_item" where
  "child_of uuid now dir local_path remote_path is_dir sz mtime =
     \<lparr>ti_id = uuid, ti_session_id = ti_session_id dir, ti_site_id = ti_site_id dir,
      ti_site_name = ti_site_name dir, ti_direction = ti_direction dir, ti_local_path = local_path,
      ti_remote_path = remote_path, ti_is_dir = is_dir, ti_size = sz, ti_source_mtime = mtime,
      ti_transferred = 0, ti_status = Queued, ti_priority = ti_priority dir, ti_error = None,
      ti_attempts = 0, ti_created_at = now, ti_finished_at = None, ti_speed_bps = 0,
      ti_follow_symlink = ti_follow_symlink dir, ti_conflict_policy = ti_conflict_policy dir,
      ti_link_target = None, ti_batch = ti_batch dir,
      ti_target_session_id = ti_target_session_id dir, ti_target_path = None,
      ti_retry_after = None\<rparr>"

definition copy_child_of ::
  "string \<Rightarrow> int \<Rightarrow> transfer_item \<Rightarrow> string \<Rightarrow> string \<Rightarrow> bool \<Rightarrow> u64 option \<Rightarrow> int option \<Rightarrow> transfer_item" where
  "copy_child_of uuid now dir source target is_dir sz mtime =
     (child_of uuid now dir [] source is_dir sz mtime)\<lparr>ti_target_path := Some target\<rparr>"

definition target_session ::
  "'w worker_env \<Rightarrow> transfer_item \<Rightarrow> 'w live_session \<Rightarrow> 'w \<Rightarrow> 'w live_session vresult" where
  "target_session env i source w = (case ti_target_session_id i of
      Some k \<Rightarrow> if k \<noteq> ss_id source then we_session env k w else Inr source
    | None \<Rightarrow> Inr source)"

definition ensure_remote_dir :: "'w live_session \<Rightarrow> string \<Rightarrow> ('w, unit) vio" where
  "ensure_remote_dir s path w =
     (let client = session_client s
      in case rc_mkdir client path w of
          (Inr _, w1) \<Rightarrow> (Inr (), session_invalidate s path w1)
        | (Inl e, w1) \<Rightarrow> (case rc_stat client path w1 of
              (r, w2) \<Rightarrow> if (case r of Inr entry \<Rightarrow> re_kind entry \<noteq> KDir | Inl _ \<Rightarrow> True)
                then (Inl e, w2) else (Inr (), session_invalidate s path w2)))"

text \<open>A loop over the entries of a listing that may add one child per entry; the child of the
  \<open>k\<close>-th entry takes the \<open>k\<close>-th fresh id.\<close>

fun each_entry :: "(nat \<Rightarrow> 'e \<Rightarrow> 'w \<Rightarrow> 'c option \<times> 'w) \<Rightarrow> nat \<Rightarrow> 'e list \<Rightarrow> 'w \<Rightarrow> 'c list \<times> 'w" where
  "each_entry f k [] w = ([], w)"
| "each_entry f k (e # es) w = (case f k e w of
      (None, w1) \<Rightarrow> each_entry f (Suc k) es w1
    | (Some c, w1) \<Rightarrow> (case each_entry f (Suc k) es w1 of (cs, w2) \<Rightarrow> (c # cs, w2)))"

definition copy_entry ::
  "'w worker_env \<Rightarrow> transfer_item \<Rightarrow> 'w live_session \<Rightarrow> string \<Rightarrow> nat \<Rightarrow> remote_entry \<Rightarrow> 'w
     \<Rightarrow> transfer_item option \<times> 'w" where
  "copy_entry env i s target_dir k entry w =
     (let destination = join target_dir (re_name entry);
          child = copy_child_of (we_uuid env k w) (we_now env w) i (re_path entry) destination
      in case re_kind entry of
          KDir \<Rightarrow> (Some (child True None None), w)
        | KFile \<Rightarrow> (Some (child False (Some (re_size entry)) (re_mtime entry)), w)
        | KSymlink \<Rightarrow>
            if ti_follow_symlink i \<and> \<not> re_link_broken entry then
              let is_dir = (case re_target_is_dir entry of Some d \<Rightarrow> d | None \<Rightarrow> False)
              in (Some (child is_dir (if is_dir then None else Some (re_size entry)) (re_mtime entry)), w)
            else (None, log_to s (LogError (''Skipping symlink '' @ re_path entry @ '' in remote copy'')) w)
        | KOther \<Rightarrow> (None, w))"

definition copies_into_itself :: "'w live_session \<Rightarrow> 'w live_session \<Rightarrow> transfer_item \<Rightarrow> bool" where
  "copies_into_itself s target i \<longleftrightarrow> ss_id target = ss_id s \<and>
     (copy_target i = ti_remote_path i \<or> starts_with (copy_target i) (ti_remote_path i @ ''/''))"

definition expand_copy_directory ::
  "'w worker_env \<Rightarrow> transfer_item \<Rightarrow> 'w live_session \<Rightarrow> ('w, transfer_item list) vio" where
  "expand_copy_directory env i s w = (case target_session env i s w of
      Inl e \<Rightarrow> (Inl e, w)
    | Inr target \<Rightarrow>
        if copies_into_itself s target i
        then (Inl (Protocol (''cannot copy '' @ ti_remote_path i @ '' into itself'')), w)
        else bind_io (ensure_remote_dir target (copy_target i))
          (\<lambda>_. bind_io (session_list (we_instant env) s (ti_remote_path i) True)
            (\<lambda>entries w. case each_entry (copy_entry env i s (copy_target i)) 0 entries w of
               (children, w') \<Rightarrow> (Inr children, w'))) w)"

definition remote_child ::
  "'w worker_env \<Rightarrow> transfer_item \<Rightarrow> 'w live_session \<Rightarrow> nat \<Rightarrow> remote_entry \<Rightarrow> 'w
     \<Rightarrow> transfer_item option \<times> 'w" where
  "remote_child env i s k entry w =
     (let local_path = local_join (we_os env) (ti_local_path i) (re_name entry);
          child = child_of (we_uuid env k w) (we_now env w) i local_path (re_path entry)
      in case re_kind entry of
          KDir \<Rightarrow> (Some (child True None None), w)
        | KFile \<Rightarrow> (Some (child False (Some (re_size entry)) (re_mtime entry)), w)
        | KSymlink \<Rightarrow>
            if re_link_broken entry
            then (None, log_to s (LogError (''Skipping broken symlink '' @ re_path entry)) w)
            else if ti_follow_symlink i then
              let is_dir = (case re_target_is_dir entry of Some d \<Rightarrow> d | None \<Rightarrow> False)
              in (Some (child is_dir (if is_dir then None else Some (re_size entry)) (re_mtime entry)), w)
            else (Some ((child False (Some 0) (re_mtime entry))\<lparr>ti_link_target :=
                (case re_link_target entry of Some t \<Rightarrow> Some t | None \<Rightarrow> Some [])\<rparr>), w)
        | KOther \<Rightarrow> (None, w))"

definition expand_remote_directory ::
  "'w worker_env \<Rightarrow> transfer_item \<Rightarrow> 'w live_session \<Rightarrow> ('w, transfer_item list) vio" where
  "expand_remote_directory env i s =
     bind_io (os_io (os_create_dir_all (we_os env) (ti_local_path i)))
       (\<lambda>_. bind_io (session_list (we_instant env) s (ti_remote_path i) True)
         (\<lambda>entries w. case each_entry (remote_child env i s) 0 entries w of
            (children, w') \<Rightarrow> (Inr children, w')))"

definition local_child ::
  "'w worker_env \<Rightarrow> transfer_item \<Rightarrow> 'w live_session \<Rightarrow> nat \<Rightarrow> local_entry \<Rightarrow> 'w
     \<Rightarrow> transfer_item option \<times> 'w" where
  "local_child env i s k entry w =
     (let remote_path = join (ti_remote_path i) (le_name entry);
          child = child_of (we_uuid env k w) (we_now env w) i (le_path entry) remote_path
      in if le_link_broken entry
         then (None, log_to s (LogError (''Skipping broken link '' @ le_path entry)) w)
         else if local_dir_like entry then (Some (child True None None), w)
         else (Some (child False (Some (le_size entry)) (le_mtime entry)), w))"

definition expand_local_directory ::
  "'w worker_env \<Rightarrow> transfer_item \<Rightarrow> 'w live_session \<Rightarrow> ('w, transfer_item list) vio" where
  "expand_local_directory env i s =
     bind_io (ensure_remote_dir s (ti_remote_path i))
       (\<lambda>_ w. case list_dir (we_os env) (ti_local_path i) True w of
          Inl e \<Rightarrow> (Inl e, w)
        | Inr entries \<Rightarrow> (case each_entry (local_child env i s) 0 entries w of
            (children, w') \<Rightarrow> (Inr children, w')))"

definition expand_directory ::
  "'z qworld worker_env \<Rightarrow> transfer_item \<Rightarrow> 'z qworld live_session \<Rightarrow> ('z qworld, outcome) vio" where
  "expand_directory env i s =
     bind_io (case ti_direction i of
          Download \<Rightarrow> expand_remote_directory env i s
        | Upload \<Rightarrow> expand_local_directory env i s
        | Copy \<Rightarrow> expand_copy_directory env i s)
       (\<lambda>children w. (Inr ODone, insert_children (ti_id i) children w))"

section \<open>Planning\<close>

record copy_plan =
  cp_offset :: u64
  cp_target :: string
  cp_source :: file_facts

record plan =
  pl_offset :: u64
  pl_local_path :: string
  pl_remote_path :: string
  pl_source :: file_facts

text \<open>\<open>Ok(entry) if entry.kind != Dir\<close> of a \<open>stat\<close>, as facts.\<close>

definition remote_facts :: "remote_entry vresult \<Rightarrow> file_facts option" where
  "remote_facts r = (case r of
      Inr entry \<Rightarrow> if re_kind entry \<noteq> KDir
        then Some \<lparr>ff_size = re_size entry, ff_mtime = re_mtime entry\<rparr> else None
    | Inl _ \<Rightarrow> None)"

definition local_facts :: "'w os_fs \<Rightarrow> string \<Rightarrow> 'w \<Rightarrow> file_facts option" where
  "local_facts os path w = (case os_metadata os path w of
      Inl _ \<Rightarrow> None
    | Inr meta \<Rightarrow> if fm_is_dir meta then None
        else Some \<lparr>ff_size = fm_len meta, ff_mtime = fm_mtime meta\<rparr>)"

text \<open>The policy of an existing target, asked from the user when it is \<open>Ask\<close>.\<close>

definition decide_policy ::
  "'z qworld worker_env \<Rightarrow> transfer_item \<Rightarrow> 'z qworld live_session \<Rightarrow> conflict_prompt
     \<Rightarrow> ('z qworld, conflict_policy) vio" where
  "decide_policy env i s prompt w =
     (let policy = effective_policy i s w
      in if policy = Ask
         then bind_io (ask_conflict (we_wait env) prompt) (\<lambda>a. ok_io (as_policy (ca_action a))) w
         else (Inr policy, w))"

definition sibling_names :: "'w worker_env \<Rightarrow> 'w live_session \<Rightarrow> string \<Rightarrow> 'w \<Rightarrow> string list \<times> 'w" where
  "sibling_names env s dir w = (case session_list (we_instant env) s dir True w of
      (Inr l, w1) \<Rightarrow> (map re_name l, w1)
    | (Inl _, w1) \<Rightarrow> ([], w1))"

definition renamed_remote ::
  "'w worker_env \<Rightarrow> 'w live_session \<Rightarrow> string \<Rightarrow> 'w \<Rightarrow> string \<times> 'w" where
  "renamed_remote env s path w =
     (let dir = parent path
      in case sibling_names env s dir w of
          (siblings, w1) \<Rightarrow>
            (join dir (unique_name (we_uuid env 0 w1) (basename path) (\<lambda>c. c \<in> set siblings)), w1))"

definition plan_copy ::
  "'z qworld worker_env \<Rightarrow> transfer_item \<Rightarrow> 'z qworld live_session \<Rightarrow> 'z qworld live_session
     \<Rightarrow> 'z qworld remote_client \<Rightarrow> 'z qworld remote_client \<Rightarrow> ('z qworld, copy_plan option) vio" where
  "plan_copy env i s target source_client target_client =
     (let target_path = copy_target i
      in if target_path = [] then err_io (Protocol ''copy target path is missing'')
         else bind_io (rc_stat source_client (ti_remote_path i)) (\<lambda>remote.
           if re_kind remote = KDir
           then err_io (Protocol (ti_remote_path i @ '' is a directory''))
           else
             let source = \<lparr>ff_size = re_size remote, ff_mtime = re_mtime remote\<rparr>
             in try_io (rc_stat target_client target_path) (\<lambda>st.
               case remote_facts st of
                 None \<Rightarrow> ok_io (Some \<lparr>cp_offset = 0, cp_target = target_path, cp_source = source\<rparr>)
               | Some existing \<Rightarrow>
                   if ti_transferred i > 0 \<and> ff_size existing \<le> ff_size source
                   then ok_io (Some \<lparr>cp_offset = ff_size existing, cp_target = target_path, cp_source = source\<rparr>)
                   else bind_io (decide_policy env i s
                        \<lparr>cp_item_id = ti_id i, cp_session_id = ss_id s, cp_direction = ti_direction i,
                         cp_source_path = ti_remote_path i, cp_source_size = ff_size source,
                         cp_source_mtime = ff_mtime source, cp_target_path = target_path,
                         cp_target_size = ff_size existing, cp_target_mtime = ff_mtime existing\<rparr>)
                     (\<lambda>policy. case resolve policy source existing of
                         RSkip \<Rightarrow> ok_io None
                       | RWrite offset False \<Rightarrow>
                           ok_io (Some \<lparr>cp_offset = offset, cp_target = target_path, cp_source = source\<rparr>)
                       | RWrite offset True \<Rightarrow> (\<lambda>w. case renamed_remote env target target_path w of
                           (fresh, w1) \<Rightarrow>
                             (Inr (Some \<lparr>cp_offset = offset, cp_target = fresh, cp_source = source\<rparr>), w1))))))"

text \<open>The source's facts and the existing target's, by direction.\<close>

definition transfer_facts ::
  "'w worker_env \<Rightarrow> transfer_item \<Rightarrow> 'w remote_client \<Rightarrow> ('w, file_facts \<times> file_facts option) vio" where
  "transfer_facts env i client = (case ti_direction i of
      Download \<Rightarrow> bind_io (rc_stat client (ti_remote_path i)) (\<lambda>remote.
        if re_kind remote = KDir then err_io (Protocol (ti_remote_path i @ '' is a directory''))
        else (\<lambda>w. (Inr (\<lparr>ff_size = re_size remote, ff_mtime = re_mtime remote\<rparr>,
               local_facts (we_os env) (ti_local_path i) w), w)))
    | Copy \<Rightarrow> err_io (Protocol ''remote copies are planned by the copy worker'')
    | Upload \<Rightarrow> (\<lambda>w. case os_metadata (we_os env) (ti_local_path i) w of
          Inl e \<Rightarrow> (Inl (from_io_error e), w)
        | Inr meta \<Rightarrow> (case rc_stat client (ti_remote_path i) w of
            (st, w1) \<Rightarrow> (Inr (\<lparr>ff_size = fm_len meta, ff_mtime = fm_mtime meta\<rparr>, remote_facts st), w1))))"

definition renamed_local :: "'w worker_env \<Rightarrow> string \<Rightarrow> 'w \<Rightarrow> string" where
  "renamed_local env path w =
     (let os = we_os env;
          dir = (case os_parent os path of Some d \<Rightarrow> d | None \<Rightarrow> []);
          name = (case os_file_name os path of Some n \<Rightarrow> n | None \<Rightarrow> [])
      in os_join os dir (unique_name (we_uuid env 0 w) name (\<lambda>c. os_exists os (os_join os dir c) w)))"

definition plan_transfer ::
  "'z qworld worker_env \<Rightarrow> transfer_item \<Rightarrow> 'z qworld live_session \<Rightarrow> 'z qworld remote_client
     \<Rightarrow> ('z qworld, plan option) vio" where
  "plan_transfer env i s client =
     bind_io (transfer_facts env i client) (\<lambda>(source, existing).
       let plan_at = (\<lambda>offset local_path remote_path. Some \<lparr>pl_offset = offset,
             pl_local_path = local_path, pl_remote_path = remote_path, pl_source = source\<rparr>)
       in case existing of
         None \<Rightarrow> ok_io (plan_at 0 (ti_local_path i) (ti_remote_path i))
       | Some existing \<Rightarrow>
           if ti_transferred i > 0 \<and> ff_size existing \<le> ff_size source
           then ok_io (plan_at (ff_size existing) (ti_local_path i) (ti_remote_path i))
           else bind_io (decide_policy env i s
                \<lparr>cp_item_id = ti_id i, cp_session_id = ss_id s, cp_direction = ti_direction i,
                 cp_source_path = (if ti_direction i = Download then ti_remote_path i else ti_local_path i),
                 cp_source_size = ff_size source, cp_source_mtime = ff_mtime source,
                 cp_target_path = (if ti_direction i = Download then ti_local_path i else ti_remote_path i),
                 cp_target_size = ff_size existing, cp_target_mtime = ff_mtime existing\<rparr>)
             (\<lambda>policy. case resolve policy source existing of
                 RSkip \<Rightarrow> ok_io None
               | RWrite offset False \<Rightarrow> ok_io (plan_at offset (ti_local_path i) (ti_remote_path i))
               | RWrite offset True \<Rightarrow>
                   if ti_direction i = Download
                   then (\<lambda>w. (Inr (plan_at offset (renamed_local env (ti_local_path i) w) (ti_remote_path i)), w))
                   else (\<lambda>w. case renamed_remote env s (ti_remote_path i) w of
                       (fresh, w1) \<Rightarrow> (Inr (plan_at offset (ti_local_path i) fresh), w1))))"

section \<open>Progress\<close>

record progress_tracker =
  pt_id :: string
  pt_size :: u64
  pt_transferred :: u64
  pt_window_start :: int
  pt_window_bytes :: u64
  pt_last_emit :: int
  pt_speed :: u64

text \<open>Instants are in nanoseconds; \<open>we_speed bytes elapsed\<close> is the floating-point quotient with the
  elapsed seconds, at least a thousandth.\<close>

definition tracker_new :: "int \<Rightarrow> string \<Rightarrow> u64 \<Rightarrow> u64 \<Rightarrow> progress_tracker" where
  "tracker_new now key sz offset =
     \<lparr>pt_id = key, pt_size = sz, pt_transferred = offset, pt_window_start = now, pt_window_bytes = 0,
      pt_last_emit = now, pt_speed = 0\<rparr>"

definition tracker_advance ::
  "'z qworld worker_env \<Rightarrow> nat \<Rightarrow> progress_tracker \<Rightarrow> 'z qworld \<Rightarrow> progress_tracker \<times> 'z qworld" where
  "tracker_advance env n p w =
     (let p1 = p\<lparr>pt_transferred := pt_transferred p + of_nat n, pt_window_bytes := pt_window_bytes p + of_nat n\<rparr>;
          now = we_instant env w
      in if now - pt_last_emit p1 \<ge> 200000000 then
           let elapsed = now - pt_window_start p1;
               p2 = p1\<lparr>pt_speed := we_speed env (pt_window_bytes p1) elapsed\<rparr>;
               w1 = record_progress (pt_id p2) (pt_transferred p2) (pt_speed p2) (Some (pt_size p2)) w;
               p3 = p2\<lparr>pt_last_emit := now\<rparr>
           in (if elapsed > 2000000000 then p3\<lparr>pt_window_start := now, pt_window_bytes := 0\<rparr> else p3, w1)
         else (p1, w))"

definition tracker_finish :: "progress_tracker \<Rightarrow> 'z qworld \<Rightarrow> 'z qworld" where
  "tracker_finish p = record_progress (pt_id p) (pt_transferred p) 0 (Some (pt_size p))"

text \<open>\<open>progress.advance(n); queue.throttle.consume(n).await\<close>.\<close>

definition progress_step ::
  "'z qworld worker_env \<Rightarrow> nat \<Rightarrow> progress_tracker \<Rightarrow> 'z qworld \<Rightarrow> progress_tracker \<times> 'z qworld" where
  "progress_step env n p w = (case tracker_advance env n p w of (p1, w1) \<Rightarrow> (p1, we_consume env n w1))"

definition interrupted_at :: "nat \<Rightarrow> 'z qworld \<Rightarrow> outcome option" where
  "interrupted_at h w = interrupted (q_cells w ! h)"

section \<open>Moving the bytes\<close>

definition download ::
  "nat \<Rightarrow> 'z qworld worker_env \<Rightarrow> transfer_item \<Rightarrow> 'z qworld remote_client \<Rightarrow> plan \<Rightarrow> nat
     \<Rightarrow> ('z qworld, outcome) wio" where
  "download fuel env i client p h =
     bind_wio (once (bind_io (case os_parent (we_os env) (pl_local_path p) of
            Some d \<Rightarrow> os_io (os_create_dir_all (we_os env) d) | None \<Rightarrow> ok_io ()) (\<lambda>_.
          bind_io (we_open_write env (pl_local_path p) (pl_offset p = 0)) (\<lambda>file.
          bind_io (if pl_offset p > 0
            then then_io (we_set_len env file (pl_offset p)) (we_seek env file (pl_offset p))
            else ok_io ()) (\<lambda>_.
          bind_io (rc_open_read client (pl_remote_path p) (pl_offset p)) (\<lambda>reader.
          ok_io (file, reader)))))))
       (\<lambda>(file, reader) w.
          bind_wio (pump fuel (interrupted_at h) (rr_read reader) (we_write_all env file)
              (progress_step env)
              (tracker_new (we_instant env w) (ti_id i) (ff_size (pl_source p)) (pl_offset p)))
            (\<lambda>(out, tracker). once (
               bind_io (we_flush env file) (\<lambda>_.
               try_io (rr_finish reader) (\<lambda>finished w1.
                 let w2 = tracker_finish tracker w1
                 in if out = ODone then (case finished of
                        Inl e \<Rightarrow> (Inl e, w2)
                      | Inr _ \<Rightarrow> (Inr out, case ff_mtime (pl_source p) of
                            Some t \<Rightarrow> we_set_modified env file (max t 0) w2
                          | None \<Rightarrow> w2))
                    else (Inr out, w2))))) w)"

definition upload ::
  "nat \<Rightarrow> 'z qworld worker_env \<Rightarrow> transfer_item \<Rightarrow> 'z qworld remote_client \<Rightarrow> plan \<Rightarrow> nat
     \<Rightarrow> ('z qworld, outcome) wio" where
  "upload fuel env i client p h =
     bind_wio (once (bind_io (we_open_read env (pl_local_path p)) (\<lambda>file.
          bind_io (if pl_offset p > 0 then we_seek env file (pl_offset p) else ok_io ()) (\<lambda>_.
          bind_io (rc_open_write client (pl_remote_path p) (pl_offset p)) (\<lambda>writer.
          ok_io (file, writer))))))
       (\<lambda>(file, writer) w.
          bind_wio (pump fuel (interrupted_at h) (we_read_file env file) (rw_write writer)
              (progress_step env)
              (tracker_new (we_instant env w) (ti_id i) (ff_size (pl_source p)) (pl_offset p)))
            (\<lambda>(out, tracker). once (try_io (rw_finish writer) (\<lambda>finished w1.
                 let w2 = tracker_finish tracker w1
                 in if out = ODone then (map_ok (\<lambda>_. out) finished, w2) else (Inr out, w2)))) w)"

definition copy_remote_file ::
  "nat \<Rightarrow> 'z qworld worker_env \<Rightarrow> transfer_item \<Rightarrow> 'z qworld live_session \<Rightarrow> nat
     \<Rightarrow> ('z qworld, outcome) wio" where
  "copy_remote_file fuel env i s h =
     bind_wio (once (\<lambda>w. (target_session env i s w, w))) (\<lambda>target.
     bind_wio (once (transfer_client (we_connect env) s)) (\<lambda>source_lease.
     (\<lambda>body w. case once (transfer_client (we_connect env) target) w of
          Some (Inl e, w1) \<Rightarrow> Some (Inl e, drop_lease s source_lease w1)
        | Some (Inr target_lease, w1) \<Rightarrow> (case body target_lease w1 of
              None \<Rightarrow> None
            | Some (r, w2) \<Rightarrow> Some (r, drop_lease s source_lease (drop_lease target target_lease w2)))
        | None \<Rightarrow> None)
     (\<lambda>target_lease.
        let source_client = lv_client s (tl_client source_lease);
            target_client = lv_client target (tl_client target_lease)
        in bind_wio (once (plan_copy env i s target source_client target_client)) (\<lambda>planned.
           case planned of
             None \<Rightarrow> once (ok_io OSkipped)
           | Some p \<Rightarrow>
               bind_wio (once (\<lambda>w. (Inr (), snd (update_item (ti_id i) (\<lambda>j. j\<lparr>ti_size := Some (ff_size (cp_source p)),
                    ti_target_path := Some (cp_target p)\<rparr>) w)))) (\<lambda>_.
               bind_wio (once (rc_open_read source_client (ti_remote_path i) (cp_offset p))) (\<lambda>reader.
               bind_wio (once (rc_open_write target_client (cp_target p) (cp_offset p))) (\<lambda>writer.
               bind_wio (\<lambda>w. pump fuel (interrupted_at h) (rr_read reader) (rw_write writer) (progress_step env)
                  (tracker_new (we_instant env w) (ti_id i) (ff_size (cp_source p)) (cp_offset p)) w)
               (\<lambda>(out, tracker). once (
                  try_io (rw_finish writer) (\<lambda>finish_writer.
                  try_io (rr_finish reader) (\<lambda>finish_reader w1.
                    let w2 = tracker_finish tracker w1
                    in if out \<noteq> ODone then (Inr out, w2)
                       else bind_io (lift_io finish_reader) (\<lambda>_.
                            bind_io (lift_io finish_writer) (\<lambda>_.
                            bind_io (rc_stat target_client (cp_target p)) (\<lambda>actual w3.
                              if re_size actual \<noteq> ff_size (cp_source p)
                              then (Inl (Protocol (''size mismatch after copy: expected ''
                                 @ show_nat (unat (ff_size (cp_source p))) @ '' bytes, got ''
                                 @ show_nat (unat (re_size actual)))), w3)
                              else (Inr ODone, log_to s (LogStatus (''Remote copy complete: ''
                                 @ ti_remote_path i @ '' -> '' @ cp_target p))
                                 (session_invalidate target (cp_target p) w3))))) w2)))))))))))"

definition create_local_symlink :: "'w worker_env \<Rightarrow> string \<Rightarrow> string \<Rightarrow> bool \<Rightarrow> ('w, unit) vio" where
  "create_local_symlink env target link is_dir w =
     (case (if is_dir then we_symlink_dir env target link w else we_symlink_file env target link w) of
        (Inl e, w1) \<Rightarrow> (Inl (PermissionDenied
           (''cannot create local symlink (enable Developer Mode or run elevated): '' @ ioe_text e)), w1)
      | (Inr _, w1) \<Rightarrow> (Inr (), w1))"

definition copy_symlink ::
  "'w worker_env \<Rightarrow> transfer_item \<Rightarrow> 'w live_session \<Rightarrow> ('w, outcome) vio" where
  "copy_symlink env i s =
     (let client = session_client s; os = we_os env
      in bind_io (case ti_link_target i of
            Some t \<Rightarrow> if t \<noteq> [] then ok_io t else rc_readlink client (ti_remote_path i)
          | None \<Rightarrow> rc_readlink client (ti_remote_path i)) (\<lambda>raw_target.
         try_io (rc_stat client (resolve_link_target (ti_remote_path i) raw_target)) (\<lambda>st.
           let target_is_dir = (case st of Inr entry \<Rightarrow> re_kind entry = KDir | Inl _ \<Rightarrow> False);
               local_target = map (\<lambda>c. if c = CHR ''/'' then CHR 0x5C else c) raw_target
           in bind_io (\<lambda>w. if is_ok (os_symlink_metadata os (ti_local_path i) w)
                  then local_delete os (ti_local_path i) w else (Inr (), w)) (\<lambda>_.
              bind_io (create_local_symlink env local_target (ti_local_path i) target_is_dir) (\<lambda>_ w.
                (Inr ODone, log_to s (LogStatus (''Copied symlink '' @ ti_remote_path i @ '' -> '' @ raw_target)) w))))))"

section \<open>Verifying\<close>

definition verify ::
  "nat \<Rightarrow> 'z qworld worker_env \<Rightarrow> transfer_item \<Rightarrow> 'z qworld remote_client \<Rightarrow> plan \<Rightarrow> ('z qworld, unit) wio" where
  "verify fuel env i client p =
     (let expected = ff_size (pl_source p)
      in bind_wio (once (if ti_direction i = Download
           then (\<lambda>w. (map_err from_io_error (map_ok fm_len (os_metadata (we_os env) (pl_local_path p) w)), w))
           else bind_io (rc_stat client (pl_remote_path p)) (\<lambda>entry. ok_io (re_size entry)))) (\<lambda>actual.
         if actual \<noteq> expected
         then once (err_io (Protocol (''size mismatch after transfer: expected '' @ show_nat (unat expected)
                @ '' bytes, got '' @ show_nat (unat actual))))
         else (\<lambda>w. if \<not> st_verify_hash (q_settings w) then Some (Inr (), w)
           else (case find (\<lambda>a. a \<in> set (rc_supported_hashes client)) [''sha256'', ''md5'', ''sha1''] of
               None \<Rightarrow> Some (Inr (), w)
             | Some algo \<Rightarrow>
                 bind_wio (once (rc_hash client (pl_remote_path p) algo)) (\<lambda>remote_digest. case remote_digest of
                     None \<Rightarrow> once (ok_io ())
                   | Some rd \<Rightarrow>
                       bind_wio (local_digest fuel (we_hashes env) (we_hex env) (we_open_read env) (we_read_file env)
                         (pl_local_path p) algo) (\<lambda>ld.
                       once (if \<not> eq_ignore_ascii_case rd ld
                         then err_io (Protocol (algo @ '' mismatch after transfer'')) else ok_io ()))) w))))"

definition transfer_file ::
  "nat \<Rightarrow> 'z qworld worker_env \<Rightarrow> transfer_item \<Rightarrow> 'z qworld live_session \<Rightarrow> nat
     \<Rightarrow> ('z qworld, outcome) wio" where
  "transfer_file fuel env i s h =
     (if ti_direction i = Copy then copy_remote_file fuel env i s h
      else if ti_direction i = Download \<and> ti_link_target i \<noteq> None then once (copy_symlink env i s)
      else bind_wio (once (transfer_client (we_connect env) s)) (\<lambda>lease.
        let client = lv_client s (tl_client lease)
        in (\<lambda>body w. case body w of None \<Rightarrow> None | Some (r, w1) \<Rightarrow> Some (r, drop_lease s lease w1))
        (bind_wio (once (plan_transfer env i s client)) (\<lambda>planned. case planned of
            None \<Rightarrow> once (ok_io OSkipped)
          | Some p \<Rightarrow>
              bind_wio (once (\<lambda>w. (Inr (), snd (update_item (ti_id i) (\<lambda>j. j\<lparr>ti_size := Some (ff_size (pl_source p)),
                   ti_local_path := pl_local_path p, ti_remote_path := pl_remote_path p\<rparr>) w)))) (\<lambda>_.
              bind_wio (if ti_direction i = Download then download fuel env i client p h
                        else upload fuel env i client p h) (\<lambda>out.
                if out = ODone then bind_wio (verify fuel env i client p) (\<lambda>_. once (\<lambda>w.
                  let w1 = (if ti_direction i = Upload then session_invalidate s (pl_remote_path p) w else w)
                  in (Inr out, log_to s (LogStatus (''Transfer complete: '' @ pl_remote_path p)) w1)))
                else once (ok_io out)))))))"

section \<open>Running one item\<close>

definition retry_delay :: "u64 \<Rightarrow> u32 \<Rightarrow> u64" where
  "retry_delay backoff attempts = max backoff 250 * 2 ^ unat (attempts - 1)"

definition retryable :: "verror \<Rightarrow> bool" where
  "retryable e \<longleftrightarrow> (case e of ConnectionLost _ \<Rightarrow> True | Timeout _ \<Rightarrow> True | Io _ \<Rightarrow> True | _ \<Rightarrow> False)"

definition handle_failure ::
  "'z qworld worker_env \<Rightarrow> transfer_item \<Rightarrow> 'z qworld live_session \<Rightarrow> verror \<Rightarrow> 'z qworld \<Rightarrow> 'z qworld" where
  "handle_failure env i s e w =
     (let settings = q_settings w;
          attempts = ti_attempts i + 1;
          w1 = snd (update_item (ti_id i) (\<lambda>j. j\<lparr>ti_attempts := attempts\<rparr>) w);
          w2 = log_to s (LogError (''Transfer failed ('' @ ti_remote_path i @ ''): '' @ verror_display e)) w1
      in if retryable e \<and> attempts \<le> st_max_retries settings then
           let delay = retry_delay (st_retry_backoff_ms settings) attempts;
               w3 = log_to s (LogStatus (''Retrying in '' @ we_seconds env delay @ ''s (attempt ''
                      @ show_nat (unat attempts) @ ''/'' @ show_nat (unat (st_max_retries settings)) @ '')'')) w2
           in schedule_retry (we_now env w3) (ti_id i) (verror_display e) (uint delay) w3
         else complete (we_now env w2) (ti_id i) Failed (Some (verror_display e)) w2)"

definition run :: "nat \<Rightarrow> 'z qworld worker_env \<Rightarrow> string \<Rightarrow> nat \<Rightarrow> 'z qworld \<Rightarrow> 'z qworld option" where
  "run fuel env key h w = (case get_item key w of
      None \<Rightarrow> Some w
    | Some i \<Rightarrow>
        (case (case ti_session_id i of None \<Rightarrow> None | Some k \<Rightarrow> ok_option (we_session env k w)) of
           None \<Rightarrow> Some (complete (we_now env w) key Failed (Some ''session is not connected'') w)
         | Some s \<Rightarrow>
             (case (if ti_is_dir i then once (expand_directory env i s) w else transfer_file fuel env i s h w) of
                None \<Rightarrow> None
              | Some (Inr ODone, w1) \<Rightarrow> Some (complete (we_now env w1) key Done None w1)
              | Some (Inr OSkipped, w1) \<Rightarrow> Some (complete (we_now env w1) key Skipped None w1)
              | Some (Inr OPaused, w1) \<Rightarrow> Some (set_paused key w1)
              | Some (Inr OCancelled, w1) \<Rightarrow> Some (remove_item key w1)
              | Some (Inl e, w1) \<Rightarrow> Some (handle_failure env i s e w1))))"

end
