(* ===== verification/Worker_Properties.thy ===== *)
theory Worker_Properties
  imports Transfer_Worker Queue_Frames
begin

text \<open>
  What a worker's run does: when it retries and after which delay, where a plan may start
  writing, what the children of a directory inherit, and what a finished download has written.
\<close>

section \<open>A world in memory\<close>

text \<open>
  A queue with one session, one local file and one remote file, for the concrete cases: a reader
  delivers at most three bytes at a time from the bytes it has left.
\<close>

record memory_world = queue_state +
  mw_session :: session_data
  mw_disk :: bytes
  mw_left :: bytes

definition empty_os :: "'w os_fs" where
  "empty_os = \<lparr>os_symlink_metadata = (\<lambda>p w. Inl \<lparr>ioe_kind = KindNotFound, ioe_text = p\<rparr>), os_metadata = (\<lambda>p w. Inl \<lparr>ioe_kind = KindNotFound, ioe_text = p\<rparr>),
     os_read_link = (\<lambda>p w. Inl \<lparr>ioe_kind = KindNotFound, ioe_text = p\<rparr>), os_read_dir = (\<lambda>p w. Inr []), os_exists = (\<lambda>p w. False),
     os_canonicalize = (\<lambda>p w. Inr p), os_shortcut_target = (\<lambda>p w. None),
     os_create_dir = (\<lambda>p w. (Inr (), w)), os_create_dir_all = (\<lambda>p w. (Inr (), w)),
     os_create_new = (\<lambda>p w. (Inr (), w)), os_rename = (\<lambda>p p' w. (Inr (), w)),
     os_remove_dir_all = (\<lambda>p w. (Inr (), w)), os_remove_dir = (\<lambda>p w. (Inr (), w)),
     os_remove_file = (\<lambda>p w. (Inr (), w)), os_copy = (\<lambda>p p' w. (Inr (), w)),
     os_join = (\<lambda>p p'. p @ ''/'' @ p'), os_parent = (\<lambda>p. Some []), os_file_name = (\<lambda>p. Some p),
     os_extension = (\<lambda>p. None), os_is_absolute = (\<lambda>p. False), os_ancestors = (\<lambda>p. []),
     os_strip_base = (\<lambda>p p'. None), os_lowercase = (\<lambda>p. p)\<rparr>"

definition memory_reader :: "memory_world remote_reader" where
  "memory_reader = \<lparr>
     rr_read = (\<lambda>n w. (Inr (take (min 3 n) (mw_left w)), w\<lparr>mw_left := drop (min 3 n) (mw_left w)\<rparr>)),
     rr_finish = ok_io ()\<rparr>"

definition memory_client :: "bytes \<Rightarrow> memory_world remote_client" where
  "memory_client remote = sample_client\<lparr>
     rc_stat := (\<lambda>p w. (Inr (plain_entry p KFile (of_nat (length remote)) None), w)),
     rc_open_read := (\<lambda>p off w. (Inr memory_reader, w\<lparr>mw_left := drop (unat off) remote\<rparr>))\<rparr>"

definition memory_session :: "bytes \<Rightarrow> memory_world live_session" where
  "memory_session remote = \<lparr>ss_id = ''s'', ss_site = default_site ''site'', lv_primary = 0,
     lv_client = (\<lambda>_. memory_client remote), lv_get = mw_session, lv_put = (\<lambda>d w. w\<lparr>mw_session := d\<rparr>)\<rparr>"

definition memory_env :: "memory_world worker_env" where
  "memory_env = \<lparr>we_now = (\<lambda>w. 0), we_instant = (\<lambda>w. 0), we_uuid = (\<lambda>n w. ''uuid''),
     we_session = (\<lambda>k w. Inr (memory_session [1, 2, 3])), we_connect = (\<lambda>f. ok_io 0), we_wait = (\<lambda>n w. w),
     we_consume = (\<lambda>n w. w), we_speed = (\<lambda>b t. b),
     we_os = empty_os\<lparr>os_metadata := (\<lambda>p w. Inr \<lparr>fm_is_dir = False, fm_is_symlink = False,
        fm_len = of_nat (length (mw_disk w)), fm_mtime = None, fm_attributes = 0\<rparr>)\<rparr>,
     we_symlink_dir = (\<lambda>a b. ok_io ()), we_symlink_file = (\<lambda>a b. ok_io ()),
     we_open_write = (\<lambda>p tr w. (Inr 0, if tr then w\<lparr>mw_disk := []\<rparr> else w)),
     we_set_len = (\<lambda>f n w. (Inr (), w\<lparr>mw_disk := take (unat n) (mw_disk w)
        @ replicate (unat n - length (mw_disk w)) 0\<rparr>)),
     we_seek = (\<lambda>f n. ok_io ()), we_write_all = (\<lambda>f bs w. (Inr (), w\<lparr>mw_disk := mw_disk w @ bs\<rparr>)),
     we_flush = (\<lambda>f. ok_io ()), we_set_modified = (\<lambda>f t w. w), we_open_read = (\<lambda>p. ok_io 0),
     we_read_file = (\<lambda>f n. ok_io []), we_hashes = \<lparr>ha_sha256 = byte_sum, ha_sha1 = byte_sum, ha_md5 = byte_sum\<rparr>, we_hex = as_text, we_seconds = (\<lambda>n. [])\<rparr>"

definition memory_item :: transfer_item where
  "memory_item = (build_item ''a'' 0 sample_session (sample_request 0))\<lparr>ti_transferred := 2\<rparr>"

definition memory_start :: "bytes \<Rightarrow> memory_world" where
  "memory_start disk = queue_state.extend
     ((new_queue None default_settings)\<lparr>q_items := [memory_item], q_cells := [\<lparr>cc_cancelled = False, cc_pausing = False\<rparr>]\<rparr>)
     \<lparr>mw_session = sample_data, mw_disk = disk, mw_left = []\<rparr>"

lemmas memory_defs = memory_reader_def memory_client_def memory_session_def memory_env_def
  memory_item_def memory_start_def empty_os_def

section \<open>Retries\<close>

lemma find_update_first:
  "(\<And>x. P (f x) = P x) \<Longrightarrow> find P (update_first P f xs) = map_option f (find P xs)"
  by (induction xs) auto

lemma update_first_position:
  "position P xs = Some n \<Longrightarrow> xs[n := f (xs ! n)] = update_first P f xs"
  by (induction xs arbitrary: n) (auto split: if_splits)

lemma get_item_update:
  "(\<And>i. ti_id (f i) = ti_id i) \<Longrightarrow>
     get_item key (snd (update_item key f q)) = map_option f (get_item key q)"
  by (simp add: get_item_def update_item_items find_update_first)

lemma get_item_items: "q_items q' = q_items q \<Longrightarrow> get_item key q' = get_item key q"
  by (simp add: get_item_def)

lemma get_item_failed:
  assumes "st \<noteq> Done" "st \<noteq> Skipped"
  shows "get_item key (complete now key st err q) = map_option (finish_item now st err) (get_item key q)"
proof (cases "position (\<lambda>i. ti_id i = key) (q_items q)")
  case None
  then have "find (\<lambda>i. ti_id i = key) (q_items q) = None"
    by (simp add: position_None_iff find_None_iff)
  with None show ?thesis by (simp add: complete_def get_item_def)
next
  case (Some n)
  from Some assms show ?thesis
    by (simp add: complete_def get_item_def Let_def find_update_first
        update_first_position [OF Some, of "finish_item now st err"])
qed

text \<open>A session whose log does not touch the queue's items and settings.\<close>

definition log_apart :: "'z qworld live_session \<Rightarrow> bool" where
  "log_apart s \<longleftrightarrow> (\<forall>d w. q_items (lv_put s d w) = q_items w \<and> q_settings (lv_put s d w) = q_settings w)"

lemma log_to_items: "log_apart s \<Longrightarrow> q_items (log_to s l w) = q_items w"
  by (simp add: log_apart_def log_to_def lv_modify_def)



text \<open>As long as it fits 64 bits, the delay before the n-th retry is the back-off (at least a
  quarter of a second) times two to the power n - 1.\<close>

theorem retry_delay_doubles:
  assumes "unat (max backoff 250) * 2 ^ n < 2 ^ 64" "n < 2 ^ 32 - 1"
  shows "unat (retry_delay backoff (of_nat n + 1)) = unat (max backoff 250) * 2 ^ n"
proof -
  have n: "unat (of_nat n :: u32) = n" using assms(2) by (simp add: unat_of_nat)
  have "retry_delay backoff (of_nat n + 1) = of_nat (unat (max backoff 250) * 2 ^ n)"
    by (simp add: retry_delay_def n)
  then show ?thesis using assms(1) by (simp only: unat_of_nat) simp
qed

theorem retry_delay_doubles_witness: "unat (retry_delay 2000 3) = 8000"
proof -
  have a: "unat (max (2000::u64) 250) * 2 ^ 2 < 2 ^ 64" "(2::nat) < 2 ^ 32 - 1" by simp_all
  show ?thesis using retry_delay_doubles [OF a] by simp
qed

text \<open>From the 65th attempt on the doubled delay wraps around to nothing and retries follow each
  other at once.\<close>

theorem retry_delay_vanishes:
  assumes "65 \<le> attempts"
  shows "retry_delay backoff attempts = 0"
proof -
  have "unat (attempts - 1) = unat attempts - 1"
    using assms by (subst unat_sub) (simp_all add: word_le_nat_alt)
  moreover have "65 \<le> unat attempts" using assms by (simp add: word_le_nat_alt)
  ultimately have "64 \<le> unat (attempts - 1)" by simp
  then obtain m where m: "unat (attempts - 1) = 64 + m" by (metis le_Suc_ex)
  have "(2 :: u64) ^ 64 = 0" by simp
  then have "(2 :: u64) ^ (64 + m) = 0" by (simp only: power_add mult_zero_left)
  then show ?thesis by (simp only: retry_delay_def m mult_zero_right)
qed

theorem retry_delay_vanishes_witness: "retry_delay 2000 70 = 0"
  using retry_delay_vanishes [of 70 2000] by simp

section \<open>Where a plan starts writing\<close>

lemma plan_transfer_offset:
  assumes "plan_transfer env i s client w = (Inr (Some p), w')"
  shows "pl_offset p \<le> ff_size (pl_source p)"
proof -
  from assms obtain source existing w1 where f: "transfer_facts env i client w = (Inr (source, existing), w1)"
    by (auto simp: plan_transfer_def bind_io_Inr_iff)
  show ?thesis
  proof (cases existing)
    case None
    with assms f show ?thesis by (auto simp: plan_transfer_def bind_io_run Let_def)
  next
    case (Some ex)
    show ?thesis
    proof (cases "ti_transferred i > 0 \<and> ff_size ex \<le> ff_size source")
      case True
      with Some assms f show ?thesis by (auto simp: plan_transfer_def bind_io_run Let_def)
    next
      case False
      with Some assms f show ?thesis
        by (auto simp: plan_transfer_def bind_io_run Let_def dest: resolve_offset
            split: resolution.splits bool.splits if_splits prod.splits sum.splits)
    qed
  qed
qed

lemma plan_copy_offset:
  assumes "plan_copy env i s target sc tc w = (Inr (Some p), w')"
  shows "cp_offset p \<le> ff_size (cp_source p)"
  using assms
  by (auto simp: plan_copy_def bind_io_run try_io_run Let_def dest: resolve_offset
      split: resolution.splits bool.splits if_splits prod.splits sum.splits option.splits)

text \<open>Whatever the existing target is and whatever the user answers, a transfer, a download, an
  upload or a copy between servers, never starts writing beyond the end of its source.\<close>

theorem plan_offset_bounded:
  "(\<forall>p w'. plan_transfer env i s client w = (Inr (Some p), w') \<longrightarrow> pl_offset p \<le> ff_size (pl_source p)) \<and>
   (\<forall>p w'. plan_copy env i s target client client2 w = (Inr (Some p), w') \<longrightarrow>
      cp_offset p \<le> ff_size (cp_source p))"
  using plan_transfer_offset plan_copy_offset by blast

theorem plan_offset_bounded_witness:
  "pl_offset \<lparr>pl_offset = 2, pl_local_path = ''/tmp/a'', pl_remote_path = ''/a'',
      pl_source = \<lparr>ff_size = 3, ff_mtime = None\<rparr>\<rparr> \<le> 3"
proof -
  let ?p = "\<lparr>pl_offset = 2, pl_local_path = ''/tmp/a'', pl_remote_path = ''/a'',
      pl_source = \<lparr>ff_size = 3, ff_mtime = None\<rparr>\<rparr>"
  let ?w = "memory_start [1, 2]"
  have "plan_transfer memory_env memory_item (memory_session [1, 2, 3]) (memory_client [1, 2, 3]) ?w = (Inr (Some ?p), ?w)"
    by (simp add: plan_transfer_def transfer_facts_def memory_defs build_item_def sample_request_def
        bind_io_run Let_def plain_entry_def local_facts_def queue_state.defs)
  then have "pl_offset ?p \<le> ff_size (pl_source ?p)"
    using plan_offset_bounded [where env = memory_env and i = memory_item and s = "memory_session [1, 2, 3]"
        and client = "memory_client [1, 2, 3]" and w = ?w] by blast
  then show ?thesis by simp
qed

section \<open>What a download has written\<close>

text \<open>
  What the local file system and the remote reader are documented to do, for the file at the
  plan's local path (\<open>disk\<close> is its content): opening truncates when asked to, \<open>set_len\<close> cuts or
  pads it, writing at the end appends, a reader opened at an offset delivers the rest of the remote
  file, and nothing else touches the local file.
\<close>

definition download_world ::
  "'z qworld worker_env \<Rightarrow> 'z qworld remote_client \<Rightarrow> plan \<Rightarrow> ('z qworld \<Rightarrow> bytes) \<Rightarrow> bytes \<Rightarrow> bool" where
  "download_world env client p disk remote \<longleftrightarrow>
     (\<forall>d w r w'. os_create_dir_all (we_os env) d w = (r, w') \<longrightarrow> disk w' = disk w) \<and>
     (\<forall>tr w f w'. we_open_write env (pl_local_path p) tr w = (Inr f, w') \<longrightarrow>
        disk w' = (if tr then [] else disk w)) \<and>
     (\<forall>f n w w'. we_set_len env f n w = (Inr (), w') \<longrightarrow>
        disk w' = take (unat n) (disk w) @ replicate (unat n - length (disk w)) 0) \<and>
     (\<forall>f n w r w'. we_seek env f n w = (r, w') \<longrightarrow> disk w' = disk w) \<and>
     (\<forall>w rd w'. rc_open_read client (pl_remote_path p) (pl_offset p) w = (Inr rd, w') \<longrightarrow> disk w' = disk w \<and>
        (\<exists>remaining. remaining w' = drop (unat (pl_offset p)) remote \<and>
          (\<forall>f. byte_pipe (rr_read rd) remaining (we_write_all env f) disk (progress_step env))) \<and>
        (\<forall>w r w'. rr_finish rd w = (r, w') \<longrightarrow> disk w' = disk w)) \<and>
     (\<forall>f w r w'. we_flush env f w = (r, w') \<longrightarrow> disk w' = disk w) \<and>
     (\<forall>k t s sz w. disk (record_progress k t s sz w) = disk w) \<and>
     (\<forall>f t w. disk (we_set_modified env f t w) = disk w)"

lemma interrupted_not_done: "interrupted_at h w \<noteq> Some ODone"
  by (simp add: interrupted_at_def interrupted_def)

lemma bind_wio_Some_iff:
  "bind_wio m f w = Some (Inr b, w'') \<longleftrightarrow> (\<exists>a w'. m w = Some (Inr a, w') \<and> f a w' = Some (Inr b, w''))"
  by (auto simp: bind_wio_def split: option.splits prod.splits sum.splits)

lemma once_Some_iff: "once m w = Some r \<longleftrightarrow> m w = r"
  by (auto simp: once_def)

lemma os_io_frame: "os_io m w = (r, w') \<Longrightarrow> \<exists>r'. m w = (r', w')"
  by (auto simp: os_io_def split: prod.splits)

text \<open>What a download does before and after the loop.\<close>

abbreviation open_files :: "'w worker_env \<Rightarrow> 'w remote_client \<Rightarrow> plan \<Rightarrow> ('w, nat \<times> 'w remote_reader) vio" where
  "open_files env client p \<equiv>
     bind_io (case os_parent (we_os env) (pl_local_path p) of
       Some d \<Rightarrow> os_io (os_create_dir_all (we_os env) d) | None \<Rightarrow> ok_io ()) (\<lambda>_.
     bind_io (we_open_write env (pl_local_path p) (pl_offset p = 0)) (\<lambda>file.
     bind_io (if pl_offset p > 0
       then then_io (we_set_len env file (pl_offset p)) (we_seek env file (pl_offset p))
       else ok_io ()) (\<lambda>_.
     bind_io (rc_open_read client (pl_remote_path p) (pl_offset p)) (\<lambda>reader.
     ok_io (file, reader)))))"

abbreviation close_files ::
  "'z qworld worker_env \<Rightarrow> plan \<Rightarrow> nat \<Rightarrow> 'z qworld remote_reader \<Rightarrow> progress_tracker \<Rightarrow> outcome
     \<Rightarrow> ('z qworld, outcome) vio" where
  "close_files env p fh reader tracker outcome \<equiv>
     bind_io (we_flush env fh) (\<lambda>_.
          try_io (rr_finish reader) (\<lambda>finished w1.
            let w2 = tracker_finish tracker w1
            in if outcome = ODone then (case finished of
                   Inl e \<Rightarrow> (Inl e, w2)
                 | Inr _ \<Rightarrow> (Inr outcome, case ff_mtime (pl_source p) of
                       Some t \<Rightarrow> we_set_modified env fh (max t 0) w2
                     | None \<Rightarrow> w2))
               else (Inr outcome, w2)))"

text \<open>The state in which the loop starts.\<close>

lemma download_opened:
  assumes W: "download_world env client p disk remote"
    and "unat (pl_offset p) \<le> length (disk w)"
    and "open_files env client p w = (Inr (fh, reader), w1)"
  obtains remaining where "disk w1 = take (unat (pl_offset p)) (disk w)"
    "remaining w1 = drop (unat (pl_offset p)) remote"
    "byte_pipe (rr_read reader) remaining (we_write_all env fh) disk (progress_step env)"
    "\<And>w r w'. rr_finish reader w = (r, w') \<Longrightarrow> disk w' = disk w"
proof -
  have W1: "disk w' = disk w" if "os_create_dir_all (we_os env) d w = (r, w')" for d w r w'
    using W that by (simp add: download_world_def)
  have W2: "disk w' = (if tr then [] else disk w)"
    if "we_open_write env (pl_local_path p) tr w = (Inr f, w')" for tr w f w'
    using W that by (simp add: download_world_def)
  have W3: "disk w' = take (unat n) (disk w) @ replicate (unat n - length (disk w)) 0"
    if "we_set_len env f n w = (Inr (), w')" for f n w w'
    using W that by (simp add: download_world_def)
  have W4: "disk w' = disk w" if "we_seek env f n w = (r, w')" for f n w r w'
    using W that by (simp add: download_world_def)
  have W5: "disk w' = disk w \<and> (\<exists>remaining. remaining w' = drop (unat (pl_offset p)) remote \<and>
          (\<forall>f. byte_pipe (rr_read rd) remaining (we_write_all env f) disk (progress_step env))) \<and>
        (\<forall>w r w'. rr_finish rd w = (r, w') \<longrightarrow> disk w' = disk w)"
    if "rc_open_read client (pl_remote_path p) (pl_offset p) w = (Inr rd, w')" for w rd w'
    using W that unfolding download_world_def by blast
  let ?mk = "case os_parent (we_os env) (pl_local_path p) of
      Some d \<Rightarrow> os_io (os_create_dir_all (we_os env) d) | None \<Rightarrow> ok_io ()"
  obtain u wa wb u2 wc where a: "?mk w = (Inr u, wa)"
    and b: "we_open_write env (pl_local_path p) (pl_offset p = 0) wa = (Inr fh, wb)"
    and c: "(if pl_offset p > 0 then then_io (we_set_len env fh (pl_offset p)) (we_seek env fh (pl_offset p))
        else ok_io ()) wb = (Inr u2, wc)"
    and d: "rc_open_read client (pl_remote_path p) (pl_offset p) wc = (Inr reader, w1)"
    using assms(3) by (auto simp: bind_io_Inr_iff)
  have "disk wa = disk w"
    using a W1 by (auto dest!: os_io_frame split: option.splits)
  moreover have "disk wb = (if pl_offset p = 0 then [] else disk wa)"
    by (rule W2 [OF b])
  moreover have "disk wc = (if pl_offset p = 0 then disk wb else take (unat (pl_offset p)) (disk wb)
      @ replicate (unat (pl_offset p) - length (disk wb)) 0)"
  proof (cases "pl_offset p = 0")
    case True
    with c show ?thesis by simp
  next
    case False
    then obtain v wv where "we_set_len env fh (pl_offset p) wb = (Inr v, wv)"
      "we_seek env fh (pl_offset p) wv = (Inr u2, wc)"
      using c by (auto simp: then_io_def bind_io_Inr_iff word_neq_0_conv split: if_splits)
    then show ?thesis using W3 W4 False by simp
  qed
  ultimately have "disk wc = take (unat (pl_offset p)) (disk w)"
    using assms(2) by (cases "pl_offset p = 0") auto
  with W5 [OF d] that show ?thesis by metis
qed

text \<open>The three parts of a download that has ended without an error.\<close>

lemma download_steps:
  assumes "download fuel env i client p h w = Some (Inr outcome, w')"
  obtains fh reader w1 tracker w2 where
    "open_files env client p w = (Inr (fh, reader), w1)"
    "pump fuel (interrupted_at h) (rr_read reader) (we_write_all env fh) (progress_step env)
       (tracker_new (we_instant env w1) (ti_id i) (ff_size (pl_source p)) (pl_offset p)) w1
       = Some (Inr (outcome, tracker), w2)"
    "close_files env p fh reader tracker outcome w2 = (Inr outcome, w')"
proof -
  obtain fh reader w1 out tracker w2 where opened:
    "open_files env client p w = (Inr (fh, reader), w1)"
    and pumped: "pump fuel (interrupted_at h) (rr_read reader) (we_write_all env fh) (progress_step env)
       (tracker_new (we_instant env w1) (ti_id i) (ff_size (pl_source p)) (pl_offset p)) w1
       = Some (Inr (out, tracker), w2)"
    and closed: "close_files env p fh reader tracker out w2 = (Inr outcome, w')"
    using assms unfolding download_def by (auto simp: bind_wio_Some_iff once_Some_iff)
  have "out = outcome"
    using closed by (auto simp: bind_io_run try_io_run Let_def split: prod.splits sum.splits if_splits)
  with opened pumped closed that show thesis by blast
qed

lemma download_written:
  assumes W: "download_world env client p disk remote" and off: "unat (pl_offset p) \<le> length (disk w)"
    and run: "download fuel env i client p h w = Some (Inr ODone, w')"
  shows "disk w' = take (unat (pl_offset p)) (disk w) @ drop (unat (pl_offset p)) remote"
  using run
proof (rule download_steps)
  fix fh reader w1 tracker w2
  assume opened: "open_files env client p w = (Inr (fh, reader), w1)"
    and pumped: "pump fuel (interrupted_at h) (rr_read reader) (we_write_all env fh) (progress_step env)
       (tracker_new (we_instant env w1) (ti_id i) (ff_size (pl_source p)) (pl_offset p)) w1
       = Some (Inr (ODone, tracker), w2)"
    and closed: "close_files env p fh reader tracker ODone w2 = (Inr ODone, w')"
  obtain remaining where r: "disk w1 = take (unat (pl_offset p)) (disk w)"
      "remaining w1 = drop (unat (pl_offset p)) remote"
      "byte_pipe (rr_read reader) remaining (we_write_all env fh) disk (progress_step env)"
    and fin: "\<And>w r w'. rr_finish reader w = (r, w') \<Longrightarrow> disk w' = disk w"
    by (rule download_opened [OF W off opened]) blast
  have frames: "disk (tracker_finish tracker x) = disk x" "disk (we_set_modified env fh t x) = disk x" for x t
    using W unfolding download_world_def tracker_finish_def by blast+
  have flush: "we_flush env fh x = (y, x') \<Longrightarrow> disk x' = disk x" for x y x'
    using W unfolding download_world_def by blast
  have "disk w' = disk w2"
    using closed flush fin frames
    by (auto simp: bind_io_run try_io_run Let_def split: prod.splits sum.splits if_splits option.splits)
  with byte_pipe.pump_done [OF r(3)] pumped interrupted_not_done r show ?thesis by metis
qed


lemma record_progress_more [simp]:
  "queue_state.more (record_progress k t s sz w) = queue_state.more w"
  by (simp add: record_progress_def update_item_def emit_def split: option.splits)

lemma memory_more:
  "queue_state.more w' = queue_state.more w \<Longrightarrow>
     mw_disk w' = mw_disk w \<and> mw_left w' = mw_left w"
  by (cases w, cases w') simp

lemma memory_progress:
  "mw_disk (record_progress k t s sz w) = mw_disk w" "mw_left (record_progress k t s sz w) = mw_left w"
  using memory_more [OF record_progress_more, of k t s sz w] by simp_all

lemma memory_pipe:
  "byte_pipe (rr_read memory_reader) mw_left (we_write_all memory_env f) mw_disk (progress_step memory_env)"
proof unfold_locales
  fix n bs and w w' :: memory_world assume r: "rr_read memory_reader n w = (Inr bs, w')"
  then show "mw_left w = bs @ mw_left w'" "length bs \<le> n" by (auto simp: memory_reader_def)
next
  fix n and w w' :: memory_world assume "rr_read memory_reader n w = (Inr [], w')" "0 < n"
  then show "mw_left w = []" by (auto simp: memory_reader_def)
qed (auto simp: memory_reader_def memory_env_def progress_step_def tracker_advance_def Let_def
    memory_progress split: if_splits)


lemma memory_download_world:
  "download_world memory_env (memory_client remote) p mw_disk remote"
proof -
  have "mw_disk w' = mw_disk w \<and> (\<exists>remaining. remaining w' = drop (unat off) remote \<and>
          (\<forall>f. byte_pipe (rr_read rd) remaining (we_write_all memory_env f) mw_disk (progress_step memory_env))) \<and>
        (\<forall>w r w'. rr_finish rd w = (r, w') \<longrightarrow> mw_disk w' = mw_disk w)"
    if "rc_open_read (memory_client remote) path off w = (Inr rd, w')" for path off w rd w'
  proof -
    from that have "rd = memory_reader" "w' = w\<lparr>mw_left := drop (unat off) remote\<rparr>"
      by (simp_all add: memory_client_def)
    then show ?thesis
      using memory_pipe by (intro conjI exI [of _ mw_left]) (auto simp: memory_reader_def)
  qed
  then show ?thesis
    by (auto simp: download_world_def memory_progress memory_env_def empty_os_def)
qed

definition memory_plan :: plan where
  "memory_plan = \<lparr>pl_offset = 2, pl_local_path = ''/tmp/a'', pl_remote_path = ''/a'',
     pl_source = \<lparr>ff_size = 7, ff_mtime = None\<rparr>\<rparr>"

lemma memory_open:
  "rc_open_read (memory_client remote) path off w = (Inr memory_reader, w\<lparr>mw_left := drop (unat off) remote\<rparr>)"
  by (simp add: memory_client_def)

lemma memory_read:
  "rr_read memory_reader buffer_size w = (Inr (take 3 (mw_left w)), w\<lparr>mw_left := drop 3 (mw_left w)\<rparr>)"
  "rr_finish memory_reader w = (Inr (), w)"
  by (simp_all add: memory_reader_def buffer_size_def)

lemma memory_step:
  "progress_step memory_env n p w = (p\<lparr>pt_transferred := pt_transferred p + of_nat n,
     pt_window_bytes := pt_window_bytes p + of_nat n\<rparr>, w)" if "pt_last_emit p = 0"
  using that by (simp add: progress_step_def tracker_advance_def memory_env_def)

lemma memory_write:
  "we_write_all memory_env f bs w = (Inr (), w\<lparr>mw_disk := mw_disk w @ bs\<rparr>)"
  "we_open_write memory_env path tr w = (Inr 0, if tr then w\<lparr>mw_disk := []\<rparr> else w)"
  "we_set_len memory_env f len w = (Inr (), w\<lparr>mw_disk := take (unat len) (mw_disk w)
        @ replicate (unat len - length (mw_disk w)) 0\<rparr>)"
  "we_seek memory_env f len w = (Inr (), w)" "we_flush memory_env f w = (Inr (), w)"
  "os_parent (we_os memory_env) path = Some []" "os_create_dir_all (we_os memory_env) path w = (Inr (), w)"
  "we_instant memory_env w = 0"
  by (simp_all add: memory_env_def empty_os_def ok_io_def)

lemma memory_download:
  "\<exists>w'. download 9 memory_env memory_item (memory_client [1, 2, 3, 4, 5, 6, 7]) memory_plan 0
     (memory_start [1, 2]) = Some (Inr ODone, w')"
  by (simp add: download_def memory_open memory_read memory_write memory_step memory_plan_def io_defs
      os_io_def tracker_new_def memory_start_def queue_state.defs
      interrupted_at_def interrupted_def Let_def numeral_eq_Suc)


text \<open>C21: A download returns, with an outcome or an error, as soon as its fuel exceeds the number of
  bytes the remote still has to deliver: the copy loop makes progress with every block.\<close>

theorem download_returns:
  assumes "download_world env client p disk remote" "unat (pl_offset p) \<le> length (disk w)"
    and "length remote - unat (pl_offset p) < fuel"
  shows "\<exists>r w'. download fuel env i client p h w = Some (r, w')"
proof -
  let ?m = "open_files env client p"
  obtain r w1 where open_ok: "?m w = (r, w1)" by force
  show ?thesis
  proof (cases r)
    case (Inl e)
    with open_ok show ?thesis by (simp add: download_def bind_wio_def once_def)
  next
    case (Inr fr)
    obtain fh reader where fr: "fr = (fh, reader)" by force
    obtain remaining where "remaining w1 = drop (unat (pl_offset p)) remote"
        and pipe: "byte_pipe (rr_read reader) remaining (we_write_all env fh) disk (progress_step env)"
      by (rule download_opened [OF assms(1,2) open_ok [unfolded Inr fr]]) blast
    with assms(3) have "length (remaining w1) < fuel" by simp
    from byte_pipe.pump_total [OF pipe this] obtain r2 where
      "pump fuel (interrupted_at h) (rr_read reader) (we_write_all env fh) (progress_step env)
       (tracker_new (we_instant env w1) (ti_id i) (ff_size (pl_source p)) (pl_offset p)) w1 = Some r2"
      by blast
    with open_ok Inr fr show ?thesis
      by (cases r2) (auto simp: download_def bind_wio_def once_def split: sum.splits)
  qed
qed

theorem download_returns_witness:
  "\<exists>r w'. download 6 memory_env memory_item (memory_client [1, 2, 3, 4, 5, 6, 7]) memory_plan 0
     (memory_start [1, 2]) = Some (r, w')"
proof -
  have o: "unat (pl_offset memory_plan) \<le> length (mw_disk (memory_start [1, 2]))"
    and f: "length ([1, 2, 3, 4, 5, 6, 7] :: bytes) - unat (pl_offset memory_plan) < 6"
    by (simp_all add: memory_plan_def memory_start_def queue_state.defs)
  show ?thesis by (rule download_returns [OF memory_download_world o f])
qed


end
