(* ===== verification/Resume.thy ===== *)
theory Resume
  imports Worker_Properties "HOL-Library.Sublist"
begin

text \<open>
  Attempts at a download that was cut off before (\<open>transfer_file\<close> of \<open>transfer/worker.rs\<close>, from the plan to
  the verification): whatever ends an attempt, the local file stays the beginning of the remote one,
  so the next attempt can go on from there.
\<close>

section \<open>The copy loop when it fails\<close>

text \<open>A writer that fails has written a part of its block.\<close>

definition partial_writer :: "(bytes \<Rightarrow> ('w, unit) vio) \<Rightarrow> ('w \<Rightarrow> bytes) \<Rightarrow> bool" where
  "partial_writer wr written \<longleftrightarrow>
     (\<forall>bs w e w'. wr bs w = (Inl e, w') \<longrightarrow> (\<exists>k. written w' = written w @ take k bs))"

context byte_pipe
begin

lemma pump_part:
  assumes "partial_writer wr written"
  shows "pump n check rd wr beat p w = Some (r, w') \<Longrightarrow> \<exists>k. written w' = written w @ take k (remaining w)"
proof (induction n arbitrary: p w)
  case (Suc n)
  show ?case
  proof (cases "check w")
    case (Some out)
    with Suc.prems show ?thesis by (auto intro: exI [of _ 0])
  next
    case None
    obtain b w1 where b: "rd buffer_size w = (b, w1)" by force
    then have kept: "written w1 = written w" by (rule read_written)
    show ?thesis
    proof (cases "b = Inr [] \<or> (\<exists>e. b = Inl e)")
      case True
      with None b kept Suc.prems show ?thesis by (auto intro: exI [of _ 0])
    next
      case False
      then obtain bs where bs: "b = Inr bs" "bs \<noteq> []" by (cases b) auto
      with b have rest: "remaining w = bs @ remaining w1" by (simp add: read_prefix)
      obtain u w2 where u: "wr bs w1 = (u, w2)" by force
      show ?thesis
      proof (cases u)
        case (Inl e)
        with u assms obtain k where "written w2 = written w1 @ take k bs"
          unfolding partial_writer_def by blast
        then have "written w2 = written w @ take (min k (length bs)) (remaining w)"
          using kept rest by (cases "k \<le> length bs") simp_all
        with None b bs u Inl Suc.prems show ?thesis by auto
      next
        case (Inr x)
        obtain p2 w3 where t: "beat (length bs) p w2 = (p2, w3)" by force
        with None b bs u Inr Suc.prems have "pump n check rd wr beat p2 w3 = Some (r, w')" by simp
        then obtain k where "written w' = written w3 @ take k (remaining w3)" using Suc.IH by blast
        moreover have "written w3 = written w @ bs" "remaining w3 = remaining w1"
          using u Inr t kept beat_frame write_append write_remaining by (metis old.unit.exhaust)+
        ultimately have "written w' = written w @ take (length bs + k) (remaining w)" using rest by simp
        then show ?thesis by blast
      qed
    qed
  qed
qed simp

end

lemma pump_outcome:
  "pump n check rd wr beat p w = Some (Inr (out, p'), w') \<Longrightarrow> out = ODone \<or> (\<exists>x. check x = Some out)"
proof (induction n arbitrary: p w)
  case (Suc n)
  then show ?case by (auto split: option.splits sum.splits prod.splits if_splits)
qed simp

lemma download_not_skipped: "download fuel env i client p h w \<noteq> Some (Inr OSkipped, w')"
proof
  assume "download fuel env i client p h w = Some (Inr OSkipped, w')"
  then show False
    by (rule download_steps)
      (auto dest!: pump_outcome simp: interrupted_at_def interrupted_def split: if_splits)
qed

section \<open>The world of an attempt\<close>

text \<open>
  What an attempt relies on, beyond the contract of a download: \<open>disk\<close> is the content of the item's local
  file, which \<open>metadata\<close> measures; the remote file is a file of the size \<open>stat\<close> reports and does not
  change; a failing call leaves the local file as it was, a failing write has written a part of its
  block; sessions, connections and digests do not touch the local file.
\<close>

definition keeps :: "('w \<Rightarrow> 'd) \<Rightarrow> ('w, 'e, 'a) io \<Rightarrow> bool" where
  "keeps disk m \<longleftrightarrow> (\<forall>w r w'. m w = (r, w') \<longrightarrow> disk w' = disk w)"

definition resumable ::
  "'z qworld worker_env \<Rightarrow> transfer_item \<Rightarrow> 'z qworld live_session \<Rightarrow> ('z qworld \<Rightarrow> bytes) \<Rightarrow> bytes \<Rightarrow> bool" where
  "resumable env i s disk remote \<longleftrightarrow>
     length remote < 2 ^ 64 \<and>
     (\<forall>w w'. queue_state.more w' = queue_state.more w \<longrightarrow> disk w' = disk w) \<and>
     (\<forall>d w. disk (lv_put s d w) = disk w) \<and>
     (\<forall>fo. keeps disk (we_connect env fo)) \<and>
     (\<forall>path w meta. path = ti_local_path i \<and> os_metadata (we_os env) path w = Inr meta \<longrightarrow>
        \<not> fm_is_dir meta \<and> fm_len meta = of_nat (length (disk w))) \<and>
     (\<forall>c. keeps disk (rc_stat (lv_client s c) (ti_remote_path i))) \<and>
     (\<forall>c w e w'. rc_stat (lv_client s c) (ti_remote_path i) w = (Inr e, w') \<longrightarrow>
        re_size e = of_nat (length remote)) \<and>
     (\<forall>c p. pl_local_path p = ti_local_path i \<and> pl_remote_path p = ti_remote_path i \<longrightarrow>
        download_world env (lv_client s c) p disk remote) \<and>
     (\<forall>tr w e w'. we_open_write env (ti_local_path i) tr w = (Inl e, w') \<longrightarrow> disk w' = disk w) \<and>
     (\<forall>f n w e w'. we_set_len env f n w = (Inl e, w') \<longrightarrow> disk w' = disk w) \<and>
     (\<forall>c n w e w'. rc_open_read (lv_client s c) (ti_remote_path i) n w = (Inl e, w') \<longrightarrow> disk w' = disk w) \<and>
     (\<forall>f. partial_writer (we_write_all env f) disk) \<and>
     (\<forall>c path algo. keeps disk (rc_hash (lv_client s c) path algo)) \<and>
     (\<forall>path. keeps disk (we_open_read env path)) \<and>
     (\<forall>f n. keeps disk (we_read_file env f n))"

lemma keepsD: "keeps disk m \<Longrightarrow> m w = (r, w') \<Longrightarrow> disk w' = disk w"
  by (simp add: keeps_def)

lemma resumableD:
  assumes "resumable env i s disk remote"
  shows "length remote < 2 ^ 64"
    "queue_state.more w' = queue_state.more w \<Longrightarrow> disk w' = disk w"
    "disk (lv_put s d w) = disk w"
    "keeps disk (we_connect env fo)"
    "os_metadata (we_os env) (ti_local_path i) w = Inr meta \<Longrightarrow>
       \<not> fm_is_dir meta \<and> fm_len meta = of_nat (length (disk w))"
    "keeps disk (rc_stat (lv_client s c) (ti_remote_path i))"
    "rc_stat (lv_client s c) (ti_remote_path i) w = (Inr e, w') \<Longrightarrow> re_size e = of_nat (length remote)"
    "pl_local_path p = ti_local_path i \<Longrightarrow> pl_remote_path p = ti_remote_path i \<Longrightarrow>
       download_world env (lv_client s c) p disk remote"
    "we_open_write env (ti_local_path i) tr w = (Inl x, w') \<Longrightarrow> disk w' = disk w"
    "we_set_len env f n w = (Inl x, w') \<Longrightarrow> disk w' = disk w"
    "rc_open_read (lv_client s c) (ti_remote_path i) n w = (Inl x, w') \<Longrightarrow> disk w' = disk w"
    "partial_writer (we_write_all env f) disk"
    "keeps disk (rc_hash (lv_client s c) path algo)"
    "keeps disk (we_open_read env path)"
    "keeps disk (we_read_file env f k)"
  using assms unfolding resumable_def by metis+

lemma update_item_more [simp]: "queue_state.more (snd (update_item key f w)) = queue_state.more w"
  by (simp add: update_item_def split: option.splits)

lemma log_to_disk: "resumable env i s disk remote \<Longrightarrow> disk (log_to s l w) = disk w"
  by (simp add: log_to_def lv_modify_def resumableD(3))

lemma lease_disk: "resumable env i s disk remote \<Longrightarrow> disk (drop_lease s l w) = disk w"
  by (simp add: drop_lease_def lv_modify_def resumableD(3))

lemma transfer_client_keeps:
  assumes "resumable env i s disk remote"
  shows "keeps disk (transfer_client (we_connect env) s)"
proof -
  have "keeps disk (connect_ftp (we_connect env) (ss_site s) pw)" for pw
    by (auto simp: connect_ftp_def Let_def resumableD(4) [OF assms] split: prod.splits)
  then show ?thesis
    by (auto simp: keeps_def transfer_client_def Let_def lv_modify_def log_to_disk [OF assms]
        resumableD(3) [OF assms] split: prod.splits sum.splits if_splits)
qed

section \<open>One attempt\<close>

abbreviation partly :: "('w \<Rightarrow> bytes) \<Rightarrow> bytes \<Rightarrow> 'w \<Rightarrow> bool" where
  "partly disk remote w \<equiv> prefix (disk w) remote"

lemma prefix_cut: "prefix xs ys \<Longrightarrow> n \<le> length xs \<Longrightarrow> take n xs @ drop n ys = ys"
  by (auto simp: prefix_def)

lemma prefix_take_mono: "prefix xs ys \<Longrightarrow> prefix (take n xs) ys"
  by (meson prefix_order.trans take_is_prefix)

lemma prefix_cut_take: "prefix xs ys \<Longrightarrow> n \<le> length xs \<Longrightarrow> prefix (take n xs @ take k (drop n ys)) ys"
  by (metis prefix_cut prefix_append same_prefix_prefix take_is_prefix)

text \<open>Opening the two files, with any result.\<close>

lemma opening_part:
  fixes p :: plan
  assumes R: "resumable env i s disk remote" and P: "partly disk remote w"
    and p: "pl_local_path p = ti_local_path i" "pl_remote_path p = ti_remote_path i"
    and off: "unat (pl_offset p) \<le> length (disk w)"
    and open_run: "open_files env (lv_client s c) p w = (r, w1)"
  shows "partly disk remote w1"
proof -
  have W: "download_world env (lv_client s c) p disk remote" using R p by (rule resumableD)
  let ?mk = "case os_parent (we_os env) (pl_local_path p) of
      Some d \<Rightarrow> os_io (os_create_dir_all (we_os env) d) | None \<Rightarrow> ok_io ()"
  obtain a wa where a: "?mk w = (a, wa)" by force
  have da: "disk wa = disk w"
    using a W by (auto simp: download_world_def dest!: os_io_frame split: option.splits)
  show ?thesis
  proof (cases "\<exists>u. a = Inr u")
    case False
    with a da P open_run show ?thesis by (cases a) (auto simp: bind_io_run)
  next
    case True
    obtain b wb where b: "we_open_write env (pl_local_path p) (pl_offset p = 0) wa = (b, wb)" by force
    have db: "prefix (disk wb) (disk w) \<and> (pl_offset p \<noteq> 0 \<longrightarrow> disk wb = disk w)"
      using b da W resumableD(9) [OF R] p by (cases b) (auto simp: download_world_def split: if_splits)
    show ?thesis
    proof (cases b)
      case (Inl e)
      with True a b db P open_run show ?thesis by (auto simp: bind_io_run dest: prefix_order.trans)
    next
      case (Inr f)
      let ?cut = "if pl_offset p > 0 then then_io (we_set_len env f (pl_offset p)) (we_seek env f (pl_offset p))
          else ok_io ()"
      obtain d wd where d: "?cut wb = (d, wd)" by force
      have dd: "prefix (disk wd) (disk w)"
      proof (cases "pl_offset p > 0")
        case False
        with d db show ?thesis by simp
      next
        case True
        obtain l wl where l: "we_set_len env f (pl_offset p) wb = (l, wl)" by force
        have "prefix (disk wl) (disk w)"
          using l off db True W resumableD(10) [OF R] by (cases l) (auto simp: download_world_def take_is_prefix)
        moreover have "disk wd = disk wl"
          using d l True W by (cases l) (auto simp: then_io_run bind_io_run download_world_def)
        ultimately show ?thesis by simp
      qed
      obtain o1 wo where o1: "rc_open_read (lv_client s c) (pl_remote_path p) (pl_offset p) wd = (o1, wo)" by force
      have "disk wo = disk wd"
        using o1 W p resumableD(11) [OF R] by (cases o1) (auto simp: download_world_def)
      with dd P have "partly disk remote wd" "partly disk remote wo" by (auto dest: prefix_order.trans)
      then show ?thesis
        using True a b Inr d o1 open_run by (cases d; cases o1) (auto simp: bind_io_run)
    qed
  qed
qed

text \<open>Opening, copying, flushing and finishing.\<close>

lemma download_part:
  fixes p :: plan
  assumes R: "resumable env i s disk remote" and P: "partly disk remote w"
    and p: "pl_local_path p = ti_local_path i" "pl_remote_path p = ti_remote_path i"
    and off: "unat (pl_offset p) \<le> length (disk w)"
    and run: "download fuel env i (lv_client s c) p h w = Some (r, w')"
  shows "partly disk remote w'" "r = Inr ODone \<Longrightarrow> disk w' = remote"
proof -
  have W: "download_world env (lv_client s c) p disk remote" using R p by (rule resumableD)
  obtain a w1 where a: "open_files env (lv_client s c) p w = (a, w1)" by force
  have P1: "partly disk remote w1" by (rule opening_part [OF R P p off a])
  have frames: "disk (tracker_finish tracker x) = disk x" "disk (we_set_modified env f t x) = disk x" for tracker f t x
    using W unfolding download_world_def tracker_finish_def by blast+
  show "partly disk remote w'"
  proof (cases a)
    case (Inl e)
    with a run P1 show ?thesis by (simp add: download_def bind_wio_def once_def)
  next
    case (Inr fr)
    obtain f reader where fr: "fr = (f, reader)" by force
    obtain remaining where d1: "disk w1 = take (unat (pl_offset p)) (disk w)"
      "remaining w1 = drop (unat (pl_offset p)) remote"
      and pipe: "byte_pipe (rr_read reader) remaining (we_write_all env f) disk (progress_step env)"
      and fin: "\<And>w r w'. rr_finish reader w = (r, w') \<Longrightarrow> disk w' = disk w"
      by (rule download_opened [OF W off a [unfolded Inr fr]]) blast
    let ?pump = "pump fuel (interrupted_at h) (rr_read reader) (we_write_all env f) (progress_step env)
       (tracker_new (we_instant env w1) (ti_id i) (ff_size (pl_source p)) (pl_offset p)) w1"
    obtain b w2 where b: "?pump = Some (b, w2)"
      using run a Inr fr by (cases ?pump) (auto simp: download_def bind_wio_def once_def)
    obtain k where "disk w2 = disk w1 @ take k (remaining w1)"
      using byte_pipe.pump_part [OF pipe resumableD(12) [OF R] b] by blast
    then have P2: "partly disk remote w2" using d1 P off prefix_cut_take by metis
    have flush: "disk x' = disk x" if "we_flush env f x = (y, x')" for x y x'
      using W that unfolding download_world_def by blast
    have "disk w' = disk w2"
      using run a Inr fr b flush fin frames
      by (cases b) (auto simp: download_def bind_wio_def once_def bind_io_run try_io_run Let_def
          split: prod.splits sum.splits if_splits option.splits)
    with P2 show ?thesis by simp
  qed
  show "disk w' = remote" if "r = Inr ODone"
    using download_written [OF W off run [unfolded that]] prefix_cut [OF P off] by simp
qed

text \<open>A download that has moved some bytes goes on where its local file ends, and asks nobody.\<close>

lemma plan_resumes:
  assumes R: "resumable env i s disk remote" and P: "partly disk remote w"
    and i: "ti_direction i = Download" "0 < ti_transferred i"
    and run: "plan_transfer env i s (lv_client s c) w = (r, w')"
  shows "disk w' = disk w" "r \<noteq> Inr None"
    "r = Inr (Some p) \<Longrightarrow> pl_local_path p = ti_local_path i \<and> pl_remote_path p = ti_remote_path i \<and>
       unat (pl_offset p) \<le> length (disk w')"
proof -
  obtain st w1 where st: "rc_stat (lv_client s c) (ti_remote_path i) w = (st, w1)" by force
  then have d1: "disk w1 = disk w" using keepsD [OF resumableD(6) [OF R]] by simp
  have "(disk w' = disk w \<and> r \<noteq> Inr None) \<and> (\<forall>p. r = Inr (Some p) \<longrightarrow>
      pl_local_path p = ti_local_path i \<and> pl_remote_path p = ti_remote_path i \<and>
      unat (pl_offset p) \<le> length (disk w'))"
  proof (cases st)
    case (Inl e)
    with st i run d1 show ?thesis by (auto simp: plan_transfer_def transfer_facts_def bind_io_run)
  next
    case (Inr entry)
    with st R have sz: "re_size entry = of_nat (length remote)" by (simp add: resumableD(7))
    have len: "length (disk w1) \<le> length remote" using P d1 by (simp add: prefix_length_le)
    have le: "(of_nat (length (disk w1)) :: u64) \<le> of_nat (length remote)"
      "unat (of_nat (length (disk w1)) :: u64) = length (disk w1)"
      using len resumableD(1) [OF R] by (simp_all add: word_le_nat_alt unat_of_nat)
    show ?thesis
      using st Inr i run d1 sz le resumableD(5) [OF R, of w1]
      by (auto simp: plan_transfer_def transfer_facts_def bind_io_run local_facts_def Let_def
          split: sum.splits if_splits)
  qed
  then show "disk w' = disk w" "r \<noteq> Inr None" "r = Inr (Some p) \<Longrightarrow> pl_local_path p = ti_local_path i \<and>
      pl_remote_path p = ti_remote_path i \<and> unat (pl_offset p) \<le> length (disk w')" by blast+
qed

text \<open>The verification only reads.\<close>

lemma hash_loop_keeps:
  assumes "\<And>k. keeps disk (rd k)"
  shows "hash_loop n rd updates w = Some (r, w') \<Longrightarrow> disk w' = disk w"
proof (induction n arbitrary: updates w)
  case (Suc n)
  obtain b w1 where b: "rd buffer_size w = (b, w1)" by force
  with assms have "disk w1 = disk w" by (rule keepsD)
  with Suc b show ?case by (auto split: sum.splits if_splits)
qed simp

lemma local_digest_keeps:
  assumes "resumable env i s disk remote"
    and "local_digest fuel algos hex (we_open_read env) (we_read_file env) path algo w = Some (r, w')"
  shows "disk w' = disk w"
proof -
  obtain a w1 where a: "we_open_read env path w = (a, w1)" by force
  then have "disk w1 = disk w" by (rule keepsD [OF resumableD(14) [OF assms(1)]])
  with a assms(2) show ?thesis
    by (auto simp: local_digest_def hash_stream_def bind_wio_def once_def ok_io_def
        dest!: hash_loop_keeps [OF resumableD(15) [OF assms(1)]] split: sum.splits option.splits)
qed

lemma verify_keeps:
  assumes R: "resumable env i s disk remote" and "ti_direction i = Download"
    and run: "verify fuel env i (lv_client s c) p w = Some (r, w')"
  shows "disk w' = disk w"
proof -
  have hash: "disk x' = disk x" if "rc_hash (lv_client s c) path algo x = (y, x')" for path algo x y x'
    using that by (rule keepsD [OF resumableD(13) [OF R]])
  show ?thesis
    using run assms(2)
    by (auto simp: verify_def Let_def bind_wio_def once_def ok_io_def err_io_def
        dest!: hash local_digest_keeps [OF R] split: sum.splits option.splits if_splits prod.splits)
qed


text \<open>The world in memory is such a world.\<close>

lemma memory_resumable:
  assumes "length remote < 2 ^ 64"
  shows "resumable memory_env i (memory_session remote) mw_disk remote"
proof -
  have more: "mw_disk w' = mw_disk w" if "queue_state.more w' = queue_state.more w" for w w'
    using memory_more [OF that] by simp
  have world: "download_world memory_env (lv_client (memory_session remote) c) p mw_disk remote" for c p
    by (simp add: memory_session_def memory_download_world)
  show ?thesis
    unfolding resumable_def
    by (intro conjI allI impI; (rule assms | (rule more, assumption) | rule world
        | (simp add: keeps_def partial_writer_def memory_env_def memory_session_def memory_client_def
            plain_entry_def sample_client_def default_hash_def io_defs)
        | (auto simp: memory_env_def memory_session_def memory_client_def plain_entry_def io_defs)))
qed

lemma memory_download_from:
  assumes "mw_disk w = [1, 2]" "q_cells w = [\<lparr>cc_cancelled = False, cc_pausing = False\<rparr>]"
  shows "\<exists>w'. download 9 memory_env memory_item (memory_client [1, 2, 3, 4, 5, 6, 7]) memory_plan 0 w = Some (Inr ODone, w')"
  using assms
  by (simp add: download_def memory_open memory_read memory_write memory_step memory_plan_def io_defs
      os_io_def tracker_new_def interrupted_at_def interrupted_def Let_def numeral_eq_Suc)

lemma memory_attempt:
  "\<exists>w'. transfer_file 9 memory_env memory_item (memory_session [1, 2, 3, 4, 5, 6, 7]) 0 (memory_start [1, 2]) =
     Some (Inr ODone, w')"
proof -
  let ?R = "[1, 2, 3, 4, 5, 6, 7] :: bytes" and ?w = "memory_start [1, 2]"
  let ?S = "memory_session ?R"
  have R: "resumable memory_env memory_item ?S mw_disk ?R" by (rule memory_resumable) simp
  have item: "ti_direction memory_item = Download" "ti_link_target memory_item = None" "ti_id memory_item = ''a''"
    "ti_local_path memory_item = ''/tmp/a''" "ti_remote_path memory_item = ''/a''"
    by (simp_all add: memory_item_def build_item_def sample_request_def)
  have client: "lv_client ?S c = memory_client ?R" for c by (simp add: memory_session_def)
  have connect: "connect_ftp (we_connect memory_env) site pw w = (Inr 0, w)" for site pw and w :: memory_world
    by (simp add: connect_ftp_def memory_env_def ok_io_def Let_def split: prod.splits)
  have parts: "rc_supports_multiplexing (session_client ?S) = False" "lv_get ?S = mw_session"
    "lv_put ?S = (\<lambda>d w. w\<lparr>mw_session := d\<rparr>)" "mw_session ?w = sample_data"
    by (simp_all add: session_client_def memory_session_def memory_client_def sample_client_def memory_start_def
        queue_state.defs)
  obtain d where l: "transfer_client (we_connect memory_env) ?S ?w =
      (Inr \<lparr>tl_client = 0, tl_pooled = True\<rparr>, ?w\<lparr>mw_session := d\<rparr>)"
    by (simp add: transfer_client_def parts log_to_def lv_modify_def connect sample_data_def Let_def)
  let ?w1 = "?w\<lparr>mw_session := d\<rparr>"
  have w: "mw_disk ?w = [1, 2]" "q_cells ?w = [\<lparr>cc_cancelled = False, cc_pausing = False\<rparr>]"
    by (simp_all add: memory_start_def queue_state.defs)
  have pl: "plan_transfer memory_env memory_item ?S (memory_client ?R) ?w1 = (Inr (Some memory_plan), ?w1)"
    using w by (simp add: plan_transfer_def transfer_facts_def memory_defs build_item_def sample_request_def
        bind_io_run Let_def plain_entry_def local_facts_def memory_item_def memory_plan_def)
  let ?w3 = "snd (update_item (ti_id memory_item) (\<lambda>j. j\<lparr>ti_size := Some (ff_size (pl_source memory_plan)),
      ti_local_path := pl_local_path memory_plan, ti_remote_path := pl_remote_path memory_plan\<rparr>) ?w1)"
  have w3: "mw_disk ?w3 = [1, 2]" "q_cells ?w3 = [\<lparr>cc_cancelled = False, cc_pausing = False\<rparr>]"
    using w memory_more [of ?w3 ?w1] by (simp_all add: update_item_def split: option.splits)
  obtain w4 where d: "download 9 memory_env memory_item (memory_client ?R) memory_plan 0 ?w3 = Some (Inr ODone, w4)"
    using memory_download_from [OF w3] by blast
  then have "download 9 memory_env memory_item (lv_client ?S 0) memory_plan 0 ?w3 = Some (Inr ODone, w4)"
    by (simp only: client)
  moreover have "partly mw_disk ?R ?w3" "unat (pl_offset memory_plan) \<le> length (mw_disk ?w3)"
    unfolding w3 by (simp_all add: memory_plan_def)
  moreover have "pl_local_path memory_plan = ti_local_path memory_item"
      "pl_remote_path memory_plan = ti_remote_path memory_item"
    by (simp_all add: item memory_plan_def)
  ultimately have "mw_disk w4 = ?R" using download_part(2) [OF R] by blast
  then have v: "verify 9 memory_env memory_item (memory_client ?R) memory_plan w4 = Some (Inr (), w4)"
    by (simp add: verify_def item memory_plan_def memory_env_def memory_client_def sample_client_def
        default_supported_hashes_def io_defs Let_def bind_wio_def once_def)
  show ?thesis
    unfolding transfer_file_def
    by (simp add: item(1,2) l client pl d v bind_wio_def once_def Let_def)
qed


end
