(* ===== verification/Uploads.thy ===== *)
theory Uploads
  imports Worker_Properties
begin

text \<open>
  What a finished upload (\<open>upload\<close> of \<open>transfer/worker.rs\<close>) has left in the remote file.
\<close>

section \<open>The world of an upload\<close>

text \<open>
  What the local file system and the remote writer are documented to do: \<open>left f\<close> is what an open local file still
  has to deliver and \<open>sent wr\<close> what has been given to a writer, which may be on its way; finishing the
  writer puts it into the remote file, behind the part of the old content that was kept.  A server may cut
  the old file at the offset or leave what lies behind the new bytes.
\<close>

definition placed_at :: "nat \<Rightarrow> bytes \<Rightarrow> bytes \<Rightarrow> bytes \<Rightarrow> bool" where
  "placed_at off old d new \<longleftrightarrow>
     (\<exists>rest. new = take off old @ d @ rest \<and> (rest = [] \<or> rest = drop (off + length d) old))"

definition upload_world ::
  "'z qworld worker_env \<Rightarrow> 'z qworld remote_client \<Rightarrow> plan \<Rightarrow> bytes \<Rightarrow> bytes \<Rightarrow> (nat \<Rightarrow> 'z qworld \<Rightarrow> bytes)
     \<Rightarrow> ('z qworld remote_writer \<Rightarrow> 'z qworld \<Rightarrow> bytes) \<Rightarrow> ('z qworld \<Rightarrow> bytes) \<Rightarrow> bool" where
  "upload_world env client p content old left sent remote \<longleftrightarrow>
     (\<forall>w f w'. we_open_read env (pl_local_path p) w = (Inr f, w') \<longrightarrow> left f w' = content) \<and>
     (\<forall>f n w w'. we_seek env f n w = (Inr (), w') \<longrightarrow> left f w' = drop (unat n) content) \<and>
     (\<forall>w wr w'. rc_open_write client (pl_remote_path p) (pl_offset p) w = (Inr wr, w') \<longrightarrow>
        sent wr w' = [] \<and> (\<forall>f. left f w' = left f w) \<and>
        (\<forall>f. byte_pipe (we_read_file env f) (left f) (rw_write wr) (sent wr) (progress_step env)) \<and>
        (\<forall>w w'. rw_finish wr w = (Inr (), w') \<longrightarrow> placed_at (unat (pl_offset p)) old (sent wr w) (remote w'))) \<and>
     (\<forall>k t s sz w. remote (record_progress k t s sz w) = remote w)"

abbreviation open_sides :: "'w worker_env \<Rightarrow> 'w remote_client \<Rightarrow> plan \<Rightarrow> ('w, nat \<times> 'w remote_writer) vio" where
  "open_sides env client p \<equiv>
     bind_io (we_open_read env (pl_local_path p)) (\<lambda>file.
     bind_io (if pl_offset p > 0 then we_seek env file (pl_offset p) else ok_io ()) (\<lambda>_.
     bind_io (rc_open_write client (pl_remote_path p) (pl_offset p)) (\<lambda>writer.
     ok_io (file, writer))))"

text \<open>The three parts of an upload that is done.\<close>

lemma upload_steps:
  assumes "upload fuel env i client p h w = Some (Inr ODone, w')"
  obtains f wr w1 tracker w2 w3 where
    "open_sides env client p w = (Inr (f, wr), w1)"
    "pump fuel (interrupted_at h) (we_read_file env f) (rw_write wr) (progress_step env)
       (tracker_new (we_instant env w1) (ti_id i) (ff_size (pl_source p)) (pl_offset p)) w1
       = Some (Inr (ODone, tracker), w2)"
    "rw_finish wr w2 = (Inr (), w3)" "w' = tracker_finish tracker w3"
proof -
  obtain f wr w1 out tracker w2 where opened: "open_sides env client p w = (Inr (f, wr), w1)"
    and pumped: "pump fuel (interrupted_at h) (we_read_file env f) (rw_write wr) (progress_step env)
       (tracker_new (we_instant env w1) (ti_id i) (ff_size (pl_source p)) (pl_offset p)) w1
       = Some (Inr (out, tracker), w2)"
    and closed: "try_io (rw_finish wr) (\<lambda>finished w1.
                 let w2 = tracker_finish tracker w1
                 in if out = ODone then (map_ok (\<lambda>_. out) finished, w2) else (Inr out, w2)) w2 = (Inr ODone, w')"
    using assms unfolding upload_def by (auto simp: bind_wio_Some_iff once_Some_iff)
  obtain r w3 where r: "rw_finish wr w2 = (r, w3)" by force
  with closed have "out = ODone" "r = Inr ()" "w' = tracker_finish tracker w3"
    by (cases r; auto simp: try_io_run Let_def map_ok_def split: if_splits)+
  with opened pumped r that show thesis by simp
qed

lemma upload_opened:
  assumes W: "upload_world env client p content old left sent remote"
    and "open_sides env client p w = (Inr (f, wr), w1)"
  shows "left f w1 = drop (unat (pl_offset p)) content" "sent wr w1 = []"
    "byte_pipe (we_read_file env f) (left f) (rw_write wr) (sent wr) (progress_step env)"
    "rw_finish wr w2 = (Inr (), w3) \<Longrightarrow> placed_at (unat (pl_offset p)) old (sent wr w2) (remote w3)"
proof -
  let ?seek = "if pl_offset p > 0 then we_seek env f (pl_offset p) else ok_io ()"
  obtain wa wb where a: "we_open_read env (pl_local_path p) w = (Inr f, wa)" "?seek wa = (Inr (), wb)"
    and o: "rc_open_write client (pl_remote_path p) (pl_offset p) wb = (Inr wr, w1)"
    using assms(2) by (auto simp: bind_io_Inr_iff)
  have "left f wb = drop (unat (pl_offset p)) content"
    using a W by (cases "pl_offset p = 0") (auto simp: upload_world_def word_neq_0_conv)
  moreover have L: "sent wr w1 = [] \<and> (\<forall>f. left f w1 = left f wb) \<and>
      (\<forall>f. byte_pipe (we_read_file env f) (left f) (rw_write wr) (sent wr) (progress_step env)) \<and>
      (\<forall>w w'. rw_finish wr w = (Inr (), w') \<longrightarrow> placed_at (unat (pl_offset p)) old (sent wr w) (remote w'))"
    using W o unfolding upload_world_def by blast
  ultimately show "left f w1 = drop (unat (pl_offset p)) content" "sent wr w1 = []"
    "byte_pipe (we_read_file env f) (left f) (rw_write wr) (sent wr) (progress_step env)"
    "rw_finish wr w2 = (Inr (), w3) \<Longrightarrow> placed_at (unat (pl_offset p)) old (sent wr w2) (remote w3)"
    by simp_all
qed

text \<open>C5: An upload that ends with \<open>Done\<close> has made the remote file the part that was kept (up to the plan's
  offset) followed by the local file from that offset on; in particular, when the old remote file was not
  longer than the local one, an upload that continues at the end of a part of the local file leaves an
  exact copy.\<close>

theorem upload_writes_local:
  assumes "upload_world env client p content old left sent remote"
    and "upload fuel env i client p h w = Some (Inr ODone, w')"
  shows "placed_at (unat (pl_offset p)) old (drop (unat (pl_offset p)) content) (remote w') \<and>
    (unat (pl_offset p) \<le> length old \<and> take (unat (pl_offset p)) old = take (unat (pl_offset p)) content \<and>
       length old \<le> length content \<longrightarrow> remote w' = content)"
  using assms(2)
proof (rule upload_steps)
  fix f wr w1 tracker w2 w3
  assume opened: "open_sides env client p w = (Inr (f, wr), w1)"
    and pumped: "pump fuel (interrupted_at h) (we_read_file env f) (rw_write wr) (progress_step env)
       (tracker_new (we_instant env w1) (ti_id i) (ff_size (pl_source p)) (pl_offset p)) w1
       = Some (Inr (ODone, tracker), w2)"
    and finished: "rw_finish wr w2 = (Inr (), w3)" "w' = tracker_finish tracker w3"
  let ?off = "unat (pl_offset p)"
  note world = upload_opened [OF assms(1) opened]
  have "sent wr w2 = drop ?off content"
    using byte_pipe.pump_done [OF world(3) pumped interrupted_not_done] world(1,2) by simp
  moreover have "remote w' = remote w3"
    using assms(1) by (simp add: finished(2) tracker_finish_def upload_world_def)
  ultimately have placed: "placed_at ?off old (drop ?off content) (remote w')"
    using world(4) [OF finished(1)] by simp
  have "remote w' = content" if "?off \<le> length old" "take ?off old = take ?off content" "length old \<le> length content"
    using placed that unfolding placed_at_def by auto
  with placed show ?thesis by blast
qed

text \<open>A local file of three bytes that replaces a remote file, in memory.\<close>

definition upload_env :: "memory_world worker_env" where
  "upload_env = memory_env\<lparr>we_open_read := (\<lambda>p w. (Inr 0, w\<lparr>mw_left := [1, 2, 3]\<rparr>)),
     we_seek := (\<lambda>f n w. (Inr (), w\<lparr>mw_left := drop (unat n) [1, 2, 3]\<rparr>)),
     we_read_file := (\<lambda>f n w. (Inr (take n (mw_left w)), w\<lparr>mw_left := drop n (mw_left w)\<rparr>))\<rparr>"

definition upload_writer :: "memory_world remote_writer" where
  "upload_writer = \<lparr>rw_write = (\<lambda>bs w. (Inr (), w\<lparr>mw_disk := mw_disk w @ bs\<rparr>)), rw_finish = ok_io ()\<rparr>"

definition upload_client :: "memory_world remote_client" where
  "upload_client = sample_client\<lparr>rc_open_write := (\<lambda>p off w. (Inr upload_writer, w\<lparr>mw_disk := []\<rparr>))\<rparr>"

definition upload_plan :: plan where
  "upload_plan = \<lparr>pl_offset = 0, pl_local_path = ''/tmp/a'', pl_remote_path = ''/a'',
     pl_source = \<lparr>ff_size = 3, ff_mtime = None\<rparr>\<rparr>"

lemma upload_progress:
  "progress_step upload_env n p w = (p', w') \<Longrightarrow> mw_left w' = mw_left w \<and> mw_disk w' = mw_disk w"
  by (auto simp: progress_step_def tracker_advance_def upload_env_def memory_env_def Let_def memory_progress split: if_splits)

lemma upload_memory_world:
  "upload_world upload_env upload_client upload_plan [1, 2, 3] [9] (\<lambda>f. mw_left) (\<lambda>wr. mw_disk) mw_disk"
proof -
  have "byte_pipe (we_read_file upload_env f) mw_left (rw_write upload_writer) mw_disk (progress_step upload_env)" for f
    by unfold_locales (auto simp: upload_env_def upload_writer_def dest: upload_progress [unfolded upload_env_def])
  then show ?thesis
    by (auto simp: upload_world_def upload_client_def upload_plan_def placed_at_def upload_writer_def memory_progress)
      (auto simp: upload_env_def)
qed

lemma upload_memory:
  "\<exists>w'. upload 3 upload_env memory_item upload_client upload_plan 0 (memory_start [9]) = Some (Inr ODone, w')"
proof -
  have all: "take buffer_size [1, 2, 3 :: u8] = [1, 2, 3]" "drop buffer_size [1, 2, 3 :: u8] = []"
    by (simp_all add: buffer_size_def)
  show ?thesis
    by (simp add: upload_def upload_env_def upload_client_def upload_writer_def upload_plan_def memory_env_def io_defs
        tracker_new_def tracker_advance_def progress_step_def memory_start_def queue_state.defs interrupted_at_def
        interrupted_def all Let_def numeral_3_eq_3)
qed

theorem upload_writes_local_witness:
  "\<exists>w'. upload 3 upload_env memory_item upload_client upload_plan 0 (memory_start [9]) = Some (Inr ODone, w') \<and>
     mw_disk w' = [1, 2, 3]"
proof -
  obtain w' where u: "upload 3 upload_env memory_item upload_client upload_plan 0 (memory_start [9]) = Some (Inr ODone, w')"
    using upload_memory by blast
  from upload_writes_local [OF upload_memory_world u] have "mw_disk w' = [1, 2, 3]"
    by (simp add: upload_plan_def)
  with u show ?thesis by blast
qed

end
