(* ===== verification/Sftp_Packet.thy ===== *)
theory Sftp_Packet
  imports Protocol_Types Utf8
begin

text \<open>
  \<open>src-tauri/src/protocol/sftp/packet.rs\<close>: the wire format of SFTP version 3.  A packet under
  construction and the rest of a packet being read are byte lists; a \<open>Reader\<close> operation passes the
  rest on, in an error as well.  The \<open>bytes\<close> crate's \<open>BufMut\<close> and \<open>Buf\<close> are the fields of \<open>buf_codec\<close>,
  and the locale \<open>big_endian\<close> states what its documentation promises; the standard library's
  \<open>to_be_bytes\<close> and \<open>from_be_bytes\<close> are defined here.
\<close>

unbundle bit_operations_syntax

named_theorems sftp_consts \<open>the protocol's numbers\<close>

section \<open>The protocol's numbers\<close>

definition sftp_version :: u32 where [sftp_consts]: "sftp_version = 3"
definition fxp_init :: u8 where [sftp_consts]: "fxp_init = 1"
definition fxp_version :: u8 where [sftp_consts]: "fxp_version = 2"
definition fxp_open :: u8 where [sftp_consts]: "fxp_open = 3"
definition fxp_close :: u8 where [sftp_consts]: "fxp_close = 4"
definition fxp_read :: u8 where [sftp_consts]: "fxp_read = 5"
definition fxp_write :: u8 where [sftp_consts]: "fxp_write = 6"
definition fxp_setstat :: u8 where [sftp_consts]: "fxp_setstat = 9"
definition fxp_opendir :: u8 where [sftp_consts]: "fxp_opendir = 11"
definition fxp_readdir :: u8 where [sftp_consts]: "fxp_readdir = 12"
definition fxp_remove :: u8 where [sftp_consts]: "fxp_remove = 13"
definition fxp_mkdir :: u8 where [sftp_consts]: "fxp_mkdir = 14"
definition fxp_rmdir :: u8 where [sftp_consts]: "fxp_rmdir = 15"
definition fxp_realpath :: u8 where [sftp_consts]: "fxp_realpath = 16"
definition fxp_stat :: u8 where [sftp_consts]: "fxp_stat = 17"
definition fxp_rename :: u8 where [sftp_consts]: "fxp_rename = 18"
definition fxp_readlink :: u8 where [sftp_consts]: "fxp_readlink = 19"
definition fxp_status :: u8 where [sftp_consts]: "fxp_status = 101"
definition fxp_handle :: u8 where [sftp_consts]: "fxp_handle = 102"
definition fxp_data :: u8 where [sftp_consts]: "fxp_data = 103"
definition fxp_name :: u8 where [sftp_consts]: "fxp_name = 104"
definition fxp_attrs :: u8 where [sftp_consts]: "fxp_attrs = 105"
definition fxp_extended :: u8 where [sftp_consts]: "fxp_extended = 200"
definition fxp_extended_reply :: u8 where [sftp_consts]: "fxp_extended_reply = 201"
definition fx_ok :: u32 where [sftp_consts]: "fx_ok = 0"
definition fx_eof :: u32 where [sftp_consts]: "fx_eof = 1"
definition fx_no_such_file :: u32 where [sftp_consts]: "fx_no_such_file = 2"
definition fx_permission_denied :: u32 where [sftp_consts]: "fx_permission_denied = 3"
definition fx_failure :: u32 where [sftp_consts]: "fx_failure = 4"
definition fx_bad_message :: u32 where [sftp_consts]: "fx_bad_message = 5"
definition fx_no_connection :: u32 where [sftp_consts]: "fx_no_connection = 6"
definition fx_connection_lost :: u32 where [sftp_consts]: "fx_connection_lost = 7"
definition fx_op_unsupported :: u32 where [sftp_consts]: "fx_op_unsupported = 8"
definition fxf_read :: u32 where [sftp_consts]: "fxf_read = 1"
definition fxf_write :: u32 where [sftp_consts]: "fxf_write = 2"
definition fxf_creat :: u32 where [sftp_consts]: "fxf_creat = 8"
definition fxf_trunc :: u32 where [sftp_consts]: "fxf_trunc = 16"
definition fxf_excl :: u32 where [sftp_consts]: "fxf_excl = 32"
definition attr_size :: u32 where [sftp_consts]: "attr_size = 1"
definition attr_uidgid :: u32 where [sftp_consts]: "attr_uidgid = 2"
definition attr_permissions :: u32 where [sftp_consts]: "attr_permissions = 4"
definition attr_acmodtime :: u32 where [sftp_consts]: "attr_acmodtime = 8"
definition attr_extended :: u32 where [sftp_consts]: "attr_extended = 2147483648"
definition s_ifmt :: u32 where [sftp_consts]: "s_ifmt = 61440"
definition s_ifdir :: u32 where [sftp_consts]: "s_ifdir = 16384"
definition s_ifreg :: u32 where [sftp_consts]: "s_ifreg = 32768"
definition s_iflnk :: u32 where [sftp_consts]: "s_iflnk = 40960"

section \<open>Big-endian numbers\<close>

text \<open>\<open>to_be_bytes\<close> of a number of \<open>k\<close> bytes, and \<open>from_be_bytes\<close>.\<close>

fun to_be_bytes :: "nat \<Rightarrow> nat \<Rightarrow> bytes" where
  "to_be_bytes 0 v = []"
| "to_be_bytes (Suc k) v = to_be_bytes k (v div 256) @ [of_nat (v mod 256)]"

definition from_be_bytes :: "bytes \<Rightarrow> nat" where
  "from_be_bytes bs = foldl (\<lambda>n b. n * 256 + unat b) 0 bs"

lemma length_to_be_bytes [simp]: "length (to_be_bytes k v) = k"
  by (induction k arbitrary: v) auto

lemma from_to_be_bytes: "from_be_bytes (to_be_bytes k v) = v mod 256 ^ k"
proof (induction k arbitrary: v)
  case (Suc k)
  have "unat (of_nat (v mod 256) :: u8) = v mod 256" by (simp add: unat_of_nat)
  then have "from_be_bytes (to_be_bytes (Suc k) v) = (v div 256 mod 256 ^ k) * 256 + v mod 256"
    using Suc.IH [of "v div 256"] by (simp add: from_be_bytes_def)
  also have "\<dots> = v mod (256 * 256 ^ k)"
    by (simp add: mod_mult2_eq mult.commute)
  finally show ?case by simp
qed (simp add: from_be_bytes_def)

lemma from_to_be_bytes_u32: "from_be_bytes (to_be_bytes 4 (unat (v :: u32))) = unat v"
  using unsigned_less [where ?'a = nat, of v] by (simp add: from_to_be_bytes)

lemma from_to_be_bytes_u64: "from_be_bytes (to_be_bytes 8 (unat (v :: u64))) = unat v"
  using unsigned_less [where ?'a = nat, of v] by (simp add: from_to_be_bytes)

record buf_codec =
  cd_put_u32 :: "u32 \<Rightarrow> bytes"
  cd_put_u64 :: "u64 \<Rightarrow> bytes"
  cd_get_u32 :: "bytes \<Rightarrow> u32 \<times> bytes"
  cd_get_u64 :: "bytes \<Rightarrow> u64 \<times> bytes"

locale big_endian =
  fixes bc :: buf_codec
  assumes put_u32_be: "cd_put_u32 bc v = to_be_bytes 4 (unat v)"
    and put_u64_be: "cd_put_u64 bc n = to_be_bytes 8 (unat n)"
    and get_u32_be: "4 \<le> length bs \<Longrightarrow> cd_get_u32 bc bs = (of_nat (from_be_bytes (take 4 bs)), drop 4 bs)"
    and get_u64_be: "8 \<le> length bs \<Longrightarrow> cd_get_u64 bc bs = (of_nat (from_be_bytes (take 8 bs)), drop 8 bs)"
begin

lemma get_put_u32: "cd_get_u32 bc (cd_put_u32 bc v @ bs) = (v, bs)"
  by (simp add: get_u32_be put_u32_be from_to_be_bytes_u32)

lemma get_put_u64: "cd_get_u64 bc (cd_put_u64 bc n @ bs) = (n, bs)"
  by (simp add: get_u64_be put_u64_be from_to_be_bytes_u64)

lemma length_put [simp]: "length (cd_put_u32 bc v) = 4" "length (cd_put_u64 bc n) = 8"
  by (simp_all add: put_u32_be put_u64_be)

end

text \<open>The codec made of the standard library's conversions.\<close>

definition std_codec :: buf_codec where
  "std_codec = \<lparr>cd_put_u32 = (\<lambda>v. to_be_bytes 4 (unat v)), cd_put_u64 = (\<lambda>v. to_be_bytes 8 (unat v)),
     cd_get_u32 = (\<lambda>bs. (of_nat (from_be_bytes (take 4 bs)), drop 4 bs)),
     cd_get_u64 = (\<lambda>bs. (of_nat (from_be_bytes (take 8 bs)), drop 8 bs))\<rparr>"

interpretation std: big_endian std_codec
  by unfold_locales (simp_all add: std_codec_def)

section \<open>Reading\<close>

type_synonym 'a reading = "(bytes, 'a) vio"

definition ensure :: "nat \<Rightarrow> unit reading" where
  "ensure n = (\<lambda>buf. (if length buf < n then Inl (Protocol ''truncated SFTP packet'') else Inr (), buf))"

definition read_u32 :: "buf_codec \<Rightarrow> u32 reading" where
  "read_u32 bc = bind_io (ensure 4) (\<lambda>_ buf. case cd_get_u32 bc buf of (v, rest) \<Rightarrow> (Inr v, rest))"

definition read_u64 :: "buf_codec \<Rightarrow> u64 reading" where
  "read_u64 bc = bind_io (ensure 8) (\<lambda>_ buf. case cd_get_u64 bc buf of (v, rest) \<Rightarrow> (Inr v, rest))"

definition read_bytes :: "buf_codec \<Rightarrow> bytes reading" where
  "read_bytes bc = bind_io (read_u32 bc) (\<lambda>n. bind_io (ensure (unat n))
     (\<lambda>_ buf. (Inr (take (unat n) buf), drop (unat n) buf)))"

definition read_string :: "buf_codec \<Rightarrow> string reading" where
  "read_string bc = bind_io (read_bytes bc) (\<lambda>bs. ok_io (from_utf8_lossy (bytes_text bs)))"

section \<open>File attributes\<close>

record attrs =
  at_size :: "u64 option"
  at_uid :: "u32 option"
  at_gid :: "u32 option"
  at_permissions :: "u32 option"
  at_atime :: "u32 option"
  at_mtime :: "u32 option"

definition default_attrs :: attrs where
  "default_attrs = \<lparr>at_size = None, at_uid = None, at_gid = None, at_permissions = None,
     at_atime = None, at_mtime = None\<rparr>"

definition attrs_kind :: "u32 \<Rightarrow> attrs \<Rightarrow> bool" where
  "attrs_kind kind a \<longleftrightarrow> (case at_permissions a of Some p \<Rightarrow> p AND s_ifmt = kind | None \<Rightarrow> False)"

definition attrs_is_dir :: "attrs \<Rightarrow> bool" where
  "attrs_is_dir = attrs_kind s_ifdir"

definition attrs_is_symlink :: "attrs \<Rightarrow> bool" where
  "attrs_is_symlink = attrs_kind s_iflnk"

definition attrs_is_regular :: "attrs \<Rightarrow> bool" where
  "attrs_is_regular = attrs_kind s_ifreg"

text \<open>\<open>if let (Some(a), Some(b)) = ...\<close>.\<close>

definition both :: "'a option \<Rightarrow> 'b option \<Rightarrow> ('a \<times> 'b) option" where
  "both x y = Option.bind x (\<lambda>a. map_option (\<lambda>b. (a, b)) y)"

definition attrs_flags :: "attrs \<Rightarrow> u32" where
  "attrs_flags a =
     (if at_size a \<noteq> None then attr_size else 0) OR
     (if both (at_uid a) (at_gid a) \<noteq> None then attr_uidgid else 0) OR
     (if at_permissions a \<noteq> None then attr_permissions else 0) OR
     (if both (at_atime a) (at_mtime a) \<noteq> None then attr_acmodtime else 0)"

definition attrs_encode :: "buf_codec \<Rightarrow> attrs \<Rightarrow> bytes \<Rightarrow> bytes" where
  "attrs_encode bc a out = out @ cd_put_u32 bc (attrs_flags a)
     @ (case at_size a of Some n \<Rightarrow> cd_put_u64 bc n | None \<Rightarrow> [])
     @ (case both (at_uid a) (at_gid a) of
          Some (uid, gid) \<Rightarrow> cd_put_u32 bc uid @ cd_put_u32 bc gid | None \<Rightarrow> [])
     @ (case at_permissions a of Some p \<Rightarrow> cd_put_u32 bc p | None \<Rightarrow> [])
     @ (case both (at_atime a) (at_mtime a) of
          Some (atime, mtime) \<Rightarrow> cd_put_u32 bc atime @ cd_put_u32 bc mtime | None \<Rightarrow> [])"

text \<open>A field that is read only when its flag is set.\<close>

definition flagged :: "u32 \<Rightarrow> u32 \<Rightarrow> 'a reading \<Rightarrow> 'a option reading" where
  "flagged flags flag m =
     (if flags AND flag \<noteq> 0 then bind_io m (\<lambda>a. ok_io (Some a)) else ok_io None)"

definition read_pair :: "buf_codec \<Rightarrow> (u32 \<times> u32) reading" where
  "read_pair bc = bind_io (read_u32 bc) (\<lambda>a. bind_io (read_u32 bc) (\<lambda>b. ok_io (a, b)))"

fun skip_extended :: "buf_codec \<Rightarrow> nat \<Rightarrow> unit reading" where
  "skip_extended bc 0 = ok_io ()"
| "skip_extended bc (Suc n) =
     bind_io (read_string bc) (\<lambda>_. bind_io (read_string bc) (\<lambda>_. skip_extended bc n))"

definition attrs_decode :: "buf_codec \<Rightarrow> attrs reading" where
  "attrs_decode bc = bind_io (read_u32 bc) (\<lambda>flags.
     bind_io (flagged flags attr_size (read_u64 bc)) (\<lambda>size.
     bind_io (flagged flags attr_uidgid (read_pair bc)) (\<lambda>ids.
     bind_io (flagged flags attr_permissions (read_u32 bc)) (\<lambda>permissions.
     bind_io (flagged flags attr_acmodtime (read_pair bc)) (\<lambda>times.
     bind_io (flagged flags attr_extended
         (bind_io (read_u32 bc) (\<lambda>count. skip_extended bc (unat count)))) (\<lambda>_.
     ok_io \<lparr>at_size = size, at_uid = map_option fst ids, at_gid = map_option snd ids,
        at_permissions = permissions, at_atime = map_option fst times,
        at_mtime = map_option snd times\<rparr>))))))"

section \<open>Building packets\<close>

definition packet_new :: "buf_codec \<Rightarrow> u8 \<Rightarrow> u32 \<Rightarrow> bytes" where
  "packet_new bc packet_type pid = cd_put_u32 bc 0 @ [packet_type] @ cd_put_u32 bc pid"

definition packet_init :: "buf_codec \<Rightarrow> bytes" where
  "packet_init bc = cd_put_u32 bc 5 @ [fxp_init] @ cd_put_u32 bc sftp_version"

definition put_u32 :: "buf_codec \<Rightarrow> u32 \<Rightarrow> bytes \<Rightarrow> bytes" where
  "put_u32 bc v buf = buf @ cd_put_u32 bc v"

definition put_u64 :: "buf_codec \<Rightarrow> u64 \<Rightarrow> bytes \<Rightarrow> bytes" where
  "put_u64 bc v buf = buf @ cd_put_u64 bc v"

definition put_bytes :: "buf_codec \<Rightarrow> bytes \<Rightarrow> bytes \<Rightarrow> bytes" where
  "put_bytes bc value buf = buf @ cd_put_u32 bc (of_nat (length value)) @ value"

definition put_string :: "buf_codec \<Rightarrow> string \<Rightarrow> bytes \<Rightarrow> bytes" where
  "put_string bc value = put_bytes bc (as_bytes value)"

definition put_attrs :: "buf_codec \<Rightarrow> attrs \<Rightarrow> bytes \<Rightarrow> bytes" where
  "put_attrs bc a buf = attrs_encode bc a buf"

definition packet_build :: "bytes \<Rightarrow> bytes" where
  "packet_build buf = to_be_bytes 4 (unat (of_nat (length buf - 4) :: u32)) @ drop 4 buf"

section \<open>Responses\<close>

record response =
  rs_type :: u8
  rs_id :: u32
  rs_payload :: bytes

definition status_to_result :: "u32 \<Rightarrow> string \<Rightarrow> unit vresult" where
  "status_to_result code message =
     (if code = fx_ok then Inr ()
      else if code = fx_eof then Inl (Protocol ''EOF'')
      else if code = fx_no_such_file then Inl (NotFound message)
      else if code = fx_permission_denied then Inl (PermissionDenied message)
      else if code = fx_failure then Inl (Protocol (if message = [] then ''operation failed'' else message))
      else if code = fx_bad_message then Inl (Protocol (''bad message: '' @ message))
      else if code = fx_no_connection \<or> code = fx_connection_lost then Inl (ConnectionLost message)
      else if code = fx_op_unsupported then Inl (Unsupported message)
      else Inl (Protocol (''SFTP status '' @ show_nat (unat code) @ '': '' @ message)))"

definition response_status :: "buf_codec \<Rightarrow> response \<Rightarrow> unit vresult" where
  "response_status bc r =
     (if rs_type r \<noteq> fxp_status
      then Inl (Protocol (''expected STATUS, got packet type '' @ show_nat (unat (rs_type r))))
      else case read_u32 bc (rs_payload r) of
          (Inl e, _) \<Rightarrow> Inl e
        | (Inr code, rest) \<Rightarrow> status_to_result code (unwrap_or (fst (read_string bc rest)) []))"

definition unexpected :: "buf_codec \<Rightarrow> response \<Rightarrow> verror" where
  "unexpected bc r = (case response_status bc r of
      Inl e \<Rightarrow> e
    | Inr _ \<Rightarrow> Protocol (''unexpected SFTP packet type '' @ show_nat (unat (rs_type r))))"

definition is_eof :: "buf_codec \<Rightarrow> response \<Rightarrow> bool" where
  "is_eof bc r \<longleftrightarrow> rs_type r = fxp_status \<and> fst (read_u32 bc (rs_payload r)) = Inr fx_eof"

section \<open>Round trips\<close>

lemma attrs_flags_bits:
  "attrs_flags a AND attr_size \<noteq> 0 \<longleftrightarrow> at_size a \<noteq> None"
  "attrs_flags a AND attr_uidgid \<noteq> 0 \<longleftrightarrow> both (at_uid a) (at_gid a) \<noteq> None"
  "attrs_flags a AND attr_permissions \<noteq> 0 \<longleftrightarrow> at_permissions a \<noteq> None"
  "attrs_flags a AND attr_acmodtime \<noteq> 0 \<longleftrightarrow> both (at_atime a) (at_mtime a) \<noteq> None"
  "attrs_flags a AND attr_extended = 0"
  by (simp_all add: attrs_flags_def sftp_consts)

text \<open>What survives: user and group, and the two times, only travel together.\<close>

definition paired_attrs :: "attrs \<Rightarrow> attrs" where
  "paired_attrs a =
     (let ids = both (at_uid a) (at_gid a); times = both (at_atime a) (at_mtime a)
      in a\<lparr>at_uid := map_option fst ids, at_gid := map_option snd ids,
           at_atime := map_option fst times, at_mtime := map_option snd times\<rparr>)"

context big_endian
begin

lemma read_put_u32: "read_u32 bc (cd_put_u32 bc v @ rest) = (Inr v, rest)"
  by (simp add: read_u32_def ensure_def bind_io_run get_put_u32)

lemma read_put_u64: "read_u64 bc (cd_put_u64 bc n @ rest) = (Inr n, rest)"
  by (simp add: read_u64_def ensure_def bind_io_run get_put_u64)

lemma read_put_bytes:
  "length value < 2 ^ 32 \<Longrightarrow>
     read_bytes bc (cd_put_u32 bc (of_nat (length value)) @ value @ rest) = (Inr value, rest)"
  by (simp add: read_bytes_def bind_io_run read_put_u32 ensure_def unat_of_nat)

lemma read_put_string:
  "length s < 2 ^ 32 \<Longrightarrow>
     read_string bc (cd_put_u32 bc (of_nat (length s)) @ as_bytes s @ rest) = (Inr (from_utf8_lossy s), rest)"
  using read_put_bytes [of "as_bytes s" rest] by (simp add: read_string_def bind_io_run)

lemma read_put_pair: "read_pair bc (cd_put_u32 bc v @ cd_put_u32 bc v2 @ rest) = (Inr (v, v2), rest)"
  by (simp add: read_pair_def bind_io_run read_put_u32)

lemma decode_fields:
  "flagged (attrs_flags a) attr_size (read_u64 bc)
     ((case at_size a of Some n \<Rightarrow> cd_put_u64 bc n | None \<Rightarrow> []) @ rest) = (Inr (at_size a), rest)"
  "flagged (attrs_flags a) attr_uidgid (read_pair bc)
     ((case both (at_uid a) (at_gid a) of Some (uid, gid) \<Rightarrow> cd_put_u32 bc uid @ cd_put_u32 bc gid
       | None \<Rightarrow> []) @ rest) = (Inr (both (at_uid a) (at_gid a)), rest)"
  "flagged (attrs_flags a) attr_permissions (read_u32 bc)
     ((case at_permissions a of Some n \<Rightarrow> cd_put_u32 bc n | None \<Rightarrow> []) @ rest) = (Inr (at_permissions a), rest)"
  "flagged (attrs_flags a) attr_acmodtime (read_pair bc)
     ((case both (at_atime a) (at_mtime a) of Some (x, y) \<Rightarrow> cd_put_u32 bc x @ cd_put_u32 bc y
       | None \<Rightarrow> []) @ rest) = (Inr (both (at_atime a) (at_mtime a)), rest)"
  "flagged (attrs_flags a) attr_extended m rest = (Inr None, rest)"
  by (auto simp: flagged_def attrs_flags_bits bind_io_run read_put_u32 read_put_u64 read_put_pair
      split: option.splits)

lemma decode_encode: "attrs_decode bc (attrs_encode bc a [] @ rest) = (Inr (paired_attrs a), rest)"
  by (simp add: attrs_decode_def attrs_encode_def bind_io_run read_put_u32 decode_fields
      paired_attrs_def Let_def)

end

text \<open>Attributes that were encoded are decoded again, whatever follows them in the packet; only a
  user without a group, or one time without the other, is left out.\<close>

theorem attrs_roundtrip:
  assumes "big_endian bc"
  shows "attrs_decode bc (attrs_encode bc a [] @ rest) = (Inr (paired_attrs a), rest)"
  by (rule big_endian.decode_encode [OF assms])

theorem attrs_roundtrip_witness:
  "fst (attrs_decode std_codec (attrs_encode std_codec
      (default_attrs\<lparr>at_size := Some 5, at_uid := Some 7, at_permissions := Some 420\<rparr>) [])) =
   Inr (default_attrs\<lparr>at_size := Some 5, at_permissions := Some 420\<rparr>)"
  using attrs_roundtrip [OF std.big_endian_axioms, of _ "[]"]
  by (simp add: paired_attrs_def default_attrs_def both_def Let_def)

section \<open>Truncated packets\<close>

text \<open>Every reading operation either finishes, having taken some bytes from the front, or fails for
  lack of bytes with the one error \<open>ensure\<close> gives; it never takes more than there is.\<close>

definition clean_reading :: "'a reading \<Rightarrow> bool" where
  "clean_reading m \<longleftrightarrow> (\<forall>buf r rest. m buf = (r, rest) \<longrightarrow>
     (\<exists>taken. buf = taken @ rest) \<and> (\<forall>e. r = Inl e \<longrightarrow> e = Protocol ''truncated SFTP packet''))"

lemma clean_ok [simp]: "clean_reading (ok_io a)"
  by (simp add: clean_reading_def)

lemma clean_bind:
  assumes "clean_reading m" "\<And>a. clean_reading (f a)"
  shows "clean_reading (bind_io m f)"
  unfolding clean_reading_def
proof (intro allI impI)
  fix buf r rest assume run: "bind_io m f buf = (r, rest)"
  obtain r1 buf1 where m: "m buf = (r1, buf1)" by force
  then obtain t1 where t1: "buf = t1 @ buf1" and e1: "\<forall>e. r1 = Inl e \<longrightarrow> e = Protocol ''truncated SFTP packet''"
    using assms(1) unfolding clean_reading_def by metis
  show "(\<exists>taken. buf = taken @ rest) \<and> (\<forall>e. r = Inl e \<longrightarrow> e = Protocol ''truncated SFTP packet'')"
  proof (cases r1)
    case (Inl e)
    with m run t1 e1 show ?thesis by (auto simp: bind_io_run)
  next
    case (Inr a)
    with m run have "f a buf1 = (r, rest)" by (simp add: bind_io_run)
    with assms(2) [of a] obtain t2 where "buf1 = t2 @ rest" "\<forall>e. r = Inl e \<longrightarrow> e = Protocol ''truncated SFTP packet''"
      unfolding clean_reading_def by metis
    with t1 show ?thesis by auto
  qed
qed

lemma clean_ensure [simp]: "clean_reading (ensure n)"
  by (simp add: clean_reading_def ensure_def)

lemma clean_flagged: "clean_reading m \<Longrightarrow> clean_reading (flagged flags flag m)"
  by (simp add: flagged_def clean_bind)

context big_endian
begin

lemma clean_u32: "clean_reading (read_u32 bc)"
  unfolding clean_reading_def
proof (intro allI impI)
  fix buf r rest assume "read_u32 bc buf = (r, rest)"
  then show "(\<exists>taken. buf = taken @ rest) \<and> (\<forall>e. r = Inl e \<longrightarrow> e = Protocol ''truncated SFTP packet'')"
    by (cases "length buf < 4")
      (auto simp: read_u32_def bind_io_run ensure_def get_u32_be intro: exI [of _ "take 4 buf"])
qed

lemma clean_u64: "clean_reading (read_u64 bc)"
  unfolding clean_reading_def
proof (intro allI impI)
  fix buf r rest assume "read_u64 bc buf = (r, rest)"
  then show "(\<exists>taken. buf = taken @ rest) \<and> (\<forall>e. r = Inl e \<longrightarrow> e = Protocol ''truncated SFTP packet'')"
    by (cases "length buf < 8")
      (auto simp: read_u64_def bind_io_run ensure_def get_u64_be intro: exI [of _ "take 8 buf"])
qed

lemma clean_bytes: "clean_reading (read_bytes bc)"
  unfolding read_bytes_def
proof (rule clean_bind [OF clean_u32])
  fix n :: u32
  show "clean_reading (bind_io (ensure (unat n)) (\<lambda>_ buf. (Inr (take (unat n) buf), drop (unat n) buf)))"
    by (rule clean_bind, simp) (auto simp: clean_reading_def intro: append_take_drop_id [symmetric])
qed

lemma clean_string: "clean_reading (read_string bc)"
  unfolding read_string_def by (rule clean_bind [OF clean_bytes]) simp

lemma clean_skip: "clean_reading (skip_extended bc n)"
  by (induction n) (simp_all only: skip_extended.simps clean_ok clean_bind clean_string)

lemma clean_attrs: "clean_reading (attrs_decode bc)"
  unfolding attrs_decode_def read_pair_def
  by (intro clean_bind clean_flagged clean_u32 clean_u64 clean_skip clean_ok)

end

text \<open>Whatever bytes a server sends as attributes, decoding them takes bytes from the front and
  reports at most that the packet was cut short: hostile counts and lengths cannot make it read
  outside the packet.\<close>

theorem attrs_decode_contained:
  assumes "big_endian bc" "attrs_decode bc buf = (r, rest)"
  shows "(\<exists>taken. buf = taken @ rest) \<and> (\<forall>e. r = Inl e \<longrightarrow> e = Protocol ''truncated SFTP packet'')"
  using big_endian.clean_attrs [OF assms(1)] assms(2) unfolding clean_reading_def by blast

theorem attrs_decode_contained_witness:
  "(\<exists>taken. [0x80, 0, 0, 0, 255, 255, 255, 255] = taken @ ([] :: bytes)) \<and>
   (\<forall>e. (Inl (Protocol ''truncated SFTP packet'') :: attrs vresult) = Inl e \<longrightarrow> e = Protocol ''truncated SFTP packet'')"
proof (rule attrs_decode_contained [OF std.big_endian_axioms])
  have "skip_extended std_codec (Suc n) [] = (Inl (Protocol ''truncated SFTP packet''), [])" for n
    by (simp add: read_string_def read_bytes_def read_u32_def ensure_def bind_io_run)
  from this [of 4294967294] have skip: "skip_extended std_codec 4294967295 [] =
      (Inl (Protocol ''truncated SFTP packet''), [])"
    by (simp only: numeral_eq_Suc pred_numeral_simps)
  have get: "cd_get_u32 std_codec bs = (of_nat (from_be_bytes (take 4 bs)), drop 4 bs)" for bs
    by (simp add: std_codec_def)
  show "attrs_decode std_codec [0x80, 0, 0, 0, 255, 255, 255, 255] =
      (Inl (Protocol ''truncated SFTP packet''), [])"
    by (simp add: attrs_decode_def read_u32_def ensure_def bind_io_run get flagged_def skip
        from_be_bytes_def sftp_consts)
qed

end
