(* ===== verification/Sftp_Link.thy ===== *)
theory Sftp_Link
  imports Sftp_Packet "HOL-Library.AList"
begin

text \<open>
  The transport of \<open>src-tauri/src/protocol/sftp/client.rs\<close>: requests are numbered, registered in the
  pending map and handed to the writer task; the reader task cuts the incoming bytes into packets
  and answers the request whose number a packet carries.  A oneshot channel is an index into
  \<open>sl_waiters\<close>; \<open>sl_outbox\<close> holds every packet handed to the writer, in order.  The step relation
  interleaves any number of requests with the two tasks.
\<close>

datatype waiter = WOpen | WAnswered "response vresult" | WDropped

record sftp_link =
  sl_alive :: bool
  sl_next_id :: u32
  sl_pending :: "(u32 \<times> nat) list"
  sl_waiters :: "waiter list"
  sl_outbox :: "bytes list"
  sl_writing :: bool
  sl_reading :: bool
  sl_init :: waiter

definition max_packet_size :: nat where
  "max_packet_size = 512 * 1024 + 1024"

definition connection_lost :: verror where
  "connection_lost = ConnectionLost ''SFTP connection closed''"

text \<open>The state \<open>handshake\<close> starts from; the first request gets number 1.\<close>

definition new_link :: sftp_link where
  "new_link = \<lparr>sl_alive = True, sl_next_id = 1, sl_pending = [], sl_waiters = [], sl_outbox = [],
     sl_writing = True, sl_reading = True, sl_init = WOpen\<rparr>"

definition link_next_id :: "'z sftp_link_scheme \<Rightarrow> u32 \<times> 'z sftp_link_scheme" where
  "link_next_id l = (sl_next_id l, l\<lparr>sl_next_id := sl_next_id l + 1\<rparr>)"

text \<open>A oneshot sender is used or dropped once.\<close>

definition resolve_waiter :: "nat \<Rightarrow> waiter \<Rightarrow> 'z sftp_link_scheme \<Rightarrow> 'z sftp_link_scheme" where
  "resolve_waiter ch v l = (if ch < length (sl_waiters l) \<and> sl_waiters l ! ch = WOpen
     then l\<lparr>sl_waiters := (sl_waiters l)[ch := v]\<rparr> else l)"

text \<open>\<open>pending.lock().remove(&id)\<close> with the sender used or dropped.\<close>

definition take_pending :: "u32 \<Rightarrow> waiter \<Rightarrow> 'z sftp_link_scheme \<Rightarrow> 'z sftp_link_scheme" where
  "take_pending key v l = (case map_of (sl_pending l) key of
      None \<Rightarrow> l
    | Some ch \<Rightarrow> (resolve_waiter ch v l)\<lparr>sl_pending := AList.delete key (sl_pending l)\<rparr>)"

text \<open>The part of \<open>send\<close> after the \<open>alive\<close> check: inserting under a number that is still pending
  drops that request's sender.\<close>

definition link_register :: "u32 \<Rightarrow> bytes \<Rightarrow> 'z sftp_link_scheme \<Rightarrow> nat vresult \<times> 'z sftp_link_scheme" where
  "link_register key packet l =
     (let ch = length (sl_waiters l);
          l1 = take_pending key WDropped l;
          l2 = l1\<lparr>sl_waiters := sl_waiters l1 @ [WOpen], sl_pending := (key, ch) # sl_pending l1\<rparr>
      in if sl_writing l2 then (Inr ch, l2\<lparr>sl_outbox := sl_outbox l2 @ [packet]\<rparr>)
         else (Inl connection_lost, take_pending key WDropped l2))"

definition link_send :: "u32 \<Rightarrow> bytes \<Rightarrow> 'z sftp_link_scheme \<Rightarrow> nat vresult \<times> 'z sftp_link_scheme" where
  "link_send key packet l =
     (if \<not> sl_alive l then (Inl connection_lost, l) else link_register key packet l)"

section \<open>The reader task\<close>

text \<open>The next packet of the bytes that are still to come; \<open>None\<close> ends the loop: the stream ended
  within a packet or the length is out of bounds.\<close>

definition read_frame :: "bytes \<Rightarrow> (response \<times> bytes) option" where
  "read_frame input =
     (let len = from_be_bytes (take 4 input); body = take len (drop 4 input)
      in if length input < 4 \<or> len < 5 \<or> max_packet_size < len \<or> length (drop 4 input) < len then None
         else Some (\<lparr>rs_type = hd body, rs_id = of_nat (from_be_bytes (take 4 (tl body))),
                     rs_payload = drop 5 body\<rparr>, drop (4 + len) input))"

definition link_deliver :: "response \<Rightarrow> 'z sftp_link_scheme \<Rightarrow> 'z sftp_link_scheme" where
  "link_deliver r l =
     (if rs_type r = fxp_version
      then if sl_init l = WOpen then l\<lparr>sl_init := WAnswered (Inr r)\<rparr> else l
      else take_pending (rs_id r) (WAnswered (Inr r)) l)"

definition drain_pending :: "'z sftp_link_scheme \<Rightarrow> 'z sftp_link_scheme" where
  "drain_pending l =
     (fold (\<lambda>(key, ch). resolve_waiter ch (WAnswered (Inl connection_lost))) (sl_pending l) l)\<lparr>sl_pending := []\<rparr>"

definition reader_ends :: "'z sftp_link_scheme \<Rightarrow> 'z sftp_link_scheme" where
  "reader_ends l =
     (let l1 = l\<lparr>sl_alive := False, sl_reading := False\<rparr>;
          l2 = (if sl_init l1 = WOpen
            then l1\<lparr>sl_init := WAnswered (Inl (ConnectionLost ''connection closed''))\<rparr> else l1)
      in drain_pending l2)"

lemma read_frame_shorter: "read_frame input = Some (r, rest) \<Longrightarrow> length rest < length input"
  by (auto simp: read_frame_def Let_def split: if_splits)

text \<open>The whole task on the bytes of a connection.\<close>

function read_loop :: "bytes \<Rightarrow> 'z sftp_link_scheme \<Rightarrow> 'z sftp_link_scheme" where
  "read_loop input l = (case read_frame input of
      None \<Rightarrow> reader_ends l
    | Some (r, rest) \<Rightarrow> read_loop rest (link_deliver r l))"
  by pat_completeness auto
termination
  by (relation "measure (length \<circ> fst)") (auto dest: read_frame_shorter)

section \<open>The writer task\<close>

text \<open>\<open>wr\<close> and \<open>flush\<close> tell whether writing succeeded.  A batch is a packet that was waited for with
  those that were already queued behind it.\<close>

fun write_batch :: "(bytes \<Rightarrow> 'o \<Rightarrow> bool \<times> 'o) \<Rightarrow> bytes list \<Rightarrow> 'o \<Rightarrow> bool \<times> 'o" where
  "write_batch wr [] out = (True, out)"
| "write_batch wr (p # ps) out = (case wr p out of
      (True, out') \<Rightarrow> write_batch wr ps out'
    | (False, out') \<Rightarrow> (False, out'))"

fun write_loop :: "(bytes \<Rightarrow> 'o \<Rightarrow> bool \<times> 'o) \<Rightarrow> ('o \<Rightarrow> bool \<times> 'o) \<Rightarrow> bytes list list \<Rightarrow> 'o \<Rightarrow> 'o" where
  "write_loop wr flush [] out = out"
| "write_loop wr flush (b # bs) out = (case write_batch wr b out of
      (False, out1) \<Rightarrow> out1
    | (True, out1) \<Rightarrow> (case flush out1 of
          (False, out2) \<Rightarrow> out2
        | (True, out2) \<Rightarrow> write_loop wr flush bs out2))"

definition writer_ends :: "'z sftp_link_scheme \<Rightarrow> 'z sftp_link_scheme" where
  "writer_ends l = l\<lparr>sl_alive := False, sl_writing := False\<rparr>"

definition link_disconnect :: "'z sftp_link_scheme \<Rightarrow> 'z sftp_link_scheme" where
  "link_disconnect l = l\<lparr>sl_alive := False\<rparr>"

section \<open>Requests and tasks interleaved\<close>

record link_sys =
  ls_link :: sftp_link
  ls_sending :: "(u32 \<times> bytes) list"

text \<open>\<open>ls_sending\<close> holds the requests that have passed the \<open>alive\<close> check of \<open>send\<close> and are not yet
  registered.\<close>

inductive link_step :: "link_sys \<Rightarrow> link_sys \<Rightarrow> bool" where
  check_step: "sl_alive (ls_link s) \<Longrightarrow> link_next_id (ls_link s) = (key, l) \<Longrightarrow>
     link_step s (s\<lparr>ls_link := l, ls_sending := ls_sending s @ [(key, packet)]\<rparr>)"
| register_step: "ls_sending s = xs @ (key, packet) # ys \<Longrightarrow>
     link_step s (s\<lparr>ls_link := snd (link_register key packet (ls_link s)), ls_sending := xs @ ys\<rparr>)"
| deliver_step: "sl_reading (ls_link s) \<Longrightarrow>
     link_step s (s\<lparr>ls_link := link_deliver r (ls_link s)\<rparr>)"
| reader_step: "sl_reading (ls_link s) \<Longrightarrow>
     link_step s (s\<lparr>ls_link := reader_ends (ls_link s)\<rparr>)"
| writer_step: "link_step s (s\<lparr>ls_link := writer_ends (ls_link s)\<rparr>)"
| disconnect_step: "link_step s (s\<lparr>ls_link := link_disconnect (ls_link s)\<rparr>)"

inductive_cases link_stepE: "link_step s s'"

definition link_start :: link_sys where
  "link_start = \<lparr>ls_link = new_link, ls_sending = []\<rparr>"

definition link_reachable :: "link_sys \<Rightarrow> bool" where
  "link_reachable s \<longleftrightarrow> link_step\<^sup>*\<^sup>* link_start s"

text \<open>The pending map and the open channels correspond one to one.\<close>

definition pending_ok :: "'z sftp_link_scheme \<Rightarrow> bool" where
  "pending_ok l \<longleftrightarrow> distinct (map fst (sl_pending l)) \<and> distinct (map snd (sl_pending l)) \<and>
     set (map snd (sl_pending l)) = {ch. ch < length (sl_waiters l) \<and> sl_waiters l ! ch = WOpen}"

lemma resolve_waiter_simps [simp]:
  "sl_pending (resolve_waiter ch v l) = sl_pending l"
  "length (sl_waiters (resolve_waiter ch v l)) = length (sl_waiters l)"
  "sl_writing (resolve_waiter ch v l) = sl_writing l" "sl_reading (resolve_waiter ch v l) = sl_reading l"
  "sl_outbox (resolve_waiter ch v l) = sl_outbox l" "sl_alive (resolve_waiter ch v l) = sl_alive l"
  "sl_next_id (resolve_waiter ch v l) = sl_next_id l" "sl_init (resolve_waiter ch v l) = sl_init l"
  by (simp_all add: resolve_waiter_def)

lemma resolve_waiter_nth:
  "k < length (sl_waiters l) \<Longrightarrow> sl_waiters (resolve_waiter ch v l) ! k =
     (if k = ch \<and> sl_waiters l ! k = WOpen then v else sl_waiters l ! k)"
  by (auto simp: resolve_waiter_def nth_list_update)

lemma resolve_waiter_open:
  "v \<noteq> WOpen \<Longrightarrow> {k. k < length (sl_waiters l) \<and> sl_waiters (resolve_waiter ch v l) ! k = WOpen} =
     {k. k < length (sl_waiters l) \<and> sl_waiters l ! k = WOpen} - {ch}"
  by (auto simp: resolve_waiter_nth split: if_splits)

lemma delete_pending_set:
  assumes "distinct (map fst xs)" "distinct (map snd xs)" "map_of xs key = Some ch"
  shows "distinct (map snd (AList.delete key xs))"
    "set (map snd (AList.delete key xs)) = set (map snd xs) - {ch}"
proof -
  have eq: "AList.delete key xs = filter (\<lambda>p. fst p \<noteq> key) xs"
    by (auto simp: AList.delete_eq case_prod_unfold intro: filter_cong)
  show "distinct (map snd (AList.delete key xs))"
    unfolding eq using assms(2) by (rule distinct_map_filter)
  have mem: "(key, ch) \<in> set xs" using assms(3) by (rule map_of_SomeD)
  have "fst p \<noteq> key \<longleftrightarrow> snd p \<noteq> ch" if "p \<in> set xs" for p
    using that mem assms(1,2) by (metis eq_key_imp_eq_value distinct_map fst_conv inj_onD prod.collapse snd_conv)
  then show "set (map snd (AList.delete key xs)) = set (map snd xs) - {ch}"
    unfolding eq by auto
qed

lemma pending_take:
  assumes "pending_ok l" "v \<noteq> WOpen"
  shows "pending_ok (take_pending key v l)"
proof (cases "map_of (sl_pending l) key")
  case None
  with assms show ?thesis by (simp add: take_pending_def)
next
  case (Some ch)
  have "distinct (map fst (AList.delete key (sl_pending l)))"
    using assms(1) by (simp add: pending_ok_def AList.distinct_delete)
  with Some delete_pending_set [OF _ _ Some] assms show ?thesis
    by (simp add: take_pending_def pending_ok_def resolve_waiter_open)
qed

lemma take_pending_simps [simp]:
  "length (sl_waiters (take_pending key v l)) = length (sl_waiters l)"
  "sl_writing (take_pending key v l) = sl_writing l" "sl_reading (take_pending key v l) = sl_reading l"
  "sl_alive (take_pending key v l) = sl_alive l" "sl_init (take_pending key v l) = sl_init l"
  by (simp_all add: take_pending_def split: option.split)

lemma take_pending_gone: "map_of (sl_pending (take_pending key v l)) key = None"
  by (simp add: take_pending_def delete_conv split: option.split)

lemma pending_register:
  assumes "pending_ok l"
  shows "pending_ok (snd (link_register key packet l))"
proof -
  let ?l1 = "take_pending key WDropped l" and ?ch = "length (sl_waiters l)"
  let ?l2 = "?l1\<lparr>sl_waiters := sl_waiters ?l1 @ [WOpen], sl_pending := (key, ?ch) # sl_pending ?l1\<rparr>"
  have ok1: "pending_ok ?l1" using assms by (simp add: pending_take)
  have "key \<notin> set (map fst (sl_pending ?l1))"
    using take_pending_gone [of key WDropped l] by (simp add: map_of_eq_None_iff)
  moreover have "?ch \<notin> set (map snd (sl_pending ?l1))"
    using ok1 by (simp add: pending_ok_def)
  moreover have "insert ?ch {k. k < ?ch \<and> sl_waiters ?l1 ! k = WOpen} =
      {k. k < Suc ?ch \<and> (sl_waiters ?l1 @ [WOpen]) ! k = WOpen}"
    by (auto simp: nth_append less_Suc_eq)
  ultimately have ok2: "pending_ok ?l2"
    using ok1 by (simp add: pending_ok_def)
  moreover have "pending_ok (?l2\<lparr>sl_outbox := ob\<rparr>)" for ob
    using ok2 by (simp add: pending_ok_def)
  ultimately show ?thesis
    by (simp add: link_register_def Let_def pending_take)
qed

lemma pending_deliver: "pending_ok l \<Longrightarrow> pending_ok (link_deliver r l)"
  using pending_take [of l "WAnswered (Inr r)" "rs_id r"]
  by (simp add: link_deliver_def) (simp add: pending_ok_def)

lemma fold_resolve:
  assumes "v \<noteq> WOpen"
  shows "length (sl_waiters (fold (\<lambda>(key, ch). resolve_waiter ch v) ps l)) = length (sl_waiters l)"
    and "k < length (sl_waiters l) \<Longrightarrow> sl_waiters (fold (\<lambda>(key, ch). resolve_waiter ch v) ps l) ! k =
      (if k \<in> snd ` set ps \<and> sl_waiters l ! k = WOpen then v else sl_waiters l ! k)"
  using assms by (induction ps arbitrary: l) (simp_all add: resolve_waiter_nth case_prod_unfold)

lemma drain_waiters:
  assumes "pending_ok l" "k < length (sl_waiters l)"
  shows "sl_waiters (drain_pending l) ! k =
    (if sl_waiters l ! k = WOpen then WAnswered (Inl connection_lost) else sl_waiters l ! k)"
  using assms fold_resolve(2) [of "WAnswered (Inl connection_lost)" k l "sl_pending l"]
  by (auto simp: drain_pending_def pending_ok_def)

lemma drain_length [simp]: "length (sl_waiters (drain_pending l)) = length (sl_waiters l)"
  by (simp add: drain_pending_def fold_resolve)

lemma pending_drain: "pending_ok l \<Longrightarrow> pending_ok (drain_pending l)"
  using drain_waiters [of l] by (auto simp: pending_ok_def drain_pending_def fold_resolve split: if_splits)

lemma reader_ends_waiters:
  assumes "pending_ok l" "k < length (sl_waiters l)"
  shows "sl_waiters (reader_ends l) ! k =
    (if sl_waiters l ! k = WOpen then WAnswered (Inl connection_lost) else sl_waiters l ! k)"
proof (cases "sl_init l = WOpen")
  case True
  let ?l = "l\<lparr>sl_alive := False, sl_reading := False,
     sl_init := WAnswered (Inl (ConnectionLost ''connection closed''))\<rparr>"
  have "pending_ok ?l" using assms(1) by (simp add: pending_ok_def)
  from drain_waiters [OF this, of k] True assms(2) show ?thesis by (simp add: reader_ends_def Let_def)
next
  case False
  let ?l = "l\<lparr>sl_alive := False, sl_reading := False\<rparr>"
  have "pending_ok ?l" using assms(1) by (simp add: pending_ok_def)
  from drain_waiters [OF this, of k] False assms(2) show ?thesis by (simp add: reader_ends_def Let_def)
qed

lemma pending_reader_ends: "pending_ok l \<Longrightarrow> pending_ok (reader_ends l)"
  unfolding reader_ends_def Let_def by (rule pending_drain) (simp add: pending_ok_def)

lemma fold_resolve_frame:
  "sl_alive (fold (\<lambda>(key, ch). resolve_waiter ch v) ps l) = sl_alive l"
  "sl_reading (fold (\<lambda>(key, ch). resolve_waiter ch v) ps l) = sl_reading l"
  by (induction ps arbitrary: l) auto

lemma reader_ends_flags [simp]:
  "sl_alive (reader_ends l) = False" "sl_reading (reader_ends l) = False"
  "length (sl_waiters (reader_ends l)) = length (sl_waiters l)"
  by (simp_all add: reader_ends_def drain_pending_def Let_def fold_resolve_frame fold_resolve)

section \<open>What the transport keeps\<close>

definition link_ok :: "link_sys \<Rightarrow> bool" where
  "link_ok s \<longleftrightarrow> pending_ok (ls_link s) \<and> (\<not> sl_reading (ls_link s) \<longrightarrow> \<not> sl_alive (ls_link s))"

lemma link_register_flags [simp]:
  "sl_reading (snd (link_register key packet l)) = sl_reading l"
  "sl_alive (snd (link_register key packet l)) = sl_alive l"
  by (simp_all add: link_register_def Let_def)

lemma link_deliver_flags [simp]:
  "sl_reading (link_deliver r l) = sl_reading l" "sl_alive (link_deliver r l) = sl_alive l"
  by (simp_all add: link_deliver_def)

lemma pending_ok_frame:
  "pending_ok (l\<lparr>sl_next_id := n\<rparr>) = pending_ok l"
  "pending_ok (l\<lparr>sl_alive := False, sl_writing := False\<rparr>) = pending_ok l"
  "pending_ok (l\<lparr>sl_alive := False\<rparr>) = pending_ok l"
  by (simp_all add: pending_ok_def)

lemma link_step_ok: "link_step s s' \<Longrightarrow> link_ok s \<Longrightarrow> link_ok s'"
  by (induction rule: link_step.induct)
    (auto simp: link_ok_def pending_register pending_deliver pending_reader_ends link_next_id_def
      writer_ends_def link_disconnect_def pending_ok_frame)

lemma link_reachable_ok: "link_reachable s \<Longrightarrow> link_ok s"
  unfolding link_reachable_def
proof (induction rule: rtranclp_induct)
  case base
  show ?case by (simp add: link_ok_def link_start_def new_link_def pending_ok_def)
qed (rule link_step_ok)

text \<open>C10: In every reachable state of the transport, whatever requests, replies and failures came before,
  a reply is handed to exactly the request that is pending under the number it carries and to no
  other; a reply without a pending request changes nothing.\<close>

theorem replies_routed:
  assumes "link_reachable s" "rs_type r \<noteq> fxp_version" "ch < length (sl_waiters (ls_link s))"
  shows "sl_waiters (link_deliver r (ls_link s)) ! ch =
    (if map_of (sl_pending (ls_link s)) (rs_id r) = Some ch then WAnswered (Inr r)
     else sl_waiters (ls_link s) ! ch)"
proof (cases "map_of (sl_pending (ls_link s)) (rs_id r)")
  case None
  with assms show ?thesis by (simp add: link_deliver_def take_pending_def)
next
  case (Some k)
  have "pending_ok (ls_link s)" using link_reachable_ok [OF assms(1)] by (simp add: link_ok_def)
  moreover have "k \<in> set (map snd (sl_pending (ls_link s)))" using map_of_SomeD [OF Some] by force
  ultimately have "sl_waiters (ls_link s) ! k = WOpen" by (simp add: pending_ok_def)
  with assms(2,3) Some show ?thesis by (auto simp: link_deliver_def take_pending_def resolve_waiter_nth)
qed

lemma read_loop_resolves:
  "pending_ok l \<Longrightarrow> ch < length (sl_waiters l) \<Longrightarrow> sl_waiters (read_loop input l) ! ch \<noteq> WOpen"
proof (induction input l rule: read_loop.induct)
  case (1 input l)
  show ?case
  proof (cases "read_frame input")
    case None
    with 1(2,3) show ?thesis by (subst read_loop.simps) (simp add: reader_ends_waiters)
  next
    case (Some f)
    obtain r rest where f: "f = (r, rest)" by force
    have "length (sl_waiters (link_deliver r l)) = length (sl_waiters l)" by (simp add: link_deliver_def)
    with 1 Some f show ?thesis by (subst read_loop.simps) (simp add: pending_deliver)
  qed
qed

text \<open>C22: Whatever bytes arrive before the connection ends, the reader task finishes, and then every
  request registered by then has been answered: by its reply or by a lost connection.\<close>

theorem reader_answers_all:
  assumes "link_reachable s" "ch < length (sl_waiters (ls_link s))"
  shows "sl_waiters (read_loop input (ls_link s)) ! ch \<noteq> WOpen"
  by (rule read_loop_resolves) (use link_reachable_ok [OF assms(1)] assms(2) in \<open>simp_all add: link_ok_def\<close>)

section \<open>A request that is never answered\<close>

text \<open>Once both the reader has ended and nothing is being sent, no step changes a channel.\<close>

definition link_quiet :: "link_sys \<Rightarrow> bool" where
  "link_quiet s \<longleftrightarrow> \<not> sl_reading (ls_link s) \<and> \<not> sl_alive (ls_link s) \<and> ls_sending s = []"

lemma link_step_quiet:
  "link_step s s' \<Longrightarrow> link_quiet s \<Longrightarrow> link_quiet s' \<and> sl_waiters (ls_link s') = sl_waiters (ls_link s)"
  by (induction rule: link_step.induct) (auto simp: link_quiet_def writer_ends_def link_disconnect_def)

lemma link_steps_quiet:
  "link_step\<^sup>*\<^sup>* s s' \<Longrightarrow> link_quiet s \<Longrightarrow> link_quiet s' \<and> sl_waiters (ls_link s') = sl_waiters (ls_link s)"
  by (induction rule: rtranclp_induct) (auto dest: link_step_quiet)

text \<open>A request that passes the \<open>alive\<close> check just before the reader task ends and is registered
  just after it has drained the pending map is accepted, and never answered: its channel stays
  open in every later state, so the caller waits without end.\<close>

theorem late_request_hangs:
  assumes "link_reachable s" "ls_sending s = [(key, packet)]" "\<not> sl_reading (ls_link s)"
    and "sl_writing (ls_link s)"
    and "link_step\<^sup>*\<^sup>* (s\<lparr>ls_link := snd (link_register key packet (ls_link s)), ls_sending := []\<rparr>) s'"
  shows "fst (link_register key packet (ls_link s)) = Inr (length (sl_waiters (ls_link s)))"
    and "sl_waiters (ls_link s') ! length (sl_waiters (ls_link s)) = WOpen"
proof -
  let ?s1 = "s\<lparr>ls_link := snd (link_register key packet (ls_link s)), ls_sending := []\<rparr>"
  show "fst (link_register key packet (ls_link s)) = Inr (length (sl_waiters (ls_link s)))"
    using assms(4) by (simp add: link_register_def Let_def)
  have "\<not> sl_alive (ls_link s)"
    using link_reachable_ok [OF assms(1)] assms(3) by (simp add: link_ok_def)
  with assms(3) have "link_quiet ?s1" by (simp add: link_quiet_def)
  from link_steps_quiet [OF assms(5) this] assms(4)
  show "sl_waiters (ls_link s') ! length (sl_waiters (ls_link s)) = WOpen"
    by (simp add: link_register_def Let_def nth_append)
qed

section \<open>Concrete runs\<close>

definition sample_link1 :: link_sys where
  "sample_link1 = link_start\<lparr>ls_link := snd (link_next_id new_link),
     ls_sending := ls_sending link_start @ [(1, [7])]\<rparr>"

definition sample_link2 :: link_sys where
  "sample_link2 = sample_link1\<lparr>ls_link := snd (link_register 1 [7] (ls_link sample_link1)), ls_sending := [] @ []\<rparr>"

definition sample_link3 :: link_sys where
  "sample_link3 = sample_link1\<lparr>ls_link := reader_ends (ls_link sample_link1)\<rparr>"

lemma sample_link_reachable: "link_reachable sample_link1" "link_reachable sample_link2" "link_reachable sample_link3"
proof -
  have "link_step link_start sample_link1" unfolding sample_link1_def
    by (rule link_step.check_step [where key = 1 and packet = "[7]", of link_start])
      (simp_all add: link_start_def new_link_def link_next_id_def)
  then show r1: "link_reachable sample_link1" by (simp add: link_reachable_def)
  have "link_step sample_link1 sample_link2" unfolding sample_link2_def
    by (rule link_step.register_step) (simp add: sample_link1_def link_start_def)
  with r1 show "link_reachable sample_link2" unfolding link_reachable_def by simp
  have "link_step sample_link1 sample_link3" unfolding sample_link3_def
    by (rule link_step.reader_step) (simp add: sample_link1_def link_start_def new_link_def link_next_id_def)
  with r1 show "link_reachable sample_link3" unfolding link_reachable_def by simp
qed

lemma sample_link_state:
  "sl_waiters (ls_link sample_link2) = [WOpen]" "sl_pending (ls_link sample_link2) = [(1, 0)]"
  "ls_sending sample_link3 = [(1, [7])]" "\<not> sl_reading (ls_link sample_link3)"
  "sl_writing (ls_link sample_link3)" "sl_waiters (ls_link sample_link3) = []"
  by (simp_all add: sample_link1_def sample_link2_def sample_link3_def link_start_def new_link_def
      link_next_id_def link_register_def take_pending_def Let_def reader_ends_def drain_pending_def)

theorem replies_routed_witness:
  "sl_waiters (link_deliver \<lparr>rs_type = 101, rs_id = 1, rs_payload = []\<rparr> (ls_link sample_link2)) ! 0 =
    WAnswered (Inr \<lparr>rs_type = 101, rs_id = 1, rs_payload = []\<rparr>)"
  using replies_routed [OF sample_link_reachable(2), of "\<lparr>rs_type = 101, rs_id = 1, rs_payload = []\<rparr>" 0]
  by (simp add: sample_link_state sftp_consts)

theorem reader_answers_all_witness:
  "sl_waiters (read_loop [0, 0] (ls_link sample_link2)) ! 0 \<noteq> WOpen"
  by (rule reader_answers_all [OF sample_link_reachable(2)]) (simp add: sample_link_state)

theorem late_request_hangs_witness:
  "sl_waiters (ls_link (sample_link3\<lparr>ls_link := snd (link_register 1 [7] (ls_link sample_link3)),
     ls_sending := []\<rparr>)) ! 0 = WOpen"
  using late_request_hangs(2) [OF sample_link_reachable(3) sample_link_state(3,4,5) rtranclp.rtrancl_refl]
  by (simp add: sample_link_state)

section \<open>Packets on the wire\<close>

lemma from_be_bytes_type: "hd (a @ [ty] @ b) = (if a = [] then ty else hd a)"
  by (cases a) auto

text \<open>A finished packet is read back by the other side's framing as the type, number and payload it
  was built from, and the bytes behind it are left for the next packet; only packets above the
  accepted size are refused.\<close>

theorem frame_roundtrip:
  assumes "big_endian bc" "length payload + 5 \<le> max_packet_size"
  shows "read_frame (packet_build (packet_new bc ty key @ payload) @ rest) =
    Some (\<lparr>rs_type = ty, rs_id = key, rs_payload = payload\<rparr>, rest)"
proof -
  have be: "cd_put_u32 bc v = to_be_bytes 4 (unat v)" for v
    by (rule big_endian.put_u32_be [OF assms(1)])
  let ?n = "length payload + 5"
  have n: "unat (of_nat ?n :: u32) = ?n"
    using assms(2) by (simp only: max_packet_size_def unat_of_nat) simp
  have build: "packet_build (packet_new bc ty key @ payload) =
      to_be_bytes 4 (unat (of_nat ?n :: u32)) @ ty # to_be_bytes 4 (unat key) @ payload"
    by (simp add: packet_build_def packet_new_def be add.commute)
  have len: "from_be_bytes (to_be_bytes 4 (unat (of_nat ?n :: u32))) = ?n"
    by (subst from_to_be_bytes_u32) (rule n)
  obtain header where header: "to_be_bytes 4 (unat (of_nat ?n :: u32)) = header" "length header = 4" by simp
  obtain body where body: "ty # to_be_bytes 4 (unat key) @ payload = body" "length body = ?n" by simp
  have "read_frame (header @ body @ rest) =
      Some (\<lparr>rs_type = hd body, rs_id = of_nat (from_be_bytes (take 4 (tl body))),
         rs_payload = drop 5 body\<rparr>, rest)"
    using assms(2) len [unfolded header] by (simp add: read_frame_def Let_def header(2) body(2))
  then show ?thesis
    unfolding build header by (simp add: body(1) [symmetric] from_to_be_bytes_u32)
qed

theorem frame_roundtrip_witness:
  "read_frame (packet_build (packet_new std_codec fxp_close 9 @ [1, 2, 3]) @ [42]) =
    Some (\<lparr>rs_type = fxp_close, rs_id = 9, rs_payload = [1, 2, 3]\<rparr>, [42])"
  by (rule frame_roundtrip [OF std.big_endian_axioms]) (simp add: max_packet_size_def)

end
