(* ===== verification/Sftp_Client.thy ===== *)
theory Sftp_Client
  imports Sftp_Link Transfer_Pump Remote_Paths Logging
begin

text \<open>
  \<open>src-tauri/src/protocol/sftp/client.rs\<close> above the transport: the operations of \<open>SftpClient\<close>; its reader
  and writer are in \<open>Sftp_Stream\<close>.  \<open>se_run ch\<close> is what happens while a task awaits the channel
  \<open>ch\<close>: the reader task, the writer task and other requests change the link; if the channel is
  still open then, the await never returns and the operation is \<open>None\<close>.  A server may also list a
  directory without end, so listing has fuel.
\<close>

record sftp_world = sftp_link +
  sw_home :: "string option"
  sw_hook :: bool
  sw_log :: "log_line list"

record 'w sftp_env =
  se_codec :: buf_codec
  se_run :: "nat \<Rightarrow> 'w \<Rightarrow> 'w"
  se_extensions :: "(string \<times> string) list"
  se_hex :: "bytes \<Rightarrow> string"

type_synonym 'z sworld = "'z sftp_world_scheme"

definition chunk_size :: nat where
  "chunk_size = 32 * 1024"

definition max_in_flight :: nat where
  "max_in_flight = 64"

definition sftp_log :: "log_line \<Rightarrow> 'z sworld \<Rightarrow> 'z sworld" where
  "sftp_log line w = w\<lparr>sw_log := sw_log w @ [line]\<rparr>"

section \<open>Requests\<close>

definition sftp_next_id :: "('z sworld, u32) wio" where
  "sftp_next_id = once (\<lambda>w. case link_next_id w of (key, w') \<Rightarrow> (Inr key, w'))"

text \<open>\<open>rx.await\<close> of an answer that is itself a result.\<close>

definition await_reply :: "'z sworld sftp_env \<Rightarrow> nat \<Rightarrow> ('z sworld, response) wio" where
  "await_reply env ch w = (let w' = se_run env ch w in case sl_waiters w' ! ch of
      WOpen \<Rightarrow> None
    | WAnswered r \<Rightarrow> Some (r, w')
    | WDropped \<Rightarrow> Some (Inl connection_lost, w'))"

definition sftp_call :: "'z sworld sftp_env \<Rightarrow> u32 \<Rightarrow> bytes \<Rightarrow> ('z sworld, response) wio" where
  "sftp_call env key packet = bind_wio (once (link_send key packet)) (await_reply env)"

definition sftp_request ::
  "'z sworld sftp_env \<Rightarrow> u8 \<Rightarrow> (bytes \<Rightarrow> bytes) \<Rightarrow> ('z sworld, response) wio" where
  "sftp_request env ty build = bind_wio sftp_next_id (\<lambda>key.
     sftp_call env key (packet_build (build (packet_new (se_codec env) ty key))))"

definition wio_result :: "'a vresult \<Rightarrow> ('w, 'a) wio" where
  "wio_result r = once (lift_io r)"

definition close_handle :: "'z sworld sftp_env \<Rightarrow> bytes \<Rightarrow> ('z sworld, unit) wio" where
  "close_handle env handle = bind_wio (sftp_request env fxp_close (put_bytes (se_codec env) handle))
     (\<lambda>r. wio_result (response_status (se_codec env) r))"

definition status_request ::
  "'z sworld sftp_env \<Rightarrow> u8 \<Rightarrow> (bytes \<Rightarrow> bytes) \<Rightarrow> ('z sworld, unit) wio" where
  "status_request env ty build = bind_wio (sftp_request env ty build)
     (\<lambda>r. wio_result (response_status (se_codec env) r))"

definition attrs_answer :: "buf_codec \<Rightarrow> response \<Rightarrow> attrs vresult" where
  "attrs_answer bc r = (if rs_type r = fxp_attrs then fst (attrs_decode bc (rs_payload r)) else Inl (unexpected bc r))"

definition attrs_request :: "'z sworld sftp_env \<Rightarrow> u8 \<Rightarrow> string \<Rightarrow> ('z sworld, attrs) wio" where
  "attrs_request env ty path = bind_wio (sftp_request env ty (put_string (se_codec env) path))
     (\<lambda>r. wio_result (attrs_answer (se_codec env) r))"

definition name_reply :: "buf_codec \<Rightarrow> bytes \<Rightarrow> string vresult" where
  "name_reply bc payload = fst (bind_io (read_u32 bc)
     (\<lambda>n. if n < 1 then err_io (Protocol ''empty NAME reply'') else read_string bc) payload)"

definition name_answer :: "buf_codec \<Rightarrow> response \<Rightarrow> string vresult" where
  "name_answer bc r = (if rs_type r = fxp_name then name_reply bc (rs_payload r) else Inl (unexpected bc r))"

definition name_request :: "'z sworld sftp_env \<Rightarrow> u8 \<Rightarrow> string \<Rightarrow> ('z sworld, string) wio" where
  "name_request env ty path = bind_wio (sftp_request env ty (put_string (se_codec env) path))
     (\<lambda>r. wio_result (name_answer (se_codec env) r))"

definition handle_request ::
  "'z sworld sftp_env \<Rightarrow> u8 \<Rightarrow> (bytes \<Rightarrow> bytes) \<Rightarrow> ('z sworld, bytes) wio" where
  "handle_request env ty build = bind_wio (sftp_request env ty build)
     (\<lambda>r. wio_result (if rs_type r = fxp_handle then fst (read_bytes (se_codec env) (rs_payload r))
        else Inl (unexpected (se_codec env) r)))"

text \<open>The extensions of the server's VERSION packet.  The last test always holds: a string takes at
  least the four bytes of its length.\<close>

function read_extensions :: "buf_codec \<Rightarrow> bytes \<Rightarrow> (string \<times> string) list \<Rightarrow> (string \<times> string) list vresult" where
  "read_extensions bc buf acc =
     (if length buf < 8 then Inr acc
      else case read_string bc buf of
          (Inl e, _) \<Rightarrow> Inl e
        | (Inr name, buf1) \<Rightarrow> (case read_string bc buf1 of
              (Inl e, _) \<Rightarrow> Inl e
            | (Inr value, buf2) \<Rightarrow>
                if length buf2 < length buf
                then read_extensions bc buf2 (AList.update name value acc) else Inr acc))"
  by pat_completeness auto
termination by (relation "measure (\<lambda>(bc, buf, acc). length buf)") auto

text \<open>What \<open>handshake\<close> makes of the outcome of waiting for the VERSION packet: \<open>None\<close> is the time-out.\<close>

definition handshake ::
  "buf_codec \<Rightarrow> (verror + response vresult) option \<Rightarrow> (string list \<times> (string \<times> string) list) vresult" where
  "handshake bc answer = (case answer of
      None \<Rightarrow> Inl (Timeout ''SFTP server did not answer INIT'')
    | Some (Inl _) \<Rightarrow> Inl (ConnectionLost ''connection closed before INIT'')
    | Some (Inr (Inl e)) \<Rightarrow> Inl e
    | Some (Inr (Inr r)) \<Rightarrow>
        if rs_type r \<noteq> fxp_version
        then Inl (Protocol (''unexpected reply to INIT: packet type '' @ show_nat (unat (rs_type r))))
        else map_ok (\<lambda>ext. ([''SFTP version '' @ show_nat (unat (rs_id r)) @ '' negotiated (''
              @ show_nat (length ext) @ '' extensions)''], ext))
            (read_extensions bc (rs_payload r) []))"

definition has_extension :: "'w sftp_env \<Rightarrow> string \<Rightarrow> bool" where
  "has_extension env name \<longleftrightarrow> map_of (se_extensions env) name \<noteq> None"

definition ext_posix_rename :: string where
  "ext_posix_rename = ''posix-rename@openssh.com''"

definition ext_check_file :: string where
  "ext_check_file = ''check-file''"

section \<open>Attributes and listings\<close>

definition stat_attrs :: "'z sworld sftp_env \<Rightarrow> string \<Rightarrow> ('z sworld, attrs) wio" where
  "stat_attrs env path = attrs_request env fxp_stat path"

definition entry_from :: "string \<Rightarrow> string \<Rightarrow> string \<Rightarrow> attrs \<Rightarrow> remote_entry" where
  "entry_from dir name longname a =
     (let kind = (if attrs_is_dir a then KDir else if attrs_is_symlink a then KSymlink
            else if attrs_is_regular a \<or> at_permissions a = None then KFile else KOther);
          fields = drop 2 (split_whitespace longname);
          owner = (case fields of f # _ \<Rightarrow> Some f | [] \<Rightarrow> map_option (\<lambda>u. show_nat (unat u)) (at_uid a));
          grp = (case fields of _ # f # _ \<Rightarrow> Some f | _ \<Rightarrow> map_option (\<lambda>g. show_nat (unat g)) (at_gid a))
      in \<lparr>re_name = name, re_path = join dir name, re_kind = kind,
          re_size = (case at_size a of Some n \<Rightarrow> n | None \<Rightarrow> 0), re_mtime = map_option uint (at_mtime a),
          re_permissions = map_option (\<lambda>p. p AND 4095) (at_permissions a),
          re_owner = owner, re_group = grp, re_link_target = None, re_link_broken = False,
          re_target_is_dir = None\<rparr>)"

fun read_names :: "buf_codec \<Rightarrow> string \<Rightarrow> nat \<Rightarrow> remote_entry list reading" where
  "read_names bc dir 0 = ok_io []"
| "read_names bc dir (Suc n) =
     bind_io (read_string bc) (\<lambda>name. bind_io (read_string bc) (\<lambda>longname.
     bind_io (attrs_decode bc) (\<lambda>a. bind_io (read_names bc dir n) (\<lambda>entries.
     ok_io (if name \<noteq> ''.'' \<and> name \<noteq> ''..'' then entry_from dir name longname a # entries else entries)))))"

definition names_reply :: "buf_codec \<Rightarrow> string \<Rightarrow> bytes \<Rightarrow> remote_entry list vresult" where
  "names_reply bc dir payload =
     fst (bind_io (read_u32 bc) (\<lambda>count. read_names bc dir (unat count)) payload)"

fun collect_directory ::
  "nat \<Rightarrow> 'z sworld sftp_env \<Rightarrow> string \<Rightarrow> bytes \<Rightarrow> remote_entry list \<Rightarrow> ('z sworld, remote_entry list) wio" where
  "collect_directory 0 env path handle entries = (\<lambda>w. None)"
| "collect_directory (Suc fuel) env path handle entries =
     bind_wio (sftp_request env fxp_readdir (put_bytes (se_codec env) handle)) (\<lambda>r.
       if rs_type r = fxp_name then
         bind_wio (wio_result (names_reply (se_codec env) path (rs_payload r)))
           (\<lambda>more. collect_directory fuel env path handle (entries @ more))
       else wio_result (if is_eof (se_codec env) r then Inr entries else Inl (unexpected (se_codec env) r)))"

text \<open>\<open>let _ = m.await\<close>.\<close>

definition ignore_wio :: "('w, 'a) wio \<Rightarrow> ('w, unit) wio" where
  "ignore_wio m = (\<lambda>w. map_option (\<lambda>(_, w'). (Inr (), w')) (m w))"

definition then_wio :: "('w, 'a) wio \<Rightarrow> ('w, unit) wio \<Rightarrow> ('w, 'a) wio" where
  "then_wio m last_step = (\<lambda>w. case m w of None \<Rightarrow> None
     | Some (r, w1) \<Rightarrow> map_option (\<lambda>(_, w2). (r, w2)) (last_step w1))"

definition read_directory ::
  "nat \<Rightarrow> 'z sworld sftp_env \<Rightarrow> string \<Rightarrow> ('z sworld, remote_entry list) wio" where
  "read_directory fuel env path =
     bind_wio (handle_request env fxp_opendir (put_string (se_codec env) path)) (\<lambda>handle.
       then_wio (collect_directory fuel env path handle []) (ignore_wio (close_handle env handle)))"

definition sftp_readlink :: "'z sworld sftp_env \<Rightarrow> string \<Rightarrow> ('z sworld, string) wio" where
  "sftp_readlink env path = name_request env fxp_readlink path"

definition link_annotated :: "remote_entry \<Rightarrow> string option \<Rightarrow> attrs vresult \<Rightarrow> remote_entry" where
  "link_annotated e target st =
     (let e1 = e\<lparr>re_link_target := target\<rparr>
      in case st of
          Inr a \<Rightarrow> let e2 = e1\<lparr>re_target_is_dir := Some (attrs_is_dir a)\<rparr>
            in if attrs_is_dir a then e2
               else e2\<lparr>re_size := (case at_size a of Some n \<Rightarrow> n | None \<Rightarrow> re_size e2)\<rparr>
        | Inl _ \<Rightarrow> e1\<lparr>re_link_broken := True, re_target_is_dir := Some False\<rparr>)"

text \<open>
  The look-ups of the symbolic links run concurrently, under \<open>join_all\<close>: the first poll sends every
  \<open>readlink\<close>; a look-up whose \<open>readlink\<close> is answered, or could not be sent, sends its \<open>stat\<close>.  The
  answers are taken in the order of the requests, as a server gives them that handles one at a time.
\<close>

datatype lookup = Reading nat | Stating "string option" "nat vresult"

definition send_path ::
  "'z sworld sftp_env \<Rightarrow> u8 \<Rightarrow> string \<Rightarrow> 'z sworld \<Rightarrow> nat vresult \<times> 'z sworld" where
  "send_path env ty path w = (case link_next_id w of (key, w1) \<Rightarrow>
     link_send key (packet_build (put_string (se_codec env) path (packet_new (se_codec env) ty key))) w1)"

definition send_stat ::
  "'z sworld sftp_env \<Rightarrow> string \<Rightarrow> string option \<Rightarrow> 'z sworld \<Rightarrow> lookup \<times> 'z sworld" where
  "send_stat env path target w = (case send_path env fxp_stat path w of (r, w1) \<Rightarrow> (Stating target r, w1))"

fun start_lookups ::
  "'z sworld sftp_env \<Rightarrow> remote_entry list \<Rightarrow> 'z sworld \<Rightarrow> lookup list \<times> 'z sworld" where
  "start_lookups env [] w = ([], w)"
| "start_lookups env (e # es) w =
     (case (case send_path env fxp_readlink (re_path e) w of
          (Inr ch, w1) \<Rightarrow> (Reading ch, w1)
        | (Inl _, w1) \<Rightarrow> send_stat env (re_path e) None w1) of
        (l, w2) \<Rightarrow> (case start_lookups env es w2 of (ls, w3) \<Rightarrow> (l # ls, w3)))"

fun continue_lookups ::
  "'z sworld sftp_env \<Rightarrow> remote_entry list \<Rightarrow> lookup list \<Rightarrow> 'z sworld \<Rightarrow> (lookup list \<times> 'z sworld) option" where
  "continue_lookups env (e # es) (l # ls) w =
     (case (case l of
          Stating _ _ \<Rightarrow> Some (l, w)
        | Reading ch \<Rightarrow> map_option (\<lambda>(r, w1). send_stat env (re_path e)
              (ok_option (case r of Inl e \<Rightarrow> Inl e | Inr reply \<Rightarrow> name_answer (se_codec env) reply)) w1)
            (await_reply env ch w)) of
        None \<Rightarrow> None
      | Some (l', w2) \<Rightarrow> map_option (\<lambda>(ls', w3). (l' # ls', w3)) (continue_lookups env es ls w2))"
| "continue_lookups env es ls w = Some ([], w)"

fun finish_lookups ::
  "'z sworld sftp_env \<Rightarrow> remote_entry list \<Rightarrow> lookup list \<Rightarrow> 'z sworld \<Rightarrow> (remote_entry list \<times> 'z sworld) option" where
  "finish_lookups env (e # es) (Stating target sent # ls) w =
     (case (case sent of
          Inl err \<Rightarrow> Some (Inl err, w)
        | Inr ch \<Rightarrow> map_option (\<lambda>(r, w1). (case r of Inl err \<Rightarrow> Inl err | Inr reply \<Rightarrow> attrs_answer (se_codec env) reply, w1))
            (await_reply env ch w)) of
        None \<Rightarrow> None
      | Some (st, w2) \<Rightarrow> map_option (\<lambda>(es', w3). (link_annotated e target st # es', w3)) (finish_lookups env es ls w2))"
| "finish_lookups env es ls w = Some ([], w)"

text \<open>The annotated links, put back between the other entries.\<close>

fun replace_links :: "remote_entry list \<Rightarrow> remote_entry list \<Rightarrow> remote_entry list" where
  "replace_links [] ls = []"
| "replace_links (e # es) ls = (if re_kind e \<noteq> KSymlink then e # replace_links es ls
     else case ls of l # ls' \<Rightarrow> l # replace_links es ls' | [] \<Rightarrow> e # replace_links es [])"

definition resolve_symlinks ::
  "'z sworld sftp_env \<Rightarrow> remote_entry list \<Rightarrow> ('z sworld, remote_entry list) wio" where
  "resolve_symlinks env entries w =
     (let links = filter (\<lambda>e. re_kind e = KSymlink) entries
      in case start_lookups env links w of (started, w1) \<Rightarrow>
         (case continue_lookups env links started w1 of None \<Rightarrow> None
          | Some (continued, w2) \<Rightarrow>
              map_option (\<lambda>(found, w3). (Inr (replace_links entries found), w3)) (finish_lookups env links continued w2)))"

section \<open>The client's operations\<close>

definition sftp_realpath :: "'z sworld sftp_env \<Rightarrow> string \<Rightarrow> ('z sworld, string) wio" where
  "sftp_realpath env path = name_request env fxp_realpath path"

definition sftp_initial_dir :: "'z sworld sftp_env \<Rightarrow> ('z sworld, string) wio" where
  "sftp_initial_dir env = (\<lambda>w. case sw_home w of
      Some home \<Rightarrow> Some (Inr home, w)
    | None \<Rightarrow> bind_wio (sftp_realpath env ''.'')
        (\<lambda>home w. Some (Inr home, w\<lparr>sw_home := Some home\<rparr>)) w)"

definition sftp_list :: "nat \<Rightarrow> 'z sworld sftp_env \<Rightarrow> string \<Rightarrow> ('z sworld, remote_entry list) wio" where
  "sftp_list fuel env path = bind_wio (read_directory fuel env path) (resolve_symlinks env)"

definition sftp_stat :: "'z sworld sftp_env \<Rightarrow> string \<Rightarrow> ('z sworld, remote_entry) wio" where
  "sftp_stat env path = bind_wio (stat_attrs env path)
     (\<lambda>a. once (ok_io (entry_from (parent path) (basename path) [] a)))"

definition sftp_mkdir :: "'z sworld sftp_env \<Rightarrow> string \<Rightarrow> ('z sworld, unit) wio" where
  "sftp_mkdir env path = status_request env fxp_mkdir
     (put_attrs (se_codec env) default_attrs \<circ> put_string (se_codec env) path)"

definition sftp_rmdir :: "'z sworld sftp_env \<Rightarrow> string \<Rightarrow> ('z sworld, unit) wio" where
  "sftp_rmdir env path = status_request env fxp_rmdir (put_string (se_codec env) path)"

definition sftp_remove :: "'z sworld sftp_env \<Rightarrow> string \<Rightarrow> ('z sworld, unit) wio" where
  "sftp_remove env path = status_request env fxp_remove (put_string (se_codec env) path)"

definition sftp_rename :: "'z sworld sftp_env \<Rightarrow> string \<Rightarrow> string \<Rightarrow> ('z sworld, unit) wio" where
  "sftp_rename env source target =
     (let names = put_string (se_codec env) target \<circ> put_string (se_codec env) source
      in if has_extension env ext_posix_rename
         then status_request env fxp_extended (names \<circ> put_string (se_codec env) ext_posix_rename)
         else status_request env fxp_rename names)"

definition sftp_chmod :: "'z sworld sftp_env \<Rightarrow> string \<Rightarrow> u32 \<Rightarrow> ('z sworld, unit) wio" where
  "sftp_chmod env path mode = status_request env fxp_setstat
     (put_attrs (se_codec env) (default_attrs\<lparr>at_permissions := Some (mode AND 4095)\<rparr>)
        \<circ> put_string (se_codec env) path)"

definition open_request :: "'z sworld sftp_env \<Rightarrow> string \<Rightarrow> u32 \<Rightarrow> ('z sworld, bytes) wio" where
  "open_request env path flags = handle_request env fxp_open
     (put_attrs (se_codec env) default_attrs \<circ> put_u32 (se_codec env) flags \<circ> put_string (se_codec env) path)"

definition sftp_touch :: "'z sworld sftp_env \<Rightarrow> string \<Rightarrow> ('z sworld, unit) wio" where
  "sftp_touch env path = bind_wio (open_request env path (fxf_write OR fxf_creat OR fxf_excl)) (close_handle env)"

definition sftp_keepalive :: "'z sworld sftp_env \<Rightarrow> ('z sworld, unit) wio" where
  "sftp_keepalive env = bind_wio (sftp_realpath env ''.'') (\<lambda>_. once (ok_io ()))"

text \<open>\<open>hook\<close> is the closing hook, which is run at most once.\<close>

definition sftp_disconnect :: "('z sworld \<Rightarrow> 'z sworld) \<Rightarrow> 'z sworld \<Rightarrow> 'z sworld" where
  "sftp_disconnect hook w =
     (let w1 = link_disconnect w;
          w2 = (if sw_hook w1 then hook (w1\<lparr>sw_hook := False\<rparr>) else w1)
      in sftp_log (LogStatus ''Disconnected'') w2)"

definition sftp_supported_hashes :: "'w sftp_env \<Rightarrow> string list" where
  "sftp_supported_hashes env = (if has_extension env ext_check_file then [''sha256'', ''sha1'', ''md5''] else [])"

definition sftp_hash :: "'z sworld sftp_env \<Rightarrow> string \<Rightarrow> string \<Rightarrow> ('z sworld, string option) wio" where
  "sftp_hash env path algo =
     (let bc = se_codec env
      in if \<not> has_extension env ext_check_file then once (ok_io None)
         else bind_wio (sftp_request env fxp_extended
             (put_u32 bc 0 \<circ> put_u64 bc 0 \<circ> put_u64 bc 0 \<circ> put_string bc algo \<circ> put_string bc path
                \<circ> put_string bc ''check-file-name'')) (\<lambda>r.
           if rs_type r \<noteq> fxp_extended_reply then once (ok_io None)
           else wio_result (case read_string bc (rs_payload r) of
               (Inl e, _) \<Rightarrow> Inl e
             | (Inr _, rest) \<Rightarrow> let digest = unwrap_or (fst (read_bytes bc rest)) []
                 in Inr (if digest \<noteq> [] then Some (se_hex env digest) else None))))"

end
