(* ===== verification/Sftp_Stream.thy ===== *)
theory Sftp_Stream
  imports Sftp_Client
begin

text \<open>
  \<open>SftpReader\<close> and \<open>SftpWriter\<close> of \<open>src-tauri/src/protocol/sftp/client.rs\<close>.  The reader keeps up to 64
  requests for consecutive chunks under way and hands out the answers in order; it is proved to
  refine a plain sequence of bytes, and its loop to end.  The writer sends chunks ahead and collects
  their confirmations later; it is proved to cover the bytes it was given without gaps and never to
  report success when a chunk was refused.
\<close>

section \<open>The reader\<close>

record sftp_reader =
  sr_handle :: bytes
  sr_next_offset :: u64
  sr_in_flight :: "nat list"
  sr_eof :: bool
  sr_buffer :: bytes
  sr_buffer_pos :: nat

definition sftp_reader_new :: "bytes \<Rightarrow> u64 \<Rightarrow> sftp_reader" where
  "sftp_reader_new handle offset = \<lparr>sr_handle = handle, sr_next_offset = offset, sr_in_flight = [],
     sr_eof = False, sr_buffer = [], sr_buffer_pos = 0\<rparr>"

definition sftp_open_read :: "'z sworld sftp_env \<Rightarrow> string \<Rightarrow> u64 \<Rightarrow> ('z sworld, sftp_reader) wio" where
  "sftp_open_read env path offset =
     bind_wio (open_request env path fxf_read) (\<lambda>handle. once (ok_io (sftp_reader_new handle offset)))"

definition read_packet :: "buf_codec \<Rightarrow> bytes \<Rightarrow> u64 \<Rightarrow> u32 \<Rightarrow> bytes" where
  "read_packet bc handle offset key = packet_build (put_u32 bc (of_nat chunk_size)
     (put_u64 bc offset (put_bytes bc handle (packet_new bc fxp_read key))))"

fun fill_requests ::
  "nat \<Rightarrow> 'z sworld sftp_env \<Rightarrow> sftp_reader \<Rightarrow> 'z sworld \<Rightarrow> unit vresult \<times> sftp_reader \<times> 'z sworld" where
  "fill_requests 0 env r w = (Inr (), r, w)"
| "fill_requests (Suc n) env r w = (case link_next_id w of (key, w1) \<Rightarrow>
     (case link_send key (read_packet (se_codec env) (sr_handle r) (sr_next_offset r) key) w1 of
        (Inl e, w2) \<Rightarrow> (Inl e, r, w2)
      | (Inr ch, w2) \<Rightarrow> fill_requests n env
          (r\<lparr>sr_in_flight := sr_in_flight r @ [ch], sr_next_offset := sr_next_offset r + of_nat chunk_size\<rparr>) w2))"

definition fill_pipeline ::
  "'z sworld sftp_env \<Rightarrow> sftp_reader \<Rightarrow> 'z sworld \<Rightarrow> unit vresult \<times> sftp_reader \<times> 'z sworld" where
  "fill_pipeline env r w = (if sr_eof r then (Inr (), r, w)
     else fill_requests (max_in_flight - length (sr_in_flight r)) env r w)"

definition drain_buffer :: "nat \<Rightarrow> sftp_reader \<Rightarrow> bytes \<times> sftp_reader" where
  "drain_buffer n r = (let m = min (length (sr_buffer r) - sr_buffer_pos r) n
     in (take m (drop (sr_buffer_pos r) (sr_buffer r)), r\<lparr>sr_buffer_pos := sr_buffer_pos r + m\<rparr>))"

text \<open>What one answer makes of the reader.\<close>

definition accept_reply :: "buf_codec \<Rightarrow> response \<Rightarrow> sftp_reader \<Rightarrow> unit vresult \<times> sftp_reader" where
  "accept_reply bc reply r =
     (if rs_type reply = fxp_data then (case fst (read_bytes bc (rs_payload reply)) of
          Inl e \<Rightarrow> (Inl e, r)
        | Inr chunk \<Rightarrow>
            let r1 = (if length chunk < chunk_size then r\<lparr>sr_eof := True\<rparr> else r)
            in (Inr (), if chunk = [] then r1 else r1\<lparr>sr_buffer := chunk, sr_buffer_pos := 0\<rparr>))
      else if is_eof bc reply then (Inr (), r\<lparr>sr_eof := True\<rparr>)
      else (Inl (unexpected bc reply), r))"

text \<open>One iteration of the loop in \<open>read\<close>: \<open>Inr None\<close> goes round again.\<close>

definition read_iteration ::
  "'z sworld sftp_env \<Rightarrow> nat \<Rightarrow> sftp_reader \<Rightarrow> 'z sworld
     \<Rightarrow> (bytes option vresult \<times> sftp_reader \<times> 'z sworld) option" where
  "read_iteration env n r w =
     (if sr_buffer_pos r < length (sr_buffer r) then
        (case drain_buffer n r of (bs, r1) \<Rightarrow> Some (Inr (Some bs), r1, w))
      else if sr_eof r \<and> sr_in_flight r = [] then Some (Inr (Some []), r, w)
      else case fill_pipeline env r w of
          (Inl e, r1, w1) \<Rightarrow> Some (Inl e, r1, w1)
        | (Inr _, r1, w1) \<Rightarrow> (case sr_in_flight r1 of
              [] \<Rightarrow> Some (Inr (Some []), r1, w1)
            | ch # rest \<Rightarrow>
                let r2 = r1\<lparr>sr_in_flight := rest\<rparr>
                in (case await_reply env ch w1 of
                      None \<Rightarrow> None
                    | Some (Inl e, w2) \<Rightarrow> Some (Inl e, r2, w2)
                    | Some (Inr reply, w2) \<Rightarrow> (case accept_reply (se_codec env) reply r2 of
                          (Inl e, r3) \<Rightarrow> Some (Inl e, r3, w2)
                        | (Inr _, r3) \<Rightarrow> Some (Inr None, r3, w2)))))"

definition read_measure :: "sftp_reader \<Rightarrow> nat" where
  "read_measure r = (if sr_buffer_pos r < length (sr_buffer r) then 0
     else Suc (length (sr_in_flight r) + (if sr_eof r then 0 else Suc max_in_flight)))"

lemma fill_requests_shape:
  "fill_requests n env r w = (x, r', w') \<Longrightarrow>
     length (sr_in_flight r') \<le> length (sr_in_flight r) + n \<and> sr_eof r' = sr_eof r \<and>
     sr_buffer r' = sr_buffer r \<and> sr_buffer_pos r' = sr_buffer_pos r \<and> sr_handle r' = sr_handle r"
proof (induction n arbitrary: r w)
  case (Suc n)
  show ?case
  proof (cases "link_send (sl_next_id w) (read_packet (se_codec env) (sr_handle r) (sr_next_offset r) (sl_next_id w))
      (snd (link_next_id w))")
    case (Pair s w2)
    with Suc.prems Suc.IH show ?thesis
      by (cases s) (force simp: link_next_id_def)+
  qed
qed simp

lemma fill_pipeline_shape:
  assumes "fill_pipeline env r w = (x, r', w')"
  shows "length (sr_in_flight r') \<le> max (length (sr_in_flight r)) max_in_flight"
    "sr_eof r' = sr_eof r" "sr_buffer r' = sr_buffer r" "sr_buffer_pos r' = sr_buffer_pos r"
    "sr_handle r' = sr_handle r" "sr_eof r \<Longrightarrow> r' = r"
  using assms fill_requests_shape [of "max_in_flight - length (sr_in_flight r)" env r w x r' w']
  by (auto simp: fill_pipeline_def split: if_splits)

lemma accept_reply_shape:
  "accept_reply bc reply r = (Inr (), r') \<Longrightarrow> sr_in_flight r' = sr_in_flight r \<and>
     (sr_eof r' \<or> sr_buffer_pos r' < length (sr_buffer r')) \<and> (sr_eof r \<longrightarrow> sr_eof r')"
  by (auto simp: accept_reply_def Let_def chunk_size_def split: if_splits sum.splits)

lemma read_iteration_measure:
  assumes "read_iteration env n r w = Some (Inr None, r', w')"
  shows "read_measure r' < read_measure r"
proof -
  have nb: "\<not> sr_buffer_pos r < length (sr_buffer r)" and ne: "\<not> (sr_eof r \<and> sr_in_flight r = [])"
    using assms by (auto simp: read_iteration_def split: if_splits prod.splits)
  obtain x r1 w1 where f: "fill_pipeline env r w = (x, r1, w1)" by (metis prod_cases3)
  with assms nb ne obtain ch rest reply w2 where x: "x = Inr ()" and fl: "sr_in_flight r1 = ch # rest"
    and acc: "accept_reply (se_codec env) reply (r1\<lparr>sr_in_flight := rest\<rparr>) = (Inr (), r')"
    by (auto simp: read_iteration_def Let_def split: sum.splits list.splits option.splits prod.splits)
  from fill_pipeline_shape [OF f] accept_reply_shape [OF acc] fl nb show ?thesis
    by (auto simp: read_measure_def)
qed

function sftp_read ::
  "'z sworld sftp_env \<Rightarrow> nat \<Rightarrow> sftp_reader \<Rightarrow> 'z sworld \<Rightarrow> (bytes vresult \<times> sftp_reader \<times> 'z sworld) option" where
  "sftp_read env n r w = (case read_iteration env n r w of
      None \<Rightarrow> None
    | Some (Inl e, r', w') \<Rightarrow> Some (Inl e, r', w')
    | Some (Inr (Some bs), r', w') \<Rightarrow> Some (Inr bs, r', w')
    | Some (Inr None, r', w') \<Rightarrow> sftp_read env n r' w')"
  by pat_completeness auto
termination
  by (relation "measure (\<lambda>(env, n, r, w). read_measure r)") (auto dest: read_iteration_measure)

declare sftp_read.simps [simp del]

definition sftp_reader_finish :: "'z sworld sftp_env \<Rightarrow> sftp_reader \<Rightarrow> ('z sworld, unit) wio" where
  "sftp_reader_finish env r = bind_wio
     (foldr (\<lambda>ch rest. bind_wio (ignore_wio (await_reply env ch)) (\<lambda>_. rest)) (sr_in_flight r) (once (ok_io ())))
     (\<lambda>_. close_handle env (sr_handle r))"

section \<open>The reader refines the file's bytes\<close>

text \<open>
  What is relied on of the server and the transport for one open file: a chunk request sent on a
  channel stays known (\<open>asked\<close>), and its answer is the file's bytes from the requested offset, a full
  chunk unless the file ends, or end-of-file behind the end.
\<close>

definition answers :: "buf_codec \<Rightarrow> bytes \<Rightarrow> nat \<Rightarrow> response \<Rightarrow> bool" where
  "answers bc content off reply \<longleftrightarrow>
     (if off < length content
      then rs_type reply = fxp_data \<and> fst (read_bytes bc (rs_payload reply)) = Inr (take chunk_size (drop off content))
      else rs_type reply \<noteq> fxp_data \<and> is_eof bc reply)"

definition serves_file ::
  "'z sworld sftp_env \<Rightarrow> bytes \<Rightarrow> bytes \<Rightarrow> ('z sworld \<Rightarrow> nat \<Rightarrow> nat option) \<Rightarrow> bool" where
  "serves_file env handle content asked \<longleftrightarrow>
     (\<forall>w. asked (snd (link_next_id w)) = asked w) \<and>
     (\<forall>key off ch w w'. link_send key (read_packet (se_codec env) handle off key) w = (Inr ch, w') \<longrightarrow>
        asked w' ch = Some (unat off) \<and> asked w \<subseteq>\<^sub>m asked w') \<and>
     (\<forall>ch off r w w'. asked w ch = Some off \<longrightarrow> await_reply env ch w = Some (r, w') \<longrightarrow>
        asked w \<subseteq>\<^sub>m asked w' \<and> (\<exists>reply. r = Inr reply \<and> answers (se_codec env) content off reply))"

text \<open>The offset of the oldest request under way, and the bytes still to be handed out.\<close>

definition oldest_offset :: "sftp_reader \<Rightarrow> nat" where
  "oldest_offset r = unat (sr_next_offset r) - chunk_size * length (sr_in_flight r)"

definition undelivered :: "bytes \<Rightarrow> sftp_reader \<Rightarrow> bytes" where
  "undelivered content r = drop (sr_buffer_pos r) (sr_buffer r) @ drop (oldest_offset r) content"

definition reading_ok ::
  "('z sworld \<Rightarrow> nat \<Rightarrow> nat option) \<Rightarrow> bytes \<Rightarrow> bytes \<Rightarrow> sftp_reader \<Rightarrow> 'z sworld \<Rightarrow> bool" where
  "reading_ok asked handle content r w \<longleftrightarrow> sr_handle r = handle \<and>
     length content + chunk_size * Suc max_in_flight < 2 ^ 64 \<and>
     length (sr_in_flight r) \<le> max_in_flight \<and>
     unat (sr_next_offset r) = oldest_offset r + chunk_size * length (sr_in_flight r) \<and>
     (\<forall>k < length (sr_in_flight r). asked w (sr_in_flight r ! k) = Some (oldest_offset r + k * chunk_size)) \<and>
     (if sr_eof r then length content \<le> oldest_offset r else oldest_offset r \<le> length content)"

lemma fill_requests_ok:
  assumes "serves_file env handle content asked"
  shows "fill_requests n env r w = (Inr (), r', w') \<Longrightarrow> reading_ok asked handle content r w \<Longrightarrow> \<not> sr_eof r \<Longrightarrow>
     length (sr_in_flight r) + n \<le> max_in_flight \<Longrightarrow>
     reading_ok asked handle content r' w' \<and> oldest_offset r' = oldest_offset r"
proof (induction n arbitrary: r w)
  case (Suc n)
  obtain key w1 where id: "link_next_id w = (key, w1)" by force
  have asked1: "asked w1 = asked w"
    using assms id unfolding serves_file_def by (metis snd_conv)
  obtain s w2 where send: "link_send key (read_packet (se_codec env) (sr_handle r) (sr_next_offset r) key) w1 = (s, w2)"
    by force
  show ?case
  proof (cases s)
    case (Inl e)
    then show ?thesis using Suc.prems(1) id send by simp
  next
    case (Inr ch)
    let ?r = "r\<lparr>sr_in_flight := sr_in_flight r @ [ch], sr_next_offset := sr_next_offset r + of_nat chunk_size\<rparr>"
    have run: "fill_requests n env ?r w2 = (Inr (), r', w')" using Suc.prems(1) id send Inr by simp
    have h: "sr_handle r = handle" using Suc.prems(2) by (simp add: reading_ok_def)
    have asked2: "asked w2 ch = Some (unat (sr_next_offset r))" "asked w \<subseteq>\<^sub>m asked w2"
      using assms send Inr asked1 h unfolding serves_file_def by metis+
    let ?n = "length (sr_in_flight r)"
    have next_off: "unat (sr_next_offset r) = oldest_offset r + chunk_size * ?n"
      and small: "oldest_offset r + chunk_size * Suc ?n < 2 ^ 64"
      using Suc.prems by (simp_all add: reading_ok_def chunk_size_def max_in_flight_def)
    have new: "unat (sr_next_offset r + of_nat chunk_size) = oldest_offset r + chunk_size * Suc ?n"
    proof -
      have "unat (sr_next_offset r + of_nat chunk_size) = unat (sr_next_offset r) + chunk_size"
        using small next_off by (subst unat_add_lem [THEN iffD1]) (simp_all add: chunk_size_def)
      with next_off show ?thesis by simp
    qed
    have old: "oldest_offset ?r = oldest_offset r" by (simp add: oldest_offset_def [of ?r] new)
    have "asked w2 ((sr_in_flight r @ [ch]) ! k) = Some (oldest_offset r + k * chunk_size)" if "k < Suc ?n" for k
    proof (cases "k = ?n")
      case True
      with asked2(1) next_off show ?thesis by (simp add: mult.commute)
    next
      case False
      with that Suc.prems(2) have "asked w (sr_in_flight r ! k) = Some (oldest_offset r + k * chunk_size)" "k < ?n"
        by (simp_all add: reading_ok_def)
      with asked2(2) show ?thesis by (auto simp: nth_append map_le_def dom_def)
    qed
    then have "reading_ok asked handle content ?r w2"
      using Suc.prems new old h by (simp add: reading_ok_def)
    with Suc.IH [OF run this] Suc.prems old show ?thesis by simp
  qed
qed simp

lemma fill_requests_length:
  "fill_requests n env r w = (Inr (), r', w') \<Longrightarrow> length (sr_in_flight r') = length (sr_in_flight r) + n"
proof (induction n arbitrary: r w)
  case (Suc n)
  then show ?case by (auto split: prod.splits sum.splits)
qed simp

lemma fill_pipeline_ok:
  assumes "serves_file env handle content asked" "reading_ok asked handle content r w"
    and "fill_pipeline env r w = (Inr (), r', w')"
  shows "reading_ok asked handle content r' w'" "oldest_offset r' = oldest_offset r"
proof -
  have "reading_ok asked handle content r' w' \<and> oldest_offset r' = oldest_offset r"
  proof (cases "sr_eof r")
    case True
    with assms show ?thesis by (simp add: fill_pipeline_def)
  next
    case False
    moreover have "length (sr_in_flight r) + (max_in_flight - length (sr_in_flight r)) \<le> max_in_flight"
      using assms(2) by (simp add: reading_ok_def)
    ultimately show ?thesis
      using fill_requests_ok [OF assms(1) _ assms(2)] assms(3) by (simp add: fill_pipeline_def)
  qed
  then show "reading_ok asked handle content r' w'" "oldest_offset r' = oldest_offset r" by simp_all
qed

lemma accept_reply_ok:
  assumes "reading_ok asked handle content r w" "sr_in_flight r = ch # rest"
    and "asked w \<subseteq>\<^sub>m asked w'" "answers bc content (oldest_offset r) reply"
    and "\<not> sr_buffer_pos r < length (sr_buffer r)"
    and "accept_reply bc reply (r\<lparr>sr_in_flight := rest\<rparr>) = (Inr (), r')"
  shows "reading_ok asked handle content r' w' \<and> undelivered content r' = undelivered content r"
proof -
  let ?off = "oldest_offset r" and ?r = "r\<lparr>sr_in_flight := rest\<rparr>"
  have old: "oldest_offset ?r = ?off + chunk_size"
    using assms(1,2) by (simp add: reading_ok_def oldest_offset_def)
  have frame: "oldest_offset (q\<lparr>sr_eof := b\<rparr>) = oldest_offset q"
    "oldest_offset (q\<lparr>sr_buffer := bs, sr_buffer_pos := p\<rparr>) = oldest_offset q" for q b bs p
    by (simp_all add: oldest_offset_def)
  have asked': "asked w' (rest ! k) = Some (?off + chunk_size + k * chunk_size)" if "k < length rest" for k
  proof -
    have "asked w ((ch # rest) ! Suc k) = Some (?off + Suc k * chunk_size)"
      using assms(1,2) that unfolding reading_ok_def by (metis Suc_less_eq length_Cons)
    with assms(3) show ?thesis by (auto simp: map_le_def dom_def)
  qed
  have base: "reading_ok asked handle content q w'"
    if "sr_in_flight q = rest" "sr_next_offset q = sr_next_offset r" "sr_handle q = sr_handle r"
      "if sr_eof q then length content \<le> ?off + chunk_size else ?off + chunk_size \<le> length content" for q
  proof -
    have "oldest_offset q = ?off + chunk_size" using that old by (simp add: oldest_offset_def)
    with that assms(1,2) asked' show ?thesis by (auto simp: reading_ok_def)
  qed
  have empty: "undelivered content r = drop ?off content"
    using assms(5) by (simp add: undelivered_def)
  show ?thesis
  proof (cases "?off < length content")
    case True
    let ?chunk = "take chunk_size (drop ?off content)"
    have ne: "?chunk \<noteq> []" using True by (simp add: chunk_size_def)
    let ?q = "(if length ?chunk < chunk_size then ?r\<lparr>sr_eof := True\<rparr> else ?r)\<lparr>sr_buffer := ?chunk, sr_buffer_pos := 0\<rparr>"
    have r': "r' = ?q"
      using True assms(4,6) ne by (simp add: answers_def accept_reply_def Let_def split: if_splits)
    have eof: "\<not> sr_eof r" using True assms(1) by (auto simp: reading_ok_def split: if_splits)
    have "reading_ok asked handle content ?q w'" by (rule base) (use eof True in auto)
    moreover have "?chunk @ drop (?off + chunk_size) content = drop ?off content"
      by (metis add.commute append_take_drop_id drop_drop)
    then have "undelivered content ?q = undelivered content r"
      unfolding empty using old frame by (simp add: undelivered_def)
    ultimately show ?thesis unfolding r' by simp
  next
    case False
    then have r': "r' = ?r\<lparr>sr_eof := True\<rparr>"
      using assms(4,6) by (auto simp: answers_def accept_reply_def split: if_splits)
    have "reading_ok asked handle content (?r\<lparr>sr_eof := True\<rparr>) w'" by (rule base) (use False in auto)
    moreover have "undelivered content (?r\<lparr>sr_eof := True\<rparr>) = undelivered content r"
      using False old frame empty assms(5) by (simp add: undelivered_def)
    ultimately show ?thesis unfolding r' by simp
  qed
qed

lemma read_iteration_ok:
  assumes "serves_file env handle content asked" "reading_ok asked handle content r w"
    and "read_iteration env n r w = Some (Inr (x :: bytes option), r', w')"
  shows "reading_ok asked handle content r' w' \<and>
    undelivered content r = (case x of None \<Rightarrow> [] | Some bs \<Rightarrow> bs) @ undelivered content r' \<and>
    (\<forall>bs. x = Some bs \<longrightarrow> length bs \<le> n \<and> (bs = [] \<longrightarrow> 0 < n \<longrightarrow> undelivered content r = []))"
proof (cases "sr_buffer_pos r < length (sr_buffer r)")
  case True
  let ?m = "min (length (sr_buffer r) - sr_buffer_pos r) n"
  have eqs: "x = Some (take ?m (drop (sr_buffer_pos r) (sr_buffer r)))" "w' = w"
      "r' = r\<lparr>sr_buffer_pos := sr_buffer_pos r + ?m\<rparr>"
    using assms(3) True by (auto simp: read_iteration_def drain_buffer_def Let_def)
  have "oldest_offset r' = oldest_offset r" by (simp add: eqs oldest_offset_def)
  moreover have "reading_ok asked handle content r' w'"
    using assms(2) \<open>oldest_offset r' = oldest_offset r\<close> by (simp add: reading_ok_def eqs)
  moreover have "take ?m (drop (sr_buffer_pos r) (sr_buffer r)) @ drop (sr_buffer_pos r + ?m) (sr_buffer r) =
      drop (sr_buffer_pos r) (sr_buffer r)"
    by (metis add.commute append_take_drop_id drop_drop)
  ultimately show ?thesis using True by (auto simp: eqs undelivered_def)
next
  case False
  note empty = False
  show ?thesis
  proof (cases "sr_eof r \<and> sr_in_flight r = []")
    case True
    with False assms(3) have eqs: "x = Some []" "r' = r" "w' = w" by (auto simp: read_iteration_def)
    have "undelivered content r = []" using True False assms(2) by (simp add: undelivered_def reading_ok_def)
    with eqs assms(2) show ?thesis by simp
  next
    case more: False
    obtain s r1 w1 where f: "fill_pipeline env r w = (s, r1, w1)" by (metis prod_cases3)
    have s: "s = Inr ()"
      using assms(3) empty more f by (cases s) (auto simp: read_iteration_def split: if_splits)
    note ok1 = fill_pipeline_ok [OF assms(1,2) f [unfolded s]] and shape = fill_pipeline_shape [OF f]
    have same: "undelivered content r1 = undelivered content r" using ok1 shape by (simp add: undelivered_def)
    show ?thesis
    proof (cases "sr_in_flight r1")
      case Nil
      have False
      proof (cases "sr_eof r")
        case True
        with shape(6) Nil more show False by simp
      next
        case False
        with f s fill_requests_length [of "max_in_flight - length (sr_in_flight r)" env r w r1 w1] Nil
        show False by (auto simp: fill_pipeline_def max_in_flight_def)
      qed
      then show ?thesis ..
    next
      case (Cons ch rest)
      have a: "asked w1 ch = Some (oldest_offset r1)" using ok1(1) Cons by (force simp: reading_ok_def)
      obtain reply w2 where reply: "await_reply env ch w1 = Some (Inr reply, w2)"
        and acc: "accept_reply (se_codec env) reply (r1\<lparr>sr_in_flight := rest\<rparr>) = (Inr (), r')"
        and eqs: "x = None" "w' = w2"
        using assms(3) empty more f s Cons
        by (auto simp: read_iteration_def Let_def split: option.splits sum.splits prod.splits if_splits)
      from assms(1) a reply have "asked w1 \<subseteq>\<^sub>m asked w2" "answers (se_codec env) content (oldest_offset r1) reply"
        unfolding serves_file_def by blast+
      from accept_reply_ok [OF ok1(1) Cons this _ acc] shape empty same show ?thesis
        by (simp add: eqs)
    qed
  qed
qed

text \<open>C8: Over a server that answers with full chunks up to the end of the file, the pipelined reader
  is a plain sequence of bytes: each \<open>read\<close> hands out the next bytes of the file, at most as many as
  fit, in order, without gaps or repetitions, and nothing only at the end of the file.\<close>

theorem sftp_read_refines:
  assumes "serves_file env handle content asked" "reading_ok asked handle content r w"
    and "sftp_read env n r w = Some (Inr bs, r', w')"
  shows "reading_ok asked handle content r' w' \<and> undelivered content r = bs @ undelivered content r' \<and>
    length bs \<le> n \<and> (bs = [] \<longrightarrow> 0 < n \<longrightarrow> undelivered content r = [])"
  using assms(2,3)
proof (induction "read_measure r" arbitrary: r w rule: less_induct)
  case less
  show ?case
  proof (cases "read_iteration env n r w")
    case None
    with less.prems(2) show ?thesis by (subst (asm) sftp_read.simps) simp
  next
    case (Some it)
    obtain res r1 w1 where it: "it = (res, r1, w1)" by (metis prod_cases3)
    with Some less.prems(2) obtain x where res: "res = Inr x"
      by (subst (asm) sftp_read.simps) (cases res, simp_all)
    note step = read_iteration_ok [OF assms(1) less.prems(1) Some [unfolded it res]]
    show ?thesis
    proof (cases x)
      case None
      have "sftp_read env n r1 w1 = Some (Inr bs, r', w')"
        using less.prems(2) Some it res None by (subst (asm) sftp_read.simps) simp
      with less.hyps [OF read_iteration_measure [OF Some [unfolded it res None]]] step None
      show ?thesis by auto
    next
      case (Some bs1)
      with less.prems(2) \<open>read_iteration env n r w = Some it\<close> it res
      have eqs: "bs1 = bs" "r1 = r'" "w1 = w'" by (subst (asm) sftp_read.simps, simp)+
      from step have "x = Some bs1 \<longrightarrow> length bs1 \<le> n \<and> (bs1 = [] \<longrightarrow> 0 < n \<longrightarrow> undelivered content r = [])"
        by (elim conjE) (erule spec)
      moreover from step Some have "reading_ok asked handle content r1 w1"
        "undelivered content r = bs1 @ undelivered content r1" by simp_all
      ultimately show ?thesis unfolding eqs using Some eqs(1) by (intro conjI) simp_all
    qed
  qed
qed


section \<open>The writer\<close>

record sftp_writer =
  sx_handle :: bytes
  sx_offset :: u64
  sx_in_flight :: "nat list"

definition sftp_writer_new :: "bytes \<Rightarrow> u64 \<Rightarrow> sftp_writer" where
  "sftp_writer_new handle offset = \<lparr>sx_handle = handle, sx_offset = offset, sx_in_flight = []\<rparr>"

definition sftp_open_write :: "'z sworld sftp_env \<Rightarrow> string \<Rightarrow> u64 \<Rightarrow> ('z sworld, sftp_writer) wio" where
  "sftp_open_write env path offset =
     (let flags = (if offset > 0 then fxf_write OR fxf_creat else fxf_write OR fxf_creat OR fxf_trunc)
      in bind_wio (open_request env path flags) (\<lambda>handle. once (ok_io (sftp_writer_new handle offset))))"

text \<open>The confirmation of the oldest chunk.\<close>

definition await_confirmed :: "'z sworld sftp_env \<Rightarrow> nat \<Rightarrow> ('z sworld, unit) wio" where
  "await_confirmed env ch = bind_wio (await_reply env ch) (\<lambda>r. wio_result (response_status (se_codec env) r))"

text \<open>\<open>while in_flight.len() >= MAX_IN_FLIGHT\<close>; the list that is left is returned with the result, as it
  is kept when a chunk was refused.\<close>

fun make_room ::
  "'z sworld sftp_env \<Rightarrow> nat list \<Rightarrow> 'z sworld \<Rightarrow> (unit vresult \<times> nat list \<times> 'z sworld) option" where
  "make_room env [] w = Some (Inr (), [], w)"
| "make_room env (ch # chs) w =
     (if length (ch # chs) < max_in_flight then Some (Inr (), ch # chs, w)
      else case await_confirmed env ch w of
          None \<Rightarrow> None
        | Some (Inl e, w1) \<Rightarrow> Some (Inl e, chs, w1)
        | Some (Inr _, w1) \<Rightarrow> make_room env chs w1)"

definition write_packet :: "buf_codec \<Rightarrow> bytes \<Rightarrow> u64 \<Rightarrow> bytes \<Rightarrow> u32 \<Rightarrow> bytes" where
  "write_packet bc handle offset chunk key = packet_build (put_bytes bc chunk
     (put_u64 bc offset (put_bytes bc handle (packet_new bc fxp_write key))))"

fun chunks :: "nat \<Rightarrow> bytes \<Rightarrow> bytes list" where
  "chunks n [] = []"
| "chunks n (b # bs) = take (Suc n) (b # bs) # chunks n (drop n bs)"

text \<open>\<open>buf.chunks(CHUNK_SIZE)\<close> is \<open>chunks (chunk_size - 1) buf\<close>.\<close>

fun write_chunks ::
  "'z sworld sftp_env \<Rightarrow> bytes list \<Rightarrow> sftp_writer \<Rightarrow> 'z sworld \<Rightarrow> (unit vresult \<times> sftp_writer \<times> 'z sworld) option" where
  "write_chunks env [] x w = Some (Inr (), x, w)"
| "write_chunks env (c # cs) x w = (case make_room env (sx_in_flight x) w of
      None \<Rightarrow> None
    | Some (Inl e, chs, w1) \<Rightarrow> Some (Inl e, x\<lparr>sx_in_flight := chs\<rparr>, w1)
    | Some (Inr _, chs, w1) \<Rightarrow> (case link_next_id w1 of (key, w2) \<Rightarrow>
        (case link_send key (write_packet (se_codec env) (sx_handle x) (sx_offset x) c key) w2 of
            (Inl e, w3) \<Rightarrow> Some (Inl e, x\<lparr>sx_in_flight := chs\<rparr>, w3)
          | (Inr ch, w3) \<Rightarrow> write_chunks env cs
              (x\<lparr>sx_in_flight := chs @ [ch], sx_offset := sx_offset x + of_nat (length c)\<rparr>) w3)))"

definition sftp_write ::
  "'z sworld sftp_env \<Rightarrow> bytes \<Rightarrow> sftp_writer \<Rightarrow> 'z sworld \<Rightarrow> (unit vresult \<times> sftp_writer \<times> 'z sworld) option" where
  "sftp_write env buf = write_chunks env (chunks (chunk_size - 1) buf)"

text \<open>\<open>finish\<close>: every confirmation is awaited, the first error kept, the handle closed all the same.\<close>

fun await_all :: "'z sworld sftp_env \<Rightarrow> nat list \<Rightarrow> verror option \<Rightarrow> 'z sworld \<Rightarrow> (verror option \<times> 'z sworld) option" where
  "await_all env [] first_error w = Some (first_error, w)"
| "await_all env (ch # chs) first_error w = (case await_confirmed env ch w of
      None \<Rightarrow> None
    | Some (Inl e, w1) \<Rightarrow> await_all env chs (Some (case first_error of Some e1 \<Rightarrow> e1 | None \<Rightarrow> e)) w1
    | Some (Inr _, w1) \<Rightarrow> await_all env chs first_error w1)"

definition sftp_writer_finish :: "'z sworld sftp_env \<Rightarrow> sftp_writer \<Rightarrow> ('z sworld, unit) wio" where
  "sftp_writer_finish env x w = (case await_all env (sx_in_flight x) None w of
      None \<Rightarrow> None
    | Some (first_error, w1) \<Rightarrow> (case close_handle env (sx_handle x) w1 of
          None \<Rightarrow> None
        | Some (closed, w2) \<Rightarrow> Some (case first_error of Some e \<Rightarrow> Inl e | None \<Rightarrow> closed, w2)))"

section \<open>What the writer has sent\<close>

lemma concat_chunks: "concat (chunks n bs) = bs"
  by (induction n bs rule: chunks.induct) simp_all

lemma chunks_length: "c \<in> set (chunks n bs) \<Longrightarrow> length c \<le> Suc n \<and> c \<noteq> []"
  by (induction n bs rule: chunks.induct) auto

text \<open>The chunks with their offsets, and a record \<open>sent\<close> of the write requests, to which only sending
  one adds.\<close>

fun placed :: "u64 \<Rightarrow> bytes list \<Rightarrow> (u64 \<times> bytes) list" where
  "placed off [] = []"
| "placed off (c # cs) = (off, c) # placed (off + of_nat (length c)) cs"

definition records_writes ::
  "'z sworld sftp_env \<Rightarrow> bytes \<Rightarrow> ('z sworld \<Rightarrow> (u64 \<times> bytes) list) \<Rightarrow> bool" where
  "records_writes env handle sent \<longleftrightarrow>
     (\<forall>w. sent (snd (link_next_id w)) = sent w) \<and>
     (\<forall>key off c ch w w'. link_send key (write_packet (se_codec env) handle off c key) w = (Inr ch, w') \<longrightarrow>
        sent w' = sent w @ [(off, c)]) \<and>
     (\<forall>ch r w w'. await_reply env ch w = Some (r, w') \<longrightarrow> sent w' = sent w)"

lemma await_confirmed_sent:
  assumes "records_writes env handle sent" "await_confirmed env ch w = Some (r, w')"
  shows "sent w' = sent w"
proof -
  from assms(2) obtain r1 where "await_reply env ch w = Some (r1, w')"
    by (auto simp: await_confirmed_def bind_wio_def wio_result_def once_def
        split: option.splits sum.splits prod.splits)
  with assms(1) show ?thesis unfolding records_writes_def by blast
qed

lemma make_room_sent:
  assumes "records_writes env handle sent"
  shows "make_room env chs w = Some (r, chs', w') \<Longrightarrow> sent w' = sent w"
proof (induction chs arbitrary: w)
  case (Cons ch chs)
  then show ?case
    using await_confirmed_sent [OF assms, of ch w]
    by (auto split: if_splits option.splits sum.splits prod.splits)
qed simp

lemma write_chunks_sent:
  assumes "records_writes env handle sent"
  shows "write_chunks env cs x w = Some (Inr u, x', w') \<Longrightarrow> sx_handle x = handle \<Longrightarrow>
    sent w' = sent w @ placed (sx_offset x) cs \<and> sx_handle x' = handle \<and>
    sx_offset x' = sx_offset x + of_nat (length (concat cs))"
proof (induction cs arbitrary: x w)
  case (Cons c cs)
  obtain u1 chs w1 where room: "make_room env (sx_in_flight x) w = Some (Inr u1, chs, w1)"
    using Cons.prems(1) by (auto split: option.splits sum.splits prod.splits)
  obtain key w2 where id: "link_next_id w1 = (key, w2)" by force
  obtain ch w3 where send: "link_send key (write_packet (se_codec env) (sx_handle x) (sx_offset x) c key) w2 = (Inr ch, w3)"
    using Cons.prems(1) room id by (auto split: sum.splits prod.splits)
  have "sent w3 = sent w2 @ [(sx_offset x, c)]" "sent w2 = sent w1"
    using assms send id Cons.prems(2) unfolding records_writes_def by (blast, metis snd_conv)
  moreover have "sent w1 = sent w" by (rule make_room_sent [OF assms room])
  ultimately show ?case
    using Cons.IH [of "x\<lparr>sx_in_flight := chs @ [ch], sx_offset := sx_offset x + of_nat (length c)\<rparr>" w3]
      Cons.prems room id send by (simp add: add.assoc)
qed simp

text \<open>C23: A successful \<open>write\<close> has sent exactly the given bytes, cut into non-empty chunks of at most
  32 KiB, each at the offset where the one before it ended, starting where the last \<open>write\<close> stopped.\<close>

theorem sftp_write_covers:
  assumes "records_writes env (sx_handle x) sent" "sftp_write env buf x w = Some (Inr (), x', w')"
  shows "\<exists>cs. sent w' = sent w @ placed (sx_offset x) cs \<and> concat cs = buf \<and>
    list_all (\<lambda>c. c \<noteq> [] \<and> length c \<le> chunk_size) cs \<and>
    sx_offset x' = sx_offset x + of_nat (length buf)"
proof -
  let ?cs = "chunks (chunk_size - 1) buf"
  have "list_all (\<lambda>c. c \<noteq> [] \<and> length c \<le> chunk_size) ?cs"
    using chunks_length [of _ "chunk_size - 1" buf] by (auto simp: list_all_iff chunk_size_def)
  with write_chunks_sent [OF assms(1), of ?cs x w] assms(2) show ?thesis
    by (auto simp: sftp_write_def concat_chunks intro!: exI [of _ ?cs])
qed

section \<open>Refused chunks are reported\<close>

text \<open>All confirmations, awaited one after the other, are successes.\<close>

fun all_confirmed :: "'z sworld sftp_env \<Rightarrow> nat list \<Rightarrow> 'z sworld \<Rightarrow> 'z sworld \<Rightarrow> bool" where
  "all_confirmed env [] w w' \<longleftrightarrow> w' = w"
| "all_confirmed env (ch # chs) w w' \<longleftrightarrow> (case await_reply env ch w of
      Some (Inr reply, w1) \<Rightarrow> response_status (se_codec env) reply = Inr () \<and> all_confirmed env chs w1 w'
    | _ \<Rightarrow> False)"

lemma await_all_error: "await_all env chs (Some e) w = Some (fe, w') \<Longrightarrow> fe = Some e"
  by (induction chs arbitrary: w) (auto split: option.splits sum.splits prod.splits)

lemma await_all_confirmed: "await_all env chs None w = Some (None, w') \<Longrightarrow> all_confirmed env chs w w'"
proof (induction chs arbitrary: w)
  case (Cons ch chs)
  then obtain u w1 where c: "await_confirmed env ch w = Some (Inr u, w1)" and rest: "await_all env chs None w1 = Some (None, w')"
    by (auto split: option.splits sum.splits prod.splits dest: await_all_error)
  from c obtain reply where "await_reply env ch w = Some (Inr reply, w1)" "response_status (se_codec env) reply = Inr ()"
    by (auto simp: await_confirmed_def bind_wio_def wio_result_def once_def
        split: option.splits sum.splits prod.splits)
  with Cons.IH [OF rest] show ?case by simp
qed simp

text \<open>When finishing an upload succeeds, the server has confirmed every chunk that was still under way
  and the closing of the file: no refused chunk is lost.\<close>

theorem sftp_finish_reports:
  assumes "sftp_writer_finish env x w = Some (Inr (), w')"
  shows "\<exists>w1. all_confirmed env (sx_in_flight x) w w1 \<and> close_handle env (sx_handle x) w1 = Some (Inr (), w')"
  using assms by (auto simp: sftp_writer_finish_def dest: await_all_confirmed split: option.splits prod.splits)

end
