(* ===== verification/Sftp_Samples.thy ===== *)
theory Sftp_Samples
  imports Sftp_Stream
begin

text \<open>
  Concrete servers for the properties of the SFTP reader and writer: a file server that answers chunk
  requests from the bytes of a file, and one that confirms everything.
\<close>

text \<open>The offset in a read or write request on a handle of \<open>n\<close> bytes, and the data behind it.\<close>

definition packet_offset :: "nat \<Rightarrow> bytes \<Rightarrow> nat" where
  "packet_offset n p = from_be_bytes (take 8 (drop (13 + n) p))"

definition packet_data :: "nat \<Rightarrow> bytes \<Rightarrow> bytes" where
  "packet_data n p = drop (25 + n) p"

lemma packet_offset_std:
  "packet_offset (length handle) (packet_build (put_bytes std_codec d (put_u64 std_codec off
     (put_bytes std_codec handle (packet_new std_codec ty key))))) = unat off"
  "packet_offset (length handle) (packet_build (put_u32 std_codec v (put_u64 std_codec off
     (put_bytes std_codec handle (packet_new std_codec ty key))))) = unat off"
  by (simp_all add: packet_offset_def packet_build_def put_bytes_def put_u64_def put_u32_def
      packet_new_def std_codec_def from_to_be_bytes_u64 drop_Cons')

lemma packet_data_std:
  "packet_data (length handle) (packet_build (put_bytes std_codec d (put_u64 std_codec off
     (put_bytes std_codec handle (packet_new std_codec ty key))))) = d"
  by (simp add: packet_data_def packet_build_def put_bytes_def put_u64_def packet_new_def std_codec_def drop_Cons')

text \<open>The request behind a channel, counted from the end of the requests and the channels.\<close>

definition asked_offset :: "nat \<Rightarrow> 'z sworld \<Rightarrow> nat \<Rightarrow> nat option" where
  "asked_offset n w ch = (let back = length (sl_waiters w) - ch
     in if 0 < back \<and> back \<le> length (sl_outbox w)
        then Some (packet_offset n (sl_outbox w ! (length (sl_outbox w) - back))) else None)"

definition file_reply :: "bytes \<Rightarrow> nat \<Rightarrow> response" where
  "file_reply content off =
     (if off < length content
      then \<lparr>rs_type = fxp_data, rs_id = 0, rs_payload = put_bytes std_codec (take chunk_size (drop off content)) []\<rparr>
      else \<lparr>rs_type = fxp_status, rs_id = 0, rs_payload = put_u32 std_codec fx_eof []\<rparr>)"

definition file_server :: "bytes \<Rightarrow> bytes \<Rightarrow> 'z sworld sftp_env" where
  "file_server handle content = \<lparr>se_codec = std_codec,
     se_run = (\<lambda>ch w. case asked_offset (length handle) w ch of
        Some off \<Rightarrow> w\<lparr>sl_waiters := (sl_waiters w)[ch := WAnswered (Inr (file_reply content off))]\<rparr>
      | None \<Rightarrow> w),
     se_extensions = [], se_hex = bytes_text\<rparr>"

lemma link_send_success:
  assumes "link_send key packet w = (Inr ch, w')"
  shows "ch = length (sl_waiters w)" "length (sl_waiters w') = Suc ch" "sl_outbox w' = sl_outbox w @ [packet]"
  using assms
  by (auto simp: link_send_def link_register_def Let_def take_pending_def split: if_splits option.splits)

lemma asked_after_send:
  assumes "link_send key packet w = (Inr ch, w')"
  shows "asked_offset n w' ch = Some (packet_offset n packet)" "asked_offset n w \<subseteq>\<^sub>m asked_offset n w'"
  using link_send_success [OF assms]
  by (auto simp: asked_offset_def Let_def map_le_def dom_def nth_append Suc_diff_le split: if_splits)

lemma file_reply_answers: "answers std_codec content off (file_reply content off)"
  using std.read_put_bytes [of "take chunk_size (drop off content)" "[]"] std.read_put_u32 [of fx_eof "[]"]
  by (auto simp: answers_def file_reply_def put_bytes_def put_u32_def is_eof_def sftp_consts chunk_size_def)

lemma file_server_serves:
  "serves_file (file_server handle content) handle content (asked_offset (length handle))"
proof -
  have a: "asked_offset n (snd (link_next_id w)) = asked_offset n w" for n w
    by (simp add: link_next_id_def asked_offset_def Let_def fun_eq_iff)
  have b: "asked_offset (length handle) w' ch = Some (unat off) \<and>
      asked_offset (length handle) w \<subseteq>\<^sub>m asked_offset (length handle) w'"
    if "link_send key (read_packet std_codec handle off key) w = (Inr ch, w')" for key off ch w w'
    using asked_after_send [OF that, of "length handle"]
    by (simp add: read_packet_def packet_offset_std)
  have c: "asked_offset (length handle) w \<subseteq>\<^sub>m asked_offset (length handle) w' \<and>
      (\<exists>reply. r = Inr reply \<and> answers std_codec content off reply)"
    if "asked_offset (length handle) w ch = Some off"
      "await_reply (file_server handle content) ch w = Some (r, w')" for ch off r w w'
  proof -
    have lt: "ch < length (sl_waiters w)" using that(1) by (auto simp: asked_offset_def Let_def split: if_splits)
    with that have "r = Inr (file_reply content off)"
      "w' = w\<lparr>sl_waiters := (sl_waiters w)[ch := WAnswered (Inr (file_reply content off))]\<rparr>"
      by (auto simp: await_reply_def file_server_def Let_def)
    then show ?thesis by (simp add: file_reply_answers asked_offset_def Let_def fun_eq_iff map_le_def)
  qed
  have codec: "se_codec (file_server handle content) = std_codec" by (simp add: file_server_def)
  show ?thesis unfolding serves_file_def codec using a b c by blast
qed

text \<open>A link as the handshake leaves it.\<close>

definition fresh_world :: sftp_world where
  "fresh_world = sftp_link.extend new_link \<lparr>sw_home = None, sw_hook = True, sw_log = []\<rparr>"

definition buffered_reader :: sftp_reader where
  "buffered_reader = (sftp_reader_new [9] 3)\<lparr>sr_buffer := [1, 2, 3], sr_buffer_pos := 1\<rparr>"

theorem sftp_read_refines_witness:
  "\<exists>r'. sftp_read (file_server [9] [1, 2, 3]) 1 buffered_reader fresh_world = Some (Inr [2], r', fresh_world) \<and>
     undelivered [1, 2, 3] buffered_reader = [2] @ undelivered [1, 2, 3] r'"
proof -
  let ?r = "buffered_reader\<lparr>sr_buffer_pos := 2\<rparr>"
  have run: "sftp_read (file_server [9] [1, 2, 3]) 1 buffered_reader fresh_world = Some (Inr [2], ?r, fresh_world)"
    by (subst sftp_read.simps) (simp add: read_iteration_def drain_buffer_def Let_def buffered_reader_def)
  have ok: "reading_ok (asked_offset (length [9 :: u8])) [9] [1, 2, 3] buffered_reader fresh_world"
    by (simp add: reading_ok_def buffered_reader_def sftp_reader_new_def oldest_offset_def chunk_size_def
        max_in_flight_def)
  have "undelivered [1, 2, 3] buffered_reader = [2] @ undelivered [1, 2, 3] ?r"
    using sftp_read_refines [OF file_server_serves ok run] by (elim conjE)
  with run show ?thesis by blast
qed

definition short_reply :: "bytes \<Rightarrow> response" where
  "short_reply d = \<lparr>rs_type = fxp_data, rs_id = 0, rs_payload = put_bytes std_codec d []\<rparr>"

definition gap_world :: sftp_world where
  "gap_world = fresh_world\<lparr>sl_waiters := [WAnswered (Inr (short_reply [1, 2])), WAnswered (Inr (short_reply [3]))]\<rparr>"

definition still_server :: "'z sworld sftp_env" where
  "still_server = \<lparr>se_codec = std_codec, se_run = (\<lambda>ch w. w), se_extensions = [], se_hex = bytes_text\<rparr>"

definition full_reader :: sftp_reader where
  "full_reader = (sftp_reader_new [9] (of_nat (64 * chunk_size)))\<lparr>sr_in_flight := 0 # 1 # replicate 62 2\<rparr>"

lemma short_reply_data: "d \<noteq> [] \<Longrightarrow> length d < 2 ^ 32 \<Longrightarrow> fst (read_bytes std_codec (rs_payload (short_reply d))) = Inr d"
  using std.read_put_bytes [of d "[]"] by (simp add: short_reply_def put_bytes_def)


definition sent_writes :: "nat \<Rightarrow> 'z sworld \<Rightarrow> (u64 \<times> bytes) list" where
  "sent_writes n w = map (\<lambda>p. (of_nat (packet_offset n p), packet_data n p)) (sl_outbox w)"

lemma still_server_records: "records_writes still_server handle (sent_writes (length handle))"
  unfolding records_writes_def
proof (intro conjI allI impI)
  fix key off c ch and w w' :: "'z sworld"
  assume "link_send key (write_packet (se_codec still_server) handle off c key) w = (Inr ch, w')"
  from link_send_success(3) [OF this]
  show "sent_writes (length handle) w' = sent_writes (length handle) w @ [(off, c)]"
    by (simp add: sent_writes_def write_packet_def still_server_def packet_offset_std packet_data_std)
qed (auto simp: sent_writes_def link_next_id_def await_reply_def still_server_def split: waiter.splits)

theorem sftp_write_covers_witness:
  "\<exists>x' w' cs. sftp_write still_server [1, 2] (sftp_writer_new [9] 5) fresh_world = Some (Inr (), x', w') \<and>
     sent_writes 1 w' = placed 5 cs \<and> concat cs = [1, 2]"
proof -
  obtain x' w' where run: "sftp_write still_server [1, 2] (sftp_writer_new [9] 5) fresh_world = Some (Inr (), x', w')"
    by (simp add: sftp_write_def chunk_size_def link_next_id_def link_send_def link_register_def
        fresh_world_def new_link_def sftp_link.defs sftp_writer_new_def Let_def take_pending_def)
  have rec: "records_writes still_server (sx_handle (sftp_writer_new [9] 5)) (sent_writes 1 :: sftp_world \<Rightarrow> _)"
    using still_server_records [of "[9]"] by (simp add: sftp_writer_new_def)
  have "sent_writes 1 fresh_world = []" by (simp add: sent_writes_def fresh_world_def new_link_def sftp_link.defs)
  with sftp_write_covers [OF rec run] run show ?thesis by (auto simp: sftp_writer_new_def)
qed

definition ok_server :: "'z sworld sftp_env" where
  "ok_server = \<lparr>se_codec = std_codec,
     se_run = (\<lambda>ch w. w\<lparr>sl_waiters := (sl_waiters w)[ch := WAnswered (Inr
        \<lparr>rs_type = fxp_status, rs_id = 0, rs_payload = put_u32 std_codec fx_ok []\<rparr>)]\<rparr>),
     se_extensions = [], se_hex = bytes_text\<rparr>"

theorem sftp_finish_reports_witness:
  "\<exists>w1 w'. all_confirmed ok_server [0] (fresh_world\<lparr>sl_waiters := [WOpen]\<rparr>) w1 \<and>
     close_handle ok_server [9] w1 = Some (Inr (), w')"
proof -
  let ?ok = "\<lparr>rs_type = fxp_status, rs_id = 0, rs_payload = put_u32 std_codec fx_ok []\<rparr>"
  have st: "response_status std_codec ?ok = Inr ()"
    using std.read_put_u32 [of fx_ok "[]"]
    by (simp add: response_status_def put_u32_def status_to_result_def)
  let ?x = "(sftp_writer_new [9] 5)\<lparr>sx_in_flight := [0]\<rparr>"
  obtain w' where "sftp_writer_finish ok_server ?x (fresh_world\<lparr>sl_waiters := [WOpen]\<rparr>) = Some (Inr (), w')"
    using st
    by (simp add: sftp_writer_finish_def await_confirmed_def await_reply_def ok_server_def bind_wio_def
        wio_result_def once_def close_handle_def sftp_request_def sftp_next_id_def link_next_id_def
        sftp_call_def link_send_def link_register_def fresh_world_def new_link_def sftp_link.defs
        sftp_writer_new_def Let_def take_pending_def)
  from sftp_finish_reports [OF this] show ?thesis by (auto simp: sftp_writer_new_def)
qed

end
