(* ===== verification/Sftp_Listing.thy ===== *)
theory Sftp_Listing
  imports Sftp_Client
begin

text \<open>
  What \<open>list\<close> makes of the NAME packets of a server: a listing that was encoded as the protocol says
  is read back entry by entry.
\<close>

text \<open>The server's side: a name, a long name and attributes for each entry.\<close>

type_synonym named_file = "string \<times> string \<times> attrs"

fun put_names :: "buf_codec \<Rightarrow> named_file list \<Rightarrow> bytes" where
  "put_names bc [] = []"
| "put_names bc ((name, longname, a) # files) =
     put_string bc name [] @ put_string bc longname [] @ attrs_encode bc a [] @ put_names bc files"

definition sendable :: "named_file \<Rightarrow> bool" where
  "sendable = (\<lambda>(name, longname, a). utf8_valid name \<and> utf8_valid longname \<and>
     length name < 2 ^ 32 \<and> length longname < 2 ^ 32)"

definition listed :: "named_file \<Rightarrow> bool" where
  "listed = (\<lambda>(name, longname, a). name \<noteq> ''.'' \<and> name \<noteq> ''..'')"

context big_endian
begin

lemma read_sent_string:
  "utf8_valid s \<Longrightarrow> length s < 2 ^ 32 \<Longrightarrow> read_string bc (put_string bc s [] @ rest) = (Inr s, rest)"
  using read_put_string [of s rest] by (simp add: put_string_def put_bytes_def from_utf8_lossy_valid)

lemma read_sent_names:
  "list_all sendable files \<Longrightarrow> read_names bc dir (length files) (put_names bc files @ rest) =
     (Inr (map (\<lambda>(name, longname, a). entry_from dir name longname (paired_attrs a)) (filter listed files)), rest)"
proof (induction files)
  case (Cons f files)
  obtain name longname a where f: "f = (name, longname, a)" by (cases f) auto
  have "utf8_valid name" "utf8_valid longname" "length name < 2 ^ 32" "length longname < 2 ^ 32"
    and files: "list_all sendable files"
    using Cons.prems by (simp_all add: f sendable_def)
  with Cons.IH [OF files] show ?case
    by (simp add: f bind_io_run read_sent_string decode_encode listed_def)
qed simp

end

text \<open>C31: A listing that a server sends in one packet is read back completely and in order, with the
  entries for the directory itself and its parent left out.\<close>

theorem listing_roundtrip:
  assumes "big_endian bc" "list_all sendable files" "length files < 2 ^ 32"
  shows "names_reply bc dir (put_u32 bc (of_nat (length files)) [] @ put_names bc files) =
    Inr (map (\<lambda>(name, longname, a). entry_from dir name longname (paired_attrs a)) (filter listed files))"
proof -
  have n: "unat (of_nat (length files) :: u32) = length files"
    using assms(3) by (simp only: unat_of_nat) simp
  show ?thesis
    using big_endian.read_sent_names [OF assms(1,2), of dir "[]"]
    by (simp add: names_reply_def bind_io_run put_u32_def big_endian.read_put_u32 [OF assms(1)] n)
qed

theorem listing_roundtrip_witness:
  "map_ok (map re_path) (names_reply std_codec ''/srv'' (put_u32 std_codec 2 []
     @ put_names std_codec [(''..'', '''', default_attrs), (''a'', '''', default_attrs)])) = Inr [''/srv/a'']"
proof -
  let ?files = "[(''..'', '''', default_attrs), (''a'', '''', default_attrs)]"
  have s: "list_all sendable ?files" by (simp add: sendable_def utf8_valid_ascii)
  have p: "join ''/srv'' ''a'' = ''/srv/a''" by code_simp
  show ?thesis
    using listing_roundtrip [OF std.big_endian_axioms s, of "''/srv''"]
    by (simp add: listed_def entry_from_def Let_def p)
qed

end
