(* ===== verification/Sftp_Operations.thy ===== *)
theory Sftp_Operations
  imports Sftp_Client
begin

text \<open>
  What the operations of the SFTP client do to a server that carries out requests on some state of its own.
  A request is read here as the protocol (draft-ietf-secsh-filexfer-02) has it, and the server's answer to it
  is an argument; an operation of the client is then shown to be the server's operation, with its status
  turned into the client's result.
\<close>

section \<open>Requests as the server reads them\<close>

datatype sftp_op =
    OpMkdir string attrs
  | OpRmdir string
  | OpRemove string
  | OpRename string string
  | OpPosixRename string string
  | OpSetstat string attrs
  | OpStat string
  | OpReadlink string
  | OpRealpath string
  | OpOpen string u32 attrs
  | OpClose bytes

definition raw_string :: "buf_codec \<Rightarrow> string reading" where
  "raw_string bc = bind_io (read_bytes bc) (\<lambda>b. ok_io (bytes_text b))"

definition two_strings :: "buf_codec \<Rightarrow> (string \<Rightarrow> string \<Rightarrow> 'a) \<Rightarrow> 'a reading" where
  "two_strings bc f = bind_io (raw_string bc) (\<lambda>a. bind_io (raw_string bc) (\<lambda>b. ok_io (f a b)))"

definition parse_op :: "buf_codec \<Rightarrow> u8 \<Rightarrow> sftp_op reading" where
  "parse_op bc ty =
     (if ty = fxp_mkdir then bind_io (raw_string bc) (\<lambda>p. bind_io (attrs_decode bc) (\<lambda>a. ok_io (OpMkdir p a)))
      else if ty = fxp_rmdir then bind_io (raw_string bc) (\<lambda>p. ok_io (OpRmdir p))
      else if ty = fxp_remove then bind_io (raw_string bc) (\<lambda>p. ok_io (OpRemove p))
      else if ty = fxp_rename then two_strings bc OpRename
      else if ty = fxp_setstat then bind_io (raw_string bc) (\<lambda>p. bind_io (attrs_decode bc) (\<lambda>a. ok_io (OpSetstat p a)))
      else if ty = fxp_stat then bind_io (raw_string bc) (\<lambda>p. ok_io (OpStat p))
      else if ty = fxp_readlink then bind_io (raw_string bc) (\<lambda>p. ok_io (OpReadlink p))
      else if ty = fxp_realpath then bind_io (raw_string bc) (\<lambda>p. ok_io (OpRealpath p))
      else if ty = fxp_open then bind_io (raw_string bc) (\<lambda>p. bind_io (read_u32 bc) (\<lambda>flags.
        bind_io (attrs_decode bc) (\<lambda>a. ok_io (OpOpen p flags a))))
      else if ty = fxp_close then bind_io (read_bytes bc) (\<lambda>h. ok_io (OpClose h))
      else if ty = fxp_extended then bind_io (raw_string bc) (\<lambda>ext.
        if ext = ext_posix_rename then two_strings bc OpPosixRename else err_io (Unsupported ext))
      else err_io (Unsupported []))"

text \<open>A packet has to be as long as it says, and nothing may be left of it.\<close>

definition request_of :: "buf_codec \<Rightarrow> bytes \<Rightarrow> (u32 \<times> sftp_op) option" where
  "request_of bc packet =
     (if from_be_bytes (take 4 packet) \<noteq> length packet - 4 then None
      else case drop 4 packet of
        [] \<Rightarrow> None
      | ty # body \<Rightarrow> (case bind_io (read_u32 bc) (\<lambda>key. bind_io (parse_op bc ty) (\<lambda>op. ok_io (key, op))) body of
            (Inr x, []) \<Rightarrow> Some x
          | _ \<Rightarrow> None))"

section \<open>Answers\<close>

datatype sftp_reply = ReStatus u32 string | ReAttrs attrs | ReName string | ReHandle bytes

definition short_text :: "string \<Rightarrow> bool" where
  "short_text s \<longleftrightarrow> length s < 2 ^ 30"

fun says :: "buf_codec \<Rightarrow> response \<Rightarrow> sftp_reply \<Rightarrow> bool" where
  "says bc r (ReStatus code message) \<longleftrightarrow> rs_type r = fxp_status \<and> short_text message \<and>
     (\<exists>rest. rs_payload r = put_string bc message (put_u32 bc code []) @ rest)"
| "says bc r (ReAttrs a) \<longleftrightarrow> rs_type r = fxp_attrs \<and> (\<exists>rest. rs_payload r = attrs_encode bc a [] @ rest)"
| "says bc r (ReName name) \<longleftrightarrow> rs_type r = fxp_name \<and> short_text name \<and>
     (\<exists>rest. rs_payload r = put_string bc name (put_u32 bc 1 []) @ rest)"
| "says bc r (ReHandle h) \<longleftrightarrow> rs_type r = fxp_handle \<and> rs_payload r = put_bytes bc h []"

text \<open>Each request has its kind of answer, or an error's status.\<close>

fun fits :: "sftp_op \<Rightarrow> sftp_reply \<Rightarrow> bool" where
  "fits op (ReStatus code message) \<longleftrightarrow>
     (case op of OpStat _ \<Rightarrow> code \<noteq> fx_ok | OpReadlink _ \<Rightarrow> code \<noteq> fx_ok | OpRealpath _ \<Rightarrow> code \<noteq> fx_ok
      | OpOpen _ _ _ \<Rightarrow> code \<noteq> fx_ok | _ \<Rightarrow> True)"
| "fits op (ReAttrs a) \<longleftrightarrow> (\<exists>p. op = OpStat p)"
| "fits op (ReName n) \<longleftrightarrow> (\<exists>p. op = OpReadlink p \<or> op = OpRealpath p)"
| "fits op (ReHandle h) \<longleftrightarrow> (\<exists>p flags a. op = OpOpen p flags a) \<and> length h \<le> 256"

type_synonym 't sftp_server = "sftp_op \<Rightarrow> 't \<Rightarrow> sftp_reply \<times> 't"

definition serves_ops ::
  "'z sworld sftp_env \<Rightarrow> 't sftp_server \<Rightarrow> ('z sworld \<Rightarrow> 't) \<Rightarrow> bool" where
  "serves_ops env server state \<longleftrightarrow> big_endian (se_codec env) \<and>
     (\<forall>op t. fits op (fst (server op t))) \<and>
     (\<forall>w. state (snd (link_next_id w)) = state w) \<and>
     (\<forall>key packet w r w' op. request_of (se_codec env) packet = Some (key, op) \<and>
        sftp_call env key packet w = Some (Inr r, w') \<longrightarrow>
        says (se_codec env) r (fst (server op (state w))) \<and> state w' = snd (server op (state w)))"

section \<open>The operations on the server's state\<close>

definition status_error :: "u32 \<Rightarrow> string \<Rightarrow> verror" where
  "status_error code message = (case status_to_result code (from_utf8_lossy message) of Inl e \<Rightarrow> e | Inr _ \<Rightarrow> Protocol [])"

fun reply_status :: "sftp_reply \<Rightarrow> unit vresult" where
  "reply_status (ReStatus code message) = status_to_result code (from_utf8_lossy message)"
| "reply_status _ = Inl (Protocol [])"

fun reply_attrs :: "sftp_reply \<Rightarrow> attrs vresult" where
  "reply_attrs (ReAttrs a) = Inr (paired_attrs a)"
| "reply_attrs (ReStatus code message) = Inl (status_error code message)"
| "reply_attrs _ = Inl (Protocol [])"

fun reply_name :: "sftp_reply \<Rightarrow> string vresult" where
  "reply_name (ReName n) = Inr (from_utf8_lossy n)"
| "reply_name (ReStatus code message) = Inl (status_error code message)"
| "reply_name _ = Inl (Protocol [])"

fun reply_handle :: "sftp_reply \<Rightarrow> bytes vresult" where
  "reply_handle (ReHandle h) = Inr h"
| "reply_handle (ReStatus code message) = Inl (status_error code message)"
| "reply_handle _ = Inl (Protocol [])"

definition ask :: "(sftp_reply \<Rightarrow> 'a vresult) \<Rightarrow> 't sftp_server \<Rightarrow> sftp_op \<Rightarrow> ('t, 'a) vio" where
  "ask conv server op t = (case server op t of (reply, t') \<Rightarrow> (conv reply, t'))"

text \<open>An operation that ends does the same as its specification on the server, unless the connection fails.\<close>

definition call_fails :: "'z sworld sftp_env \<Rightarrow> verror \<Rightarrow> 'z sworld \<Rightarrow> bool" where
  "call_fails env e w' \<longleftrightarrow> (\<exists>key packet w. sftp_call env key packet w = Some (Inl e, w'))"

definition refines ::
  "'z sworld sftp_env \<Rightarrow> ('z sworld \<Rightarrow> 't) \<Rightarrow> ('z sworld, 'a) wio \<Rightarrow> ('t, 'a) vio \<Rightarrow> bool" where
  "refines env state m spec \<longleftrightarrow> (\<forall>w r w'. m w = Some (r, w') \<longrightarrow>
     (\<exists>e. r = Inl e \<and> call_fails env e w') \<or> spec (state w) = (r, state w'))"

section \<open>The client's packets are the requests\<close>

text \<open>What a builder appends to a packet.\<close>

definition appends :: "(bytes \<Rightarrow> bytes) \<Rightarrow> bytes \<Rightarrow> bool" where
  "appends build payload \<longleftrightarrow> (\<forall>buf. build buf = buf @ payload)"

definition sent_string :: "buf_codec \<Rightarrow> string \<Rightarrow> bytes" where
  "sent_string bc s = cd_put_u32 bc (of_nat (length s)) @ as_bytes s"

definition sent_bytes :: "buf_codec \<Rightarrow> bytes \<Rightarrow> bytes" where
  "sent_bytes bc b = cd_put_u32 bc (of_nat (length b)) @ b"

definition asks :: "buf_codec \<Rightarrow> u8 \<Rightarrow> (bytes \<Rightarrow> bytes) \<Rightarrow> sftp_op \<Rightarrow> bool" where
  "asks bc ty build op \<longleftrightarrow> (\<exists>payload. appends build payload \<and> length payload < 2 ^ 31 + 2 ^ 11 \<and>
     parse_op bc ty payload = (Inr op, []))"

lemma appends_string: "appends (put_string bc s) (sent_string bc s)"
  by (simp add: appends_def put_string_def put_bytes_def sent_string_def)

lemma appends_bytes: "appends (put_bytes bc b) (sent_bytes bc b)"
  by (simp add: appends_def put_bytes_def sent_bytes_def)

lemma appends_u32: "appends (put_u32 bc v) (cd_put_u32 bc v)"
  by (simp add: appends_def put_u32_def)

lemma appends_attrs: "appends (put_attrs bc a) (attrs_encode bc a [])"
  by (simp add: appends_def put_attrs_def attrs_encode_def Let_def split: option.splits prod.splits)

lemma appends_comp: "appends g p \<Longrightarrow> appends f q \<Longrightarrow> appends (f \<circ> g) (p @ q)"
  by (simp add: appends_def)

lemmas appends_rules = appends_comp appends_string appends_bytes appends_u32 appends_attrs

context big_endian
begin

lemma raw_sent: "short_text s \<Longrightarrow> raw_string bc (sent_string bc s @ rest) = (Inr s, rest)"
  using read_put_bytes [of "as_bytes s" rest]
  by (simp add: raw_string_def sent_string_def bind_io_run short_text_def)

lemma read_sent_bytes: "length b \<le> 256 \<Longrightarrow> read_bytes bc (sent_bytes bc b @ rest) = (Inr b, rest)"
  using read_put_bytes [of b rest] by (simp add: sent_bytes_def)

lemma length_sent [simp]:
  "length (sent_string bc s) = 4 + length s" "length (sent_bytes bc b) = 4 + length b"
  by (simp_all add: sent_string_def sent_bytes_def)

lemma length_attrs: "length (attrs_encode bc a []) \<le> 32"
  by (simp add: attrs_encode_def Let_def split: option.splits prod.splits)

lemma request_of_built:
  assumes "asks bc ty build op"
  shows "request_of bc (packet_build (build (packet_new bc ty key))) = Some (key, op)"
proof -
  from assms obtain payload where p: "build (packet_new bc ty key) = packet_new bc ty key @ payload"
    "length payload < 2 ^ 31 + 2 ^ 11" "parse_op bc ty payload = (Inr op, [])"
    by (auto simp: asks_def appends_def)
  have body: "drop 4 (packet_build (packet_new bc ty key @ payload)) = ty # cd_put_u32 bc key @ payload"
    by (simp add: packet_build_def packet_new_def)
  have "unat (of_nat (5 + length payload) :: u32) = 5 + length payload"
    by (subst unat_of_nat) (use p(2) in simp)
  then have "from_be_bytes (take 4 (packet_build (packet_new bc ty key @ payload))) = 5 + length payload"
    using p(2) by (simp add: packet_build_def packet_new_def from_to_be_bytes)
  moreover have "length (packet_build (packet_new bc ty key @ payload)) - 4 = 5 + length payload"
    by (simp add: packet_build_def packet_new_def)
  ultimately show ?thesis
    by (simp add: p(1) request_of_def body bind_io_run read_put_u32 p(3))
qed

lemma asksI:
  "appends build payload \<Longrightarrow> length payload < 2 ^ 31 + 2 ^ 11 \<Longrightarrow> parse_op bc ty payload = (Inr op, []) \<Longrightarrow>
     asks bc ty build op"
  by (auto simp: asks_def)

lemma asks_ops:
  assumes "short_text p" "short_text q"
  shows "asks bc fxp_mkdir (put_attrs bc a \<circ> put_string bc p) (OpMkdir p (paired_attrs a))"
    "asks bc fxp_rmdir (put_string bc p) (OpRmdir p)"
    "asks bc fxp_remove (put_string bc p) (OpRemove p)"
    "asks bc fxp_rename (put_string bc q \<circ> put_string bc p) (OpRename p q)"
    "asks bc fxp_extended (put_string bc q \<circ> put_string bc p \<circ> put_string bc ext_posix_rename) (OpPosixRename p q)"
    "asks bc fxp_setstat (put_attrs bc a \<circ> put_string bc p) (OpSetstat p (paired_attrs a))"
    "asks bc fxp_stat (put_string bc p) (OpStat p)"
    "asks bc fxp_readlink (put_string bc p) (OpReadlink p)"
    "asks bc fxp_realpath (put_string bc p) (OpRealpath p)"
    "asks bc fxp_open (put_attrs bc a \<circ> put_u32 bc v \<circ> put_string bc p) (OpOpen p v (paired_attrs a))"
    "length h \<le> 256 \<Longrightarrow> asks bc fxp_close (put_bytes bc h) (OpClose h)"
proof -
  have l: "length (attrs_encode bc a []) < 2 ^ 10" using length_attrs [of a] by simp
  have e: "length ext_posix_rename < 2 ^ 10" by (simp add: ext_posix_rename_def)
  then have ext: "raw_string bc (sent_string bc ext_posix_rename @ rest) = (Inr ext_posix_rename, rest)" for rest
    by (intro raw_sent) (simp add: short_text_def)
  have st: "raw_string bc (sent_string bc s) = (Inr s, [])" if "short_text s" for s
    using raw_sent [OF that, of "[]"] by simp
  have at: "attrs_decode bc (attrs_encode bc a []) = (Inr (paired_attrs a), [])"
    using decode_encode [of a "[]"] by simp
  note parses = parse_op_def two_strings_def bind_io_run raw_sent st at ext short_text_def read_put_u32 sftp_consts
  show "asks bc fxp_mkdir (put_attrs bc a \<circ> put_string bc p) (OpMkdir p (paired_attrs a))"
    by (rule asksI, (rule appends_rules)+) (use l e assms in \<open>simp_all add: parses\<close>)
  show "asks bc fxp_rmdir (put_string bc p) (OpRmdir p)"
    by (rule asksI, (rule appends_rules)+) (use l e assms in \<open>simp_all add: parses\<close>)
  show "asks bc fxp_remove (put_string bc p) (OpRemove p)"
    by (rule asksI, (rule appends_rules)+) (use l e assms in \<open>simp_all add: parses\<close>)
  show "asks bc fxp_rename (put_string bc q \<circ> put_string bc p) (OpRename p q)"
    by (rule asksI, (rule appends_rules)+) (use l e assms in \<open>simp_all add: parses\<close>)
  show "asks bc fxp_extended (put_string bc q \<circ> put_string bc p \<circ> put_string bc ext_posix_rename) (OpPosixRename p q)"
    by (rule asksI, (rule appends_rules)+) (use l e assms in \<open>simp_all add: parses\<close>)
  show "asks bc fxp_setstat (put_attrs bc a \<circ> put_string bc p) (OpSetstat p (paired_attrs a))"
    by (rule asksI, (rule appends_rules)+) (use l e assms in \<open>simp_all add: parses\<close>)
  show "asks bc fxp_stat (put_string bc p) (OpStat p)"
    by (rule asksI, (rule appends_rules)+) (use l e assms in \<open>simp_all add: parses\<close>)
  show "asks bc fxp_readlink (put_string bc p) (OpReadlink p)"
    by (rule asksI, (rule appends_rules)+) (use l e assms in \<open>simp_all add: parses\<close>)
  show "asks bc fxp_realpath (put_string bc p) (OpRealpath p)"
    by (rule asksI, (rule appends_rules)+) (use l e assms in \<open>simp_all add: parses\<close>)
  show "asks bc fxp_open (put_attrs bc a \<circ> put_u32 bc v \<circ> put_string bc p) (OpOpen p v (paired_attrs a))"
    by (rule asksI, (rule appends_rules)+) (use l e assms in \<open>simp_all add: parses\<close>)
  show "asks bc fxp_close (put_bytes bc h) (OpClose h)" if "length h \<le> 256"
    by (rule asksI, (rule appends_rules)+) (use read_sent_bytes [OF that, of "[]"] that in \<open>simp_all add: parses\<close>)
qed

end

section \<open>Each operation is the server's\<close>

text \<open>What the client makes of an answer.\<close>

definition status_op :: "sftp_op \<Rightarrow> bool" where
  "status_op op \<longleftrightarrow> (case op of OpStat _ \<Rightarrow> False | OpReadlink _ \<Rightarrow> False | OpRealpath _ \<Rightarrow> False
     | OpOpen _ _ _ \<Rightarrow> False | _ \<Rightarrow> True)"

context big_endian
begin

lemma read_status:
  "says bc r (ReStatus code message) \<Longrightarrow> response_status bc r = status_to_result code (from_utf8_lossy message)"
  using read_put_string [of message]
  by (auto simp: response_status_def put_string_def put_bytes_def put_u32_def read_put_u32 short_text_def)

lemma read_unexpected:
  assumes "says bc r (ReStatus code message)" "code \<noteq> fx_ok"
  shows "unexpected bc r = status_error code message" "rs_type r = fxp_status"
proof -
  obtain e where "status_to_result code (from_utf8_lossy message) = Inl e"
    using assms(2) by (cases "status_to_result code (from_utf8_lossy message)")
      (auto simp: status_to_result_def split: if_splits)
  then show "unexpected bc r = status_error code message"
    using read_status [OF assms(1)] by (simp add: unexpected_def status_error_def)
  show "rs_type r = fxp_status" using assms(1) by simp
qed

lemma read_answers:
  "says bc r reply \<Longrightarrow> fits op reply \<Longrightarrow> status_op op \<Longrightarrow> response_status bc r = reply_status reply"
  "says bc r reply \<Longrightarrow> fits (OpStat p) reply \<Longrightarrow> attrs_answer bc r = reply_attrs reply"
  "says bc r reply \<Longrightarrow> fits (OpReadlink p) reply \<or> fits (OpRealpath p) reply \<Longrightarrow> name_answer bc r = reply_name reply"
  "says bc r reply \<Longrightarrow> fits (OpOpen p v a) reply \<Longrightarrow>
     (if rs_type r = fxp_handle then fst (read_bytes bc (rs_payload r)) else Inl (unexpected bc r)) = reply_handle reply"
proof -
  assume s: "says bc r reply"
  have ne: "fxp_status \<noteq> fxp_attrs" "fxp_status \<noteq> fxp_name" "fxp_status \<noteq> fxp_handle"
    by (simp_all add: sftp_consts)
  have name: "name_reply bc (put_string bc n (put_u32 bc 1 []) @ rest) = Inr (from_utf8_lossy n)"
    if "short_text n" for n rest
    using that read_put_string [of n rest]
    by (simp add: name_reply_def bind_io_run put_string_def put_bytes_def put_u32_def read_put_u32 short_text_def)
  have handle: "fst (read_bytes bc (put_bytes bc h [])) = Inr h" if "length h \<le> 256" for h
    using that read_put_bytes [of h "[]"] by (simp add: put_bytes_def)
  show "response_status bc r = reply_status reply" if "fits op reply" "status_op op"
    using s that by (cases reply; cases op) (auto simp: status_op_def read_status)
  show "attrs_answer bc r = reply_attrs reply" if "fits (OpStat p) reply"
    using s that decode_encode
    by (cases reply) (auto simp: attrs_answer_def read_unexpected ne simp del: says.simps(1))
  show "name_answer bc r = reply_name reply" if "fits (OpReadlink p) reply \<or> fits (OpRealpath p) reply"
    using s that
    by (cases reply) (auto simp: name_answer_def name read_unexpected ne simp del: says.simps(1))
  show "(if rs_type r = fxp_handle then fst (read_bytes bc (rs_payload r)) else Inl (unexpected bc r)) = reply_handle reply"
    if "fits (OpOpen p v a) reply"
    using s that
    by (cases reply) (auto simp: read_unexpected handle ne simp del: says.simps(1))
qed

end

text \<open>Whole requests.\<close>

lemma request_step:
  assumes S: "serves_ops env server state" and op: "asks (se_codec env) ty build op"
    and run: "sftp_request env ty build w = Some (r, w')"
  shows "(\<exists>e. r = Inl e \<and> call_fails env e w') \<or>
     (\<exists>resp. r = Inr resp \<and> says (se_codec env) resp (fst (server op (state w))) \<and> state w' = snd (server op (state w)))"
proof -
  obtain key w1 where k: "link_next_id w = (key, w1)" by force
  let ?packet = "packet_build (build (packet_new (se_codec env) ty key))"
  have call: "sftp_call env key ?packet w1 = Some (r, w')"
    using run k by (simp add: sftp_request_def sftp_next_id_def bind_wio_def once_def)
  have "state w1 = state w" using S k unfolding serves_ops_def by (metis snd_conv)
  moreover have "big_endian (se_codec env)" using S by (simp add: serves_ops_def)
  then have "request_of (se_codec env) ?packet = Some (key, op)" using op by (rule big_endian.request_of_built)
  ultimately show ?thesis
    using S call unfolding serves_ops_def call_fails_def by (cases r) metis+
qed

lemma request_refines:
  assumes S: "serves_ops env server state" and op: "asks (se_codec env) ty build op"
    and read: "\<And>resp reply. says (se_codec env) resp reply \<Longrightarrow> fits op reply \<Longrightarrow> g resp = conv reply"
  shows "refines env state (bind_wio (sftp_request env ty build) (\<lambda>r. wio_result (g r))) (ask conv server op)"
  unfolding refines_def
proof (intro allI impI)
  fix w r w' assume run: "bind_wio (sftp_request env ty build) (\<lambda>r. wio_result (g r)) w = Some (r, w')"
  then obtain r1 where r1: "sftp_request env ty build w = Some (r1, w')"
    "r = (case r1 of Inl e \<Rightarrow> Inl e | Inr resp \<Rightarrow> g resp)"
    by (auto simp: bind_wio_def wio_result_def once_def lift_io_def split: option.splits sum.splits prod.splits)
  have "fits op (fst (server op (state w)))" using S by (simp add: serves_ops_def)
  with request_step [OF S op r1(1)] r1(2) read
  show "(\<exists>e. r = Inl e \<and> call_fails env e w') \<or> ask conv server op (state w) = (r, state w')"
    by (auto simp: ask_def split: prod.splits)
qed

lemma refines_bind:
  assumes "refines env state m spec"
    and "\<And>a t t'. spec t = (Inr a, t') \<Longrightarrow> refines env state (f a) (g a)"
  shows "refines env state (bind_wio m f) (bind_io spec g)"
  unfolding refines_def
proof (intro allI impI)
  fix w r w' assume run: "bind_wio m f w = Some (r, w')"
  then obtain r1 w1 where m: "m w = Some (r1, w1)" by (auto simp: bind_wio_def split: option.splits)
  show "(\<exists>e. r = Inl e \<and> call_fails env e w') \<or> bind_io spec g (state w) = (r, state w')"
  proof (cases r1)
    case (Inl e)
    with m assms(1) have "call_fails env e w1 \<or> spec (state w) = (Inl e, state w1)"
      unfolding refines_def by blast
    with run m Inl show ?thesis by (auto simp: bind_wio_def bind_io_run)
  next
    case (Inr a)
    with m assms(1) have s: "spec (state w) = (Inr a, state w1)" by (auto simp: refines_def)
    from run m Inr have "f a w1 = Some (r, w')" by (simp add: bind_wio_def)
    with assms(2) [OF s] s show ?thesis by (auto simp: refines_def bind_io_run)
  qed
qed

lemma refines_pure: "refines env state (once (ok_io a)) (ok_io a)"
  by (simp add: refines_def once_def)

lemma status_refines:
  assumes S: "serves_ops env server state" and "asks (se_codec env) ty build op" "status_op op"
  shows "refines env state (status_request env ty build) (ask reply_status server op)"
  unfolding status_request_def using S assms(2)
proof (rule request_refines)
  fix resp reply assume "says (se_codec env) resp reply" "fits op reply"
  moreover have "big_endian (se_codec env)" using S by (simp add: serves_ops_def)
  ultimately show "response_status (se_codec env) resp = reply_status reply"
    using big_endian.read_answers(1) assms(3) by blast
qed

lemma attrs_refines:
  assumes S: "serves_ops env server state" and p: "short_text p"
  shows "refines env state (attrs_request env fxp_stat p) (ask reply_attrs server (OpStat p))"
proof -
  have B: "big_endian (se_codec env)" using S by (simp add: serves_ops_def)
  show ?thesis unfolding attrs_request_def
    by (rule request_refines [OF S big_endian.asks_ops(7) [OF B p p]]) (rule big_endian.read_answers(2) [OF B])
qed

lemma name_refines:
  assumes S: "serves_ops env server state" and p: "short_text p"
  shows "refines env state (name_request env fxp_readlink p) (ask reply_name server (OpReadlink p))"
    "refines env state (name_request env fxp_realpath p) (ask reply_name server (OpRealpath p))"
proof -
  have B: "big_endian (se_codec env)" using S by (simp add: serves_ops_def)
  note read = big_endian.read_answers(3) [OF B]
  show "refines env state (name_request env fxp_readlink p) (ask reply_name server (OpReadlink p))"
    "refines env state (name_request env fxp_realpath p) (ask reply_name server (OpRealpath p))"
    unfolding name_request_def
    by (rule request_refines [OF S big_endian.asks_ops(8) [OF B p p]], use read in blast,
        rule request_refines [OF S big_endian.asks_ops(9) [OF B p p]], use read in blast)
qed

lemma open_refines:
  assumes S: "serves_ops env server state" and p: "short_text p"
  shows "refines env state (open_request env p flags) (ask reply_handle server (OpOpen p flags default_attrs))"
proof -
  have B: "big_endian (se_codec env)" using S by (simp add: serves_ops_def)
  have d: "paired_attrs default_attrs = default_attrs" by (simp add: paired_attrs_def both_def default_attrs_def)
  show ?thesis unfolding open_request_def handle_request_def
    by (rule request_refines [OF S big_endian.asks_ops(10) [OF B p p, of default_attrs flags, unfolded d]])
      (rule big_endian.read_answers(4) [OF B])
qed

lemma close_refines:
  assumes S: "serves_ops env server state" and h: "length h \<le> 256"
  shows "refines env state (close_handle env h) (ask reply_status server (OpClose h))"
proof -
  have B: "big_endian (se_codec env)" using S by (simp add: serves_ops_def)
  have e: "short_text []" by (simp add: short_text_def)
  show ?thesis
    using status_refines [OF S big_endian.asks_ops(11) [OF B e e h]]
    by (simp add: close_handle_def status_request_def status_op_def)
qed

lemma touch_refines:
  assumes S: "serves_ops env server state" and p: "short_text p"
  shows "refines env state (sftp_touch env p)
    (bind_io (ask reply_handle server (OpOpen p (fxf_write OR fxf_creat OR fxf_excl) default_attrs))
      (\<lambda>h. ask reply_status server (OpClose h)))"
  unfolding sftp_touch_def
proof (rule refines_bind [OF open_refines [OF S p]])
  fix h t t' assume a: "ask reply_handle server (OpOpen p (fxf_write OR fxf_creat OR fxf_excl) default_attrs) t = (Inr h, t')"
  have "fits (OpOpen p (fxf_write OR fxf_creat OR fxf_excl) default_attrs)
      (fst (server (OpOpen p (fxf_write OR fxf_creat OR fxf_excl) default_attrs) t))"
    using S by (simp add: serves_ops_def)
  with a have "length h \<le> 256"
    by (cases "server (OpOpen p (fxf_write OR fxf_creat OR fxf_excl) default_attrs) t")
      (auto simp: ask_def elim!: reply_handle.elims)
  then show "refines env state (close_handle env h) (ask reply_status server (OpClose h))"
    by (rule close_refines [OF S])
qed

text \<open>C9: Run against a server that reads the requests of the protocol, every operation of the client on names does
  exactly the server's operation: it changes the server's files in the same way, and returns the status, the
  attributes or the name the server answered as the client's result, unless the connection fails.\<close>

theorem sftp_operations_refine:
  assumes S: "serves_ops env server state" and p: "short_text p" and q: "short_text q"
  shows "refines env state (sftp_mkdir env p) (ask reply_status server (OpMkdir p default_attrs)) \<and>
    refines env state (sftp_rmdir env p) (ask reply_status server (OpRmdir p)) \<and>
    refines env state (sftp_remove env p) (ask reply_status server (OpRemove p)) \<and>
    refines env state (sftp_rename env p q) (ask reply_status server
      (if has_extension env ext_posix_rename then OpPosixRename p q else OpRename p q)) \<and>
    refines env state (sftp_chmod env p mode) (ask reply_status server
      (OpSetstat p (default_attrs\<lparr>at_permissions := Some (mode AND 4095)\<rparr>))) \<and>
    refines env state (sftp_stat env p) (bind_io (ask reply_attrs server (OpStat p))
      (\<lambda>a. ok_io (entry_from (parent p) (basename p) [] a))) \<and>
    refines env state (sftp_readlink env p) (ask reply_name server (OpReadlink p)) \<and>
    refines env state (sftp_realpath env p) (ask reply_name server (OpRealpath p)) \<and>
    refines env state (sftp_touch env p)
      (bind_io (ask reply_handle server (OpOpen p (fxf_write OR fxf_creat OR fxf_excl) default_attrs))
        (\<lambda>h. ask reply_status server (OpClose h)))"
proof -
  have B: "big_endian (se_codec env)" using S by (simp add: serves_ops_def)
  note ops = big_endian.asks_ops [OF B p q]
  have d: "paired_attrs default_attrs = default_attrs"
    "paired_attrs (default_attrs\<lparr>at_permissions := v\<rparr>) = default_attrs\<lparr>at_permissions := v\<rparr>" for v
    by (simp_all add: paired_attrs_def both_def default_attrs_def)
  note st = status_refines [OF S]
  have "refines env state (sftp_rename env p q) (ask reply_status server
      (if has_extension env ext_posix_rename then OpPosixRename p q else OpRename p q))"
    using st [OF ops(4)] st [OF ops(5)] by (simp add: sftp_rename_def Let_def status_op_def)
  moreover have "refines env state (sftp_stat env p) (bind_io (ask reply_attrs server (OpStat p))
      (\<lambda>a. ok_io (entry_from (parent p) (basename p) [] a)))"
    unfolding sftp_stat_def stat_attrs_def by (intro refines_bind attrs_refines [OF S p] refines_pure)
  ultimately show ?thesis
    using st [OF ops(1), of default_attrs] st [OF ops(2)] st [OF ops(3)]
      st [OF ops(6), of "default_attrs\<lparr>at_permissions := Some (mode AND 4095)\<rparr>"]
      name_refines [OF S p] touch_refines [OF S p]
    by (simp add: d sftp_mkdir_def sftp_rmdir_def sftp_remove_def sftp_chmod_def sftp_readlink_def
        sftp_realpath_def status_op_def)
qed

end
