(* ===== verification/Remote_Store.thy ===== *)
theory Remote_Store
  imports Protocol_Types Remote_Paths
begin

text \<open>
  What the trait \<open>RemoteClient\<close> (\<open>protocol/mod.rs\<close>) promises over a server that keeps a tree of folders and
  files: each operation whose conditions hold succeeds and changes the tree accordingly.  A writer is
  described by what opening, writing and finishing do together, since clients may send late; a reader by
  the bytes it still has to deliver.
\<close>

section \<open>Trees of files\<close>

datatype node = StoredDir | StoredFile bytes

type_synonym tree = "string \<Rightarrow> node option"

definition no_children :: "tree \<Rightarrow> string \<Rightarrow> bool" where
  "no_children t p \<longleftrightarrow> (\<forall>n. entry_name n \<longrightarrow> t (join p n) = None)"

definition put_file :: "'w remote_client \<Rightarrow> string \<Rightarrow> u64 \<Rightarrow> bytes \<Rightarrow> ('w, unit) vio" where
  "put_file client path off d = bind_io (rc_open_write client path off) (\<lambda>wr. then_io (rw_write wr d) (rw_finish wr))"

section \<open>The contract\<close>

locale remote_store =
  fixes client :: "'w remote_client" and tree :: "'w \<Rightarrow> tree" and left :: "'w remote_reader \<Rightarrow> 'w \<Rightarrow> bytes option"
  assumes stat_file: "tree w p = Some (StoredFile bs) \<Longrightarrow> \<exists>e w'. rc_stat client p w = (Inr e, w') \<and>
      re_kind e = KFile \<and> re_size e = of_nat (length bs) \<and> tree w' = tree w"
    and stat_none: "tree w p = None \<Longrightarrow> \<exists>e w'. rc_stat client p w = (Inl e, w') \<and> tree w' = tree w"
    and list_folder: "tree w p = Some StoredDir \<Longrightarrow> \<exists>es w'. rc_list client p w = (Inr es, w') \<and> tree w' = tree w \<and>
      (\<lambda>e. (re_name e, re_path e)) ` set es = {(n, join p n) | n. entry_name n \<and> tree w (join p n) \<noteq> None}"
    and list_none: "tree w p = None \<Longrightarrow> \<exists>e w'. rc_list client p w = (Inl e, w') \<and> tree w' = tree w"
    and mkdir_new: "tree w p = None \<Longrightarrow> tree w (parent p) = Some StoredDir \<Longrightarrow>
      \<exists>w'. rc_mkdir client p w = (Inr (), w') \<and> tree w' = (tree w)(p \<mapsto> StoredDir)"
    and rmdir_empty: "tree w p = Some StoredDir \<Longrightarrow> no_children (tree w) p \<Longrightarrow>
      \<exists>w'. rc_rmdir client p w = (Inr (), w') \<and> tree w' = (tree w)(p := None)"
    and remove_file: "tree w p = Some (StoredFile bs) \<Longrightarrow>
      \<exists>w'. rc_remove client p w = (Inr (), w') \<and> tree w' = (tree w)(p := None)"
    and remove_none: "tree w p = None \<Longrightarrow> \<exists>e w'. rc_remove client p w = (Inl e, w') \<and> tree w' = tree w"
    and rename_file: "tree w p = Some (StoredFile bs) \<Longrightarrow> tree w q = None \<Longrightarrow> tree w (parent q) = Some StoredDir \<Longrightarrow>
      \<exists>w'. rc_rename client p q w = (Inr (), w') \<and> tree w' = (tree w)(p := None, q \<mapsto> StoredFile bs)"
    and touch_new: "tree w p = None \<Longrightarrow> tree w (parent p) = Some StoredDir \<Longrightarrow>
      \<exists>w'. rc_touch client p w = (Inr (), w') \<and> tree w' = (tree w)(p \<mapsto> StoredFile [])"
    and put_new: "tree w p = None \<Longrightarrow> tree w (parent p) = Some StoredDir \<Longrightarrow>
      \<exists>w'. put_file client p 0 d w = (Inr (), w') \<and> tree w' = (tree w)(p \<mapsto> StoredFile d)"
    and put_at: "tree w p = Some (StoredFile bs) \<Longrightarrow> 0 < off \<Longrightarrow> unat off \<le> length bs \<Longrightarrow>
      \<exists>w' rest. put_file client p off d w = (Inr (), w') \<and>
        tree w' = (tree w)(p \<mapsto> StoredFile (take (unat off) bs @ d @ rest)) \<and>
        (rest = [] \<or> rest = drop (unat off + length d) bs)"
    and open_at: "tree w p = Some (StoredFile bs) \<Longrightarrow> unat off \<le> length bs \<Longrightarrow>
      \<exists>rd w'. rc_open_read client p off w = (Inr rd, w') \<and> left rd w' = Some (drop (unat off) bs) \<and> tree w' = tree w"
    and read_some: "left rd w = Some r \<Longrightarrow> 0 < n \<Longrightarrow> \<exists>k w'. rr_read rd n w = (Inr (take k r), w') \<and> k \<le> n \<and>
      (r \<noteq> [] \<longrightarrow> 0 < k) \<and> left rd w' = Some (drop k r) \<and> tree w' = tree w"
    and finish_read: "left rd w = Some [] \<Longrightarrow> \<exists>w'. rr_finish rd w = (Inr (), w') \<and> tree w' = tree w"

end
