(* ===== verification/Sftp_Server.thy ===== *)
theory Sftp_Server
  imports Sftp_Operations Sftp_Samples Remote_Store
begin

text \<open>
  A server that carries out the requests of \<open>Sftp_Operations\<close> on a tree of folders and files, behind a link
  on which every request is answered at once.
\<close>

fun tree_server :: "tree sftp_server" where
  "tree_server (OpMkdir p a) t =
     (if t p = None then (ReStatus fx_ok [], t(p \<mapsto> StoredDir)) else (ReStatus fx_failure ''exists'', t))"
| "tree_server (OpRmdir p) t =
     (if t p = Some StoredDir then (ReStatus fx_ok [], t(p := None)) else (ReStatus fx_no_such_file [], t))"
| "tree_server (OpRemove p) t =
     (case t p of Some (StoredFile _) \<Rightarrow> (ReStatus fx_ok [], t(p := None)) | _ \<Rightarrow> (ReStatus fx_no_such_file [], t))"
| "tree_server (OpRename p q) t =
     (case t p of Some nd \<Rightarrow> if t q = None then (ReStatus fx_ok [], t(p := None, q \<mapsto> nd)) else (ReStatus fx_failure [], t)
      | None \<Rightarrow> (ReStatus fx_no_such_file [], t))"
| "tree_server (OpPosixRename p q) t =
     (case t p of Some nd \<Rightarrow> (ReStatus fx_ok [], t(p := None, q \<mapsto> nd)) | None \<Rightarrow> (ReStatus fx_no_such_file [], t))"
| "tree_server (OpSetstat p a) t = (ReStatus (if t p = None then fx_no_such_file else fx_ok) [], t)"
| "tree_server (OpStat p) t = (case t p of
       None \<Rightarrow> ReStatus fx_no_such_file ''no such file''
     | Some StoredDir \<Rightarrow> ReAttrs (default_attrs\<lparr>at_permissions := Some s_ifdir\<rparr>)
     | Some (StoredFile bs) \<Rightarrow> ReAttrs (default_attrs\<lparr>at_size := Some (of_nat (length bs)), at_permissions := Some s_ifreg\<rparr>), t)"
| "tree_server (OpReadlink p) t = (ReStatus fx_no_such_file [], t)"
| "tree_server (OpRealpath p) t = (if short_text p then ReName p else ReStatus fx_failure [], t)"
| "tree_server (OpOpen p flags a) t =
     (if t p = None then (ReHandle [1], t(p \<mapsto> StoredFile [])) else (ReStatus fx_failure [], t))"
| "tree_server (OpClose h) t = (ReStatus fx_ok [], t)"

fun encode_reply :: "sftp_reply \<Rightarrow> response" where
  "encode_reply (ReStatus code message) =
     \<lparr>rs_type = fxp_status, rs_id = 0, rs_payload = put_string std_codec message (put_u32 std_codec code [])\<rparr>"
| "encode_reply (ReAttrs a) = \<lparr>rs_type = fxp_attrs, rs_id = 0, rs_payload = attrs_encode std_codec a []\<rparr>"
| "encode_reply (ReName n) =
     \<lparr>rs_type = fxp_name, rs_id = 0, rs_payload = put_string std_codec n (put_u32 std_codec 1 [])\<rparr>"
| "encode_reply (ReHandle h) = \<lparr>rs_type = fxp_handle, rs_id = 0, rs_payload = put_bytes std_codec h []\<rparr>"

record op_world = sftp_world +
  ow_tree :: tree

definition op_env :: "op_world sftp_env" where
  "op_env = \<lparr>se_codec = std_codec,
     se_run = (\<lambda>ch w. case request_of std_codec (last (sl_outbox w)) of
        None \<Rightarrow> w
      | Some (key, op) \<Rightarrow> (case tree_server op (ow_tree w) of (reply, t) \<Rightarrow>
          w\<lparr>sl_waiters := (sl_waiters w)[ch := WAnswered (Inr (encode_reply reply))], ow_tree := t\<rparr>)),
     se_extensions = [], se_hex = bytes_text\<rparr>"

lemma tree_server_fits: "fits op (fst (tree_server op t))"
  by (cases op) (auto simp: sftp_consts split: option.splits node.splits)

lemma tree_server_short:
  "fst (tree_server op t) = ReStatus code message \<Longrightarrow> short_text message"
  "fst (tree_server op t) = ReName n \<Longrightarrow> short_text n"
  by (cases op; auto simp: short_text_def split: option.splits node.splits if_splits)+

lemma encode_says: "says std_codec (encode_reply (fst (tree_server op t))) (fst (tree_server op t))"
  using tree_server_short [of op t]
  by (cases "fst (tree_server op t)") auto

lemma link_send_more: "link_send key packet w = (r, w') \<Longrightarrow> sftp_link.more w' = sftp_link.more w"
  by (auto simp: link_send_def link_register_def take_pending_def resolve_waiter_def Let_def
      split: if_splits option.splits)

lemma op_world_tree: "sftp_link.more w' = sftp_link.more w \<Longrightarrow> ow_tree w' = ow_tree w"
  by (cases w, cases w') simp

lemma op_env_serves: "serves_ops op_env tree_server ow_tree"
proof -
  have call: "says std_codec r (fst (tree_server op (ow_tree w))) \<and> ow_tree w' = snd (tree_server op (ow_tree w))"
    if "request_of std_codec packet = Some (key, op)" "sftp_call op_env key packet w = Some (Inr r, w')" for key packet w r w' op
  proof -
    from that(2) obtain ch w1 where s: "link_send key packet w = (Inr ch, w1)" "await_reply op_env ch w1 = Some (Inr r, w')"
      by (auto simp: sftp_call_def bind_wio_def once_def split: prod.splits sum.splits)
    note sent = link_send_success [OF s(1)]
    have "ow_tree w1 = ow_tree w" by (rule op_world_tree [OF link_send_more [OF s(1)]])
    with s(2) sent that(1) show ?thesis
      using encode_says [of op "ow_tree w"]
      by (auto simp: await_reply_def op_env_def Let_def split: prod.splits)
  qed
  have "ow_tree (snd (link_next_id w)) = ow_tree w" for w :: op_world
    by (simp add: link_next_id_def)
  with call show ?thesis
    unfolding serves_ops_def by (auto simp: op_env_def std.big_endian_axioms tree_server_fits)
qed

definition op_start :: op_world where
  "op_start = sftp_link.extend new_link
     \<lparr>sw_home = None, sw_hook = True, sw_log = [], ow_tree = [''/a'' \<mapsto> StoredFile [1, 2]]\<rparr>"

lemma op_env_answers:
  assumes "asks std_codec ty build op" "sl_alive w" "sl_writing w" "sl_pending w = []"
  shows "\<exists>resp w'. sftp_request op_env ty build w = Some (Inr resp, w')"
proof -
  have "request_of std_codec (packet_build (build (packet_new std_codec ty key))) = Some (key, op)" for key
    by (rule std.request_of_built [OF assms(1)])
  then show ?thesis
    using assms(2-4)
    by (cases "tree_server op (ow_tree w)")
      (simp add: sftp_request_def sftp_next_id_def link_next_id_def sftp_call_def link_send_def link_register_def
        take_pending_def await_reply_def op_env_def bind_wio_def once_def Let_def)
qed

theorem sftp_operations_refine_witness:
  "\<exists>w'. sftp_mkdir op_env ''/d'' op_start = Some (Inr (), w') \<and> ow_tree w' = [''/a'' \<mapsto> StoredFile [1, 2], ''/d'' \<mapsto> StoredDir]"
proof -
  have p: "short_text ''/d''" by (simp add: short_text_def)
  have c: "se_codec op_env = std_codec" by (simp add: op_env_def)
  have asks: "asks std_codec fxp_mkdir (put_attrs std_codec default_attrs \<circ> put_string std_codec ''/d'')
      (OpMkdir ''/d'' (paired_attrs default_attrs))" by (rule std.asks_ops(1) [OF p p])
  have start: "sl_alive op_start" "sl_writing op_start" "sl_pending op_start = []"
    "ow_tree op_start = [''/a'' \<mapsto> StoredFile [1, 2]]"
    by (simp_all add: op_start_def new_link_def sftp_link.defs)
  obtain resp w' where run: "sftp_request op_env fxp_mkdir
      (put_attrs std_codec default_attrs \<circ> put_string std_codec ''/d'') op_start = Some (Inr resp, w')"
    using op_env_answers [OF asks start(1-3)] by blast
  from request_step [OF op_env_serves _ run, of "OpMkdir ''/d'' (paired_attrs default_attrs)"] asks
  have says: "says std_codec resp (ReStatus fx_ok [])" by (simp add: c start(4))
  have "response_status std_codec resp = Inr ()"
    by (simp add: std.read_status [OF says] status_to_result_def)
  with run have m: "sftp_mkdir op_env ''/d'' op_start = Some (Inr (), w')"
    by (simp add: sftp_mkdir_def status_request_def c bind_wio_def wio_result_def once_def)
  have "refines op_env ow_tree (sftp_mkdir op_env ''/d'') (ask reply_status tree_server (OpMkdir ''/d'' default_attrs))"
    by (rule sftp_operations_refine [OF op_env_serves p p, THEN conjunct1])
  with m have "ask reply_status tree_server (OpMkdir ''/d'' default_attrs) (ow_tree op_start) = (Inr (), ow_tree w')"
    unfolding refines_def by fastforce
  with m show ?thesis by (simp add: ask_def start(4))
qed

end
