(* ===== verification/Ftp_Parser.thy ===== *)
theory Ftp_Parser
  imports Protocol_Types Remote_Paths Utf8
begin

text \<open>
  \<open>src-tauri/src/protocol/ftp/parser.rs\<close>: directory listings of FTP servers, as MLSD facts, Unix \<open>ls\<close>
  lines and DOS lines.  Slicing a string inside a character panics; \<open>'a ran\<close> keeps that outcome.
  The calendar is the \<open>chrono\<close> crate's and an argument, with the current date in it.
\<close>

definition is_char_boundary :: "string \<Rightarrow> nat \<Rightarrow> bool" where
  "is_char_boundary s k \<longleftrightarrow> k = 0 \<or> k = length s \<or> (k < length s \<and> \<not> is_cont (of_char (s ! k)))"

text \<open>\<open>&s[a..b]\<close>.\<close>

definition str_slice :: "nat \<Rightarrow> nat \<Rightarrow> string \<Rightarrow> string ran" where
  "str_slice a b s = (if a \<le> b \<and> is_char_boundary s a \<and> is_char_boundary s b
     then Returned (take (b - a) (drop a s)) else Panicked)"

text \<open>The date exists; the seconds since 1970 of a date and time that exist; the date is more than a
  day ahead; the current year.\<close>

record calendar =
  cal_date :: "int \<Rightarrow> nat \<Rightarrow> nat \<Rightarrow> bool"
  cal_seconds :: "int \<Rightarrow> nat \<Rightarrow> nat \<Rightarrow> nat \<Rightarrow> nat \<Rightarrow> nat \<Rightarrow> int option"
  cal_ahead :: "int \<Rightarrow> nat \<Rightarrow> nat \<Rightarrow> bool"
  cal_year :: int

section \<open>MLSD\<close>

definition slice_u32 :: "nat \<Rightarrow> nat \<Rightarrow> string \<Rightarrow> nat option ran" where
  "slice_u32 a b s = (case str_slice a b s of Panicked \<Rightarrow> Panicked | Returned t \<Rightarrow> Returned (parse_u32 t))"

definition slice_i32 :: "nat \<Rightarrow> nat \<Rightarrow> string \<Rightarrow> int option ran" where
  "slice_i32 a b s = (case str_slice a b s of Panicked \<Rightarrow> Panicked | Returned t \<Rightarrow> Returned (parse_i32 t))"

definition parse_mlsd_time :: "calendar \<Rightarrow> string \<Rightarrow> int option ran" where
  "parse_mlsd_time cal value =
     (let digits = hd (split_char CHR ''.'' value)
      in if length digits < 14 then Returned None
         else bind_ran (slice_i32 0 4 digits) (\<lambda>year.
           bind_ran (slice_u32 4 6 digits) (\<lambda>month.
           bind_ran (slice_u32 6 8 digits) (\<lambda>day.
           if \<not> cal_date cal year month day then Returned None
           else bind_ran (slice_u32 8 10 digits) (\<lambda>hour.
             bind_ran (slice_u32 10 12 digits) (\<lambda>minute.
             bind_ran (slice_u32 12 14 digits) (\<lambda>second.
             Returned (cal_seconds cal year month day hour minute second))))))))"

text \<open>One fact of an entry; \<open>None\<close> gives the entry up.\<close>

definition mlsd_fact :: "calendar \<Rightarrow> string \<Rightarrow> string \<Rightarrow> remote_entry \<Rightarrow> remote_entry option ran" where
  "mlsd_fact cal key value e =
     (if key = ''type'' then
        let lower = to_ascii_lowercase value
        in if lower = ''dir'' then Returned (Some (e\<lparr>re_kind := KDir\<rparr>))
           else if lower = ''cdir'' \<or> lower = ''pdir'' then Returned None
           else if lower = ''file'' then Returned (Some (e\<lparr>re_kind := KFile\<rparr>))
           else if starts_with lower ''os.unix=symlink'' \<or> starts_with lower ''os.unix=slink'' then
             Returned (Some (e\<lparr>re_kind := KSymlink, re_link_target := map_option snd (split_once CHR '':'' value)\<rparr>))
           else Returned (Some (e\<lparr>re_kind := KOther\<rparr>))
      else if key = ''size'' \<or> key = ''sizd'' then
        Returned (Some (e\<lparr>re_size := (case parse_u64 value of Some n \<Rightarrow> of_nat n | None \<Rightarrow> 0)\<rparr>))
      else if key = ''modify'' then (case parse_mlsd_time cal value of
          Panicked \<Rightarrow> Panicked | Returned t \<Rightarrow> Returned (Some (e\<lparr>re_mtime := t\<rparr>)))
      else if key = ''unix.mode'' then Returned (Some (e\<lparr>re_permissions :=
          map_option (\<lambda>m. and (of_nat m) 4095) (parse_radix 8 (2 ^ 32) value)\<rparr>))
      else if key = ''unix.owner'' \<or> (key = ''unix.uid'' \<and> re_owner e = None) then
        Returned (Some (e\<lparr>re_owner := Some value\<rparr>))
      else if key = ''unix.group'' \<or> (key = ''unix.gid'' \<and> re_group e = None) then
        Returned (Some (e\<lparr>re_group := Some value\<rparr>))
      else Returned (Some e))"

fun mlsd_facts :: "calendar \<Rightarrow> string list \<Rightarrow> remote_entry \<Rightarrow> remote_entry option ran" where
  "mlsd_facts cal [] e = Returned (Some e)"
| "mlsd_facts cal (f # fs) e = (case split_once CHR ''='' f of
      None \<Rightarrow> mlsd_facts cal fs e
    | Some (key, value) \<Rightarrow>
        bind_ran (mlsd_fact cal (to_ascii_lowercase key) value e) (mlsd_facts cal fs))"

definition parse_mlsd_line :: "calendar \<Rightarrow> string \<Rightarrow> string \<Rightarrow> remote_entry option ran" where
  "parse_mlsd_line cal dir line = (case split_once CHR '' '' line of
      None \<Rightarrow> Returned None
    | Some (facts, name) \<Rightarrow>
        let name = trim_end_chars [CHR 0x0D, CHR 0x0A] name
        in if name = [] \<or> name = ''.'' \<or> name = ''..'' then Returned None
           else mlsd_facts cal (split_char CHR '';'' facts)
             ((plain_entry (join dir name) KFile 0 None)\<lparr>re_name := name\<rparr>))"

section \<open>Unix listings\<close>

definition months :: "string list" where
  "months = [''jan'', ''feb'', ''mar'', ''apr'', ''may'', ''jun'', ''jul'', ''aug'', ''sep'', ''oct'', ''nov'', ''dec'']"

text \<open>The rest of a line behind its token number \<open>index\<close> and one blank.\<close>

function remainder_from :: "nat \<Rightarrow> nat \<Rightarrow> bool \<Rightarrow> string \<Rightarrow> string option" where
  "remainder_from index seen in_token s = (case s of
      [] \<Rightarrow> None
    | c # r \<Rightarrow>
        if ws_len s = 0 then remainder_from index seen True r
        else if in_token \<and> seen = index then
          Some (case strip_prefix '' '' s of Some t \<Rightarrow> t | None \<Rightarrow> s)
        else remainder_from index (if in_token then Suc seen else seen) False (drop (ws_len s) s))"
  by pat_completeness auto
termination
  by (relation "measure (\<lambda>(index, seen, in_token, s). length s)") auto

declare remainder_from.simps [simp del]

definition remainder_after_token :: "string \<Rightarrow> nat \<Rightarrow> string option" where
  "remainder_after_token line index = remainder_from index 0 False line"

definition permission_bits :: "(nat \<times> u32) list" where
  "permission_bits = [(1, 256), (2, 128), (3, 64), (4, 32), (5, 16), (6, 8), (7, 4), (8, 2), (9, 1)]"

definition parse_permission_string :: "string \<Rightarrow> u32 option" where
  "parse_permission_string text =
     (if length text < 10 then None
      else
        let mode = fold (\<lambda>(k, bit) m. if text ! k \<in> {CHR ''-'', CHR ''S'', CHR ''T''} then m else or m bit)
              permission_bits 0;
            mode = (if text ! 3 \<in> {CHR ''s'', CHR ''S''} then or mode 2048 else mode);
            mode = (if text ! 6 \<in> {CHR ''s'', CHR ''S''} then or mode 1024 else mode)
        in Some (if text ! 9 \<in> {CHR ''t'', CHR ''T''} then or mode 512 else mode))"

definition parse_unix_date :: "calendar \<Rightarrow> string \<Rightarrow> string \<Rightarrow> string \<Rightarrow> int option" where
  "parse_unix_date cal month day time_or_year =
     (case position (\<lambda>m. eq_ignore_ascii_case m month) months of None \<Rightarrow> None | Some k \<Rightarrow>
      (case parse_u32 day of None \<Rightarrow> None | Some day \<Rightarrow>
       let month = Suc k;
           fields = (case split_once CHR '':'' time_or_year of
               Some (h, m) \<Rightarrow>
                 let year = cal_year cal;
                     year = (if cal_date cal year month day \<and> cal_ahead cal year month day then year - 1 else year)
                 in (case (parse_u32 h, parse_u32 m) of (Some h, Some m) \<Rightarrow> Some (year, h, m) | _ \<Rightarrow> None)
             | None \<Rightarrow> map_option (\<lambda>year. (year, 0, 0)) (parse_i32 time_or_year))
       in (case fields of None \<Rightarrow> None
           | Some (year, hour, minute) \<Rightarrow>
               if cal_date cal year month day then cal_seconds cal year month day hour minute 0 else None)))"

definition month_at :: "string list \<Rightarrow> nat \<Rightarrow> bool" where
  "month_at tokens k \<longleftrightarrow> to_ascii_lowercase (tokens ! k) \<in> set months \<and>
     parse_u32 (tokens ! (k + 1)) \<noteq> None \<and>
     (CHR '':'' \<in> set (tokens ! (k + 2)) \<or> length (tokens ! (k + 2)) = 4)"

definition parse_unix_line :: "calendar \<Rightarrow> string \<Rightarrow> string \<Rightarrow> remote_entry option" where
  "parse_unix_line cal dir line = (case line of [] \<Rightarrow> None | type_char # _ \<Rightarrow>
     if type_char \<notin> set ''-dlcbps'' then None
     else let tokens = split_whitespace line
     in if length tokens < 7 then None
        else (case find (month_at tokens) [3..<length tokens - 2] of None \<Rightarrow> None | Some k \<Rightarrow>
          let sz = (case parse_u64 (tokens ! (k - 1)) of Some n \<Rightarrow> of_nat n | None \<Rightarrow> 0);
              (owner, grp) = (if 5 \<le> k then (Some (tokens ! (k - 3)), Some (tokens ! (k - 2)))
                else if k = 4 then (Some (tokens ! 2), None) else (None, None));
              mtime = parse_unix_date cal (tokens ! k) (tokens ! (k + 1)) (tokens ! (k + 2))
          in (case remainder_after_token line (k + 2) of None \<Rightarrow> None | Some name_part \<Rightarrow>
            let (name, link_target) = (if type_char = CHR ''l'' then
                  (case split_once_str '' -> '' name_part of
                      Some (name, target) \<Rightarrow> (name, Some target) | None \<Rightarrow> (name_part, None))
                  else (name_part, None))
            in if name = [] \<or> name = ''.'' \<or> name = ''..'' then None
               else Some \<lparr>re_name = name, re_path = join dir name,
                  re_kind = (if type_char = CHR ''d'' then KDir else if type_char = CHR ''l'' then KSymlink
                    else if type_char = CHR ''-'' then KFile else KOther),
                  re_size = sz, re_mtime = mtime,
                  re_permissions = parse_permission_string (hd tokens), re_owner = owner, re_group = grp,
                  re_link_target = link_target, re_link_broken = False, re_target_is_dir = None\<rparr>)))"

section \<open>DOS listings\<close>

definition parse_dos_line :: "calendar \<Rightarrow> string \<Rightarrow> string \<Rightarrow> remote_entry option" where
  "parse_dos_line cal dir line =
     (let tokens = split_whitespace line in
      if length tokens < 4 then None
      else (case split_char CHR ''-'' (tokens ! 0) of
        [p0, p1, p2] \<Rightarrow>
          (case (parse_u32 p0, parse_u32 p1, parse_i32 p2) of
             (Some month, Some day, Some year) \<Rightarrow>
               let year = (if year < 100 then year + (if year < 70 then 2000 else 1900) else year);
                   time = tokens ! 1;
                   (clock, pm) = (case strip_suffix ''PM'' time of Some t \<Rightarrow> (t, Some True)
                     | None \<Rightarrow> (case strip_suffix ''AM'' time of Some t \<Rightarrow> (t, Some False) | None \<Rightarrow> (time, None)))
               in (case split_once CHR '':'' clock of None \<Rightarrow> None | Some (h, m) \<Rightarrow>
                 (case (parse_u32 h, parse_u32 m) of
                    (Some hour, Some minute) \<Rightarrow>
                      let hour = (if pm = Some True \<and> hour < 12 then hour + 12
                            else if pm = Some False \<and> hour = 12 then 0 else hour)
                      in if \<not> cal_date cal year month day then None
                         else let mtime = cal_seconds cal year month day hour minute 0
                         in (case (if eq_ignore_ascii_case (tokens ! 2) ''<DIR>'' then Some (KDir, 0)
                               else map_option (\<lambda>n. (KFile, of_nat n)) (parse_u64 (tokens ! 2))) of
                              None \<Rightarrow> None
                            | Some (kind, sz) \<Rightarrow>
                                (case remainder_after_token line 2 of None \<Rightarrow> None
                                 | Some rest \<Rightarrow> let name = trim rest
                                     in if name = [] \<or> name = ''.'' \<or> name = ''..'' then None
                                        else Some ((plain_entry (join dir name) kind sz mtime)\<lparr>re_name := name\<rparr>)))
                  | _ \<Rightarrow> None))
           | _ \<Rightarrow> None)
      | _ \<Rightarrow> None))"

definition parse_list_line :: "calendar \<Rightarrow> string \<Rightarrow> string \<Rightarrow> remote_entry option" where
  "parse_list_line cal dir line =
     (let line = trim_end_chars [CHR 0x0D, CHR 0x0A] line
      in if line = [] \<or> starts_with line ''total '' then None
         else case parse_unix_line cal dir line of Some e \<Rightarrow> Some e | None \<Rightarrow> parse_dos_line cal dir line)"

text \<open>A calendar for concrete cases: every month has 31 days.\<close>

definition plain_calendar :: calendar where
  "plain_calendar = \<lparr>cal_date = (\<lambda>y m d. 1 \<le> m \<and> m \<le> 12 \<and> 1 \<le> d \<and> d \<le> 31),
     cal_seconds = (\<lambda>y m d h mi s. if h < 24 \<and> mi < 60 \<and> s < 60 then Some (y * 32140800) else None),
     cal_ahead = (\<lambda>y m d. False), cal_year = 2024\<rparr>"

end
