(* ===== verification/Ftp_Control.thy ===== *)
theory Ftp_Control
  imports Ftp_Parser Sessions
begin

text \<open>
  The control channel of \<open>src-tauri/src/protocol/ftp/client.rs\<close>: replies, features, encodings,
  passive addresses and connecting.  The lines a server sends until it closes the connection are the
  script \<open>fw_input\<close>, so that a theorem about all scripts is about every server; the commands sent are
  \<open>fw_sent\<close>.  Sockets, TLS and the legacy encodings are the fields of \<open>ftp_net\<close> and \<open>encodings\<close>.
\<close>

section \<open>The connection\<close>

datatype line_event = LineBytes bytes | LineFailed io_error | LineTimeout

datatype data_event = DataChunk bytes | DataFailed io_error

datatype ip_addr = V4 u8 u8 u8 u8 | V6 "128 word"

record socket_addr =
  sa_ip :: ip_addr
  sa_port :: u16

record ftp_world =
  fw_input :: "line_event list"
  fw_sent :: "bytes list"
  fw_write_errors :: "io_error option list"
  fw_encoding :: encoding_mode
  fw_log :: "log_line list"
  fw_home :: "string option"
  fw_busy :: bool
  fw_streams :: "data_event list list"
  fw_incoming :: "data_event list"
  fw_outgoing :: bytes
  fw_data_errors :: "io_error option list"
  fw_data_open :: bool
  fw_eof :: bool

type_synonym 'z fworld = "'z ftp_world_scheme"

text \<open>\<open>encoding_rs\<close>: the encoding for a label, and its conversions; the WINDOWS-1252 decoder.\<close>

record encodings =
  en_label :: "string \<Rightarrow> nat option"
  en_encode :: "nat \<Rightarrow> string \<Rightarrow> bytes"
  en_decode :: "nat \<Rightarrow> bytes \<Rightarrow> string"
  en_windows_1252 :: "bytes \<Rightarrow> string"

text \<open>
  Sockets, TLS and the lock of the connection.  \<open>fn_wait_free\<close> is what happens until the lock is free,
  \<open>fn_free_soon\<close> whether that takes less than two seconds; \<open>fn_accept\<close> is \<open>None\<close> when nobody
  connected in time.
\<close>

datatype tcp_outcome = TcpOpen | TcpRefused string | TcpTimeout

text \<open>\<open>TlsRejected\<close> carries the certificate the verifier left behind.\<close>

datatype tls_outcome = TlsOpen | TlsBadName | TlsFailed string | TlsRejected verror

record 'w ftp_net =
  fn_resolve :: "string \<Rightarrow> u16 \<Rightarrow> string + socket_addr list"
  fn_connect :: "socket_addr \<Rightarrow> 'w \<Rightarrow> tcp_outcome"
  fn_endpoints :: "'w \<Rightarrow> io_error + socket_addr \<times> socket_addr"
  fn_verifier_error :: "string option"
  fn_tls :: "'w \<Rightarrow> tls_outcome"
  fn_show_v6 :: "128 word \<Rightarrow> string"
  fn_listen :: "ip_addr \<Rightarrow> 'w \<Rightarrow> io_error + socket_addr"
  fn_accept :: "'w \<Rightarrow> (io_error + socket_addr) option"
  fn_pasv_captures :: "string \<Rightarrow> string list option"
  fn_listing_stalls :: "'w \<Rightarrow> bool"
  fn_wait_free :: "'w \<Rightarrow> 'w"
  fn_free_soon :: "'w \<Rightarrow> bool"
  fn_quit_answered :: "'w \<Rightarrow> bool"
  fn_encodings :: encodings
  fn_calendar :: calendar

section \<open>Encodings\<close>

definition encoder :: "encodings \<Rightarrow> encoding_mode \<Rightarrow> nat option" where
  "encoder en mode = (case mode of EncCustom label \<Rightarrow> en_label en label | _ \<Rightarrow> None)"

definition encode_text :: "encodings \<Rightarrow> encoding_mode \<Rightarrow> string \<Rightarrow> bytes" where
  "encode_text en mode text = (case encoder en mode of Some e \<Rightarrow> en_encode en e text | None \<Rightarrow> as_bytes text)"

definition decode_text :: "encodings \<Rightarrow> encoding_mode \<Rightarrow> bytes \<Rightarrow> string" where
  "decode_text en mode bs = (case mode of
      EncUtf8 \<Rightarrow> from_utf8_lossy (bytes_text bs)
    | EncAuto \<Rightarrow> if utf8_valid (bytes_text bs) then bytes_text bs else en_windows_1252 en bs
    | EncCustom _ \<Rightarrow> (case encoder en mode of
          Some e \<Rightarrow> en_decode en e bs | None \<Rightarrow> from_utf8_lossy (bytes_text bs)))"

section \<open>Replies\<close>

record reply =
  rp_code :: nat
  rp_text :: string

definition is_positive :: "reply \<Rightarrow> bool" where
  "is_positive r \<longleftrightarrow> rp_code r < 400"

definition is_transfer_start :: "reply \<Rightarrow> bool" where
  "is_transfer_start r \<longleftrightarrow> rp_code r = 125 \<or> rp_code r = 150"

definition reply_error :: "reply \<Rightarrow> verror" where
  "reply_error r =
     (let lower = to_ascii_lowercase (rp_text r);
          denied = list_ex (contains_str lower) [''permission'', ''denied'', ''not allowed'']
      in if rp_code r = 530 \<or> rp_code r = 332 then AuthFailed (rp_text r)
         else if (rp_code r = 550 \<or> rp_code r = 553) \<and> denied then PermissionDenied (rp_text r)
         else if rp_code r = 550 then NotFound (rp_text r)
         else if rp_code r = 421 then ConnectionLost (rp_text r)
         else if rp_code r = 500 \<or> rp_code r = 502 then Unsupported (rp_text r)
         else Protocol (show_nat (rp_code r) @ '' '' @ rp_text r))"

definition reply_ok :: "reply \<Rightarrow> reply vresult" where
  "reply_ok r = (if is_positive r then Inr r else Inl (reply_error r))"

definition is_ascii_digit :: "char \<Rightarrow> bool" where
  "is_ascii_digit c \<longleftrightarrow> 48 \<le> (of_char c :: nat) \<and> (of_char c :: nat) \<le> 57"

definition parse_reply_code :: "string \<Rightarrow> nat option" where
  "parse_reply_code line =
     (if 3 \<le> length line \<and> list_all is_ascii_digit (take 3 line)
      then parse_u16 (take 3 line) else None)"

definition ftp_log :: "log_line \<Rightarrow> 'z fworld \<Rightarrow> 'z fworld" where
  "ftp_log line w = w\<lparr>fw_log := fw_log w @ [line]\<rparr>"

definition ftp_read_line :: "'z fworld ftp_net \<Rightarrow> ('z fworld, string) vio" where
  "ftp_read_line net w = (case fw_input w of
      [] \<Rightarrow> (Inl (ConnectionLost ''connection closed by server''), w)
    | ev # rest \<Rightarrow> let w1 = w\<lparr>fw_input := rest\<rparr> in (case ev of
          LineTimeout \<Rightarrow> (Inl (Timeout ''server did not reply''), w1)
        | LineFailed e \<Rightarrow> (Inl (from_io_error e), w1)
        | LineBytes bs \<Rightarrow>
            if bs = [] then (Inl (ConnectionLost ''connection closed by server''), w1)
            else let line = trim_end_chars [CHR 0x0D, CHR 0x0A] (decode_text (fn_encodings net) (fw_encoding w1) bs)
                 in (Inr line, ftp_log (LogResponse line) w1)))"

lemma ftp_read_line_shorter:
  "ftp_read_line net w = (Inr line, w') \<Longrightarrow> length (fw_input w') < length (fw_input w)"
  by (auto simp: ftp_read_line_def ftp_log_def Let_def split: list.splits line_event.splits if_splits)

definition line_mark :: "string \<Rightarrow> char \<Rightarrow> bool" where
  "line_mark line c \<longleftrightarrow> 3 < length line \<and> line ! 3 = c"

text \<open>The lines after the first of a multi-line reply, up to the one with the same code and a blank.\<close>

function reply_lines :: "'z fworld ftp_net \<Rightarrow> nat \<Rightarrow> string list \<Rightarrow> ('z fworld, string list) vio" where
  "reply_lines net code acc w = (case ftp_read_line net w of
      (Inl e, w1) \<Rightarrow> (Inl e, w1)
    | (Inr line, w1) \<Rightarrow>
        if parse_reply_code line = Some code \<and> line_mark line CHR '' ''
        then (Inr (acc @ [drop 4 line]), w1)
        else reply_lines net code (acc @ [line]) w1)"
  by pat_completeness auto
termination
  by (relation "measure (\<lambda>(net, code, acc, w). length (fw_input w))") (auto dest: ftp_read_line_shorter [OF sym])

declare reply_lines.simps [simp del]

text \<open>\<open>first.get(4..).unwrap_or("")\<close>.\<close>

definition text_behind_code :: "string \<Rightarrow> string" where
  "text_behind_code s = (if 4 \<le> length s \<and> is_char_boundary s 4 then drop 4 s else [])"

definition read_reply :: "'z fworld ftp_net \<Rightarrow> ('z fworld, reply) vio" where
  "read_reply net = bind_io (ftp_read_line net) (\<lambda>first. case parse_reply_code first of
      None \<Rightarrow> err_io (Protocol (''invalid reply: '' @ first))
    | Some code \<Rightarrow>
        if \<not> line_mark first CHR ''-'' then ok_io \<lparr>rp_code = code, rp_text = text_behind_code first\<rparr>
        else bind_io (reply_lines net code [drop 4 first]) (\<lambda>lines.
          ok_io \<lparr>rp_code = code, rp_text = join_with [CHR 0x0A] lines\<rparr>))"

text \<open>Writing a line and flushing: the next scripted outcome, success when the script is empty.\<close>

definition ftp_write_line :: "bytes \<Rightarrow> ('z fworld, unit) vio" where
  "ftp_write_line line w = (case fw_write_errors w of
      Some e # rest \<Rightarrow> (Inl (from_io_error e), w\<lparr>fw_write_errors := rest\<rparr>)
    | None # rest \<Rightarrow> (Inr (), w\<lparr>fw_write_errors := rest, fw_sent := fw_sent w @ [line]\<rparr>)
    | [] \<Rightarrow> (Inr (), w\<lparr>fw_sent := fw_sent w @ [line]\<rparr>))"

definition ftp_send :: "'z fworld ftp_net \<Rightarrow> string \<Rightarrow> string \<Rightarrow> ('z fworld, reply) vio" where
  "ftp_send net command shown = (\<lambda>w.
     let w1 = ftp_log (LogCommand shown) w;
         line = encode_text (fn_encodings net) (fw_encoding w1) command @ as_bytes [CHR 0x0D, CHR 0x0A]
     in bind_io (ftp_write_line line) (\<lambda>_. read_reply net) w1)"

definition ftp_command :: "'z fworld ftp_net \<Rightarrow> string \<Rightarrow> ('z fworld, reply) vio" where
  "ftp_command net command = ftp_send net command command"

definition expect_ok :: "'z fworld ftp_net \<Rightarrow> string \<Rightarrow> ('z fworld, reply) vio" where
  "expect_ok net command = bind_io (ftp_command net command) (\<lambda>r. lift_io (reply_ok r))"

section \<open>Features\<close>

record features =
  ft_mlsd :: bool
  ft_utf8 :: bool
  ft_epsv :: bool
  ft_eprt :: bool
  ft_size :: bool
  ft_mdtm :: bool
  ft_hash :: "string list"
  ft_xhash :: "string list"

definition no_features :: features where
  "no_features = \<lparr>ft_mlsd = False, ft_utf8 = False, ft_epsv = False, ft_eprt = False,
     ft_size = False, ft_mdtm = False, ft_hash = [], ft_xhash = []\<rparr>"

definition hash_names :: "string \<Rightarrow> string list" where
  "hash_names text = filter (\<lambda>s. s \<noteq> []) (map (\<lambda>s. trim_end_chars [CHR ''*''] (trim s)) (split_char CHR '';'' text))"

definition feature_line :: "string \<Rightarrow> features \<Rightarrow> features" where
  "feature_line line ft =
     (let u = to_ascii_uppercase (trim line)
      in if starts_with u ''MLSD'' \<or> starts_with u ''MLST'' then ft\<lparr>ft_mlsd := True\<rparr>
         else if u = ''UTF8'' then ft\<lparr>ft_utf8 := True\<rparr>
         else if u = ''EPSV'' then ft\<lparr>ft_epsv := True\<rparr>
         else if u = ''EPRT'' then ft\<lparr>ft_eprt := True\<rparr>
         else if u = ''SIZE'' then ft\<lparr>ft_size := True\<rparr>
         else if u = ''MDTM'' then ft\<lparr>ft_mdtm := True\<rparr>
         else if u \<in> {''XSHA256'', ''XSHA1'', ''XMD5'', ''XSHA512''} then ft\<lparr>ft_xhash := ft_xhash ft @ [u]\<rparr>
         else if starts_with u ''HASH'' then ft\<lparr>ft_hash := hash_names (drop 4 u)\<rparr>
         else ft)"

definition parse_features :: "string \<Rightarrow> features" where
  "parse_features text = fold feature_line (str_lines text) no_features"

section \<open>Passive addresses\<close>

definition is_unroutable :: "ip_addr \<Rightarrow> bool" where
  "is_unroutable ip = (case ip of
      V4 a b c d \<Rightarrow> a = 10 \<or> (a = 172 \<and> 16 \<le> b \<and> b \<le> 31) \<or> (a = 192 \<and> b = 168) \<or> a = 127
        \<or> (a = 0 \<and> b = 0 \<and> c = 0 \<and> d = 0) \<or> (a = 169 \<and> b = 254)
    | V6 n \<Rightarrow> n = 1 \<or> n = 0)"

definition parse_epsv :: "string \<Rightarrow> u16 option" where
  "parse_epsv text = (case find_str ''(|||'' text of None \<Rightarrow> None
     | Some start \<Rightarrow> let rest = drop (start + 4) text
         in (case find_char CHR ''|'' rest of None \<Rightarrow> None
             | Some e \<Rightarrow> map_option of_nat (parse_u16 (take e rest))))"

text \<open>\<open>captures\<close> are the six numbers of the pattern \<open>(\d+),(\d+),(\d+),(\d+),(\d+),(\d+)\<close> as the \<open>regex\<close>
  crate finds them.\<close>

definition parse_pasv :: "string list option \<Rightarrow> (ip_addr \<times> u16) option" where
  "parse_pasv captures = (case captures of
      Some [a, b, c, d, hi, lo] \<Rightarrow>
        (case map parse_u16 [a, b, c, d, hi, lo] of
           [Some a, Some b, Some c, Some d, Some hi, Some lo] \<Rightarrow>
             Some (V4 (of_nat a) (of_nat b) (of_nat c) (of_nat d), or (push_bit 8 (of_nat hi)) (of_nat lo))
         | _ \<Rightarrow> None)
    | _ \<Rightarrow> None)"

text \<open>The characters up to a closing quote, a doubled quote standing for one.\<close>

fun unquote :: "string \<Rightarrow> string" where
  "unquote [] = []"
| "unquote (c # s) =
     (if c \<noteq> CHR 0x22 then c # unquote s
      else (case s of [] \<Rightarrow> [] | d # s' \<Rightarrow> if d = CHR 0x22 then CHR 0x22 # unquote s' else []))"

definition parse_pwd :: "string \<Rightarrow> string option" where
  "parse_pwd text = map_option (\<lambda>start. unquote (drop (start + 1) text)) (find_char CHR 0x22 text)"

section \<open>Connecting\<close>

definition min_timeout_secs :: u64 where
  "min_timeout_secs = 5"

definition option_timeout :: "ftp_options \<Rightarrow> u64" where
  "option_timeout o1 = max (fo_timeout_secs o1) min_timeout_secs"

definition anonymous_user :: string where
  "anonymous_user = ''anonymous''"

definition anonymous_password :: string where
  "anonymous_password = ''vaultra@''"

definition tls_wrap :: "'z fworld ftp_net \<Rightarrow> string \<Rightarrow> ('z fworld, unit) vio" where
  "tls_wrap net host = (\<lambda>w. (case fn_tls net w of
      TlsOpen \<Rightarrow> Inr ()
    | TlsBadName \<Rightarrow> Inl (Protocol (''invalid TLS server name: '' @ host))
    | TlsFailed e \<Rightarrow> Inl (Protocol (''TLS handshake failed: '' @ e))
    | TlsRejected e \<Rightarrow> Inl e, w))"

definition show_ip :: "'w ftp_net \<Rightarrow> ip_addr \<Rightarrow> string" where
  "show_ip net ip = (case ip of
      V4 a b c d \<Rightarrow> join_with ''.'' (map (\<lambda>n. show_nat (unat n)) [a, b, c, d])
    | V6 n \<Rightarrow> fn_show_v6 net n)"

definition show_addr :: "'w ftp_net \<Rightarrow> socket_addr \<Rightarrow> string" where
  "show_addr net a = (case sa_ip a of
      V4 _ _ _ _ \<Rightarrow> show_ip net (sa_ip a) @ '':'' @ show_nat (unat (sa_port a))
    | V6 _ \<Rightarrow> ''['' @ show_ip net (sa_ip a) @ '']:'' @ show_nat (unat (sa_port a)))"

text \<open>The first address that accepts a connection, or the last error.\<close>

fun try_addresses :: "'w ftp_net \<Rightarrow> 'w \<Rightarrow> verror \<Rightarrow> socket_addr list \<Rightarrow> verror option" where
  "try_addresses net w last_error [] = Some last_error"
| "try_addresses net w last_error (a # as) = (case fn_connect net a w of
      TcpOpen \<Rightarrow> None
    | TcpRefused e \<Rightarrow> try_addresses net w
        (ConnectionLost (''connection to '' @ show_addr net a @ '' failed: '' @ e)) as
    | TcpTimeout \<Rightarrow> try_addresses net w (Timeout (''connection to '' @ show_addr net a @ '' timed out'')) as)"

definition log_io :: "log_line \<Rightarrow> ('z fworld, unit) vio" where
  "log_io line = modify_io (ftp_log line)"

definition open_control :: "'z fworld ftp_net \<Rightarrow> ftp_options \<Rightarrow> ('z fworld, socket_addr \<times> socket_addr) vio" where
  "open_control net o1 =
     bind_io (log_io (LogStatus (''Connecting to '' @ fo_host o1 @ '':'' @ show_nat (unat (fo_port o1)) @ ''...''))) (\<lambda>_.
     case fn_resolve net (fo_host o1) (fo_port o1) of
       Inl e \<Rightarrow> err_io (ConnectionLost (''could not resolve '' @ fo_host o1 @ '': '' @ e))
     | Inr [] \<Rightarrow> err_io (ConnectionLost (''no addresses for host '' @ fo_host o1))
     | Inr addresses \<Rightarrow> (\<lambda>w. case try_addresses net w (ConnectionLost ''connection failed'') addresses of
           Some e \<Rightarrow> (Inl e, w)
         | None \<Rightarrow> (case fn_endpoints net w of
               Inl e \<Rightarrow> (Inl (from_io_error e), w)
             | Inr (peer, here) \<Rightarrow>
                 bind_io (log_io (LogStatus (''Connection established with '' @ show_addr net peer))) (\<lambda>_.
                 if fo_protocol o1 = FtpsImplicit
                 then bind_io (log_io (LogStatus ''Starting TLS (implicit FTPS)...'')) (\<lambda>_.
                   bind_io (tls_wrap net (fo_host o1)) (\<lambda>_. ok_io (peer, here)))
                 else ok_io (peer, here)) w)))"

definition login_user :: "ftp_options \<Rightarrow> string" where
  "login_user o1 = (if fo_user o1 = [] then anonymous_user else fo_user o1)"

definition login_password :: "ftp_options \<Rightarrow> string" where
  "login_password o1 = (if login_user o1 = anonymous_user \<and> fo_password o1 = []
     then anonymous_password else fo_password o1)"

definition login :: "'z fworld ftp_net \<Rightarrow> ftp_options \<Rightarrow> ('z fworld, unit) vio" where
  "login net o1 =
     bind_io (ftp_command net (''USER '' @ login_user o1)) (\<lambda>first.
     bind_io (if rp_code first = 331 then ftp_send net (''PASS '' @ login_password o1) ''PASS ****''
              else ok_io first) (\<lambda>reply.
     if rp_code reply = 332 then err_io (AuthFailed ''server requires ACCT, which is not supported'')
     else if \<not> is_positive reply then err_io (AuthFailed (rp_text reply))
     else ok_io ()))"

record ftp_session =
  fs_options :: ftp_options
  fs_features :: features
  fs_peer :: socket_addr
  fs_local :: socket_addr

definition uses_tls :: "ftp_options \<Rightarrow> bool" where
  "uses_tls o1 \<longleftrightarrow> fo_protocol o1 \<noteq> Ftp"

text \<open>\<open>TlsContext::new\<close>.\<close>

definition new_tls :: "'z fworld ftp_net \<Rightarrow> ftp_options \<Rightarrow> ('z fworld, unit) vio" where
  "new_tls net o1 = (if \<not> uses_tls o1 then ok_io () else (case fn_verifier_error net of
      Some e \<Rightarrow> err_io (Other (''failed to build TLS verifier: '' @ e))
    | None \<Rightarrow> ok_io ()))"

definition secure_control :: "'z fworld ftp_net \<Rightarrow> ftp_options \<Rightarrow> ('z fworld, unit) vio" where
  "secure_control net o1 =
     (if fo_protocol o1 \<noteq> FtpsExplicit then ok_io ()
      else bind_io (ftp_command net ''AUTH TLS'') (\<lambda>r.
        if \<not> is_positive r
        then err_io (Protocol (''server refused AUTH TLS: '' @ show_nat (rp_code r) @ '' '' @ rp_text r))
        else bind_io (tls_wrap net (fo_host o1)) (\<lambda>_.
          log_io (LogStatus ''Control connection secured with TLS''))))"

definition protect_data :: "'z fworld ftp_net \<Rightarrow> ftp_options \<Rightarrow> ('z fworld, unit) vio" where
  "protect_data net o1 =
     (if \<not> uses_tls o1 then ok_io ()
      else bind_io (expect_ok net ''PBSZ 0'') (\<lambda>_.
        bind_io (ftp_command net ''PROT P'') (\<lambda>r.
        if is_positive r then ok_io () else err_io (Protocol ''server refused PROT P''))))"

definition fetch_features :: "'z fworld ftp_net \<Rightarrow> ('z fworld, features) vio" where
  "fetch_features net = try_io (ftp_command net ''FEAT'') (\<lambda>r. ok_io (case r of
      Inr reply \<Rightarrow> if is_positive reply then parse_features (rp_text reply) else no_features
    | Inl _ \<Rightarrow> no_features))"

definition enable_utf8 :: "'z fworld ftp_net \<Rightarrow> features \<Rightarrow> ('z fworld, unit) vio" where
  "enable_utf8 net ft =
     (if \<not> ft_utf8 ft then ok_io ()
      else try_io (ftp_command net ''OPTS UTF8 ON'') (\<lambda>_ w.
        (Inr (), if fw_encoding w = EncAuto then w\<lparr>fw_encoding := EncUtf8\<rparr> else w)))"

definition ftp_connect :: "'z fworld ftp_net \<Rightarrow> ftp_options \<Rightarrow> ('z fworld, ftp_session) vio" where
  "ftp_connect net o1 =
     bind_io (modify_io (\<lambda>w. w\<lparr>fw_encoding := fo_encoding o1\<rparr>)) (\<lambda>_.
     bind_io (new_tls net o1) (\<lambda>_.
     bind_io (open_control net o1) (\<lambda>(peer, here).
     bind_io (read_reply net) (\<lambda>greeting.
     if \<not> is_positive greeting then err_io (Protocol ''unexpected greeting'')
     else bind_io (secure_control net o1) (\<lambda>_.
     bind_io (login net o1) (\<lambda>_.
     bind_io (log_io (LogStatus ''Authenticated'')) (\<lambda>_.
     bind_io (protect_data net o1) (\<lambda>_.
     bind_io (fetch_features net) (\<lambda>ft.
     bind_io (enable_utf8 net ft) (\<lambda>_.
     bind_io (ftp_command net ''TYPE I'') (\<lambda>r.
     bind_io (if is_positive r then ok_io ()
              else log_io (LogError ''server refused TYPE I; transfers may be corrupted'')) (\<lambda>_.
     bind_io (log_io (LogStatus ''Connected'')) (\<lambda>_.
     ok_io \<lparr>fs_options = o1, fs_features = ft, fs_peer = peer, fs_local = here\<rparr>)))))))))))))"

end
