(* ===== verification/Ftp_Client.thy ===== *)
theory Ftp_Client
  imports Ftp_Control
begin

text \<open>
  \<open>FtpClient\<close> of \<open>src-tauri/src/protocol/ftp/client.rs\<close>: data connections, listings, the operations of
  the client, and the reader and writer of a transfer.  Data connections are scripts like the control
  connection; an operation that parses a server's time may panic, which is part of its value.
\<close>

section \<open>Data connections\<close>

text \<open>The next data connection, with what the server sends on it.\<close>

definition data_connected :: "'z fworld \<Rightarrow> 'z fworld" where
  "data_connected w = w\<lparr>fw_incoming := (case fw_streams w of s # _ \<Rightarrow> s | [] \<Rightarrow> []),
     fw_streams := tl (fw_streams w), fw_outgoing := []\<rparr>"

definition ftp_passive :: "ftp_session \<Rightarrow> bool" where
  "ftp_passive s \<longleftrightarrow> fo_mode (fs_options s) \<noteq> TmActive"

definition is_v6 :: "ip_addr \<Rightarrow> bool" where
  "is_v6 ip = (case ip of V4 _ _ _ _ \<Rightarrow> False | V6 _ \<Rightarrow> True)"

definition pasv_addr :: "'z fworld ftp_net \<Rightarrow> ftp_session \<Rightarrow> ('z fworld, socket_addr) vio" where
  "pasv_addr net s = bind_io (expect_ok net ''PASV'') (\<lambda>r.
     case parse_pasv (fn_pasv_captures net (rp_text r)) of
       None \<Rightarrow> err_io (Protocol (''invalid PASV reply: '' @ rp_text r))
     | Some (announced, port) \<Rightarrow>
         if is_unroutable announced \<and> \<not> is_unroutable (sa_ip (fs_peer s))
         then bind_io (log_io (LogStatus (''Server announced an unroutable passive address; ''
             @ ''using the server address instead.''))) (\<lambda>_.
           ok_io \<lparr>sa_ip = sa_ip (fs_peer s), sa_port = port\<rparr>)
         else ok_io \<lparr>sa_ip = announced, sa_port = port\<rparr>)"

definition passive_addr :: "'z fworld ftp_net \<Rightarrow> ftp_session \<Rightarrow> ('z fworld, socket_addr) vio" where
  "passive_addr net s =
     (if ft_epsv (fs_features s) \<or> is_v6 (sa_ip (fs_peer s))
      then bind_io (ftp_command net ''EPSV'') (\<lambda>r.
        case (if is_positive r then parse_epsv (rp_text r) else None) of
          Some port \<Rightarrow> ok_io \<lparr>sa_ip = sa_ip (fs_peer s), sa_port = port\<rparr>
        | None \<Rightarrow> pasv_addr net s)
      else pasv_addr net s)"

definition transfer_started :: "reply \<Rightarrow> unit vresult" where
  "transfer_started r = (if is_transfer_start r then Inr () else Inl (reply_error r))"

definition open_passive :: "'z fworld ftp_net \<Rightarrow> ftp_session \<Rightarrow> string \<Rightarrow> ('z fworld, unit) vio" where
  "open_passive net s command = bind_io (passive_addr net s) (\<lambda>addr w. case fn_connect net addr w of
      TcpTimeout \<Rightarrow> (Inl (Timeout ''passive data connection timed out''), w)
    | TcpRefused e \<Rightarrow> (Inl (ConnectionLost (''data connection failed: '' @ e)), w)
    | TcpOpen \<Rightarrow> bind_io (ftp_command net command) (\<lambda>r. lift_io (transfer_started r)) (data_connected w))"

definition port_command :: "'w ftp_net \<Rightarrow> bool \<Rightarrow> socket_addr \<Rightarrow> string" where
  "port_command net eprt here =
     (let port = show_nat (unat (sa_port here)); bar = ''|''
      in case sa_ip here of
          V4 a b c d \<Rightarrow> if \<not> eprt
            then ''PORT '' @ join_with '','' (map show_nat [unat a, unat b, unat c, unat d,
                unat (drop_bit 8 (sa_port here)), unat (and (sa_port here) 255)])
            else ''EPRT |1|'' @ show_ip net (sa_ip here) @ bar @ port @ bar
        | V6 _ \<Rightarrow> ''EPRT |2|'' @ show_ip net (sa_ip here) @ bar @ port @ bar)"

definition open_active :: "'z fworld ftp_net \<Rightarrow> ftp_session \<Rightarrow> string \<Rightarrow> ('z fworld, unit) vio" where
  "open_active net s command = (\<lambda>w. case fn_listen net (sa_ip (fs_local s)) w of
      Inl e \<Rightarrow> (Inl (from_io_error e), w)
    | Inr here \<Rightarrow>
        bind_io (expect_ok net (port_command net (ft_eprt (fs_features s)) here)) (\<lambda>_.
        bind_io (ftp_command net command) (\<lambda>r.
        bind_io (lift_io (transfer_started r)) (\<lambda>_ w1. case fn_accept net w1 of
            None \<Rightarrow> (Inl (Timeout ''server did not connect back in active mode (firewall?)''), w1)
          | Some (Inl e) \<Rightarrow> (Inl (from_io_error e), w1)
          | Some (Inr origin) \<Rightarrow>
              if sa_ip origin \<noteq> sa_ip (fs_peer s)
              then (Inl (Protocol ''data connection from unexpected origin''),
                    ftp_log (LogError (''data connection from unexpected address '' @ show_addr net origin
                      @ ''; refusing'')) w1)
              else (Inr (), data_connected w1)))) w)"

definition open_data :: "'z fworld ftp_net \<Rightarrow> ftp_session \<Rightarrow> string \<Rightarrow> ('z fworld, unit) vio" where
  "open_data net s command =
     bind_io (if ftp_passive s then open_passive net s command else open_active net s command) (\<lambda>_.
       if uses_tls (fs_options s) then tls_wrap net (fo_host (fs_options s)) else ok_io ())"

section \<open>Listings\<close>

fun data_to_end :: "data_event list \<Rightarrow> io_error + bytes" where
  "data_to_end [] = Inr []"
| "data_to_end (DataFailed e # events) = Inl e"
| "data_to_end (DataChunk bs # events) = (if bs = [] then Inr [] else map_ok ((@) bs) (data_to_end events))"

definition read_data_to_end :: "'z fworld ftp_net \<Rightarrow> ('z fworld, bytes) vio" where
  "read_data_to_end net w =
     (if fn_listing_stalls net w then (Inl (Timeout ''listing timed out''), w\<lparr>fw_incoming := []\<rparr>)
      else (map_err from_io_error (data_to_end (fw_incoming w)), w\<lparr>fw_incoming := []\<rparr>))"

definition fetch_listing :: "'z fworld ftp_net \<Rightarrow> ftp_session \<Rightarrow> string \<Rightarrow> ('z fworld, string) vio" where
  "fetch_listing net s command =
     bind_io (open_data net s command) (\<lambda>_.
     bind_io (read_data_to_end net) (\<lambda>raw.
     bind_io (read_reply net) (\<lambda>r.
     bind_io (lift_io (reply_ok r)) (\<lambda>_ w.
     (Inr (decode_text (fn_encodings net) (fw_encoding w) raw), w)))))"

definition ftp_pwd :: "'z fworld ftp_net \<Rightarrow> ('z fworld, string) vio" where
  "ftp_pwd net = bind_io (expect_ok net ''PWD'') (\<lambda>r.
     lift_io (ok_or (parse_pwd (rp_text r)) (Protocol (''invalid PWD reply: '' @ rp_text r))))"

fun mlsd_entries :: "calendar \<Rightarrow> string \<Rightarrow> string list \<Rightarrow> remote_entry list ran" where
  "mlsd_entries cal dir [] = Returned []"
| "mlsd_entries cal dir (line # lines) = (case parse_mlsd_line cal dir line of
      Panicked \<Rightarrow> Panicked
    | Returned e \<Rightarrow> (case mlsd_entries cal dir lines of
          Panicked \<Rightarrow> Panicked
        | Returned es \<Rightarrow> Returned (case e of None \<Rightarrow> es | Some e \<Rightarrow> e # es)))"

definition listing_entries :: "calendar \<Rightarrow> string \<Rightarrow> string \<Rightarrow> remote_entry list" where
  "listing_entries cal dir text = List.map_filter (parse_list_line cal dir) (str_lines text)"

definition plain_listing_refused :: "verror \<Rightarrow> bool" where
  "plain_listing_refused e = (case e of Unsupported _ \<Rightarrow> True | Protocol _ \<Rightarrow> True | NotFound _ \<Rightarrow> True | _ \<Rightarrow> False)"

definition ftp_list_dir ::
  "'z fworld ftp_net \<Rightarrow> ftp_session \<Rightarrow> string \<Rightarrow> ('z fworld, remote_entry list ran) vio" where
  "ftp_list_dir net s path =
     bind_io (expect_ok net (''CWD '' @ path)) (\<lambda>_.
     try_io (ftp_pwd net) (\<lambda>pwd.
       let resolved = unwrap_or pwd path; cal = fn_calendar net
       in if ft_mlsd (fs_features s)
          then bind_io (fetch_listing net s ''MLSD'') (\<lambda>text. ok_io (mlsd_entries cal resolved (str_lines text)))
          else bind_io (try_io (fetch_listing net s ''LIST -a'') (\<lambda>r. case r of
                 Inr text \<Rightarrow> ok_io text
               | Inl e \<Rightarrow> if plain_listing_refused e then fetch_listing net s ''LIST'' else err_io e))
            (\<lambda>text. ok_io (Returned (listing_entries cal resolved text)))))"

definition size_of :: "'z fworld ftp_net \<Rightarrow> string \<Rightarrow> ('z fworld, u64) vio" where
  "size_of net path = bind_io (ftp_command net (''SIZE '' @ path)) (\<lambda>r.
     lift_io (if rp_code r = 213
       then map_ok of_nat (ok_or (parse_u64 (trim (rp_text r))) (Protocol ''invalid SIZE reply''))
       else Inl (reply_error r)))"

definition annotate_symlink :: "'z fworld ftp_net \<Rightarrow> ftp_session \<Rightarrow> remote_entry \<Rightarrow> 'z fworld \<Rightarrow> remote_entry \<times> 'z fworld" where
  "annotate_symlink net s e w = (case ftp_command net (''CWD '' @ re_path e) w of (r, w1) \<Rightarrow>
     let is_dir = (case r of Inr reply \<Rightarrow> is_positive reply | Inl _ \<Rightarrow> False);
         e1 = e\<lparr>re_target_is_dir := Some is_dir\<rparr>
     in if is_dir \<or> \<not> ft_size (fs_features s) then (e1, w1)
        else (case size_of net (re_path e1) w1 of
            (Inr n, w2) \<Rightarrow> (e1\<lparr>re_size := n\<rparr>, w2)
          | (Inl _, w2) \<Rightarrow> (e1\<lparr>re_link_broken := True\<rparr>, w2)))"

fun annotate_symlinks :: "'z fworld ftp_net \<Rightarrow> ftp_session \<Rightarrow> remote_entry list \<Rightarrow> 'z fworld \<Rightarrow> remote_entry list \<times> 'z fworld" where
  "annotate_symlinks net s [] w = ([], w)"
| "annotate_symlinks net s (e # es) w =
     (case (if re_kind e = KSymlink then annotate_symlink net s e w else (e, w)) of
        (e1, w1) \<Rightarrow> (case annotate_symlinks net s es w1 of (es1, w2) \<Rightarrow> (e1 # es1, w2)))"

text \<open>\<open>self.conn.lock().await\<close> around an operation.\<close>

definition with_conn :: "'z fworld ftp_net \<Rightarrow> ('z fworld, 'a) vio \<Rightarrow> ('z fworld, 'a) vio" where
  "with_conn net m = (\<lambda>w. m (fn_wait_free net w))"

section \<open>Operations\<close>

definition ftp_initial_dir :: "'z fworld ftp_net \<Rightarrow> ('z fworld, string) vio" where
  "ftp_initial_dir net w = (case fw_home w of
      Some home \<Rightarrow> (Inr home, w)
    | None \<Rightarrow> bind_io (with_conn net (ftp_pwd net)) (\<lambda>home w. (Inr home, w\<lparr>fw_home := Some home\<rparr>)) w)"

definition ftp_realpath :: "'z fworld ftp_net \<Rightarrow> string \<Rightarrow> ('z fworld, string) vio" where
  "ftp_realpath net path = with_conn net (bind_io (expect_ok net (''CWD '' @ path)) (\<lambda>_. ftp_pwd net))"

definition ftp_list :: "'z fworld ftp_net \<Rightarrow> ftp_session \<Rightarrow> string \<Rightarrow> ('z fworld, remote_entry list ran) vio" where
  "ftp_list net s path = with_conn net (bind_io (ftp_list_dir net s path) (\<lambda>r w. case r of
      Panicked \<Rightarrow> (Inr Panicked, w)
    | Returned es \<Rightarrow> (case annotate_symlinks net s es w of (es1, w1) \<Rightarrow> (Inr (Returned es1), w1))))"

definition ftp_mtime :: "'z fworld ftp_net \<Rightarrow> string \<Rightarrow> 'z fworld \<Rightarrow> int option ran \<times> 'z fworld" where
  "ftp_mtime net path w = (case ftp_command net (''MDTM '' @ path) w of
      (Inr r, w1) \<Rightarrow> (if rp_code r = 213 then parse_mlsd_time (fn_calendar net) (trim (rp_text r)) else Returned None, w1)
    | (Inl _, w1) \<Rightarrow> (Returned None, w1))"

definition ftp_stat :: "'z fworld ftp_net \<Rightarrow> ftp_session \<Rightarrow> string \<Rightarrow> ('z fworld, remote_entry ran) vio" where
  "ftp_stat net s path = with_conn net (
     bind_io (ftp_command net (''CWD '' @ path)) (\<lambda>r.
       if is_positive r then ok_io (Returned (plain_entry path KDir 0 None))
       else bind_io (size_of net path) (\<lambda>n w.
         if \<not> ft_mdtm (fs_features s) then (Inr (Returned (plain_entry path KFile n None)), w)
         else (case ftp_mtime net path w of
             (Panicked, w1) \<Rightarrow> (Inr Panicked, w1)
           | (Returned t, w1) \<Rightarrow> (Inr (Returned (plain_entry path KFile n t)), w1)))))"

definition ftp_readlink :: "'z fworld ftp_net \<Rightarrow> ftp_session \<Rightarrow> string \<Rightarrow> ('z fworld, string ran) vio" where
  "ftp_readlink net s path = bind_io (ftp_list net s (parent path)) (\<lambda>r. case r of
      Panicked \<Rightarrow> ok_io Panicked
    | Returned es \<Rightarrow> lift_io (map_ok Returned (ok_or
        (Option.bind (find (\<lambda>e. re_name e = basename path) es) re_link_target)
        (Unsupported ''server does not expose the link target''))))"

text \<open>\<open>expect_ok(...).map(drop)\<close>.\<close>

definition ftp_simple :: "'z fworld ftp_net \<Rightarrow> string \<Rightarrow> ('z fworld, unit) vio" where
  "ftp_simple net command = bind_io (expect_ok net command) (\<lambda>_. ok_io ())"

definition ftp_mkdir :: "'z fworld ftp_net \<Rightarrow> string \<Rightarrow> ('z fworld, unit) vio" where
  "ftp_mkdir net path = with_conn net (ftp_simple net (''MKD '' @ path))"

definition ftp_rmdir :: "'z fworld ftp_net \<Rightarrow> string \<Rightarrow> ('z fworld, unit) vio" where
  "ftp_rmdir net path = with_conn net (ftp_simple net (''RMD '' @ path))"

definition ftp_remove :: "'z fworld ftp_net \<Rightarrow> string \<Rightarrow> ('z fworld, unit) vio" where
  "ftp_remove net path = with_conn net (ftp_simple net (''DELE '' @ path))"

definition ftp_rename :: "'z fworld ftp_net \<Rightarrow> string \<Rightarrow> string \<Rightarrow> ('z fworld, unit) vio" where
  "ftp_rename net source target = with_conn net (
     bind_io (ftp_command net (''RNFR '' @ source)) (\<lambda>r.
       if rp_code r \<noteq> 350 then err_io (reply_error r) else ftp_simple net (''RNTO '' @ target)))"

definition ftp_chmod :: "'z fworld ftp_net \<Rightarrow> string \<Rightarrow> u32 \<Rightarrow> ('z fworld, unit) vio" where
  "ftp_chmod net path mode = with_conn net (
     ftp_simple net (''SITE CHMOD '' @ show_radix 8 (unat (and mode 4095)) @ '' '' @ path))"

section \<open>Transfers\<close>

definition prepare_transfer :: "'z fworld ftp_net \<Rightarrow> ftp_session \<Rightarrow> u64 \<Rightarrow> ('z fworld, unit) vio" where
  "prepare_transfer net s offset =
     bind_io (expect_ok net (if fo_ascii (fs_options s) then ''TYPE A'' else ''TYPE I'')) (\<lambda>_.
     if offset > 0 then
       bind_io (ftp_command net (''REST '' @ show_nat (unat offset))) (\<lambda>r.
         if rp_code r \<noteq> 350
         then err_io (Unsupported (''server rejected REST: '' @ show_nat (rp_code r) @ '' '' @ rp_text r))
         else ok_io ())
     else ok_io ())"

definition open_transfer :: "'z fworld ftp_net \<Rightarrow> ftp_session \<Rightarrow> string \<Rightarrow> u64 \<Rightarrow> ('z fworld, unit) vio" where
  "open_transfer net s command offset = with_conn net (
     bind_io (prepare_transfer net s offset) (\<lambda>_.
     bind_io (open_data net s command) (\<lambda>_ w.
       (Inr (), w\<lparr>fw_busy := True, fw_data_open := True, fw_eof := False\<rparr>))))"

definition ftp_open_read :: "'z fworld ftp_net \<Rightarrow> ftp_session \<Rightarrow> string \<Rightarrow> u64 \<Rightarrow> ('z fworld, unit) vio" where
  "ftp_open_read net s path = open_transfer net s (''RETR '' @ path)"

definition ftp_open_write :: "'z fworld ftp_net \<Rightarrow> ftp_session \<Rightarrow> string \<Rightarrow> u64 \<Rightarrow> ('z fworld, unit) vio" where
  "ftp_open_write net s path = open_transfer net s (''STOR '' @ path)"

text \<open>\<open>FtpReader::read\<close> into a buffer of \<open>n\<close> bytes.\<close>

definition ftp_read :: "nat \<Rightarrow> ('z fworld, bytes) vio" where
  "ftp_read n w =
     (if \<not> fw_data_open w then (Inr [], w)
      else case fw_incoming w of
          [] \<Rightarrow> (Inr [], w\<lparr>fw_eof := True\<rparr>)
        | DataFailed e # events \<Rightarrow> (Inl (from_io_error e), w\<lparr>fw_incoming := events\<rparr>)
        | DataChunk bs # events \<Rightarrow>
            if bs = [] then (Inr [], w\<lparr>fw_eof := True\<rparr>)
            else (Inr (take n bs), w\<lparr>fw_eof := (fw_eof w \<or> n = 0),
               fw_incoming := (if n < length bs then DataChunk (drop n bs) # events else events)\<rparr>))"

text \<open>\<open>close_data_channel\<close>: what still arrives is thrown away.\<close>

definition close_data_channel :: "'z fworld \<Rightarrow> 'z fworld" where
  "close_data_channel w = w\<lparr>fw_incoming := [], fw_data_open := False\<rparr>"

definition ftp_reader_finish :: "'z fworld ftp_net \<Rightarrow> ('z fworld, unit) vio" where
  "ftp_reader_finish net w =
     (let w1 = (if fw_data_open w then close_data_channel w else w)
      in if \<not> fw_busy w1 then (Inr (), w1)
         else (case read_reply net (w1\<lparr>fw_busy := False\<rparr>) of
             (Inl e, w2) \<Rightarrow> (Inl e, w2)
           | (Inr r, w2) \<Rightarrow> (if fw_eof w2 then map_ok (\<lambda>_. ()) (reply_ok r) else Inr (), w2)))"

text \<open>Writing to the data connection or flushing it: the next scripted outcome.\<close>

definition data_io :: "bytes \<Rightarrow> ('z fworld, unit) vio" where
  "data_io bs w = (case fw_data_errors w of
      Some e # rest \<Rightarrow> (Inl (from_io_error e), w\<lparr>fw_data_errors := rest\<rparr>)
    | None # rest \<Rightarrow> (Inr (), w\<lparr>fw_data_errors := rest, fw_outgoing := fw_outgoing w @ bs\<rparr>)
    | [] \<Rightarrow> (Inr (), w\<lparr>fw_outgoing := fw_outgoing w @ bs\<rparr>))"

definition ftp_write :: "bytes \<Rightarrow> ('z fworld, unit) vio" where
  "ftp_write bs w = (if \<not> fw_data_open w then (Inl (Protocol ''data stream closed''), w) else data_io bs w)"

definition ftp_writer_finish :: "'z fworld ftp_net \<Rightarrow> ('z fworld, unit) vio" where
  "ftp_writer_finish net =
     bind_io (\<lambda>w. if fw_data_open w
         then (case data_io [] (w\<lparr>fw_data_open := False\<rparr>) of
             (Inl e, w1) \<Rightarrow> (Inl e, w1) | (Inr _, w1) \<Rightarrow> (Inr (), close_data_channel w1))
         else (Inr (), w)) (\<lambda>_ w.
       if \<not> fw_busy w then (Inr (), w)
       else bind_io (read_reply net) (\<lambda>r. lift_io (map_ok (\<lambda>_. ()) (reply_ok r))) (w\<lparr>fw_busy := False\<rparr>))"

definition ftp_touch :: "'z fworld ftp_net \<Rightarrow> ftp_session \<Rightarrow> string \<Rightarrow> ('z fworld, unit) vio" where
  "ftp_touch net s path = bind_io (ftp_open_write net s path 0) (\<lambda>_. ftp_writer_finish net)"

definition ftp_keepalive :: "'z fworld ftp_net \<Rightarrow> ('z fworld, unit) vio" where
  "ftp_keepalive net w = (if fw_busy w then (Inr (), w)
     else bind_io (ftp_command net ''NOOP'') (\<lambda>_. ok_io ()) w)"

definition ftp_disconnect :: "'z fworld ftp_net \<Rightarrow> 'z fworld \<Rightarrow> 'z fworld" where
  "ftp_disconnect net w =
     (let w1 = (if \<not> fn_free_soon net w then w
           else let w0 = fn_wait_free net w
             in if fn_quit_answered net w0 then snd (ftp_command net ''QUIT'' w0)
                else snd (ftp_write_line (encode_text (fn_encodings net) (fw_encoding w0) ''QUIT'' @ as_bytes [CHR 0x0D, CHR 0x0A])
                  (ftp_log (LogCommand ''QUIT'') w0)))
      in ftp_log (LogStatus ''Disconnected'') w1)"

section \<open>Hashes\<close>

definition ftp_supported_hashes :: "ftp_session \<Rightarrow> string list" where
  "ftp_supported_hashes s =
     map (\<lambda>h. filter (\<lambda>c. c \<noteq> CHR ''-'') (to_ascii_lowercase h)) (ft_hash (fs_features s)) @
     map (\<lambda>x. to_ascii_lowercase (trim_start_chars [CHR ''X''] x)) (ft_xhash (fs_features s))"

definition last_word :: "string \<Rightarrow> string option" where
  "last_word text = (let ws = split_whitespace text in if ws = [] then None else Some (to_ascii_lowercase (last ws)))"

definition ftp_hash :: "'z fworld ftp_net \<Rightarrow> ftp_session \<Rightarrow> string \<Rightarrow> string \<Rightarrow> ('z fworld, string option) vio" where
  "ftp_hash net s path algo = with_conn net (
     let upper = to_ascii_uppercase algo
     in if ''X'' @ upper \<in> set (ft_xhash (fs_features s))
        then bind_io (ftp_command net (''X'' @ upper @ '' '' @ path)) (\<lambda>r.
          ok_io (if rp_code r = 250 \<or> rp_code r = 213 then last_word (rp_text r) else None))
        else (case map_of [(''SHA256'', ''SHA-256''), (''SHA1'', ''SHA-1''), (''SHA512'', ''SHA-512''), (''MD5'', ''MD5'')] upper of
            None \<Rightarrow> ok_io None
          | Some name \<Rightarrow>
              if name \<notin> set (ft_hash (fs_features s)) then ok_io None
              else try_io (ftp_command net (''OPTS HASH '' @ name)) (\<lambda>_.
                bind_io (ftp_command net (''HASH '' @ path)) (\<lambda>r.
                  if rp_code r \<noteq> 213 then ok_io None
                  else let ws = split_whitespace (rp_text r)
                    in ok_io (if 2 < length ws then Some (to_ascii_lowercase (ws ! 2)) else None)))))"

end
