(* ===== verification/Ftp_Properties.thy ===== *)
theory Ftp_Properties
  imports Ftp_Client
begin

text \<open>
  What the control channel keeps: replies are framed, a dropped transfer leaves its reply to the next
  command, the password stays out of the log, and the addresses of data connections are checked.
\<close>

section \<open>Reading replies\<close>

text \<open>Evaluating a concrete reply.\<close>

lemmas code_eval = parse_reply_code_def is_ascii_digit_def parse_u16_def parse_radix_def digit_val_def
  Let_def line_mark_def

text \<open>A line as a server sends it, read back under UTF-8.\<close>

definition sent_line :: "string \<Rightarrow> line_event" where
  "sent_line s = LineBytes (as_bytes (s @ [CHR 0x0D, CHR 0x0A]))"

text \<open>A server for concrete cases.\<close>

definition sample_encodings :: encodings where
  "sample_encodings = \<lparr>en_label = (\<lambda>l. None), en_encode = (\<lambda>n s. as_bytes s), en_decode = (\<lambda>n bs. bytes_text bs),
     en_windows_1252 = bytes_text\<rparr>"

definition sample_peer :: socket_addr where
  "sample_peer = \<lparr>sa_ip = V4 203 0 113 7, sa_port = 21\<rparr>"

definition sample_net :: "string list option \<Rightarrow> ftp_world ftp_net" where
  "sample_net captures = \<lparr>fn_resolve = (\<lambda>h p. Inr [sample_peer]), fn_connect = (\<lambda>a w. TcpOpen),
     fn_endpoints = (\<lambda>w. Inr (sample_peer, \<lparr>sa_ip = V4 198 51 100 2, sa_port = 40000\<rparr>)),
     fn_verifier_error = None, fn_tls = (\<lambda>w. TlsOpen), fn_show_v6 = (\<lambda>n. show_nat (unat n)),
     fn_listen = (\<lambda>ip w. Inr \<lparr>sa_ip = ip, sa_port = 50000\<rparr>),
     fn_accept = (\<lambda>w. Some (Inr (sample_peer\<lparr>sa_port := 20\<rparr>))),
     fn_pasv_captures = (\<lambda>t. captures), fn_listing_stalls = (\<lambda>w. False), fn_wait_free = (\<lambda>w. w),
     fn_free_soon = (\<lambda>w. True), fn_quit_answered = (\<lambda>w. True), fn_encodings = sample_encodings,
     fn_calendar = plain_calendar\<rparr>"

definition sample_ftp_options :: ftp_options where
  "sample_ftp_options = \<lparr>fo_protocol = Ftp, fo_host = ''ftp.example'', fo_port = 21, fo_user = [],
     fo_password = [], fo_mode = TmPassive, fo_ascii = False, fo_encoding = EncUtf8, fo_timeout_secs = 20\<rparr>"

definition sample_ftp_session :: ftp_session where
  "sample_ftp_session = \<lparr>fs_options = sample_ftp_options, fs_features = no_features, fs_peer = sample_peer,
     fs_local = \<lparr>sa_ip = V4 198 51 100 2, sa_port = 40000\<rparr>\<rparr>"

definition ftp_answering :: "string list \<Rightarrow> ftp_world" where
  "ftp_answering replies = \<lparr>fw_input = map sent_line replies, fw_sent = [], fw_write_errors = [],
     fw_encoding = EncUtf8, fw_log = [], fw_home = None, fw_busy = False, fw_streams = [], fw_incoming = [],
     fw_outgoing = [], fw_data_errors = [], fw_data_open = False, fw_eof = False\<rparr>"

lemma ftp_answering_simps:
  "fw_input (ftp_answering rs) = map sent_line rs" "fw_encoding (ftp_answering rs) = EncUtf8"
  "fw_write_errors (ftp_answering rs) = []" "fw_sent (ftp_answering rs) = []"
  by (simp_all add: ftp_answering_def)

definition clean_line :: "string \<Rightarrow> bool" where
  "clean_line s \<longleftrightarrow> utf8_valid s \<and> (s = [] \<or> last s \<notin> {CHR 0x0D, CHR 0x0A})"

lemma utf8_valid_crlf: "utf8_valid [CHR 0x0D, CHR 0x0A]"
  by (rule utf8_valid_ascii) simp

lemma trim_crlf:
  assumes "s = [] \<or> last s \<notin> {CHR 0x0D, CHR 0x0A}"
  shows "trim_end_chars [CHR 0x0D, CHR 0x0A] (s @ [CHR 0x0D, CHR 0x0A]) = s"
  using assms by (cases s rule: rev_cases) (auto simp: trim_end_chars_def)

lemma read_sent_line:
  assumes "fw_input w = sent_line s # rest" "fw_encoding w = EncUtf8" "clean_line s"
  shows "ftp_read_line net w = (Inr s, ftp_log (LogResponse s) (w\<lparr>fw_input := rest\<rparr>))"
proof -
  have "decode_text en EncUtf8 (as_bytes (s @ [CHR 0x0D, CHR 0x0A])) = s @ [CHR 0x0D, CHR 0x0A]" for en
    using assms(3) by (simp only: decode_text_def encoding_mode.case bytes_text_as_bytes clean_line_def)
      (simp add: from_utf8_lossy_valid utf8_valid_append utf8_valid_crlf)
  with assms trim_crlf [of s] show ?thesis
    by (simp add: ftp_read_line_def sent_line_def clean_line_def as_bytes_def)
qed

lemma read_sent_lines:
  assumes "fw_encoding w = EncUtf8" "list_all clean_line middle" "clean_line final"
    and "parse_reply_code final = Some code" "line_mark final CHR '' ''"
    and "list_all (\<lambda>m. \<not> (parse_reply_code m = Some code \<and> line_mark m CHR '' '')) middle"
    and "fw_input w = map sent_line (middle @ [final]) @ rest"
  shows "\<exists>w'. reply_lines net code acc w = (Inr (acc @ middle @ [drop 4 final]), w') \<and>
    fw_input w' = rest \<and> fw_sent w' = fw_sent w"
  using assms(1,2,6,7)
proof (induction middle arbitrary: acc w)
  case Nil
  then have "ftp_read_line net w = (Inr final, ftp_log (LogResponse final) (w\<lparr>fw_input := rest\<rparr>))"
    using assms(3) by (intro read_sent_line) simp_all
  with assms(4,5) show ?case by (subst reply_lines.simps) (simp add: ftp_log_def)
next
  case (Cons m middle)
  let ?w1 = "ftp_log (LogResponse m) (w\<lparr>fw_input := map sent_line (middle @ [final]) @ rest\<rparr>)"
  have step: "ftp_read_line net w = (Inr m, ?w1)"
    using Cons.prems by (intro read_sent_line) simp_all
  have "fw_encoding ?w1 = EncUtf8" "list_all clean_line middle"
    "list_all (\<lambda>m. \<not> (parse_reply_code m = Some code \<and> line_mark m CHR '' '')) middle"
    "fw_input ?w1 = map sent_line (middle @ [final]) @ rest" "fw_sent ?w1 = fw_sent w"
    using Cons.prems by (simp_all add: ftp_log_def)
  with Cons.IH [of ?w1 "acc @ [m]"] Cons.prems(3) step show ?case
    by (subst reply_lines.simps) auto
qed

text \<open>C29: A reply of several lines is read up to the line that repeats its code followed by a blank and
  no further, whatever the lines in between say, so that the next reply starts where it should.\<close>

theorem reply_framed:
  assumes "fw_encoding w = EncUtf8" "list_all clean_line (first # middle @ [final])"
    and "parse_reply_code first = Some code" "line_mark first CHR ''-''"
    and "parse_reply_code final = Some code" "line_mark final CHR '' ''"
    and "list_all (\<lambda>m. \<not> (parse_reply_code m = Some code \<and> line_mark m CHR '' '')) middle"
    and "fw_input w = map sent_line (first # middle @ [final]) @ rest"
  shows "\<exists>w'. read_reply net w = (Inr \<lparr>rp_code = code,
      rp_text = join_with [CHR 0x0A] (drop 4 first # middle @ [drop 4 final])\<rparr>, w') \<and>
    fw_input w' = rest \<and> fw_sent w' = fw_sent w"
proof -
  let ?w1 = "ftp_log (LogResponse first) (w\<lparr>fw_input := map sent_line (middle @ [final]) @ rest\<rparr>)"
  have step: "ftp_read_line net w = (Inr first, ?w1)"
    using assms by (intro read_sent_line) simp_all
  have "\<exists>w'. reply_lines net code [drop 4 first] ?w1 = (Inr ([drop 4 first] @ middle @ [drop 4 final]), w') \<and>
      fw_input w' = rest \<and> fw_sent w' = fw_sent ?w1"
    by (rule read_sent_lines) (use assms in \<open>simp_all add: ftp_log_def\<close>)
  with step assms(3,4) show ?thesis
    by (auto simp: read_reply_def bind_io_run ftp_log_def)
qed

lemma clean_ascii:
  "list_all (\<lambda>c. of_char c < (128::nat)) s \<Longrightarrow> s = [] \<or> last s \<notin> {CHR 0x0D, CHR 0x0A} \<Longrightarrow> clean_line s"
  by (simp add: clean_line_def utf8_valid_ascii list_all_iff)

theorem reply_framed_witness:
  "\<exists>w'. read_reply (sample_net None) (ftp_answering [''211-Features:'', ''211-more'', '' SIZE'', ''211 End'', ''200 next'']) =
     (Inr \<lparr>rp_code = 211, rp_text = join_with [CHR 0x0A] [''Features:'', ''211-more'', '' SIZE'', ''End'']\<rparr>, w') \<and>
   fw_input w' = [sent_line ''200 next''] \<and> fw_sent w' = []"
proof -
  let ?w = "ftp_answering [''211-Features:'', ''211-more'', '' SIZE'', ''211 End'', ''200 next'']"
  have enc: "fw_encoding ?w = EncUtf8" by (simp add: ftp_answering_def)
  have clean: "list_all clean_line (''211-Features:'' # [''211-more'', '' SIZE''] @ [''211 End''])"
    by (simp add: clean_ascii)
  have codes: "parse_reply_code ''211-Features:'' = Some 211" "parse_reply_code ''211 End'' = Some 211"
    "line_mark ''211-Features:'' CHR ''-''" "line_mark ''211 End'' CHR '' ''"
    "list_all (\<lambda>m. \<not> (parse_reply_code m = Some 211 \<and> line_mark m CHR '' '')) [''211-more'', '' SIZE'']"
    by (simp_all add: code_eval)
  have input: "fw_input ?w = map sent_line (''211-Features:'' # [''211-more'', '' SIZE''] @ [''211 End'']) @ [sent_line ''200 next'']"
    by (simp add: ftp_answering_def)
  show ?thesis
    using reply_framed [OF enc clean codes(1,3,2,4,5) input, of "sample_net None"]
    by (simp add: ftp_answering_def)
qed

text \<open>A reader that is dropped without \<open>finish\<close>: its data connection and its lock go, nothing is read.\<close>

definition ftp_drop_reader :: "'z fworld \<Rightarrow> 'z fworld" where
  "ftp_drop_reader w = w\<lparr>fw_incoming := [], fw_data_open := False, fw_busy := False\<rparr>"

lemma read_single_reply:
  assumes "fw_encoding w = EncUtf8" "clean_line line" "parse_reply_code line = Some code"
    and "\<not> line_mark line CHR ''-''" "fw_input w = sent_line line # rest"
  shows "read_reply net w = (Inr \<lparr>rp_code = code, rp_text = text_behind_code line\<rparr>,
    ftp_log (LogResponse line) (w\<lparr>fw_input := rest\<rparr>))"
  using read_sent_line [OF assms(5,1,2)] assms(3,4) by (simp add: read_reply_def bind_io_run)

lemma command_answered:
  assumes "fw_encoding w = EncUtf8" "fw_write_errors w = []" "clean_line answer"
    and "parse_reply_code answer = Some code" "\<not> line_mark answer CHR ''-''"
    and "fw_input w = sent_line answer # rest"
  shows "ftp_command net command w = (Inr \<lparr>rp_code = code, rp_text = text_behind_code answer\<rparr>,
    (ftp_log (LogResponse answer) (ftp_log (LogCommand command) w))\<lparr>fw_input := rest, fw_sent := fw_sent w @
       [encode_text (fn_encodings net) EncUtf8 command @ as_bytes [CHR 0x0D, CHR 0x0A]]\<rparr>)"
proof -
  let ?w1 = "(ftp_log (LogCommand command) w)\<lparr>fw_sent := fw_sent w @
     [encode_text (fn_encodings net) EncUtf8 command @ as_bytes [CHR 0x0D, CHR 0x0A]]\<rparr>"
  have "ftp_command net command w = read_reply net ?w1"
    using assms(1,2) by (simp add: ftp_command_def ftp_send_def Let_def bind_io_run ftp_write_line_def ftp_log_def)
  also have "\<dots> = (Inr \<lparr>rp_code = code, rp_text = text_behind_code answer\<rparr>,
      ftp_log (LogResponse answer) (?w1\<lparr>fw_input := rest\<rparr>))"
    by (rule read_single_reply) (use assms in \<open>simp_all add: ftp_log_def\<close>)
  finally show ?thesis by (simp add: ftp_log_def)
qed

lemma command_answered_on:
  assumes "fw_encoding w = EncUtf8" "fw_write_errors w = []" "clean_line answer"
    and "parse_reply_code answer = Some code" "\<not> line_mark answer CHR ''-''"
    and "fw_input w = sent_line answer # rest"
  obtains w' where "ftp_command net command w = (Inr \<lparr>rp_code = code, rp_text = text_behind_code answer\<rparr>, w')"
    and "fw_encoding w' = EncUtf8" "fw_write_errors w' = []" "fw_input w' = rest"
  using command_answered [OF assms, of net command] assms(1,2) by (simp add: ftp_log_def)



section \<open>The password\<close>

lemma read_line_sent:
  "ftp_read_line net (w\<lparr>fw_sent := x\<rparr>) = (case ftp_read_line net w of (r, w') \<Rightarrow> (r, w'\<lparr>fw_sent := x\<rparr>))"
  by (simp add: ftp_read_line_def ftp_log_def Let_def split: list.split line_event.split)

lemma reply_lines_sent:
  "reply_lines net code acc (w\<lparr>fw_sent := x\<rparr>) = (case reply_lines net code acc w of (r, w') \<Rightarrow> (r, w'\<lparr>fw_sent := x\<rparr>))"
proof (induction net code acc w rule: reply_lines.induct)
  case (1 net code acc w)
  show ?case
    by (subst (1 2) reply_lines.simps)
      (use 1 in \<open>auto simp: read_line_sent split: prod.split sum.split\<close>)
qed

lemma read_reply_sent:
  "read_reply net (w\<lparr>fw_sent := x\<rparr>) = (case read_reply net w of (r, w') \<Rightarrow> (r, w'\<lparr>fw_sent := x\<rparr>))"
  by (simp add: read_reply_def bind_io_run read_line_sent reply_lines_sent split: prod.split sum.split option.split)

lemma send_same_but_sent:
  "\<exists>x. ftp_send net command2 shown w = (case ftp_send net command shown w of (r, w') \<Rightarrow> (r, w'\<lparr>fw_sent := x\<rparr>))"
proof (cases "ftp_write_line (encode_text (fn_encodings net) (fw_encoding w) command @ as_bytes [CHR 0x0D, CHR 0x0A])
    (ftp_log (LogCommand shown) w)")
  case (Pair r w1)
  have "\<exists>y. ftp_write_line line2 (ftp_log (LogCommand shown) w) = (r, w1\<lparr>fw_sent := y\<rparr>)" for line2
  proof (cases "fw_write_errors w")
    case Nil
    then have sent: "ftp_write_line l (ftp_log (LogCommand shown) w) =
        (Inr (), (ftp_log (LogCommand shown) w)\<lparr>fw_sent := fw_sent w @ [l]\<rparr>)" for l
      by (simp add: ftp_write_line_def ftp_log_def)
    from Pair sent have "r = Inr ()"
      "w1\<lparr>fw_sent := fw_sent w @ [line2]\<rparr> = (ftp_log (LogCommand shown) w)\<lparr>fw_sent := fw_sent w @ [line2]\<rparr>"
      by (auto simp: ftp_log_def)
    with sent [of line2] show ?thesis by metis
  next
    case (Cons oc rest)
    with Pair show ?thesis
      by (cases oc) (auto simp: ftp_write_line_def ftp_log_def intro: exI [of _ "fw_sent w @ [line2]"] exI [of _ "fw_sent w"])
  qed
  then obtain y where "ftp_write_line (encode_text (fn_encodings net) (fw_encoding w) command2
      @ as_bytes [CHR 0x0D, CHR 0x0A]) (ftp_log (LogCommand shown) w) = (r, w1\<lparr>fw_sent := y\<rparr>)" by blast
  with Pair show ?thesis
    by (cases r) (auto simp: ftp_send_def Let_def bind_io_run ftp_log_def read_reply_sent split: prod.split)
qed

text \<open>C30: Neither the outcome of logging in nor anything that is logged depends on the password: under
  the same replies two passwords leave the same log, so the password itself never reaches it.\<close>

theorem password_not_logged:
  "fst (login net (o1\<lparr>fo_password := p\<rparr>) w) = fst (login net o1 w) \<and>
   fw_log (snd (login net (o1\<lparr>fo_password := p\<rparr>) w)) = fw_log (snd (login net o1 w))"
proof (cases "ftp_command net (''USER '' @ login_user o1) w")
  case (Pair r w1)
  have user: "login_user (o1\<lparr>fo_password := p\<rparr>) = login_user o1" by (simp add: login_user_def)
  obtain x where x: "ftp_send net (''PASS '' @ login_password (o1\<lparr>fo_password := p\<rparr>)) ''PASS ****'' w1 =
      (case ftp_send net (''PASS '' @ login_password o1) ''PASS ****'' w1 of (r, w') \<Rightarrow> (r, w'\<lparr>fw_sent := x\<rparr>))"
    using send_same_but_sent by blast
  show ?thesis
    using Pair user x by (simp add: login_def bind_io_run split: prod.split sum.split)
qed

section \<open>Addresses\<close>

text \<open>A passive transfer is never directed to an address of the local network, the own machine or
  none unless the server itself is reached at such an address.\<close>

theorem passive_address_routable:
  assumes "passive_addr net s w = (Inr a, w')" "is_unroutable (sa_ip a)"
  shows "is_unroutable (sa_ip (fs_peer s))"
  using assms
  by (auto simp: passive_addr_def pasv_addr_def bind_io_run log_io_def
      split: if_splits option.splits prod.splits sum.splits)

theorem passive_address_routable_witness:
  "\<exists>w'. passive_addr (sample_net (Some [''10'', ''0'', ''0'', ''5'', ''4'', ''1''])) (sample_ftp_session\<lparr>fs_peer := \<lparr>sa_ip = V4 127 0 0 1, sa_port = 21\<rparr>\<rparr>)
     (ftp_answering [''227 ok'']) = (Inr \<lparr>sa_ip = V4 10 0 0 5, sa_port = 1025\<rparr>, w') \<and>
   is_unroutable (sa_ip (fs_peer (sample_ftp_session\<lparr>fs_peer := \<lparr>sa_ip = V4 127 0 0 1, sa_port = 21\<rparr>\<rparr>)))"
proof -
  let ?net = "sample_net (Some [''10'', ''0'', ''0'', ''5'', ''4'', ''1''])"
  let ?s = "sample_ftp_session\<lparr>fs_peer := \<lparr>sa_ip = V4 127 0 0 1, sa_port = 21\<rparr>\<rparr>"
  have answer: "clean_line ''227 ok''" "parse_reply_code ''227 ok'' = Some 227" "\<not> line_mark ''227 ok'' CHR ''-''"
    by (simp_all add: clean_ascii code_eval)
  obtain w' where "ftp_command ?net ''PASV'' (ftp_answering [''227 ok'']) =
      (Inr \<lparr>rp_code = 227, rp_text = text_behind_code ''227 ok''\<rparr>, w')"
    by (rule command_answered_on [OF ftp_answering_simps(2,3) answer, of "[''227 ok'']" "[]" ?net])
      (simp_all add: ftp_answering_simps)
  moreover have "parse_pasv (Some [''10'', ''0'', ''0'', ''5'', ''4'', ''1'']) = Some (V4 10 0 0 5, 1025)"
    by (simp add: parse_pasv_def code_eval push_bit_eq_mult)
  ultimately have "passive_addr ?net ?s (ftp_answering [''227 ok'']) =
      (Inr \<lparr>sa_ip = V4 10 0 0 5, sa_port = 1025\<rparr>, w')"
    by (simp add: passive_addr_def pasv_addr_def expect_ok_def bind_io_run reply_ok_def is_positive_def
        is_v6_def sample_ftp_session_def no_features_def sample_net_def is_unroutable_def)
  with passive_address_routable [OF this] show ?thesis
    by (auto simp: is_unroutable_def)
qed

text \<open>An active transfer only uses a connection that comes from the server's own address.\<close>

theorem active_origin_checked:
  assumes "open_active net s command w = (Inr (), w')"
  shows "\<exists>w1 origin. fn_accept net w1 = Some (Inr origin) \<and> sa_ip origin = sa_ip (fs_peer s)"
proof -
  obtain here where here: "fn_listen net (sa_ip (fs_local s)) w = Inr here"
    using assms by (auto simp: open_active_def split: sum.splits)
  with assms obtain w1 where "(case fn_accept net w1 of
            None \<Rightarrow> (Inl (Timeout ''server did not connect back in active mode (firewall?)''), w1)
          | Some (Inl e) \<Rightarrow> (Inl (from_io_error e), w1)
          | Some (Inr origin) \<Rightarrow>
              if sa_ip origin \<noteq> sa_ip (fs_peer s)
              then (Inl (Protocol ''data connection from unexpected origin''),
                    ftp_log (LogError (''data connection from unexpected address '' @ show_addr net origin
                      @ ''; refusing'')) w1)
              else (Inr (), data_connected w1)) = (Inr (), w')"
    by (auto simp: open_active_def bind_io_Inr_iff)
  then show ?thesis
    by (intro exI [of _ w1]) (simp split: option.splits sum.splits if_splits)
qed

theorem active_origin_checked_witness:
  "\<exists>w1 origin. fn_accept (sample_net None) w1 = Some (Inr origin) \<and> sa_ip origin = sa_ip (fs_peer sample_ftp_session)"
proof -
  let ?net = "sample_net None" and ?port = "port_command (sample_net None) False \<lparr>sa_ip = V4 198 51 100 2, sa_port = 50000\<rparr>"
  have clean: "clean_line ''200 ok''" "clean_line ''150 go''" by (simp_all add: clean_ascii)
  have codes: "parse_reply_code ''200 ok'' = Some 200" "\<not> line_mark ''200 ok'' CHR ''-''"
    "parse_reply_code ''150 go'' = Some 150" "\<not> line_mark ''150 go'' CHR ''-''"
    by (simp_all add: code_eval)
  have input: "fw_input (ftp_answering [''200 ok'', ''150 go'']) = sent_line ''200 ok'' # [sent_line ''150 go'']"
    by (simp add: ftp_answering_simps)
  obtain w1 where w1: "ftp_command ?net ?port (ftp_answering [''200 ok'', ''150 go'']) =
      (Inr \<lparr>rp_code = 200, rp_text = text_behind_code ''200 ok''\<rparr>, w1)"
    "fw_encoding w1 = EncUtf8" "fw_write_errors w1 = []" "fw_input w1 = [sent_line ''150 go'']"
    using command_answered_on [OF ftp_answering_simps(2,3) clean(1) codes(1,2) input, of ?net ?port] by blast
  obtain w2 where "ftp_command ?net ''RETR a'' w1 = (Inr \<lparr>rp_code = 150, rp_text = text_behind_code ''150 go''\<rparr>, w2)"
    using command_answered [OF w1(2,3) clean(2) codes(3,4) w1(4)] by metis
  with w1(1) have "open_active ?net sample_ftp_session ''RETR a'' (ftp_answering [''200 ok'', ''150 go'']) =
      (Inr (), data_connected w2)"
    by (simp add: open_active_def expect_ok_def bind_io_run reply_ok_def is_positive_def transfer_started_def
        is_transfer_start_def sample_ftp_session_def no_features_def sample_net_def sample_peer_def)
  then show ?thesis by (rule active_origin_checked)
qed

end
