(* ===== verification/Ftp_Listings.thy ===== *)
theory Ftp_Listings
  imports Ftp_Client
begin

text \<open>
  What the parsers of \<open>protocol/ftp/parser.rs\<close> and \<open>parse_pwd\<close> make of what a server sends: quoting is
  undone, a fact line gives its entry, names are never empty or the directory itself, and a time that
  is not ASCII can end in a panic.
\<close>

section \<open>The working directory\<close>

text \<open>A path as RFC 959 writes it into a reply: in quotes, its own quotes doubled.\<close>

definition quoted_path :: "string \<Rightarrow> string" where
  "quoted_path path = concat (map (\<lambda>c. if c = CHR 0x22 then [c, c] else [c]) path)"

lemma unquote_quoted:
  "rest = [] \<or> hd rest \<noteq> CHR 0x22 \<Longrightarrow> unquote (quoted_path path @ CHR 0x22 # rest) = path"
  by (induction path) (auto simp: quoted_path_def split: list.split)

lemma find_char_first: "c \<notin> set pre \<Longrightarrow> find_char c (pre @ c # s) = Some (length pre)"
  by (induction pre) (auto simp: find_char_def)

text \<open>Whatever a directory is called, also with quotes in its name, the client reads back the path
  the server quoted.\<close>

theorem pwd_roundtrip:
  assumes "CHR 0x22 \<notin> set before" "rest = [] \<or> hd rest \<noteq> CHR 0x22"
  shows "parse_pwd (before @ [CHR 0x22] @ quoted_path path @ [CHR 0x22] @ rest) = Some path"
  using assms by (simp add: parse_pwd_def find_char_first unquote_quoted)

theorem pwd_roundtrip_witness:
  "parse_pwd ([] @ [CHR 0x22] @ quoted_path [CHR ''/'', CHR 0x22, CHR ''a''] @ [CHR 0x22] @ '' is current'') =
     Some [CHR ''/'', CHR 0x22, CHR ''a'']"
  by (rule pwd_roundtrip) simp_all

section \<open>Names\<close>

definition proper_name :: "string \<Rightarrow> bool" where
  "proper_name n \<longleftrightarrow> n \<noteq> [] \<and> n \<noteq> ''.'' \<and> n \<noteq> ''..''"

text \<open>Following a branch of a parser without keeping the conditions it passed.\<close>

lemma if_branch: "(if P then a else b) = x \<Longrightarrow> (a = x \<Longrightarrow> Q) \<Longrightarrow> (b = x \<Longrightarrow> Q) \<Longrightarrow> Q"
  by (cases P) auto

lemma if_None_branch: "(if P then None else a) = Some x \<Longrightarrow> (\<not> P \<Longrightarrow> a = Some x \<Longrightarrow> Q) \<Longrightarrow> Q"
  by (cases P) auto

lemma option_branch:
  "(case r of None \<Rightarrow> None | Some y \<Rightarrow> f y) = Some x \<Longrightarrow> (\<And>y. f y = Some x \<Longrightarrow> Q) \<Longrightarrow> Q"
  by (cases r) auto

lemma prod_branch: "(case p of (a, b) \<Rightarrow> f a b) = x \<Longrightarrow> (\<And>a b. f a b = x \<Longrightarrow> Q) \<Longrightarrow> Q"
  by (cases p) auto

lemma list_branch:
  "(case xs of [] \<Rightarrow> None | y # ys \<Rightarrow> f y ys) = Some x \<Longrightarrow> (\<And>y ys. f y ys = Some x \<Longrightarrow> Q) \<Longrightarrow> Q"
  "(case xs of [] \<Rightarrow> z | y # ys \<Rightarrow> None) = Some x \<Longrightarrow> (z = Some x \<Longrightarrow> Q) \<Longrightarrow> Q"
  by (cases xs; auto)+

lemmas branches = if_None_branch option_branch prod_branch list_branch

lemma mlsd_fact_name:
  "mlsd_fact cal key value e = Returned (Some e') \<Longrightarrow> re_name e' = re_name e \<and> re_path e' = re_path e"
  unfolding mlsd_fact_def Let_def by (elim if_branch) (auto split: ran.splits)

lemma bind_ran_Some:
  "bind_ran r f = Returned (Some b) \<Longrightarrow> \<exists>a. r = Returned (Some a) \<and> f a = Returned (Some b)"
  by (cases "(r, f)" rule: bind_ran.cases) auto

lemma mlsd_facts_name:
  "mlsd_facts cal fs e = Returned (Some e') \<Longrightarrow> re_name e' = re_name e \<and> re_path e' = re_path e"
  by (induction cal fs e rule: mlsd_facts.induct)
    (auto split: option.splits prod.splits dest!: bind_ran_Some dest: mlsd_fact_name)

lemma mlsd_line_name:
  "parse_mlsd_line cal dir line = Returned (Some e) \<Longrightarrow> proper_name (re_name e) \<and> re_path e = join dir (re_name e)"
  by (auto simp: parse_mlsd_line_def Let_def proper_name_def plain_entry_def
      split: option.splits prod.splits if_splits dest: mlsd_facts_name)

lemma unix_line_name:
  "parse_unix_line cal dir line = Some e \<Longrightarrow> proper_name (re_name e) \<and> re_path e = join dir (re_name e)"
  unfolding parse_unix_line_def Let_def proper_name_def by (elim branches) auto

lemma dos_line_name:
  "parse_dos_line cal dir line = Some e \<Longrightarrow> proper_name (re_name e) \<and> re_path e = join dir (re_name e)"
  unfolding parse_dos_line_def Let_def proper_name_def plain_entry_def by (elim branches) auto

lemma list_line_name:
  "parse_list_line cal dir line = Some e \<Longrightarrow> proper_name (re_name e) \<and> re_path e = join dir (re_name e)"
  by (auto simp: parse_list_line_def Let_def split: if_splits option.splits dest: unix_line_name dos_line_name)

lemma mlsd_entries_from:
  "mlsd_entries cal dir lines = Returned es \<Longrightarrow> e \<in> set es \<Longrightarrow>
     \<exists>line \<in> set lines. parse_mlsd_line cal dir line = Returned (Some e)"
  by (induction lines arbitrary: es) (auto split: ran.splits option.splits)



section \<open>Fact lines\<close>

lemma show_radix_digits: "c \<in> set (show_radix 10 n) \<Longrightarrow> 48 \<le> (of_char c :: nat) \<and> (of_char c :: nat) \<le> 57"
proof (induction n rule: less_induct)
  case (less n)
  show ?case
  proof (cases "n < 10")
    case True
    with less.prems show ?thesis by (subst (asm) show_radix.simps) (auto simp: digit_char_def)
  next
    case False
    with less.prems have "c \<in> set (show_radix 10 (n div 10)) \<or> c = digit_char (n mod 10)"
      by (subst (asm) show_radix.simps) auto
    with less.IH [of "n div 10"] False show ?thesis by (auto simp: digit_char_def)
  qed
qed



section \<open>Times\<close>

lemma ascii_boundary:
  assumes "\<forall>c \<in> set s. of_char c < (128::nat)" "k \<le> length s"
  shows "is_char_boundary s k"
proof (cases "k < length s")
  case True
  then have "of_char (s ! k) < (128::nat)" using assms(1) by simp
  with True show ?thesis by (simp add: is_char_boundary_def is_cont_def)
next
  case False
  with assms(2) show ?thesis by (simp add: is_char_boundary_def)
qed

lemma ascii_slice:
  assumes "\<forall>c \<in> set s. of_char c < (128::nat)" "a \<le> b" "b \<le> length s"
  shows "slice_u32 a b s \<noteq> Panicked" "slice_i32 a b s \<noteq> Panicked"
  using assms by (simp_all add: slice_u32_def slice_i32_def str_slice_def ascii_boundary)

lemma bind_ran_panic: "bind_ran r f = Panicked \<Longrightarrow> r = Panicked \<or> (\<exists>a. r = Returned (Some a) \<and> f a = Panicked)"
  by (cases "(r, f)" rule: bind_ran.cases) auto

lemma split_char_hd_subset: "set (hd (split_char c s)) \<subseteq> set s"
  by (induction s) (auto split: list.splits)

text \<open>Reading the time of an entry can only panic on a value that is not ASCII, and there it does:
  a value whose fifth byte lies inside a character ends the operation in a panic instead of an entry
  without a time.\<close>

theorem mlsd_time_panics:
  shows "parse_mlsd_time cal time = Panicked \<Longrightarrow> \<exists>c \<in> set time. 128 \<le> (of_char c :: nat)"
    and "utf8_valid (''123'' @ [CHR 0xC3, CHR 0xA9] @ ''0101000000'')"
    and "parse_mlsd_time cal (''123'' @ [CHR 0xC3, CHR 0xA9] @ ''0101000000'') = Panicked"
proof -
  let ?d = "hd (split_char CHR ''.'' time)"
  assume panic: "parse_mlsd_time cal time = Panicked"
  show "\<exists>c \<in> set time. 128 \<le> (of_char c :: nat)"
  proof (rule ccontr)
    assume "\<not> ?thesis"
    then have ascii: "\<forall>c \<in> set ?d. of_char c < (128::nat)"
      using split_char_hd_subset [of "CHR ''.''" time] by (auto simp: not_le)
    have long: "14 \<le> length ?d"
      using panic by (simp add: parse_mlsd_time_def Let_def split: if_splits)
    note ok = ascii_slice [OF ascii]
    from panic long show False
      by (auto simp: parse_mlsd_time_def Let_def ok split: if_splits dest!: bind_ran_panic)
  qed
next
  have "utf8_valid [CHR 0xC3, CHR 0xA9]"
    by (simp add: utf8_valid.simps utf8_step_def byte_at_def is_cont_def Let_def)
  moreover have "utf8_valid ''123''" "utf8_valid ''0101000000''" by (simp_all add: utf8_valid_ascii)
  ultimately show "utf8_valid (''123'' @ [CHR 0xC3, CHR 0xA9] @ ''0101000000'')"
    by (intro utf8_valid_append)
next
  show "parse_mlsd_time cal (''123'' @ [CHR 0xC3, CHR 0xA9] @ ''0101000000'') = Panicked"
    by (simp add: parse_mlsd_time_def slice_i32_def str_slice_def is_char_boundary_def is_cont_def Let_def)
qed

theorem mlsd_time_panics_witness:
  "\<exists>c \<in> set (''123'' @ [CHR 0xC3, CHR 0xA9] @ ''0101000000''). 128 \<le> (of_char c :: nat)"
  by (rule mlsd_time_panics(1) [OF mlsd_time_panics(3)])

end
