(* ===== verification/Ftp_Relay.thy ===== *)
theory Ftp_Relay
  imports Ftp_Client Worker_Properties
begin

text \<open>
  Two FTP connections joined by the loop of \<open>copy_remote_file\<close>: the reader and the writer of
  \<open>protocol/ftp/client.rs\<close> are a source and a sink in the sense of \<open>Transfer_Pump\<close>, so what a copy has
  written at its end is exactly what the source sent.
\<close>

section \<open>The reader and the writer\<close>

text \<open>What a data connection still delivers before it ends or fails.\<close>

fun events_left :: "data_event list \<Rightarrow> bytes" where
  "events_left [] = []"
| "events_left (DataFailed e # events) = []"
| "events_left (DataChunk bs # events) = (if bs = [] then [] else bs @ events_left events)"

definition data_left :: "'z fworld \<Rightarrow> bytes" where
  "data_left w = (if fw_data_open w then events_left (fw_incoming w) else [])"

lemma ftp_read_ok:
  assumes "ftp_read n w = (Inr bs, w')"
  shows "data_left w = bs @ data_left w'" "length bs \<le> n" "bs = [] \<Longrightarrow> 0 < n \<Longrightarrow> data_left w = []"
  using assms by (auto simp: ftp_read_def data_left_def split: if_splits list.splits data_event.splits)

interpretation ftp_source: byte_source ftp_read data_left
  by unfold_locales (auto dest: ftp_read_ok)

lemma ftp_write_ok: "ftp_write bs w = (Inr (), w') \<Longrightarrow> fw_outgoing w' = fw_outgoing w @ bs \<and> data_left w' = data_left w"
  by (auto simp: ftp_write_def data_io_def data_left_def split: if_splits list.splits option.splits)

interpretation ftp_sink: byte_sink ftp_write fw_outgoing
  by unfold_locales (auto dest: ftp_write_ok)

section \<open>A copy between two servers\<close>

record relay_world = queue_state +
  rl_source :: ftp_world
  rl_target :: ftp_world

definition relay_read :: "nat \<Rightarrow> (relay_world, bytes) vio" where
  "relay_read n w = (case ftp_read n (rl_source w) of (r, s) \<Rightarrow> (r, w\<lparr>rl_source := s\<rparr>))"

definition relay_write :: "bytes \<Rightarrow> (relay_world, unit) vio" where
  "relay_write bs w = (case ftp_write bs (rl_target w) of (r, t) \<Rightarrow> (r, w\<lparr>rl_target := t\<rparr>))"

text \<open>No bandwidth limit: \<open>Throttle::consume\<close> returns at once.\<close>

definition unthrottled :: "'w worker_env \<Rightarrow> 'w worker_env" where
  "unthrottled env = env\<lparr>we_consume := (\<lambda>n w. w)\<rparr>"

lemma relay_more:
  "queue_state.more w' = queue_state.more w \<Longrightarrow> rl_source w' = rl_source w \<and> rl_target w' = rl_target w"
  by (cases w, cases w') simp

lemma relay_progress:
  "progress_step (unthrottled env) n p w = (p', w') \<Longrightarrow> rl_source w' = rl_source w \<and> rl_target w' = rl_target w"
  by (rule relay_more) (auto simp: progress_step_def tracker_advance_def unthrottled_def Let_def split: if_splits)

interpretation relay: byte_pipe relay_read "\<lambda>w. data_left (rl_source w)" relay_write "\<lambda>w. fw_outgoing (rl_target w)"
  "interrupted_at h" "progress_step (unthrottled env)" for env :: "relay_world worker_env" and h
  by unfold_locales (auto simp: relay_read_def relay_write_def split: prod.splits
      dest: ftp_read_ok ftp_write_ok relay_progress)


definition relay_connection :: "data_event list \<Rightarrow> ftp_world" where
  "relay_connection events = \<lparr>fw_input = [], fw_sent = [], fw_write_errors = [], fw_encoding = EncUtf8, fw_log = [],
     fw_home = None, fw_busy = True, fw_streams = [], fw_incoming = events, fw_outgoing = [], fw_data_errors = [],
     fw_data_open = True, fw_eof = False\<rparr>"

definition relay_start :: relay_world where
  "relay_start = queue_state.extend
     ((new_queue None default_settings)\<lparr>q_cells := [\<lparr>cc_cancelled = False, cc_pausing = False\<rparr>]\<rparr>)
     \<lparr>rl_source = relay_connection [DataChunk [1, 2], DataChunk [3]], rl_target = relay_connection []\<rparr>"


end
