(* ===== verification/Throttle.thy ===== *)
theory Throttle
  imports Prelude Complex_Main
begin

text \<open>
  \<open>src-tauri/src/transfer/throttle.rs\<close>: the token bucket that all transfers share.  Seconds and tokens are \<open>f64\<close> in
  the code and exact rationals here, so the rounding of \<open>f64\<close> and of \<open>Duration\<close> is left out.  \<open>consume\<close> is called
  at a time \<open>now\<close> and returns how long its caller is to sleep, which the code does outside the lock.
\<close>

section \<open>The bucket\<close>

record bucket =
  bk_last :: rat
  bk_tokens :: rat

record throttle =
  th_limit_bps :: u64
  th_state :: bucket

definition burst_secs :: rat where
  "burst_secs = 1 / 2"

definition throttle_new :: "u64 \<Rightarrow> rat \<Rightarrow> throttle" where
  "throttle_new limit_kbps now =
     \<lparr>th_limit_bps = limit_kbps * 1024, th_state = \<lparr>bk_last = now, bk_tokens = 0\<rparr>\<rparr>"

definition set_limit_kbps :: "u64 \<Rightarrow> throttle \<Rightarrow> throttle" where
  "set_limit_kbps limit_kbps th = th\<lparr>th_limit_bps := limit_kbps * 1024\<rparr>"

text \<open>The critical section of \<open>consume\<close>.\<close>

definition take_tokens :: "rat \<Rightarrow> nat \<Rightarrow> rat \<Rightarrow> bucket \<Rightarrow> rat option \<times> bucket" where
  "take_tokens rate n now b =
     (let elapsed = now - bk_last b;
          tokens = min (bk_tokens b + elapsed * rate) (rate * burst_secs);
          needed = of_nat n
      in if tokens \<ge> needed then (None, \<lparr>bk_last = now, bk_tokens = tokens - needed\<rparr>)
         else (Some ((needed - tokens) / rate), \<lparr>bk_last = now, bk_tokens = 0\<rparr>))"

definition consume :: "nat \<Rightarrow> rat \<Rightarrow> throttle \<Rightarrow> rat option \<times> throttle" where
  "consume n now th =
     (if th_limit_bps th = 0 then (None, th)
      else case take_tokens (of_nat (unat (th_limit_bps th))) n now (th_state th) of
          (wait, b) \<Rightarrow> (wait, th\<lparr>th_state := b\<rparr>))"

section \<open>What the limit bounds\<close>

definition slept :: "rat option \<Rightarrow> rat" where
  "slept wait = (case wait of Some d \<Rightarrow> d | None \<Rightarrow> 0)"

lemma slept_simps [simp]: "slept None = 0" "slept (Some d) = d"
  by (simp_all add: slept_def)

text \<open>The bytes of a call are paid for by the time since the last call, by the tokens it takes and by its delay.\<close>

lemma take_tokens_paid:
  assumes "0 < rate" "take_tokens rate n now b = (wait, b')"
  shows "of_nat n + bk_tokens b' \<le> bk_tokens b + rate * (now - bk_last b) + rate * slept wait"
    and "bk_last b' = now" "0 \<le> slept wait" "0 \<le> bk_tokens b'"
proof -
  let ?t = "min (bk_tokens b + (now - bk_last b) * rate) (rate * burst_secs)"
  have t: "?t \<le> bk_tokens b + rate * (now - bk_last b)" by (simp add: mult.commute)
  have "of_nat n + bk_tokens b' \<le> ?t + rate * slept wait \<and> bk_last b' = now \<and> 0 \<le> slept wait \<and> 0 \<le> bk_tokens b'"
  proof (cases "?t \<ge> of_nat n")
    case True
    with assms(2) show ?thesis by (auto simp: take_tokens_def Let_def)
  next
    case False
    with assms(2) have "wait = Some ((of_nat n - ?t) / rate)" "bk_tokens b' = 0" "bk_last b' = now"
      by (auto simp: take_tokens_def Let_def)
    moreover have "0 \<le> (of_nat n - ?t) / rate"
      using assms(1) less_imp_le [OF False [unfolded not_le]] by (intro divide_nonneg_pos) (simp_all del: min_le_iff_disj)
    ultimately show ?thesis using assms(1) by simp
  qed
  with t show "of_nat n + bk_tokens b' \<le> bk_tokens b + rate * (now - bk_last b) + rate * slept wait"
    "bk_last b' = now" "0 \<le> slept wait" "0 \<le> bk_tokens b'" by linarith+
qed

definition rate_of :: "throttle \<Rightarrow> rat" where
  "rate_of th = of_nat (unat (th_limit_bps th))"

lemma rate_pos: "th_limit_bps th \<noteq> 0 \<Longrightarrow> 0 < rate_of th"
  by (simp add: rate_of_def word_neq_0_conv unat_gt_0 del: of_nat_unat)

lemma consume_paid:
  assumes "th_limit_bps th \<noteq> 0" "consume n now th = (wait, th')"
  shows "of_nat n + bk_tokens (th_state th') \<le> bk_tokens (th_state th)
      + rate_of th * (now - bk_last (th_state th)) + rate_of th * slept wait"
    and "th_limit_bps th' = th_limit_bps th" "bk_last (th_state th') = now" "0 \<le> slept wait"
    and "0 \<le> bk_tokens (th_state th')"
proof -
  obtain b where t: "take_tokens (rate_of th) n now (th_state th) = (wait, b)" "th' = th\<lparr>th_state := b\<rparr>"
    using assms by (auto simp: consume_def rate_of_def split: prod.splits)
  show "of_nat n + bk_tokens (th_state th') \<le> bk_tokens (th_state th)
      + rate_of th * (now - bk_last (th_state th)) + rate_of th * slept wait"
    "th_limit_bps th' = th_limit_bps th" "bk_last (th_state th') = now" "0 \<le> slept wait"
    "0 \<le> bk_tokens (th_state th')"
    using take_tokens_paid [OF rate_pos [OF assms(1)] t(1)] t(2) by simp_all
qed

text \<open>Transfers that share the bucket: the calls in the order of their times, each with its transfer and its bytes.
  \<open>ready i\<close> is when transfer \<open>i\<close> has slept enough; there is no result if a call comes before that.\<close>

fun run_senders :: "(rat \<times> nat \<times> nat) list \<Rightarrow> (nat \<Rightarrow> rat) \<Rightarrow> throttle \<Rightarrow> ((nat \<Rightarrow> rat) \<times> throttle) option" where
  "run_senders [] ready th = Some (ready, th)"
| "run_senders ((now, i, n) # calls) ready th =
     (if now < ready i \<or> now < bk_last (th_state th) then None
      else case consume n now th of (wait, th') \<Rightarrow> run_senders calls (ready(i := now + slept wait)) th')"

definition sent :: "(rat \<times> nat \<times> nat) list \<Rightarrow> nat" where
  "sent calls = sum_list (map (snd \<circ> snd) calls)"

lemma ready_grows:
  assumes "i < (m :: nat)" "(ready i :: rat) \<le> now" "0 \<le> d"
  shows "(\<Sum>j<m. ready j) + d \<le> (\<Sum>j<m. (ready(i := now + d)) j)"
proof -
  have i: "finite {..<m}" "i \<in> {..<m}" using assms(1) by simp_all
  have "(\<Sum>j\<in>{..<m} - {i}. (ready(i := now + d)) j) = (\<Sum>j\<in>{..<m} - {i}. ready j)"
    by (rule sum.cong) auto
  with sum.remove [OF i, of ready] sum.remove [OF i, of "ready(i := now + d)"] assms(2,3)
  show ?thesis by simp
qed

lemma run_senders_paid:
  assumes "th_limit_bps th \<noteq> 0" "\<forall>(now, i, n) \<in> set calls. i < m"
    "run_senders calls ready th = Some (ready', th')"
  shows "of_nat (sent calls) + bk_tokens (th_state th') \<le> bk_tokens (th_state th)
    + rate_of th * (bk_last (th_state th') - bk_last (th_state th))
    + rate_of th * ((\<Sum>j<m. ready' j) - (\<Sum>j<m. ready j))
    \<and> (0 \<le> bk_tokens (th_state th) \<longrightarrow> 0 \<le> bk_tokens (th_state th'))"
  using assms
proof (induction calls arbitrary: th ready)
  case Nil
  then show ?case by (simp add: sent_def)
next
  case (Cons c calls)
  obtain now i n where c: "c = (now, i, n)" by (cases c)
  obtain wait th1 where one: "consume n now th = (wait, th1)" by fastforce
  from Cons.prems(3) c one have r: "ready i \<le> now"
      "run_senders calls (ready(i := now + slept wait)) th1 = Some (ready', th')"
    by (auto split: if_splits)
  note P = consume_paid [OF Cons.prems(1) one]
  have "rate_of th1 = rate_of th" using P(2) by (simp add: rate_of_def)
  moreover have "rate_of th * ((\<Sum>j<m. ready j) + slept wait)
      \<le> rate_of th * (\<Sum>j<m. (ready(i := now + slept wait)) j)"
    using ready_grows [of i m ready now "slept wait"] r(1) P(4) Cons.prems(2) c rate_pos [OF Cons.prems(1)]
    by (intro mult_left_mono) auto
  moreover have "of_nat (sent calls) + bk_tokens (th_state th') \<le> bk_tokens (th_state th1)
    + rate_of th1 * (bk_last (th_state th') - bk_last (th_state th1))
    + rate_of th1 * ((\<Sum>j<m. ready' j) - (\<Sum>j<m. (ready(i := now + slept wait)) j))
    \<and> (0 \<le> bk_tokens (th_state th1) \<longrightarrow> 0 \<le> bk_tokens (th_state th'))"
    using Cons.IH [OF _ _ r(2)] Cons.prems P(2) by auto
  ultimately show ?case using P(1,3,5) c by (simp add: sent_def algebra_simps)
qed

text \<open>C36: With \<open>m\<close> transfers, however their calls interleave, the bytes let through from the moment the bucket is
  empty until all have slept are at most \<open>m + 1\<close> times the limit: each transfer's delay counts once for it,
  and the same time fills the bucket once more for all.\<close>

theorem throttle_bounded:
  assumes "th_limit_bps th \<noteq> 0" "bk_tokens (th_state th) = 0"
    and "\<forall>(now, i, n) \<in> set calls. i < m"
    and "run_senders calls (\<lambda>_. bk_last (th_state th)) th = Some (ready, th')"
    and "\<forall>i < m. ready i \<le> stop" "bk_last (th_state th') \<le> stop"
  shows "of_nat (sent calls) \<le> of_nat (m + 1) * rate_of th * (stop - bk_last (th_state th))"
proof -
  let ?start = "bk_last (th_state th)"
  note P = run_senders_paid [OF assms(1,3,4)]
  have r: "0 < rate_of th" by (rule rate_pos [OF assms(1)])
  have "(\<Sum>j<m. ready j) \<le> (\<Sum>j<m. stop)" using assms(5) by (intro sum_mono) simp
  then have "rate_of th * ((\<Sum>j<m. ready j) - (\<Sum>j<m. ?start)) \<le> rate_of th * (of_nat m * (stop - ?start))"
    using r by (intro mult_left_mono) (simp_all add: algebra_simps)
  moreover have "rate_of th * (bk_last (th_state th') - ?start) \<le> rate_of th * (stop - ?start)"
    using r assms(6) by (intro mult_left_mono) simp_all
  ultimately show ?thesis using P assms(2) by (simp add: algebra_simps)
qed

definition sample_throttle :: throttle where
  "sample_throttle = throttle_new 1 0"

theorem throttle_bounded_witness:
  "\<exists>ready th'. run_senders [(0, 0, 1024), (1 / 2, 1, 1024)] (\<lambda>_. 0) sample_throttle = Some (ready, th')
    \<and> of_nat (sent [(0, 0, 1024), (1 / 2, 1, 1024)]) \<le> of_nat (2 + 1) * rate_of sample_throttle * 1"
proof -
  let ?calls = "[(0, 0, 1024), (1 / 2, 1, 1024)] :: (rat \<times> nat \<times> nat) list"
  let ?ready = "(\<lambda>_. 0)(0 := 1, 1 := 1) :: nat \<Rightarrow> rat"
  let ?final = "sample_throttle\<lparr>th_state := \<lparr>bk_last = 1 / 2, bk_tokens = 0\<rparr>\<rparr>"
  have s: "th_limit_bps sample_throttle \<noteq> 0" "bk_tokens (th_state sample_throttle) = 0"
      "bk_last (th_state sample_throttle) = 0"
    by (simp_all add: sample_throttle_def throttle_new_def)
  have run: "run_senders ?calls (\<lambda>_. bk_last (th_state sample_throttle)) sample_throttle = Some (?ready, ?final)"
    by (simp add: consume_def take_tokens_def sample_throttle_def throttle_new_def burst_secs_def slept_def)
  have c: "\<forall>(now, i, n) \<in> set ?calls. i < 2" by simp
  have e: "\<forall>i < (2::nat). ?ready i \<le> 1" "bk_last (th_state ?final) \<le> 1" by (auto simp: less_2_cases_iff)
  show ?thesis using throttle_bounded [OF s(1,2) c run e] run s(3) by auto
qed

lemma consume_at_once:
  assumes "th_limit_bps th \<noteq> 0" "th_state th = \<lparr>bk_last = now, bk_tokens = 0\<rparr>" "0 < n"
  shows "consume n now th = (Some (of_nat n / rate_of th), th)"
proof -
  have "0 < rate_of th * burst_secs" using rate_pos [OF assms(1)] by (simp add: burst_secs_def)
  with assms show ?thesis
    by (simp add: consume_def take_tokens_def Let_def rate_of_def [symmetric] min_def del: of_nat_unat)
qed

lemma run_at_once:
  assumes "th_limit_bps th \<noteq> 0" "th_state th = \<lparr>bk_last = now, bk_tokens = 0\<rparr>" "0 < n"
  shows "distinct is \<Longrightarrow> \<forall>i \<in> set is. ready i = now
    \<Longrightarrow> run_senders (map (\<lambda>i. (now, i, n)) is) ready th
      = Some (\<lambda>i. if i \<in> set is then now + of_nat n / rate_of th else ready i, th)"
proof (induction "is" arbitrary: ready)
  case Nil
  then show ?case by simp
next
  case (Cons i "is")
  let ?later = "now + of_nat n / rate_of th"
  from Cons have "\<forall>j \<in> set is. (ready(i := ?later)) j = now" by auto
  from Cons.IH [OF _ this] Cons.prems
  have "run_senders (map (\<lambda>i. (now, i, n)) is) (ready(i := ?later)) th
      = Some (\<lambda>j. if j \<in> set is then ?later else (ready(i := ?later)) j, th)"
    by (simp del: fun_upd_apply)
  moreover have "(\<lambda>j. if j \<in> set is then ?later else (ready(i := ?later)) j)
      = (\<lambda>j. if j \<in> set (i # is) then ?later else ready j)" by auto
  ultimately show ?case using Cons.prems assms(2) by (simp add: consume_at_once [OF assms] del: fun_upd_apply)
qed

text \<open>The limit is not shared: when \<open>m\<close> transfers ask at the same moment with an empty bucket, each sleeps only
  for its own bytes, so after the time the limit allows for \<open>n\<close> bytes all of them go on and \<open>m * n\<close> bytes have
  passed.\<close>

theorem throttle_not_shared:
  assumes "th_limit_bps th \<noteq> 0" "th_state th = \<lparr>bk_last = now, bk_tokens = 0\<rparr>" "0 < n"
  shows "run_senders (map (\<lambda>i. (now, i, n)) [0..<m]) (\<lambda>_. now) th
      = Some (\<lambda>i. if i < m then now + of_nat n / rate_of th else now, th)
      \<and> sent (map (\<lambda>i. (now, i, n)) [0..<m]) = m * n"
  using run_at_once [OF assms, of "[0..<m]" "\<lambda>_. now"] by (simp add: sent_def comp_def sum_list_triv)

theorem throttle_not_shared_witness:
  "run_senders (map (\<lambda>i. (0, i, 1024)) [0..<4]) (\<lambda>_. 0) sample_throttle
     = Some (\<lambda>i. if i < 4 then 1 else 0, sample_throttle)
   \<and> sent (map (\<lambda>i. (0, i, 1024)) [0..<4]) = 4096"
proof -
  have s: "th_limit_bps sample_throttle \<noteq> 0" "th_state sample_throttle = \<lparr>bk_last = 0, bk_tokens = 0\<rparr>"
      "rate_of sample_throttle = 1024"
    by (simp_all add: sample_throttle_def throttle_new_def rate_of_def)
  have one: "0 + of_nat 1024 / rate_of sample_throttle = 1" unfolding s(3) by simp
  have "(0::nat) < 1024" by simp
  from throttle_not_shared [OF s(1,2) this, of 4] show ?thesis unfolding one by simp
qed

end
