(* ===== verification/Sync_Compare.thy ===== *)
theory Sync_Compare
  imports Local_Fs Sessions "HOL-Library.List_Lexorder"
begin

text \<open>
  \<open>src-tauri/src/sync.rs\<close>: the comparison of a local with a remote directory tree.  Both trees are walked
  with a stack, so a walk has fuel: one unit per directory.  \<open>glob\<close> is the \<open>glob-match\<close> crate.
\<close>

section \<open>Data\<close>

definition mtime_tolerance_secs :: int where
  "mtime_tolerance_secs = 2"

datatype diff_kind = Equal | LocalNewer | RemoteNewer | LocalOnly | RemoteOnly | Different

record diff_entry =
  de_relative_path :: string
  de_is_dir :: bool
  de_kind :: diff_kind
  de_local_size :: "u64 option"
  de_remote_size :: "u64 option"
  de_local_mtime :: "int option"
  de_remote_mtime :: "int option"
  de_local_path :: string
  de_remote_path :: string

record sync_request =
  sy_session_id :: string
  sy_local_dir :: string
  sy_remote_dir :: string
  sy_excludes :: "string list"

record tree_facts =
  tf_size :: u64
  tf_mtime :: "int option"
  tf_is_dir :: bool
  tf_absolute :: string

type_synonym tree_map = "(string \<times> tree_facts) list"

definition exclude_new :: "string list \<Rightarrow> string list" where
  "exclude_new patterns = filter (\<lambda>p. p \<noteq> []) (map trim patterns)"

definition exclude_matches :: "(string \<Rightarrow> string \<Rightarrow> bool) \<Rightarrow> string list \<Rightarrow> string \<Rightarrow> string \<Rightarrow> bool" where
  "exclude_matches glob patterns relative name =
     list_ex (\<lambda>p. glob p relative \<or> glob p name) patterns"

section \<open>Walking the trees\<close>

definition relative_to :: "string \<Rightarrow> string \<Rightarrow> string" where
  "relative_to prefix name = (if prefix = [] then name else prefix @ ''/'' @ name)"

text \<open>The walk of one listing: what was found, and the directories still to visit, the next one first.\<close>

type_synonym walk_state = "tree_map \<times> (string \<times> string) list"

definition local_visit ::
  "(string \<Rightarrow> string \<Rightarrow> bool) \<Rightarrow> string \<Rightarrow> local_entry \<Rightarrow> walk_state \<Rightarrow> walk_state" where
  "local_visit excluded prefix e = (\<lambda>(out, stack).
     let relative = relative_to prefix (le_name e); is_dir = local_dir_like e
     in if excluded relative (le_name e) then (out, stack)
        else (AList.update relative \<lparr>tf_size = le_size e, tf_mtime = le_mtime e, tf_is_dir = is_dir,
                tf_absolute = le_path e\<rparr> out,
              if is_dir then (le_path e, relative) # stack else stack))"

fun collect_local ::
  "nat \<Rightarrow> 'w os_fs \<Rightarrow> (string \<Rightarrow> string \<Rightarrow> bool) \<Rightarrow> 'w \<Rightarrow> walk_state \<Rightarrow> tree_map vresult option" where
  "collect_local fuel os excluded w (out, []) = Some (Inr out)"
| "collect_local 0 os excluded w (out, d # stack) = None"
| "collect_local (Suc fuel) os excluded w (out, (dir, prefix) # stack) = (case list_dir os dir True w of
      Inl e \<Rightarrow> Some (Inl e)
    | Inr entries \<Rightarrow> collect_local fuel os excluded w (fold (local_visit excluded prefix) entries (out, stack)))"

definition followed :: "(string \<Rightarrow> string \<Rightarrow> bool) \<Rightarrow> string \<Rightarrow> remote_entry \<Rightarrow> bool" where
  "followed excluded prefix e \<longleftrightarrow> \<not> excluded (relative_to prefix (re_name e)) (re_name e) \<and>
     \<not> (re_kind e = KSymlink \<and> re_link_broken e)"

definition remote_visit ::
  "(string \<Rightarrow> string \<Rightarrow> bool) \<Rightarrow> string \<Rightarrow> remote_entry \<Rightarrow> walk_state \<Rightarrow> walk_state" where
  "remote_visit excluded prefix e = (\<lambda>(out, stack).
     let relative = relative_to prefix (re_name e); is_dir = is_dir_like e
     in if \<not> followed excluded prefix e then (out, stack)
        else (AList.update relative \<lparr>tf_size = re_size e, tf_mtime = re_mtime e, tf_is_dir = is_dir,
                tf_absolute = re_path e\<rparr> out,
              if is_dir then (re_path e, relative) # stack else stack))"

fun collect_remote ::
  "nat \<Rightarrow> ('w \<Rightarrow> int) \<Rightarrow> 'w live_session \<Rightarrow> (string \<Rightarrow> string \<Rightarrow> bool) \<Rightarrow> walk_state \<Rightarrow> 'w
     \<Rightarrow> (tree_map vresult \<times> 'w) option" where
  "collect_remote fuel clock s excluded (out, []) w = Some (Inr out, w)"
| "collect_remote 0 clock s excluded (out, d # stack) w = None"
| "collect_remote (Suc fuel) clock s excluded (out, (dir, prefix) # stack) w =
     (case session_list clock s dir False w of
        (Inl e, w1) \<Rightarrow> Some (Inl e, w1)
      | (Inr entries, w1) \<Rightarrow>
          collect_remote fuel clock s excluded (fold (remote_visit excluded prefix) entries (out, stack)) w1)"

section \<open>Comparing\<close>

text \<open>The difference of the times is taken in 64 bits.\<close>

definition classify :: "tree_facts option \<Rightarrow> tree_facts option \<Rightarrow> diff_kind" where
  "classify here there = (case (here, there) of
      (Some _, None) \<Rightarrow> LocalOnly
    | (None, Some _) \<Rightarrow> RemoteOnly
    | (Some l, Some r) \<Rightarrow>
        if tf_is_dir l \<or> tf_is_dir r then (if tf_is_dir l = tf_is_dir r then Equal else Different)
        else if tf_size l \<noteq> tf_size r then (case (tf_mtime l, tf_mtime r) of
            (Some lm, Some rm) \<Rightarrow> if lm > rm then LocalNewer else if rm > lm then RemoteNewer else Different
          | _ \<Rightarrow> Different)
        else (case (tf_mtime l, tf_mtime r) of
            (Some lm, Some rm) \<Rightarrow> if wrap_i64 \<bar>wrap_i64 (lm - rm)\<bar> \<le> mtime_tolerance_secs then Equal
              else if lm > rm then LocalNewer else RemoteNewer
          | _ \<Rightarrow> Equal)
    | (None, None) \<Rightarrow> Equal)"

text \<open>Strings are ordered by their bytes.\<close>

definition byte_key :: "string \<Rightarrow> nat list" where
  "byte_key s = map of_char s"

definition diff_keys :: "tree_map \<Rightarrow> tree_map \<Rightarrow> string list" where
  "diff_keys l r = remdups_adj (sort_key byte_key (map fst l @ map fst r))"

definition diff_entry_of :: "'w os_fs \<Rightarrow> sync_request \<Rightarrow> tree_map \<Rightarrow> tree_map \<Rightarrow> string \<Rightarrow> diff_entry" where
  "diff_entry_of os req here there key =
     (let l = map_of here key; r = map_of there key
      in \<lparr>de_relative_path = key,
          de_is_dir = (case l of Some f \<Rightarrow> tf_is_dir f | None \<Rightarrow> (case r of Some f \<Rightarrow> tf_is_dir f | None \<Rightarrow> False)),
          de_kind = classify l r, de_local_size = map_option tf_size l, de_remote_size = map_option tf_size r,
          de_local_mtime = Option.bind l tf_mtime, de_remote_mtime = Option.bind r tf_mtime,
          de_local_path = (case l of Some f \<Rightarrow> tf_absolute f
            | None \<Rightarrow> local_join os (sy_local_dir req) (map (\<lambda>c. if c = CHR ''/'' then CHR 0x5C else c) key)),
          de_remote_path = (case r of Some f \<Rightarrow> tf_absolute f | None \<Rightarrow> join (sy_remote_dir req) key)\<rparr>)"

definition tree_diff :: "'w os_fs \<Rightarrow> sync_request \<Rightarrow> tree_map \<Rightarrow> tree_map \<Rightarrow> diff_entry list" where
  "tree_diff os req here there = map (diff_entry_of os req here there) (diff_keys here there)"

definition compare_trees ::
  "nat \<Rightarrow> 'w os_fs \<Rightarrow> (string \<Rightarrow> string \<Rightarrow> bool) \<Rightarrow> ('w \<Rightarrow> int) \<Rightarrow> 'w live_session \<Rightarrow> sync_request \<Rightarrow> 'w
     \<Rightarrow> (diff_entry list vresult \<times> 'w) option" where
  "compare_trees fuel os glob clock s req w =
     (let excluded = exclude_matches glob (exclude_new (sy_excludes req))
      in case collect_local fuel os excluded w ([], [(sy_local_dir req, [])]) of
          None \<Rightarrow> None
        | Some (Inl e) \<Rightarrow> Some (Inl e, w)
        | Some (Inr here) \<Rightarrow> (case collect_remote fuel clock s excluded ([], [(sy_remote_dir req, [])]) w of
              None \<Rightarrow> None
            | Some (Inl e, w1) \<Rightarrow> Some (Inl e, w1)
            | Some (Inr there, w1) \<Rightarrow> Some (Inr (tree_diff os req here there), w1)))"

section \<open>The classification\<close>

text \<open>The same difference seen from the other side.\<close>

fun mirrored :: "diff_kind \<Rightarrow> diff_kind" where
  "mirrored LocalNewer = RemoteNewer"
| "mirrored RemoteNewer = LocalNewer"
| "mirrored LocalOnly = RemoteOnly"
| "mirrored RemoteOnly = LocalOnly"
| "mirrored k = k"

definition times_close :: "tree_facts option \<Rightarrow> tree_facts option \<Rightarrow> bool" where
  "times_close here there \<longleftrightarrow> (case (Option.bind here tf_mtime, Option.bind there tf_mtime) of
      (Some lm, Some rm) \<Rightarrow> \<bar>lm - rm\<bar> < 2 ^ 63 | _ \<Rightarrow> True)"

lemma wrap_i64_close: "\<bar>x\<bar> < 2 ^ 63 \<Longrightarrow> wrap_i64 x = x \<and> wrap_i64 \<bar>x\<bar> = \<bar>x\<bar>"
  by (auto intro!: wrap_i64_id simp: in_i64_def)

text \<open>The comparison does not prefer a side: exchanging the two trees exchanges newer and only on one
  side and changes nothing else, and a file is called newer only when its time is later.\<close>

theorem classify_mirrored:
  assumes "times_close here there"
  shows "classify there here = mirrored (classify here there) \<and>
    (classify here there = LocalNewer \<longrightarrow>
      (\<exists>l r lm rm. here = Some l \<and> there = Some r \<and> tf_mtime l = Some lm \<and> tf_mtime r = Some rm \<and> rm < lm))"
proof
  show "classify there here = mirrored (classify here there)"
  proof (cases "(here, there)")
    case (Pair a b)
    with assms show ?thesis
    proof (cases a; cases b)
      fix l r assume a: "a = Some l" and b: "b = Some r"
      have "wrap_i64 (lm - rm) = lm - rm \<and> wrap_i64 \<bar>lm - rm\<bar> = \<bar>lm - rm\<bar>"
        "wrap_i64 (rm - lm) = rm - lm \<and> wrap_i64 \<bar>rm - lm\<bar> = \<bar>lm - rm\<bar>"
        if "tf_mtime l = Some lm" "tf_mtime r = Some rm" for lm rm
        using assms Pair a b that using wrap_i64_close [of "lm - rm"] wrap_i64_close [of "rm - lm"] by (simp_all add: times_close_def abs_minus_commute)
      with Pair a b show ?thesis
        by (auto simp: classify_def mtime_tolerance_secs_def split: option.splits)
    qed (auto simp: classify_def)
  qed
next
  show "classify here there = LocalNewer \<longrightarrow>
      (\<exists>l r lm rm. here = Some l \<and> there = Some r \<and> tf_mtime l = Some lm \<and> tf_mtime r = Some rm \<and> rm < lm)"
    by (auto simp: classify_def split: option.splits if_splits)
qed

theorem classify_mirrored_witness:
  "classify (Some \<lparr>tf_size = 1, tf_mtime = Some 50, tf_is_dir = False, tf_absolute = ''a''\<rparr>)
     (Some \<lparr>tf_size = 1, tf_mtime = Some 40, tf_is_dir = False, tf_absolute = ''b''\<rparr>) = LocalNewer \<and>
   classify (Some \<lparr>tf_size = 1, tf_mtime = Some 40, tf_is_dir = False, tf_absolute = ''b''\<rparr>)
     (Some \<lparr>tf_size = 1, tf_mtime = Some 50, tf_is_dir = False, tf_absolute = ''a''\<rparr>) = RemoteNewer \<and>
   (\<exists>lm rm. Some (50 :: int) = Some lm \<and> Some (40 :: int) = Some rm \<and> rm < lm)"
proof -
  let ?l = "Some \<lparr>tf_size = 1, tf_mtime = Some 50, tf_is_dir = False, tf_absolute = ''a''\<rparr>"
  let ?r = "Some \<lparr>tf_size = 1, tf_mtime = Some 40, tf_is_dir = False, tf_absolute = ''b''\<rparr>"
  have close: "times_close ?l ?r" by (simp add: times_close_def)
  have newer: "classify ?l ?r = LocalNewer"
    by (simp add: classify_def mtime_tolerance_secs_def wrap_i64_id in_i64_def)
  then show ?thesis
    using classify_mirrored [OF close] by simp
qed

section \<open>The list of differences\<close>

lemma byte_key_inj: "inj byte_key"
proof (rule injI)
  fix s t assume "byte_key s = byte_key t"
  then show "s = t" unfolding byte_key_def by (rule map_injective) (simp add: inj_def)
qed

lemma remdups_adj_strict:
  fixes f :: "'a \<Rightarrow> 'b::linorder"
  assumes "inj f"
  shows "sorted (map f xs) \<Longrightarrow> sorted_wrt (\<lambda>a b. f a < f b) (remdups_adj xs)"
proof (induction xs rule: remdups_adj.induct)
  case (3 x y xs)
  show ?case
  proof (cases "x = y")
    case False
    with 3 have "sorted_wrt (\<lambda>a b. f a < f b) (remdups_adj (y # xs))" by simp
    moreover have "f x < f z" if "z \<in> set (y # xs)" for z
    proof -
      have "f x < f y" using 3(3) False assms by (auto simp: le_less inj_eq)
      then show ?thesis using 3(3) that by auto
    qed
    ultimately show ?thesis using False by simp
  qed (use 3 in simp)
qed simp_all

text \<open>C26: The comparison lists every path of either tree exactly once, in the order of its bytes, and
  nothing else.\<close>

theorem diff_complete:
  "set (map de_relative_path (tree_diff os req here there)) = fst ` set here \<union> fst ` set there \<and>
   sorted_wrt (\<lambda>a b. byte_key a < byte_key b) (map de_relative_path (tree_diff os req here there))"
proof -
  have paths: "map de_relative_path (tree_diff os req here there) = diff_keys here there"
    by (simp add: tree_diff_def diff_entry_of_def comp_def Let_def)
  have "sorted (map byte_key (sort_key byte_key (map fst here @ map fst there)))"
    by (rule sorted_sort_key)
  from remdups_adj_strict [OF byte_key_inj this] show ?thesis
    unfolding paths by (auto simp: diff_keys_def)
qed

section \<open>Termination\<close>

lemma fold_remote_visit_stack:
  "snd (fold (remote_visit excluded prefix) es (out, stack)) =
     rev (map (\<lambda>e. (re_path e, relative_to prefix (re_name e)))
       (filter (\<lambda>e. followed excluded prefix e \<and> is_dir_like e) es)) @ stack"
  by (induction es arbitrary: out stack) (simp_all add: remote_visit_def Let_def)

lemma sum_filter_le: "sum_list (map f (filter (\<lambda>x. P x \<and> Q x) xs)) \<le> sum_list (map f (filter Q xs))" for f :: "'a \<Rightarrow> nat"
  by (induction xs) auto

lemma collect_remote_visits:
  assumes "session_list clock s dir False w = (Inr es, w1)"
  obtains out' where "collect_remote (Suc fuel) clock s excluded (out, (dir, prefix) # rest) w =
    collect_remote fuel clock s excluded (out', rev (map (\<lambda>e. (re_path e, relative_to prefix (re_name e)))
       (filter (\<lambda>e. followed excluded prefix e \<and> is_dir_like e) es)) @ rest) w1"
  using assms fold_remote_visit_stack [of excluded prefix es out rest]
  by (cases "fold (remote_visit excluded prefix) es (out, rest)") simp

text \<open>C27: The walk of a remote tree returns when the tree is finite: when every directory weighs more than
  the directories the walk enters from it, more fuel than the weight of the root is enough.\<close>

theorem collect_remote_returns:
  assumes "\<And>dir w es w'. good w \<Longrightarrow> session_list clock s dir False w = (Inr es, w') \<Longrightarrow>
      good w' \<and> sum_list (map (weight \<circ> re_path) (filter is_dir_like es)) < weight dir"
    and "good w" "weight root < fuel"
  shows "\<exists>r. collect_remote fuel clock s excluded ([], [(root, [])]) w = Some r"
proof -
  have "good w \<Longrightarrow> sum_list (map (weight \<circ> fst) stack) < fuel \<Longrightarrow>
      \<exists>r. collect_remote fuel clock s excluded (out, stack) w = Some r" for out stack w
  proof (induction fuel arbitrary: out stack w)
    case (Suc fuel)
    show ?case
    proof (cases stack)
      case (Cons d rest)
      obtain dir prefix where d: "d = (dir, prefix)" by force
      show ?thesis
      proof (cases "session_list clock s dir False w")
        case (Pair r w1)
        show ?thesis
        proof (cases r)
          case (Inl e)
          with Cons d Pair show ?thesis by simp
        next
          case (Inr es)
          let ?next = "rev (map (\<lambda>e. (re_path e, relative_to prefix (re_name e)))
             (filter (\<lambda>e. followed excluded prefix e \<and> is_dir_like e) es)) @ rest"
          obtain out' where step: "collect_remote (Suc fuel) clock s excluded (out, (dir, prefix) # rest) w =
              collect_remote fuel clock s excluded (out', ?next) w1"
            by (rule collect_remote_visits [OF Pair [unfolded Inr], where fuel = fuel])
          have w1: "good w1" and "sum_list (map (weight \<circ> re_path) (filter is_dir_like es)) < weight dir"
            using assms(1) Suc.prems(1) Pair Inr by blast+
          with sum_filter_le [of "weight \<circ> re_path" "followed excluded prefix" is_dir_like es]
          have "sum_list (map (weight \<circ> fst) ?next) < fuel"
            using Suc.prems(2) Cons d by (simp add: rev_map [symmetric] comp_def)
          from Suc.IH [OF w1 this] step Cons d show ?thesis by metis
        qed
      qed
    qed simp
  qed simp
  from this [of w "[(root, [])]" "[]"] assms(2,3) show ?thesis by simp
qed

text \<open>Servers for concrete cases: one with an empty root, one whose directories all hold a link back.\<close>

definition listing_session :: "(string \<Rightarrow> remote_entry list) \<Rightarrow> session_data live_session" where
  "listing_session files = sample_live\<lparr>lv_client := (\<lambda>_. sample_client\<lparr>rc_list := (\<lambda>p w. (Inr (files p), w))\<rparr>)\<rparr>"

definition cached_right :: "(string \<Rightarrow> remote_entry list) \<Rightarrow> session_data \<Rightarrow> bool" where
  "cached_right files w \<longleftrightarrow> (\<forall>p stamp es. map_of (lc_entries (sd_cache w)) p = Some (stamp, es) \<longrightarrow> es = files p)"

lemma sample_cached_right: "cached_right files sample_data"
  by (simp add: cached_right_def sample_data_def cache_new_def)

lemma listing_session_list:
  assumes "cached_right files w"
  shows "\<exists>w'. session_list clock (listing_session files) dir False w = (Inr (files dir), w') \<and> cached_right files w'"
  using assms
  by (auto simp: session_list_def listing_session_def sample_live_def sample_client_def session_client_def Let_def
      log_to_def lv_modify_def cached_right_def cache_get_def cache_put_def update_conv' split: option.splits prod.splits)

theorem collect_remote_returns_witness:
  "\<exists>r. collect_remote 2 (\<lambda>w. 0) (listing_session (\<lambda>p. [])) (\<lambda>p n. False) ([], [(''/'', [])]) sample_data = Some r"
proof (rule collect_remote_returns)
  show "cached_right (\<lambda>p. []) sample_data" by (rule sample_cached_right)
  fix dir w es w'
  assume "cached_right (\<lambda>p. []) w" "session_list (\<lambda>w. 0) (listing_session (\<lambda>p. [])) dir False w = (Inr es, w')"
  with listing_session_list [of "\<lambda>p. []" w "\<lambda>w. 0" dir]
  show "cached_right (\<lambda>p. []) w' \<and> sum_list (map ((\<lambda>p. 1) \<circ> re_path) (filter is_dir_like es)) < (1 :: nat)" by auto
qed simp

text \<open>A symbolic link to a directory is entered like a directory.  When links lead back, so that every
  directory the server resolves shows another one, the comparison has no end.\<close>

theorem symlink_cycle_never_ends:
  assumes "\<And>dir w. good w \<Longrightarrow> \<exists>es w' e. session_list clock s dir False w = (Inr es, w') \<and> good w' \<and> e \<in> set es \<and>
      re_kind e = KSymlink \<and> re_target_is_dir e = Some True \<and> \<not> re_link_broken e"
    and "good w"
  shows "collect_remote fuel clock s (exclude_matches glob []) ([], [(root, [])]) w = None"
proof -
  have "good w \<Longrightarrow> stack \<noteq> [] \<Longrightarrow> collect_remote fuel clock s (exclude_matches glob []) (out, stack) w = None" for out stack w
  proof (induction fuel arbitrary: out stack w)
    case 0
    then show ?case by (cases stack) auto
  next
    case (Suc fuel)
    then obtain dir prefix rest where stack: "stack = (dir, prefix) # rest" by (cases stack) auto
    obtain es w' e where list: "session_list clock s dir False w = (Inr es, w')" and w': "good w'" and e: "e \<in> set es"
        "re_kind e = KSymlink" "re_target_is_dir e = Some True" "\<not> re_link_broken e"
      using assms(1) Suc.prems(1) by blast
    from e have "filter (\<lambda>e. followed (exclude_matches glob []) prefix e \<and> is_dir_like e) es \<noteq> []"
      by (auto simp: filter_empty_conv followed_def exclude_matches_def is_dir_like_def)
    with Suc.IH [OF w'] show ?case
      unfolding stack by (rule_tac collect_remote_visits [OF list, of fuel "exclude_matches glob []" out prefix rest]) simp
  qed
  from this [OF assms(2), of "[(root, [])]" "[]"] show ?thesis by simp
qed

theorem symlink_cycle_never_ends_witness:
  "\<forall>fuel. collect_remote fuel (\<lambda>w. 0) (listing_session (\<lambda>p. [(plain_entry (join p ''loop'') KSymlink 0 None)\<lparr>re_target_is_dir := Some True\<rparr>]))
     (exclude_matches (=) []) ([], [(''/'', [])]) sample_data = None"
proof (rule allI, rule symlink_cycle_never_ends)
  let ?files = "\<lambda>p. [(plain_entry (join p ''loop'') KSymlink 0 None)\<lparr>re_target_is_dir := Some True\<rparr>]"
  show "cached_right ?files sample_data" by (simp add: sample_cached_right)
  fix dir w assume "cached_right ?files w"
  from listing_session_list [OF this, of "\<lambda>w. 0" dir]
  show "\<exists>es w' e. session_list (\<lambda>w. 0) (listing_session ?files) dir False w = (Inr es, w') \<and> cached_right ?files w' \<and>
      e \<in> set es \<and> re_kind e = KSymlink \<and> re_target_is_dir e = Some True \<and> \<not> re_link_broken e"
    by (auto simp: plain_entry_def)
qed

end
