(* ===== verification/Trust.thy ===== *)
theory Trust
  imports Ftp_Control
begin

text \<open>
  \<open>src-tauri/src/protocol/ftp/tls.rs\<close>: the certificates the user trusts and the verifier that asks for
  the others.  Hashing (\<open>sha2\<close>, \<open>hex\<close>), parsing a certificate (\<open>x509-parser\<close>) and the verification against
  the known authorities (\<open>rustls\<close>) are arguments.
\<close>

section \<open>Trusted fingerprints\<close>

record trust_store =
  tu_persistent :: "string list"
  tu_session :: "string list"

text \<open>\<open>load\<close> takes the list that could be read from the file; both sets are lists without duplicates.\<close>

definition trust_load :: "string list option \<Rightarrow> trust_store" where
  "trust_load stored = \<lparr>tu_persistent = (case stored of Some fps \<Rightarrow> remdups fps | None \<Rightarrow> []), tu_session = []\<rparr>"

definition is_trusted :: "trust_store \<Rightarrow> string \<Rightarrow> bool" where
  "is_trusted t fp \<longleftrightarrow> fp \<in> set (tu_persistent t) \<or> fp \<in> set (tu_session t)"

text \<open>The store afterwards, and the list that is written to the file, if any.\<close>

definition trust :: "string \<Rightarrow> bool \<Rightarrow> trust_store \<Rightarrow> trust_store \<times> string list option" where
  "trust fp remember t =
     (if \<not> remember then (t\<lparr>tu_session := List.insert fp (tu_session t)\<rparr>, None)
      else let persistent = List.insert fp (tu_persistent t)
           in (t\<lparr>tu_persistent := persistent\<rparr>, Some persistent))"

section \<open>Certificates\<close>

record cert_info =
  ci_host :: string
  ci_fingerprint :: string
  ci_subject :: string
  ci_issuer :: string
  ci_not_before :: string
  ci_not_after :: string
  ci_reason :: string

text \<open>\<open>x509\<close> gives subject, issuer and validity of a certificate that can be parsed.\<close>

definition cert_describe ::
  "(bytes \<Rightarrow> string) \<Rightarrow> (bytes \<Rightarrow> (string \<times> string \<times> string \<times> string) option) \<Rightarrow> string \<Rightarrow> bytes \<Rightarrow> string
     \<Rightarrow> cert_info" where
  "cert_describe fingerprint x509 host der reason =
     (let (subject, issuer, since, until) = (case x509 der of Some found \<Rightarrow> found | None \<Rightarrow> ([], [], [], []))
      in \<lparr>ci_host = host, ci_fingerprint = fingerprint der, ci_subject = subject, ci_issuer = issuer,
          ci_not_before = since, ci_not_after = until, ci_reason = reason\<rparr>)"

definition cert_error :: "cert_info \<Rightarrow> verror" where
  "cert_error i = UntrustedCertificate (ci_host i) (ci_fingerprint i) (ci_subject i) (ci_issuer i)
     (ci_not_before i) (ci_not_after i) (ci_reason i)"

section \<open>The verifier\<close>

record tls_verifier =
  tv_host :: string
  tv_pending :: "cert_info option"

definition verifier_new :: "string \<Rightarrow> tls_verifier" where
  "verifier_new host = \<lparr>tv_host = host, tv_pending = None\<rparr>"

text \<open>
  The known authorities: those of the system that can be read as trust anchors (\<open>anchor\<close>, as
  \<open>RootCertStore::add\<close> reads a certificate), or the built-in ones when there is none.  \<open>build\<close> makes the
  verifier of \<open>rustls\<close> from them; it may refuse.
\<close>

definition verifier_roots :: "(bytes \<Rightarrow> 'a option) \<Rightarrow> bytes list \<Rightarrow> 'a list \<Rightarrow> 'a list" where
  "verifier_roots anchor native builtin =
     (let roots = List.map_filter anchor native in if roots = [] then builtin else roots)"

definition verifier_build ::
  "('a list \<Rightarrow> string + 'i) \<Rightarrow> (bytes \<Rightarrow> 'a option) \<Rightarrow> bytes list \<Rightarrow> 'a list \<Rightarrow> string \<Rightarrow> ('i \<times> tls_verifier) vresult" where
  "verifier_build build anchor native builtin host =
     (case build (verifier_roots anchor native builtin) of
        Inl e \<Rightarrow> Inl (Other (''failed to build TLS verifier: '' @ e))
      | Inr inner \<Rightarrow> Inr (inner, verifier_new host))"

definition fingerprint_sha256 :: "(bytes \<Rightarrow> bytes) \<Rightarrow> (bytes \<Rightarrow> string) \<Rightarrow> bytes \<Rightarrow> string" where
  "fingerprint_sha256 sha256 hex der = hex (sha256 der)"

text \<open>What \<open>TlsContext::new\<close> keeps: the configuration names the verifier, and a cache of sessions to resume.\<close>

definition session_cache_size :: nat where
  "session_cache_size = 32"

record 'v tls_config =
  kc_verifier :: 'v
  kc_resumption :: nat

definition client_config :: "'v \<Rightarrow> 'v tls_config" where
  "client_config verifier = \<lparr>kc_verifier = verifier, kc_resumption = session_cache_size\<rparr>"

record 'i tls_context =
  tx_config :: "('i \<times> tls_verifier) tls_config"
  tx_verifier :: "'i \<times> tls_verifier"
  tx_host :: string

definition tls_context_new ::
  "('a list \<Rightarrow> string + 'i) \<Rightarrow> (bytes \<Rightarrow> 'a option) \<Rightarrow> bytes list \<Rightarrow> 'a list \<Rightarrow> string \<Rightarrow> 'i tls_context vresult" where
  "tls_context_new build anchor native builtin host =
     map_ok (\<lambda>v. \<lparr>tx_config = client_config v, tx_verifier = v, tx_host = host\<rparr>)
       (verifier_build build anchor native builtin host)"

definition take_pending_cert :: "tls_verifier \<Rightarrow> cert_info option \<times> tls_verifier" where
  "take_pending_cert v = (tv_pending v, v\<lparr>tv_pending := None\<rparr>)"

text \<open>\<open>inner\<close> is the verdict of the known authorities: an error's text, or none.\<close>

definition verify_server_cert ::
  "(bytes \<Rightarrow> string) \<Rightarrow> (bytes \<Rightarrow> (string \<times> string \<times> string \<times> string) option) \<Rightarrow> trust_store \<Rightarrow> string option
     \<Rightarrow> bytes \<Rightarrow> tls_verifier \<Rightarrow> (string + unit) \<times> tls_verifier" where
  "verify_server_cert fingerprint x509 t inner der v = (case inner of
      None \<Rightarrow> (Inr (), v)
    | Some e \<Rightarrow> if is_trusted t (fingerprint der) then (Inr (), v)
        else (Inl e, v\<lparr>tv_pending := Some (cert_describe fingerprint x509 (tv_host v) der e)\<rparr>))"

text \<open>\<open>TlsContext::wrap\<close> with this verifier: \<open>rest\<close> is the error of the other steps of the hand-shake, if any.\<close>

definition handshake_outcome ::
  "(bytes \<Rightarrow> string) \<Rightarrow> (bytes \<Rightarrow> (string \<times> string \<times> string \<times> string) option) \<Rightarrow> trust_store \<Rightarrow> string option
     \<Rightarrow> string option \<Rightarrow> bytes \<Rightarrow> tls_verifier \<Rightarrow> tls_outcome \<times> tls_verifier" where
  "handshake_outcome fingerprint x509 t inner other der v =
     (case verify_server_cert fingerprint x509 t inner der v of (verdict, v1) \<Rightarrow>
        (case (case verdict of Inl e \<Rightarrow> Some e | Inr _ \<Rightarrow> other) of
           None \<Rightarrow> (TlsOpen, v1)
         | Some e \<Rightarrow> (case take_pending_cert v1 of
               (Some info, v2) \<Rightarrow> (TlsRejected (cert_error info), v2)
             | (None, v2) \<Rightarrow> (TlsFailed e, v2))))"

section \<open>Properties\<close>

text \<open>C25: A connection is only opened to a server whose certificate the known authorities accept or whose
  fingerprint the user trusts; otherwise the error names the fingerprint of this very certificate,
  and trusting that fingerprint, for the session or for good, opens the next connection.\<close>

theorem certificate_trust_decides:
  assumes "tv_pending v = None"
    and "handshake_outcome fingerprint x509 t inner other der v = (out, v')"
  shows "tv_pending v' = None \<and>
    (out = TlsOpen \<longrightarrow> inner = None \<or> is_trusted t (fingerprint der)) \<and>
    (out = TlsRejected e \<longrightarrow>
      (\<exists>sub iss since until reason. e = UntrustedCertificate (tv_host v) (fingerprint der) sub iss since until reason) \<and>
      fst (handshake_outcome fingerprint x509 (fst (trust (fingerprint der) remember t)) inner None der v') = TlsOpen)"
  using assms
  by (auto simp: handshake_outcome_def verify_server_cert_def take_pending_cert_def cert_error_def cert_describe_def
      trust_def is_trusted_def Let_def split: option.splits if_splits prod.splits)

theorem certificate_trust_decides_witness:
  "\<exists>e v'. handshake_outcome (\<lambda>der. ''fp'') (\<lambda>der. None) (trust_load None) (Some ''UnknownIssuer'') None [1, 2]
      (verifier_new ''host'') = (TlsRejected e, v') \<and>
    (\<exists>sub iss since until reason. e = UntrustedCertificate ''host'' ''fp'' sub iss since until reason) \<and>
    fst (handshake_outcome (\<lambda>der. ''fp'') (\<lambda>der. None) (fst (trust ''fp'' False (trust_load None)))
      (Some ''UnknownIssuer'') None [1, 2] v') = TlsOpen"
proof -
  let ?v = "verifier_new ''host''"
  have fresh: "tv_pending ?v = None" by (simp add: verifier_new_def)
  obtain e v' where out: "handshake_outcome (\<lambda>der. ''fp'') (\<lambda>der. None) (trust_load None) (Some ''UnknownIssuer'') None
      [1, 2] ?v = (TlsRejected e, v')"
    by (simp add: handshake_outcome_def verify_server_cert_def is_trusted_def trust_load_def take_pending_cert_def)
  from certificate_trust_decides [OF fresh out, of e False] out show ?thesis
    by (auto simp: verifier_new_def)
qed

text \<open>A verifier always knows some authority, when the built-in list has one: certificates of the system that
  cannot be read are left out, and without any the built-in ones are used.\<close>

theorem verifier_has_roots:
  "builtin \<noteq> [] \<Longrightarrow> verifier_roots anchor native builtin \<noteq> [] \<and>
     (\<forall>r \<in> set (verifier_roots anchor native builtin). r \<in> set builtin \<or> (\<exists>c \<in> set native. anchor c = Some r))"
  by (auto simp: verifier_roots_def Let_def List.map_filter_def)

theorem verifier_has_roots_witness: "verifier_roots (\<lambda>c. None) [[1]] [7 :: nat] \<noteq> []"
  using verifier_has_roots [of "[7 :: nat]" "\<lambda>c. None" "[[1]]"] by blast

text \<open>A certificate trusted for good is still trusted after a restart that reads the file written then,
  and so is every certificate trusted for good before; one trusted for the session only is not.\<close>

theorem trust_survives_restart:
  "(\<forall>t' file. trust fp True t = (t', Some file) \<longrightarrow>
     (\<forall>x. is_trusted (trust_load (Some file)) x \<longleftrightarrow> x = fp \<or> x \<in> set (tu_persistent t))) \<and>
   (\<forall>t' file. trust fp False t = (t', file) \<longrightarrow> is_trusted t' fp \<and> file = None \<and> tu_persistent t' = tu_persistent t)"
  by (auto simp: trust_def trust_load_def is_trusted_def Let_def)

theorem trust_survives_restart_witness:
  "is_trusted (trust_load (Some [''b'', ''a''])) ''b'' \<and> is_trusted (trust_load (Some [''b'', ''a''])) ''a''"
proof -
  have "trust ''b'' True (trust_load (Some [''a''])) =
      (\<lparr>tu_persistent = [''b'', ''a''], tu_session = []\<rparr>, Some [''b'', ''a''])"
    by (simp add: trust_def trust_load_def Let_def)
  with trust_survives_restart [of "''b''" "trust_load (Some [''a''])"] show ?thesis
    by (auto simp: trust_load_def)
qed

end
