(* ===== verification/Utf16.thy ===== *)
theory Utf16
  imports Utf8
begin

text \<open>
  UTF-16 as the standard library encodes and decodes it (\<open>str::encode_utf16\<close>, \<open>String::from_utf16_lossy\<close>),
  which the Windows interfaces need for their texts.  A code point is a number; a character of a
  \<open>string\<close> is the byte sequence \<open>utf8_chars\<close> cuts off.
\<close>

section \<open>Code points\<close>

definition code_point :: "string \<Rightarrow> nat" where
  "code_point s =
     (let b0 = byte_at s 0; b1 = byte_at s 1 - 128; b2 = byte_at s 2 - 128; b3 = byte_at s 3 - 128
      in if b0 < 128 then b0
         else if b0 < 224 then (b0 - 192) * 64 + b1
         else if b0 < 240 then (b0 - 224) * 4096 + b1 * 64 + b2
         else (b0 - 240) * 262144 + b1 * 4096 + b2 * 64 + b3)"

definition encode_utf8 :: "nat \<Rightarrow> string" where
  "encode_utf8 c = map char_of
     (if c < 128 then [c]
      else if c < 2048 then [192 + c div 64, 128 + c mod 64]
      else if c < 65536 then [224 + c div 4096, 128 + c div 64 mod 64, 128 + c mod 64]
      else [240 + c div 262144, 128 + c div 4096 mod 64, 128 + c div 64 mod 64, 128 + c mod 64])"

text \<open>The code points that are characters: all but the surrogates.\<close>

definition is_scalar :: "nat \<Rightarrow> bool" where
  "is_scalar c \<longleftrightarrow> c < 55296 \<or> (57344 \<le> c \<and> c < 1114112)"

text \<open>A character is one of four shapes; \<open>p\<close>, \<open>q\<close>, \<open>r\<close>, \<open>t\<close> are the payloads of its bytes.\<close>

lemma scalar_cases:
  assumes "is_scalar c"
  obtains (one) "c < 128"
    | (two) p q where "c = p * 64 + q" "2 \<le> p" "p < 32" "q < 64"
    | (three) p q r where "c = p * 4096 + q * 64 + r" "p < 16" "q < 64" "r < 64" "p = 0 \<Longrightarrow> 32 \<le> q" "p = 13 \<Longrightarrow> q < 32"
    | (four) p q r t where "c = p * 262144 + q * 4096 + r * 64 + t" "p < 5" "q < 64" "r < 64" "t < 64"
        "p = 0 \<Longrightarrow> 16 \<le> q" "p = 4 \<Longrightarrow> q < 16"
proof -
  have lt: "c < 1114112" "c < 55296 \<or> 57344 \<le> c" using assms by (auto simp: is_scalar_def)
  have c: "c = c div 64 * 64 + c mod 64" "c div 64 = c div 64 div 64 * 64 + c div 64 mod 64"
    "c div 64 div 64 = c div 64 div 64 div 64 * 64 + c div 64 div 64 mod 64" by simp_all
  have m: "c mod 64 < 64" "c div 64 mod 64 < 64" "c div 64 div 64 mod 64 < 64" by simp_all
  consider "c < 128" | "128 \<le> c" "c < 2048" | "2048 \<le> c" "c < 65536" | "65536 \<le> c" by linarith
  then show ?thesis
  proof cases
    case 1
    then show ?thesis by (rule one)
  next
    case 2
    show ?thesis by (rule two [OF c(1)]) (use 2 c m in linarith)+
  next
    case 3
    show ?thesis
    proof (rule three)
      show e: "c = c div 64 div 64 * 4096 + c div 64 mod 64 * 64 + c mod 64" using c by linarith
      show "c div 64 div 64 = 0 \<Longrightarrow> 32 \<le> c div 64 mod 64" using e m 3 by linarith
      show "c div 64 div 64 = 13 \<Longrightarrow> c div 64 mod 64 < 32" using e m lt by linarith
    qed (use 3 c m in linarith)+
  next
    case 4
    show ?thesis
    proof (rule four)
      show e: "c = c div 64 div 64 div 64 * 262144 + c div 64 div 64 mod 64 * 4096 + c div 64 mod 64 * 64 + c mod 64"
        using c by linarith
      show "c div 64 div 64 div 64 = 0 \<Longrightarrow> 16 \<le> c div 64 div 64 mod 64" using e m 4 by linarith
      show "c div 64 div 64 div 64 = 4 \<Longrightarrow> c div 64 div 64 mod 64 < 16" using e m lt by linarith
    qed (use 4 lt c m in linarith)+
  qed
qed

lemma div_shift: "q < k \<Longrightarrow> (p * k + q) div k = p" "q < k \<Longrightarrow> (p * k + q) mod k = (q :: nat)"
  by simp_all

lemma encode_two: "2 \<le> p \<Longrightarrow> p < 32 \<Longrightarrow> q < 64 \<Longrightarrow> encode_utf8 (p * 64 + q) = map char_of [192 + p, 128 + q]"
  by (simp add: encode_utf8_def)

lemma encode_three:
  assumes "p < 16" "q < 64" "r < 64" "p = 0 \<Longrightarrow> 32 \<le> q"
  shows "encode_utf8 (p * 4096 + q * 64 + r) = map char_of [224 + p, 128 + q, 128 + r]"
proof -
  let ?c = "p * 4096 + q * 64 + r"
  have c: "?c = (p * 64 + q) * 64 + r" by simp
  have "?c div 64 = p * 64 + q" "?c mod 64 = r" unfolding c using assms(3) by (rule div_shift)+
  moreover have "?c div 4096 = ?c div 64 div 64" by (simp add: div_mult2_eq [symmetric])
  moreover have "2048 \<le> ?c" "?c < 65536" using assms by (cases p; simp)+
  ultimately show ?thesis using assms(2) by (simp add: encode_utf8_def div_shift)
qed

lemma encode_four:
  assumes "p < 5" "q < 64" "r < 64" "t < 64" "p = 0 \<Longrightarrow> 16 \<le> q"
  shows "encode_utf8 (p * 262144 + q * 4096 + r * 64 + t) = map char_of [240 + p, 128 + q, 128 + r, 128 + t]"
proof -
  let ?c = "p * 262144 + q * 4096 + r * 64 + t"
  have c: "?c = ((p * 64 + q) * 64 + r) * 64 + t" by simp
  have d: "?c div 64 = (p * 64 + q) * 64 + r" "?c mod 64 = t" unfolding c using assms(4) by (rule div_shift)+
  have "?c div 64 div 64 = p * 64 + q" "?c div 64 mod 64 = r" unfolding d using assms(3) by (rule div_shift)+
  moreover have "?c div 4096 = ?c div 64 div 64" "?c div 262144 = ?c div 64 div 64 div 64"
    by (simp_all add: div_mult2_eq [symmetric])
  moreover have "65536 \<le> ?c" using assms by (cases p) simp_all
  ultimately show ?thesis using assms(2) d(2) by (simp add: encode_utf8_def div_shift)
qed

lemma byte_at_simps [simp]:
  "byte_at (c # s) 0 = of_char c" "byte_at (c # s) (Suc i) = byte_at s i" "byte_at [] i = 0"
  by (simp_all add: byte_at_def)

lemma byte_at_numeral [simp]: "byte_at (c # s) (numeral k) = byte_at s (pred_numeral k)"
  by (simp add: numeral_eq_Suc)

text \<open>Encoding a character gives a well-formed sequence.\<close>

lemma utf8_step_encode:
  assumes "is_scalar c"
  shows "utf8_step (encode_utf8 c @ t) = (length (encode_utf8 c), True)"
  using assms
proof (cases c rule: scalar_cases)
  case one
  then show ?thesis by (simp add: encode_utf8_def utf8_step_def)
next
  case (two p q)
  then show ?thesis by (simp add: encode_two utf8_step_def is_cont_def)
next
  case (three p q r)
  then have "second3_ok (224 + p) (128 + q)" by (auto simp: second3_ok_def is_cont_def)
  with three show ?thesis by (simp add: encode_three utf8_step_def is_cont_def)
next
  case (four p q r v)
  then have "second4_ok (240 + p) (128 + q)" by (auto simp: second4_ok_def is_cont_def)
  with four show ?thesis by (simp add: encode_four utf8_step_def is_cont_def)
qed

lemma utf8_valid_encode: "is_scalar c \<Longrightarrow> utf8_valid (encode_utf8 c)"
  using utf8_step_encode [of c "[]"] by (subst utf8_valid.simps) simp

lemma scalar_three:
  assumes "p < 16" "q < 64" "r < 64" "p = 13 \<Longrightarrow> q < 32"
  shows "is_scalar (p * 4096 + q * 64 + r)"
proof -
  consider "p \<le> 12" | "p = 13" | "14 \<le> p" by linarith
  then have "p * 4096 + q * 64 + r < 55296 \<or> 57344 \<le> p * 4096 + q * 64 + r"
  proof cases
    case 2
    with assms(3,4) show ?thesis by simp
  qed (use assms(2,3) in linarith)+
  moreover have "p * 4096 + q * 64 + r < 65536" using assms by linarith
  ultimately show ?thesis by (auto simp: is_scalar_def)
qed

lemma scalar_four:
  assumes "p < 5" "q < 64" "r < 64" "t < 64" "p = 0 \<Longrightarrow> 16 \<le> q" "p = 4 \<Longrightarrow> q < 16"
  shows "is_scalar (p * 262144 + q * 4096 + r * 64 + t)"
proof -
  consider "p = 0" | "1 \<le> p" "p \<le> 3" | "p = 4" using assms(1) by linarith
  then have "57344 \<le> p * 262144 + q * 4096 + r * 64 + t \<and> p * 262144 + q * 4096 + r * 64 + t < 1114112"
  proof cases
    case 1
    with assms(2-5) show ?thesis by simp
  next
    case 2
    with assms(2-4) show ?thesis by linarith
  next
    case 3
    with assms(3,4,6) show ?thesis by simp
  qed
  then show ?thesis by (simp add: is_scalar_def)
qed

text \<open>A well-formed sequence is the encoding of its code point.\<close>

lemma code_point_cases:
  assumes "utf8_step s = (n, True)" "length s = n"
  shows "encode_utf8 (code_point s) = s \<and> is_scalar (code_point s)"
proof -
  consider (a) "byte_at s 0 < 128" "n = 1"
    | (b) "194 \<le> byte_at s 0" "byte_at s 0 \<le> 223" "is_cont (byte_at s 1)" "n = 2"
    | (c) "224 \<le> byte_at s 0" "byte_at s 0 \<le> 239" "second3_ok (byte_at s 0) (byte_at s 1)" "is_cont (byte_at s 2)" "n = 3"
    | (d) "240 \<le> byte_at s 0" "byte_at s 0 \<le> 244" "second4_ok (byte_at s 0) (byte_at s 1)"
        "is_cont (byte_at s 2)" "is_cont (byte_at s 3)" "n = 4"
    using assms(1) unfolding utf8_step_valid_iff by blast
  then show ?thesis
  proof cases
    case a
    then obtain x where "s = [x]" using assms(2) by (auto simp: length_Suc_conv)
    with a show ?thesis by (simp add: code_point_def encode_utf8_def is_scalar_def)
  next
    case b
    then obtain x y where s: "s = [x, y]" using assms(2) by (auto simp: length_Suc_conv numeral_2_eq_2)
    define p q where "p = of_char x - (192 :: nat)" and "q = of_char y - (128 :: nat)"
    with b s have pq: "of_char x = 192 + p" "of_char y = 128 + q" "2 \<le> p" "p < 32" "q < 64"
      by (auto simp: is_cont_def)
    then have "code_point s = p * 64 + q" by (simp add: s code_point_def)
    moreover have "x = char_of (192 + p)" "y = char_of (128 + q)" using pq(1,2) by (metis char_of_char)+
    ultimately show ?thesis using pq by (simp add: s encode_two is_scalar_def)
  next
    case c
    then obtain x y z where s: "s = [x, y, z]" using assms(2) by (auto simp: length_Suc_conv numeral_3_eq_3)
    define p q r where "p = of_char x - (224 :: nat)" and "q = of_char y - (128 :: nat)" and "r = of_char z - (128 :: nat)"
    with c s have pq: "of_char x = 224 + p" "of_char y = 128 + q" "of_char z = 128 + r" "p < 16" "q < 64" "r < 64"
        "p = 0 \<Longrightarrow> 32 \<le> q" "p = 13 \<Longrightarrow> q < 32"
      by (auto simp: is_cont_def second3_ok_def split: if_splits)
    then have "code_point s = p * 4096 + q * 64 + r" by (simp add: s code_point_def)
    moreover have "x = char_of (224 + p)" "y = char_of (128 + q)" "z = char_of (128 + r)"
      using pq(1-3) by (metis char_of_char)+
    moreover have "is_scalar (p * 4096 + q * 64 + r)" by (rule scalar_three) (use pq in simp_all)
    ultimately show ?thesis using pq by (simp add: s encode_three)
  next
    case d
    then obtain x y z v where s: "s = [x, y, z, v]" using assms(2) by (auto simp: length_Suc_conv numeral_eq_Suc)
    define p q r t where "p = of_char x - (240 :: nat)" and "q = of_char y - (128 :: nat)"
      and "r = of_char z - (128 :: nat)" and "t = of_char v - (128 :: nat)"
    with d s have pq: "of_char x = 240 + p" "of_char y = 128 + q" "of_char z = 128 + r" "of_char v = 128 + t"
        "p < 5" "q < 64" "r < 64" "t < 64" "p = 0 \<Longrightarrow> 16 \<le> q" "p = 4 \<Longrightarrow> q < 16"
      by (auto simp: is_cont_def second4_ok_def split: if_splits)
    then have "code_point s = p * 262144 + q * 4096 + r * 64 + t" by (simp add: s code_point_def)
    moreover have "x = char_of (240 + p)" "y = char_of (128 + q)" "z = char_of (128 + r)" "v = char_of (128 + t)"
      using pq(1-4) by (metis char_of_char)+
    moreover have "is_scalar (p * 262144 + q * 4096 + r * 64 + t)" by (rule scalar_four) (use pq in simp_all)
    ultimately show ?thesis using pq by (simp add: s encode_four)
  qed
qed

section \<open>UTF-16\<close>

definition utf16_units :: "nat \<Rightarrow> u16 list" where
  "utf16_units c = map of_nat
     (if c < 65536 then [c] else [55296 + (c - 65536) div 1024, 56320 + (c - 65536) mod 1024])"

definition encode_utf16 :: "string \<Rightarrow> u16 list" where
  "encode_utf16 s = concat (map (\<lambda>c. utf16_units (code_point c)) (utf8_chars s))"

text \<open>A high surrogate needs a low one behind it; a surrogate on its own becomes U+FFFD.\<close>

definition is_high :: "u16 \<Rightarrow> bool" where
  "is_high u \<longleftrightarrow> 55296 \<le> u \<and> u \<le> 56319"

definition is_low :: "u16 \<Rightarrow> bool" where
  "is_low u \<longleftrightarrow> 56320 \<le> u \<and> u \<le> 57343"

fun from_utf16_lossy :: "u16 list \<Rightarrow> string" where
  "from_utf16_lossy [] = []"
| "from_utf16_lossy (u # us) =
     (if is_low u then replacement_char @ from_utf16_lossy us
      else if \<not> is_high u then encode_utf8 (unat u) @ from_utf16_lossy us
      else (case us of
          v # vs \<Rightarrow> if is_low v
            then encode_utf8 (65536 + (unat u - 55296) * 1024 + (unat v - 56320)) @ from_utf16_lossy vs
            else replacement_char @ from_utf16_lossy us
        | [] \<Rightarrow> replacement_char))"

lemma unit_bounds:
  "is_high u \<longleftrightarrow> 55296 \<le> unat u \<and> unat u \<le> 56319" "is_low u \<longleftrightarrow> 56320 \<le> unat u \<and> unat u \<le> 57343"
  by (simp_all add: is_high_def is_low_def word_le_nat_alt)

lemma unat_unit: "n < 65536 \<Longrightarrow> unat (of_nat n :: u16) = n"
  by (simp add: unat_of_nat take_bit_eq_mod)

lemma decode_units:
  assumes "is_scalar c"
  shows "from_utf16_lossy (utf16_units c @ us) = encode_utf8 c @ from_utf16_lossy us"
proof (cases "c < 65536")
  case True
  then have "unat (of_nat c :: u16) = c" by (rule unat_unit)
  with True assms show ?thesis by (auto simp: utf16_units_def unit_bounds is_scalar_def)
next
  case False
  define h l where "h = (c - 65536) div 1024" and "l = (c - 65536) mod 1024"
  have b: "h < 1024" "l < 1024" "c = 65536 + h * 1024 + l"
    using assms False by (auto simp: h_def l_def is_scalar_def)
  have "unat (of_nat (55296 + h) :: u16) = 55296 + h" "unat (of_nat (56320 + l) :: u16) = 56320 + l"
    by (rule unat_unit, use b in simp)+
  then have "from_utf16_lossy (of_nat (55296 + h) # of_nat (56320 + l) # us) = encode_utf8 c @ from_utf16_lossy us"
    using b by (simp add: unit_bounds del: of_nat_add)
  with False show ?thesis by (simp add: utf16_units_def h_def l_def del: of_nat_add)
qed

lemma chars_encode:
  assumes "utf8_valid s" "c \<in> set (utf8_chars s)"
  shows "encode_utf8 (code_point c) = c \<and> is_scalar (code_point c)"
  using assms
proof (induction s rule: utf8_chars.induct)
  case (1 s)
  show ?case
  proof (cases "s = []")
    case False
    let ?n = "fst (utf8_step s)"
    have v: "utf8_step s = (?n, True)" "utf8_valid (drop ?n s)"
      using "1.prems"(1) False by (simp_all add: utf8_valid.simps [of s] prod_eq_iff)
    have head: "encode_utf8 (code_point (take ?n s)) = take ?n s \<and> is_scalar (code_point (take ?n s))"
      using utf8_step_take [OF v(1) False] utf8_step_le [OF False] by (intro code_point_cases) simp_all
    have "c = take ?n s \<or> c \<in> set (utf8_chars (drop ?n s))"
      using "1.prems"(2) False by (subst (asm) utf8_chars.simps) auto
    with head "1.IH" [OF False v(2)] show ?thesis by blast
  qed (use 1 in simp)
qed

text \<open>Every \<open>String\<close> survives the way through UTF-16.\<close>

lemma utf16_roundtrip:
  assumes "utf8_valid s"
  shows "from_utf16_lossy (encode_utf16 s) = s"
proof -
  have "\<forall>c \<in> set cs. encode_utf8 (code_point c) = c \<and> is_scalar (code_point c)
    \<Longrightarrow> from_utf16_lossy (concat (map (\<lambda>c. utf16_units (code_point c)) cs)) = concat cs" for cs
    by (induction cs) (simp_all add: decode_units)
  with chars_encode [OF assms] show ?thesis by (simp add: encode_utf16_def utf8_chars_concat)
qed

lemma utf16_inj: "utf8_valid s \<Longrightarrow> utf8_valid t \<Longrightarrow> encode_utf16 s = encode_utf16 t \<Longrightarrow> s = t"
  by (metis utf16_roundtrip)

lemma unat_u16_bound: "unat (u :: u16) < 65536"
  using unsigned_less [where 'a = nat, of u] by simp

text \<open>What is decoded is a well-formed \<open>String\<close>, whatever the units are.\<close>

lemma utf8_valid_from_utf16: "utf8_valid (from_utf16_lossy us)"
proof (induction us rule: from_utf16_lossy.induct)
  case (2 u us)
  have plain: "is_scalar (unat u)" if "\<not> is_low u" "\<not> is_high u"
    using that unat_u16_bound [of u] by (auto simp: unit_bounds is_scalar_def)
  have pair: "is_scalar (65536 + (unat u - 55296) * 1024 + (unat v - 56320))" if "is_high u" "is_low v" for v
    using that by (auto simp: unit_bounds is_scalar_def)
  note valid = utf8_valid_append utf8_valid_replacement utf8_valid_encode
  show ?case
  proof (cases "is_low u \<or> \<not> is_high u")
    case True
    with 2 plain show ?thesis by (auto intro!: valid)
  next
    case False
    show ?thesis
    proof (cases us)
      case (Cons v vs)
      have "from_utf16_lossy (u # us) = (if is_low v
          then encode_utf8 (65536 + (unat u - 55296) * 1024 + (unat v - 56320)) @ from_utf16_lossy vs
          else replacement_char @ from_utf16_lossy us)"
        using False Cons by (subst from_utf16_lossy.simps(2)) (simp only: list.case de_Morgan_disj not_not if_False if_True simp_thms)
      moreover have "is_low v \<Longrightarrow> utf8_valid (from_utf16_lossy vs)" "\<not> is_low v \<Longrightarrow> utf8_valid (from_utf16_lossy us)"
        using "2.IH"(3,4) False Cons by blast+
      ultimately show ?thesis using pair False by (simp add: valid)
    qed (use False utf8_valid_replacement in simp)
  qed
qed simp

text \<open>A character other than NUL has no zero unit, so a NUL-terminated text ends where it should.\<close>

lemma utf16_units_nonzero:
  assumes "is_scalar c" "c \<noteq> 0"
  shows "0 \<notin> set (utf16_units c)"
proof -
  let ?ns = "if c < 65536 then [c] else [55296 + (c - 65536) div 1024, 56320 + (c - 65536) mod 1024]"
  have "0 < n \<and> n < 65536" if "n \<in> set ?ns" for n
    using that assms by (auto simp: is_scalar_def split: if_splits)
  then have "(of_nat n :: u16) \<noteq> 0" if "n \<in> set ?ns" for n
    using that unat_unit [of n] by (metis less_numeral_extra(3) unsigned_0)
  then have "0 \<notin> set (map (of_nat :: nat \<Rightarrow> u16) ?ns)" by (auto simp del: set_simps if_split)
  then show ?thesis unfolding utf16_units_def .
qed

lemma encode_utf16_nonzero:
  assumes "utf8_valid s" "CHR 0x00 \<notin> set s"
  shows "0 \<notin> set (encode_utf16 s)"
proof -
  have "code_point c \<noteq> 0" if c: "c \<in> set (utf8_chars s)" for c
  proof
    assume "code_point c = 0"
    then have "c = [CHR 0x00]" using chars_encode [OF assms(1) c] by (simp add: encode_utf8_def char_of_def)
    with c assms(2) show False using utf8_chars_concat [of s] by (metis UN_I list.set_intros(1) set_concat)
  qed
  with chars_encode [OF assms(1)] utf16_units_nonzero show ?thesis by (auto simp: encode_utf16_def)
qed

lemma encode_utf16_length:
  assumes "utf8_valid s"
  shows "length (encode_utf16 s) \<le> length s"
proof -
  have units: "length (utf16_units c) \<le> length (encode_utf8 c)" for c
    by (simp add: utf16_units_def encode_utf8_def)
  have "length (utf16_units (code_point c)) \<le> length c" if "c \<in> set (utf8_chars s)" for c
    using units [of "code_point c"] chars_encode [OF assms that] by simp
  then have "\<forall>c \<in> set cs. c \<in> set (utf8_chars s) \<Longrightarrow>
      length (concat (map (\<lambda>c. utf16_units (code_point c)) cs)) \<le> length (concat cs)" for cs
    by (induction cs) (auto intro: add_mono)
  from this [of "utf8_chars s"] show ?thesis by (simp add: encode_utf16_def utf8_chars_concat)
qed

section \<open>Texts as the system takes them\<close>

text \<open>\<open>u16::to_le_bytes\<close> and \<open>u16::from_le_bytes\<close> over \<open>chunks_exact(2)\<close>, which leaves out an odd byte.\<close>

definition unit_bytes :: "u16 \<Rightarrow> u8 list" where
  "unit_bytes u = [ucast u, ucast (drop_bit 8 u)]"

fun bytes_units :: "u8 list \<Rightarrow> u16 list" where
  "bytes_units (a # b # bs) = or (ucast a) (push_bit 8 (ucast b)) # bytes_units bs"
| "bytes_units _ = []"

text \<open>A NUL-terminated text, and what a reader takes of it: everything up to the first NUL.\<close>

definition wide :: "string \<Rightarrow> u16 list" where
  "wide s = encode_utf16 s @ [0]"

definition up_to_nul :: "u16 list \<Rightarrow> u16 list" where
  "up_to_nul us = takeWhile (\<lambda>u. u \<noteq> 0) us"

lemma unit_of_bytes: "or (ucast (ucast u :: u8)) (push_bit 8 (ucast (ucast (drop_bit 8 u) :: u8))) = (u :: u16)"
  by (rule bit_word_eqI) (auto simp: bit_simps)

lemma bytes_units_concat: "bytes_units (concat (map unit_bytes us)) = us"
  by (induction us) (simp_all add: unit_bytes_def unit_of_bytes)

text \<open>A \<open>String\<close> without NUL.\<close>

definition plain_text :: "string \<Rightarrow> bool" where
  "plain_text s \<longleftrightarrow> utf8_valid s \<and> CHR 0x00 \<notin> set s"

lemma up_to_nul_wide: "plain_text s \<Longrightarrow> up_to_nul (wide s) = encode_utf16 s"
  using encode_utf16_nonzero [of s] by (auto simp: plain_text_def up_to_nul_def wide_def takeWhile_append)

lemma wide_inj: "plain_text s \<Longrightarrow> plain_text t \<Longrightarrow> up_to_nul (wide s) = up_to_nul (wide t) \<longleftrightarrow> s = t"
  using utf16_inj by (auto simp: up_to_nul_wide plain_text_def)

end
