(* ===== verification/Credentials.thy ===== *)
theory Credentials
  imports Protocol_Types Utf16 "HOL-Library.AList"
begin

text \<open>
  \<open>src-tauri/src/credentials.rs\<close>: the interface \<open>CredentialStore\<close>, the store in memory and the store in the
  Windows credential manager.  The manager's three functions are the fields of \<open>cred_manager\<close>; they take
  NUL-terminated UTF-16 texts, so they see a text up to its first NUL, and the secret as bytes.
\<close>

section \<open>The interface\<close>

record 'w credentials =
  cr_get :: "string \<Rightarrow> ('w, string option) vio"
  cr_set :: "string \<Rightarrow> string \<Rightarrow> string \<Rightarrow> ('w, unit) vio"
  cr_delete :: "string \<Rightarrow> ('w, unit) vio"

text \<open>What the sites rely on of a store of passwords, for keys and secrets that are proper texts; a reliable
  store can always delete.\<close>

locale credential_store =
  fixes cr :: "'w credentials" and key_ok :: "string \<Rightarrow> bool" and secret_ok :: "string \<Rightarrow> bool"
  assumes get_keeps: "snd (cr_get cr key w) = w"
    and set_get: "key_ok key \<Longrightarrow> key_ok k \<Longrightarrow> secret_ok secret \<Longrightarrow> cr_set cr key user secret w = (Inr (), w') \<Longrightarrow>
      fst (cr_get cr k w') = (if k = key then Inr (Some secret) else fst (cr_get cr k w))"
    and delete_get: "key_ok key \<Longrightarrow> key_ok k \<Longrightarrow> cr_delete cr key w = (Inr (), w') \<Longrightarrow>
      fst (cr_get cr k w') = (if k = key then Inr None else fst (cr_get cr k w))"
    and delete_failed: "cr_delete cr key w = (Inl e, w') \<Longrightarrow> fst (cr_get cr k w') = fst (cr_get cr k w)"
begin

lemma delete_all_others:
  "\<forall>key \<in> set keys. key_ok key \<Longrightarrow> key_ok k \<Longrightarrow> k \<notin> set keys \<Longrightarrow>
     fst (cr_get cr k (fold (\<lambda>key w. snd (cr_delete cr key w)) keys w)) = fst (cr_get cr k w)"
proof (induction keys arbitrary: w)
  case (Cons key keys)
  have "fst (cr_get cr k (snd (cr_delete cr key w))) = fst (cr_get cr k w)"
    using Cons.prems delete_get [of key k w] delete_failed [of key w]
    by (cases "cr_delete cr key w"; cases "fst (cr_delete cr key w)") auto
  with Cons show ?case by simp
qed simp

end

locale reliable_store = credential_store +
  assumes delete_total: "fst (cr_delete cr key w) = Inr ()"
begin

lemma delete_all_get:
  "\<forall>key \<in> set keys. key_ok key \<Longrightarrow> key_ok k \<Longrightarrow>
     fst (cr_get cr k (fold (\<lambda>key w. snd (cr_delete cr key w)) keys w)) =
       (if k \<in> set keys then Inr None else fst (cr_get cr k w))"
proof (induction keys arbitrary: w)
  case (Cons key keys)
  have "cr_delete cr key w = (Inr (), snd (cr_delete cr key w))"
    using delete_total [of key w] by (simp add: prod_eq_iff)
  with Cons delete_get show ?case by auto
qed simp

end

section \<open>The store in memory\<close>

text \<open>\<open>MemoryCredentialStore\<close>: the world is its map.\<close>

type_synonym password_map = "(string \<times> string) list"

definition memory_credentials :: "password_map credentials" where
  "memory_credentials = \<lparr>cr_get = (\<lambda>key m. (Inr (map_of m key), m)),
     cr_set = (\<lambda>key user secret m. (Inr (), AList.update key secret m)),
     cr_delete = (\<lambda>key m. (Inr (), AList.delete key m))\<rparr>"

interpretation memory: reliable_store memory_credentials "\<lambda>_. True" "\<lambda>_. True"
  by unfold_locales (auto simp: memory_credentials_def update_conv' delete_conv')

section \<open>The Windows credential manager\<close>

datatype cred_failure = CredNotFound | CredFailed string

record 'w cred_manager =
  cm_read :: "u16 list \<Rightarrow> 'w \<Rightarrow> cred_failure + bytes"
  cm_write :: "u16 list \<Rightarrow> u16 list \<Rightarrow> bytes \<Rightarrow> 'w \<Rightarrow> (cred_failure + unit) \<times> 'w"
  cm_delete :: "u16 list \<Rightarrow> 'w \<Rightarrow> (cred_failure + unit) \<times> 'w"

definition target_prefix :: string where
  "target_prefix = ''Vaultra/''"

definition target_name :: "string \<Rightarrow> string" where
  "target_name site_id = target_prefix @ site_id"

definition show_failure :: "cred_failure \<Rightarrow> string" where
  "show_failure e = (case e of CredNotFound \<Rightarrow> ''element not found'' | CredFailed s \<Rightarrow> s)"

definition windows_get :: "'w cred_manager \<Rightarrow> string \<Rightarrow> ('w, string option) vio" where
  "windows_get mgr site_id w = (case cm_read mgr (up_to_nul (wide (target_name site_id))) w of
      Inr blob \<Rightarrow> Inr (Some (from_utf16_lossy (bytes_units blob)))
    | Inl CredNotFound \<Rightarrow> Inr None
    | Inl e \<Rightarrow> Inl (Other (''credential read failed: '' @ show_failure e)), w)"

definition windows_set :: "'w cred_manager \<Rightarrow> string \<Rightarrow> string \<Rightarrow> string \<Rightarrow> ('w, unit) vio" where
  "windows_set mgr site_id user secret w =
     (let target = wide (target_name site_id);
          user_name = wide user;
          blob = concat (map unit_bytes (encode_utf16 secret))
      in case cm_write mgr (up_to_nul target) (up_to_nul user_name) blob w of
          (Inr _, w1) \<Rightarrow> (Inr (), w1)
        | (Inl e, w1) \<Rightarrow> (Inl (Other (''credential write failed: '' @ show_failure e)), w1))"

definition windows_delete :: "'w cred_manager \<Rightarrow> string \<Rightarrow> ('w, unit) vio" where
  "windows_delete mgr site_id w = (case cm_delete mgr (up_to_nul (wide (target_name site_id))) w of
      (Inr _, w1) \<Rightarrow> (Inr (), w1)
    | (Inl CredNotFound, w1) \<Rightarrow> (Inr (), w1)
    | (Inl e, w1) \<Rightarrow> (Inl (Other (''credential delete failed: '' @ show_failure e)), w1))"

definition windows_credentials :: "'w cred_manager \<Rightarrow> 'w credentials" where
  "windows_credentials mgr = \<lparr>cr_get = windows_get mgr, cr_set = windows_set mgr, cr_delete = windows_delete mgr\<rparr>"

text \<open>What the documentation of the manager promises: a credential is found under the target it was
  written with until it is deleted.\<close>

locale credential_manager =
  fixes mgr :: "'w cred_manager"
  assumes write_read: "cm_write mgr target user blob w = (Inr (), w') \<Longrightarrow>
      cm_read mgr t w' = (if t = target then Inr blob else cm_read mgr t w)"
    and delete_read: "cm_delete mgr target w = (Inr (), w') \<Longrightarrow>
      cm_read mgr t w' = (if t = target then Inl CredNotFound else cm_read mgr t w)"
    and delete_absent: "cm_delete mgr target w = (Inl CredNotFound, w') \<Longrightarrow> cm_read mgr target w = Inl CredNotFound"
    and delete_kept: "cm_delete mgr target w = (Inl e, w') \<Longrightarrow> cm_read mgr t w' = cm_read mgr t w"

lemma target_inj:
  assumes "plain_text a" "plain_text b"
  shows "up_to_nul (wide (target_name a)) = up_to_nul (wide (target_name b)) \<longleftrightarrow> a = b"
proof -
  have "plain_text target_prefix"
    by (auto simp: plain_text_def target_prefix_def intro!: utf8_valid_ascii)
  with assms have "plain_text (target_name a)" "plain_text (target_name b)"
    by (simp_all add: plain_text_def target_name_def utf8_valid_append)
  then show ?thesis by (simp add: wide_inj) (simp add: target_name_def)
qed

context credential_manager
begin

lemma windows_store: "credential_store (windows_credentials mgr) plain_text utf8_valid"
proof
  fix key k user secret w w'
  show "snd (cr_get (windows_credentials mgr) key w) = w"
    by (simp add: windows_credentials_def windows_get_def)
  show "fst (cr_get (windows_credentials mgr) k w') =
      (if k = key then Inr (Some secret) else fst (cr_get (windows_credentials mgr) k w))"
    if "plain_text key" "plain_text k" "utf8_valid secret" "cr_set (windows_credentials mgr) key user secret w = (Inr (), w')"
    using that write_read target_inj [of k key]
    by (auto simp: windows_credentials_def windows_set_def windows_get_def Let_def bytes_units_concat utf16_roundtrip
        split: sum.splits prod.splits)
  show "fst (cr_get (windows_credentials mgr) k w') =
      (if k = key then Inr None else fst (cr_get (windows_credentials mgr) k w))"
    if "plain_text key" "plain_text k" "cr_delete (windows_credentials mgr) key w = (Inr (), w')"
    using that delete_read delete_absent delete_kept target_inj [of k key]
    by (auto simp: windows_credentials_def windows_delete_def windows_get_def split: sum.splits prod.splits cred_failure.splits)
  show "fst (cr_get (windows_credentials mgr) k w') = fst (cr_get (windows_credentials mgr) k w)"
    if "cr_delete (windows_credentials mgr) key w = (Inl e, w')" for e
    using that delete_kept
    by (auto simp: windows_credentials_def windows_delete_def windows_get_def split: sum.splits prod.splits cred_failure.splits)
qed

end

sublocale credential_manager \<subseteq> windows: credential_store "windows_credentials mgr" plain_text utf8_valid
  by (rule windows_store)

text \<open>The simplest manager that keeps this promise: a list of targets with their secrets.\<close>

definition listed_manager :: "(u16 list \<times> bytes) list cred_manager" where
  "listed_manager = \<lparr>
     cm_read = (\<lambda>t m. case map_of m t of Some blob \<Rightarrow> Inr blob | None \<Rightarrow> Inl CredNotFound),
     cm_write = (\<lambda>t user blob m. (Inr (), AList.update t blob m)),
     cm_delete = (\<lambda>t m. (if map_of m t = None then Inl CredNotFound else Inr (), AList.delete t m))\<rparr>"

interpretation listed: credential_manager listed_manager
proof
  fix t target user blob and w w' :: "(u16 list \<times> bytes) list" and e
  show "cm_write listed_manager target user blob w = (Inr (), w') \<Longrightarrow>
      cm_read listed_manager t w' = (if t = target then Inr blob else cm_read listed_manager t w)"
    by (auto simp: listed_manager_def update_conv')
  show "cm_delete listed_manager target w = (Inr (), w') \<Longrightarrow>
      cm_read listed_manager t w' = (if t = target then Inl CredNotFound else cm_read listed_manager t w)"
    by (auto simp: listed_manager_def delete_conv' split: if_splits)
  show "cm_delete listed_manager target w = (Inl CredNotFound, w') \<Longrightarrow> cm_read listed_manager target w = Inl CredNotFound"
    by (auto simp: listed_manager_def split: if_splits)
  show "cm_delete listed_manager target w = (Inl e, w') \<Longrightarrow> cm_read listed_manager t w' = cm_read listed_manager t w"
    by (auto simp: listed_manager_def delete_conv' split: if_splits option.splits)
qed

end
