(* ===== verification/Site_Store.thy ===== *)
theory Site_Store
  imports Site_Model Credentials
begin

text \<open>
  \<open>src-tauri/src/sites/store.rs\<close>: the tree of sites, the recent connections, and the passwords, which are
  kept apart from both in any of the stores of \<open>Credentials\<close>.  What writing a file gives is an argument.
\<close>

section \<open>The store\<close>

record recent_connection =
  rn_site :: site_config
  rn_last_used :: int

record site_store =
  ts_tree :: site_tree
  ts_recent :: "recent_connection list"

definition max_recent :: nat where
  "max_recent = 10"

text \<open>\<open>write_json\<close>: serialising, writing a temporary file and replacing the old one.\<close>

definition write_json ::
  "('a \<Rightarrow> string + string) \<Rightarrow> (string \<Rightarrow> string + unit) \<Rightarrow> (unit \<Rightarrow> string + unit) \<Rightarrow> string \<Rightarrow> 'a \<Rightarrow> unit vresult" where
  "write_json to_json write_tmp replace path v = (case to_json v of
      Inl e \<Rightarrow> Inl (from_serde_error e)
    | Inr text \<Rightarrow> (case write_tmp text of
          Inl e \<Rightarrow> Inl (Io (''failed to write '' @ path @ '': '' @ e))
        | Inr _ \<Rightarrow> (case replace () of
              Inl e \<Rightarrow> Inl (Io (''failed to replace '' @ path @ '': '' @ e))
            | Inr _ \<Rightarrow> Inr ())))"

definition store_load :: "site_tree option \<Rightarrow> recent_connection list option \<Rightarrow> site_store" where
  "store_load tree recent = \<lparr>ts_tree = (case tree of Some t \<Rightarrow> t | None \<Rightarrow> \<lparr>tr_root = []\<rparr>),
     ts_recent = (case recent of Some r \<Rightarrow> r | None \<Rightarrow> [])\<rparr>"

definition save_tree ::
  "'w credentials \<Rightarrow> (site_tree \<Rightarrow> unit vresult) \<Rightarrow> site_tree \<Rightarrow> site_store \<Rightarrow> 'w \<Rightarrow> unit vresult \<times> site_store \<times> 'w" where
  "save_tree cr write_tree tree st w =
     (let removed = filter (\<lambda>key. key \<notin> set (site_ids tree)) (site_ids (ts_tree st));
          w1 = fold (\<lambda>key w. snd (cr_delete cr key w)) removed w
      in case write_tree tree of
          Inl e \<Rightarrow> (Inl e, st, w1)
        | Inr _ \<Rightarrow> (Inr (), st\<lparr>ts_tree := tree\<rparr>, w1))"

definition site_password :: "'w credentials \<Rightarrow> string \<Rightarrow> ('w, string option) vio" where
  "site_password cr key = cr_get cr key"

definition set_site_password :: "'w credentials \<Rightarrow> string \<Rightarrow> string \<Rightarrow> string \<Rightarrow> ('w, unit) vio" where
  "set_site_password cr key user password =
     (if password = [] then cr_delete cr key else cr_set cr key user password)"

definition same_connection :: "site_config \<Rightarrow> site_config \<Rightarrow> bool" where
  "same_connection a b \<longleftrightarrow> sc_host a = sc_host b \<and> sc_port a = sc_port b \<and> sc_user a = sc_user b \<and>
     sc_protocol a = sc_protocol b"

definition remember_recent ::
  "(recent_connection list \<Rightarrow> unit vresult) \<Rightarrow> int \<Rightarrow> site_config \<Rightarrow> site_store \<Rightarrow> unit vresult \<times> site_store" where
  "remember_recent write_recent now site st =
     (let kept = filter (\<lambda>r. \<not> same_connection (rn_site r) site) (ts_recent st);
          recent = take max_recent (\<lparr>rn_site = site, rn_last_used = now\<rparr> # kept)
      in (write_recent recent, st\<lparr>ts_recent := recent\<rparr>))"

definition clear_recent ::
  "(recent_connection list \<Rightarrow> unit vresult) \<Rightarrow> site_store \<Rightarrow> unit vresult \<times> site_store" where
  "clear_recent write_recent st = (write_recent [], st\<lparr>ts_recent := []\<rparr>)"

section \<open>Properties\<close>



text \<open>Saving a tree removes the passwords of the sites that left it and no others.  They are removed
  before the file is written: when writing fails, the old tree with those sites stays but their
  passwords are gone.\<close>

theorem save_tree_passwords:
  assumes "save_tree memory_credentials write_tree tree st w = (r, st', w')"
  shows "fst (site_password memory_credentials key w') =
      (if key \<in> set (site_ids (ts_tree st)) \<and> key \<notin> set (site_ids tree) then Inr None
       else fst (site_password memory_credentials key w)) \<and>
    ts_tree st' = (if r = Inr () then tree else ts_tree st)"
proof
  from assms have w': "w' = fold (\<lambda>key w. snd (cr_delete memory_credentials key w))
      (filter (\<lambda>key. key \<notin> set (site_ids tree)) (site_ids (ts_tree st))) w"
    by (auto simp: save_tree_def Let_def split: sum.splits)
  show "fst (site_password memory_credentials key w') =
      (if key \<in> set (site_ids (ts_tree st)) \<and> key \<notin> set (site_ids tree) then Inr None
       else fst (site_password memory_credentials key w))"
    unfolding w' site_password_def by (subst memory.delete_all_get) simp_all
next
  from assms show "ts_tree st' = (if r = Inr () then tree else ts_tree st)"
    by (auto simp: save_tree_def Let_def split: sum.splits)
qed

definition one_site_store :: site_store where
  "one_site_store = \<lparr>ts_tree = \<lparr>tr_root = [Site (default_site ''a'') []]\<rparr>, ts_recent = []\<rparr>"

theorem save_tree_passwords_witness:
  "\<exists>st' w'. save_tree memory_credentials (\<lambda>t. Inl (Io ''disk full'')) \<lparr>tr_root = []\<rparr> one_site_store [(''a'', ''secret'')] =
     (Inl (Io ''disk full''), st', w') \<and>
   fst (site_password memory_credentials ''a'' w') = Inr None \<and> site_ids (ts_tree st') = [''a'']"
proof -
  obtain st' w' where s: "save_tree memory_credentials (\<lambda>t. Inl (Io ''disk full'')) \<lparr>tr_root = []\<rparr> one_site_store
      [(''a'', ''secret'')] = (Inl (Io ''disk full''), st', w')"
    by (simp add: save_tree_def Let_def)
  with save_tree_passwords [OF s, of "''a''"] show ?thesis
    by (auto simp: one_site_store_def site_ids_def all_sites_def default_site_def)
qed

text \<open>The list of recent connections names no connection twice.\<close>

definition recent_ok :: "site_store \<Rightarrow> bool" where
  "recent_ok st \<longleftrightarrow> length (ts_recent st) \<le> max_recent \<and>
     sorted_wrt (\<lambda>a b. \<not> same_connection (rn_site a) (rn_site b)) (ts_recent st)"

text \<open>The recent connections stay at most ten, no two to the same server, user and protocol, with the
  one used last in front, also when the file cannot be written.\<close>

theorem recent_invariant:
  assumes "recent_ok st" "remember_recent write_recent now site st = (r, st')"
  shows "recent_ok st' \<and> map rn_site (take 1 (ts_recent st')) = [site] \<and>
    (\<forall>x \<in> set (ts_recent st). \<not> same_connection (rn_site x) site \<longrightarrow> length (ts_recent st) < max_recent \<longrightarrow> x \<in> set (ts_recent st'))"
proof -
  let ?kept = "filter (\<lambda>r. \<not> same_connection (rn_site r) site) (ts_recent st)"
  have st': "ts_recent st' = take max_recent (\<lparr>rn_site = site, rn_last_used = now\<rparr> # ?kept)"
    using assms(2) by (auto simp: remember_recent_def Let_def)
  have sym: "same_connection a b = same_connection b a" for a b by (auto simp: same_connection_def)
  have "sorted_wrt (\<lambda>a b. \<not> same_connection (rn_site a) (rn_site b)) (\<lparr>rn_site = site, rn_last_used = now\<rparr> # ?kept)"
    using assms(1) by (auto simp: recent_ok_def sym intro: sorted_wrt_filter)
  then have "sorted_wrt (\<lambda>a b. \<not> same_connection (rn_site a) (rn_site b)) (ts_recent st')"
    unfolding st' by (rule sorted_wrt_take)
  moreover have "take 9 ?kept = ?kept" if "length (ts_recent st) < max_recent"
    using le_trans [OF length_filter_le, of "ts_recent st" 9 "\<lambda>r. \<not> same_connection (rn_site r) site"] that
    by (simp add: max_recent_def)
  ultimately show ?thesis
    by (auto simp: recent_ok_def st' max_recent_def)
qed

theorem recent_invariant_witness:
  "\<exists>st'. remember_recent (\<lambda>r. Inr ()) 5 (default_site ''a'') \<lparr>ts_tree = \<lparr>tr_root = []\<rparr>, ts_recent = []\<rparr> = (Inr (), st') \<and>
     recent_ok st' \<and> map rn_site (take 1 (ts_recent st')) = [default_site ''a'']"
proof -
  let ?st = "\<lparr>ts_tree = \<lparr>tr_root = []\<rparr>, ts_recent = []\<rparr>"
  have ok: "recent_ok ?st" by (simp add: recent_ok_def)
  obtain st' where r: "remember_recent (\<lambda>r. Inr ()) 5 (default_site ''a'') ?st = (Inr (), st')"
    by (simp add: remember_recent_def Let_def)
  from recent_invariant [OF ok r] r show ?thesis by (intro exI [of _ st']) simp
qed

end
