(* ===== verification/Site_Import.thy ===== *)
theory Site_Import
  imports Site_Store Ftp_Listings "HOL-Library.List_Lexorder"
begin

text \<open>
  \<open>src-tauri/src/sites/import.rs\<close>: sites imported from FileZilla's XML file and from WinSCP's sessions.  The
  events of \<open>quick-xml\<close>, Base64 and the registry are arguments, as are the fresh identifiers: \<open>uuid k\<close> is
  the \<open>k\<close>-th one drawn.
\<close>

section \<open>XML\<close>

datatype xml_node = XmlNode (xn_name: string) (xn_text: string) (xn_children: "xml_node list")

datatype xml_event = XStart string | XEmpty string | XText "string option" | XCData string | XEnd | XOther | XError string

definition xml_child :: "string \<Rightarrow> xml_node \<Rightarrow> xml_node option" where
  "xml_child name n = find (\<lambda>c. xn_name c = name) (xn_children n)"

definition child_text :: "string \<Rightarrow> xml_node \<Rightarrow> string" where
  "child_text name n = (case xml_child name n of Some c \<Rightarrow> trim (xn_text c) | None \<Rightarrow> [])"

definition add_text :: "string \<Rightarrow> xml_node \<Rightarrow> xml_node" where
  "add_text t n = XmlNode (xn_name n) (xn_text n @ t) (xn_children n)"

definition add_child :: "xml_node \<Rightarrow> xml_node \<Rightarrow> xml_node" where
  "add_child c n = XmlNode (xn_name n) (xn_text n) (xn_children n @ [c])"

text \<open>The loop over the events; the stack has its top first, and popping the last element panics.\<close>

fun parse_events :: "xml_event list \<Rightarrow> xml_node list \<Rightarrow> xml_node vresult ran" where
  "parse_events [] (n # stack) = Returned (Inr n)"
| "parse_events (XStart name # evs) stack = parse_events evs (XmlNode name [] [] # stack)"
| "parse_events (XEmpty name # evs) (n # stack) = parse_events evs (add_child (XmlNode name [] []) n # stack)"
| "parse_events (XText (Some t) # evs) (n # stack) = parse_events evs (add_text t n # stack)"
| "parse_events (XText None # evs) stack = parse_events evs stack"
| "parse_events (XCData t # evs) (n # stack) = parse_events evs (add_text t n # stack)"
| "parse_events (XEnd # evs) (n # m # stack) = parse_events evs (add_child n m # stack)"
| "parse_events (XError e # evs) stack = Returned (Inl (Other (''invalid XML: '' @ e)))"
| "parse_events (XOther # evs) stack = parse_events evs stack"
| "parse_events evs stack = Panicked"

definition parse_xml :: "xml_event list \<Rightarrow> xml_node vresult ran" where
  "parse_xml evs = parse_events evs [XmlNode ''#root'' [] []]"

section \<open>FileZilla\<close>

text \<open>The characters up to a blank, and those behind it.\<close>

fun split_token :: "string list \<Rightarrow> string list \<times> string list" where
  "split_token [] = ([], [])"
| "split_token (c # cs) = (if c = '' '' then ([], cs) else (case split_token cs of (t, r) \<Rightarrow> (c # t, r)))"

lemma split_token_length: "split_token cs = (t, r) \<Longrightarrow> length t + length r \<le> length cs"
  by (induction cs arbitrary: t) (auto split: if_splits prod.splits)

definition skip_blank :: "string list \<Rightarrow> string list" where
  "skip_blank cs = (case cs of c # r \<Rightarrow> if c = '' '' then r else cs | [] \<Rightarrow> [])"

lemma skip_blank_length: "length (skip_blank cs) \<le> length cs"
  by (simp add: skip_blank_def split: list.split)

function decode_segments :: "string list \<Rightarrow> string list" where
  "decode_segments cs = (case split_token cs of (t, r) \<Rightarrow>
     (case parse_u64 (concat t) of
        None \<Rightarrow> []
      | Some n \<Rightarrow>
          let rest = skip_blank (drop n r)
          in concat (take n r) # (if rest = [] then [] else decode_segments rest)))"
  by pat_completeness auto
termination
proof -
  have "length (skip_blank (drop n r)) < length cs" if "split_token cs = (t, r)" "parse_u64 (concat t) = Some n"
    for cs t r n
  proof -
    have "t \<noteq> []" using that(2) by (auto simp: parse_u64_def parse_radix_def)
    moreover have "length t + length r \<le> length cs" using that(1) by (rule split_token_length)
    moreover have "length (skip_blank (drop n r)) \<le> length r" using skip_blank_length [of "drop n r"] by simp
    ultimately show ?thesis by (cases t) auto
  qed
  then show ?thesis by (relation "measure length") (auto dest: sym)
qed

declare decode_segments.simps [simp del]

text \<open>The two tokens in front are the server type and a prefix; a directory that ends before them is empty.\<close>

definition decode_filezilla_remote_dir :: "string \<Rightarrow> string" where
  "decode_filezilla_remote_dir raw = (case split_token (utf8_chars raw) of (t1, r1) \<Rightarrow>
     if t1 = [] \<and> r1 = [] then []
     else case split_token r1 of (t2, r2) \<Rightarrow>
       if t2 = [] \<and> r2 = [] then []
       else let segments = decode_segments r2
         in if segments = [] then [] else ''/'' @ join_with ''/'' segments)"

definition filezilla_password :: "(string \<Rightarrow> bytes option) \<Rightarrow> xml_node \<Rightarrow> string option" where
  "filezilla_password base64 node = Option.bind (xml_child ''Pass'' node) (\<lambda>p.
     let raw = trim (xn_text p)
     in if raw = [] then None
        else Some (case base64 raw of Some bs \<Rightarrow> from_utf8_lossy (bytes_text bs) | None \<Rightarrow> raw))"

definition filezilla_colors :: "(string \<times> string) list" where
  "filezilla_colors = [(''1'', ''#e5484d''), (''2'', ''#30a46c''), (''3'', ''#3e63dd''), (''4'', ''#f5d90a''),
     (''5'', ''#12a594''), (''6'', ''#d6409f''), (''7'', ''#f76b15'')]"

definition port_or_default :: "string \<Rightarrow> protocol \<Rightarrow> u16" where
  "port_or_default text protocol =
     (let port = (case parse_u16 text of Some n \<Rightarrow> of_nat n | None \<Rightarrow> 0)
      in if port = 0 then default_port protocol else port)"

definition convert_filezilla_server ::
  "(string \<Rightarrow> bytes option) \<Rightarrow> string \<Rightarrow> xml_node \<Rightarrow> site_config \<times> string option" where
  "convert_filezilla_server base64 uuid node =
     (let text = (\<lambda>name. child_text name node);
          protocol = (if text ''Protocol'' = ''1'' then Sftp else if text ''Protocol'' = ''3'' then FtpsImplicit
            else if text ''Protocol'' = ''4'' then FtpsExplicit else Ftp);
          base = default_site uuid
      in (base\<lparr>sc_host := text ''Host'', sc_protocol := protocol,
            sc_port := port_or_default (text ''Port'') protocol, sc_user := text ''User'',
            sc_logon_type := (if text ''Logontype'' = ''0'' then Anonymous else if text ''Logontype'' = ''2'' then AskLogon
              else if text ''Logontype'' = ''3'' then Interactive else if text ''Logontype'' = ''5'' then KeyFile else Normal),
            sc_transfer_mode := (if text ''PasvMode'' = ''MODE_PASSIVE'' then TmPassive
              else if text ''PasvMode'' = ''MODE_ACTIVE'' then TmActive else TmDefault),
            sc_encoding := (if text ''EncodingType'' = ''UTF-8'' then EncUtf8
              else if text ''EncodingType'' = ''Custom'' then EncCustom (text ''CustomEncoding'') else EncAuto),
            sc_bypass_proxy := (text ''BypassProxy'' = ''1''),
            sc_name := (if text ''Name'' = [] then text ''Host'' else text ''Name''),
            sc_comments := text ''Comments'', sc_local_dir := text ''LocalDir'',
            sc_remote_dir := decode_filezilla_remote_dir (text ''RemoteDir''),
            sc_sync_browsing := (text ''SyncBrowsing'' = ''1''),
            sc_color := map_of filezilla_colors (text ''Colour''),
            sc_sftp := (sc_sftp base)\<lparr>sf_key_path := text ''Keyfile''\<rparr>\<rparr>,
          filezilla_password base64 node))"

type_synonym imported = "site_node list \<times> (string \<times> string \<times> string) list"

text \<open>The number of identifiers drawn so far is threaded through.\<close>

fun convert_filezilla_children ::
  "(string \<Rightarrow> bytes option) \<Rightarrow> (nat \<Rightarrow> string) \<Rightarrow> nat \<Rightarrow> xml_node list \<Rightarrow> imported \<times> nat" where
  "convert_filezilla_children base64 uuid k [] = (([], []), k)"
| "convert_filezilla_children base64 uuid k (XmlNode tag text inner # rest) =
     (if tag = ''Folder'' then
        (case convert_filezilla_children base64 uuid k inner of ((children, pws1), k1) \<Rightarrow>
         (case convert_filezilla_children base64 uuid (Suc k1) rest of ((nodes, pws2), k2) \<Rightarrow>
           ((folder_node (uuid k1) (if trim text = [] then ''Folder'' else trim text) children # nodes, pws1 @ pws2), k2)))
      else if tag = ''Server'' then
        (case convert_filezilla_server base64 (uuid k) (XmlNode tag text inner) of (site, pw) \<Rightarrow>
         (case convert_filezilla_children base64 uuid (Suc k) rest of ((nodes, pws2), k2) \<Rightarrow>
           ((site_leaf site # nodes, (case pw of Some p \<Rightarrow> [(sc_id site, sc_user site, p)] | None \<Rightarrow> []) @ pws2), k2)))
      else convert_filezilla_children base64 uuid k rest)"

text \<open>\<open>contents\<close> is what reading the file gave: an error's text or its XML events.\<close>

definition import_filezilla ::
  "(string \<Rightarrow> bytes option) \<Rightarrow> (nat \<Rightarrow> string) \<Rightarrow> string \<Rightarrow> string + xml_event list \<Rightarrow> imported vresult ran" where
  "import_filezilla base64 uuid path contents = (case contents of
      Inl e \<Rightarrow> Returned (Inl (Io (''cannot read '' @ path @ '': '' @ e)))
    | Inr evs \<Rightarrow> (case parse_xml evs of
          Panicked \<Rightarrow> Panicked
        | Returned (Inl e) \<Rightarrow> Returned (Inl e)
        | Returned (Inr root) \<Rightarrow>
            Returned (case Option.bind (xml_child ''FileZilla3'' root) (xml_child ''Servers'') of
                None \<Rightarrow> Inl (Other ''not a FileZilla site manager file'')
              | Some servers \<Rightarrow> Inr (fst (convert_filezilla_children base64 uuid 0 (xn_children servers))))))"

section \<open>WinSCP\<close>

text \<open>A string slice that starts behind a percent sign starts at a character.\<close>

fun decode_percent :: "string \<Rightarrow> string ran" where
  "decode_percent [] = Returned []"
| "decode_percent (c # s) =
     (if c = CHR ''%'' \<and> 2 \<le> length s then
        (case str_slice 0 2 s of Panicked \<Rightarrow> Panicked
         | Returned h \<Rightarrow> (case parse_radix 16 256 h of
             Some n \<Rightarrow> (case decode_percent (drop 2 s) of Panicked \<Rightarrow> Panicked | Returned t \<Rightarrow> Returned (char_of n # t))
           | None \<Rightarrow> (case decode_percent s of Panicked \<Rightarrow> Panicked | Returned t \<Rightarrow> Returned (c # t))))
      else (case decode_percent s of Panicked \<Rightarrow> Panicked | Returned t \<Rightarrow> Returned (c # t)))"

definition percent_decode :: "string \<Rightarrow> string ran" where
  "percent_decode text = (case decode_percent text of Panicked \<Rightarrow> Panicked | Returned t \<Rightarrow> Returned (from_utf8_lossy t))"

type_synonym winscp_values = "(string \<times> string) list"

definition winscp_get :: "winscp_values \<Rightarrow> string \<Rightarrow> string" where
  "winscp_get vs key = (case map_of vs (to_ascii_lowercase key) of Some v \<Rightarrow> v | None \<Rightarrow> [])"

definition number_or_zero :: "string \<Rightarrow> nat" where
  "number_or_zero text = (case parse_u32 text of Some n \<Rightarrow> n | None \<Rightarrow> 0)"

definition convert_winscp_session :: "string \<Rightarrow> string \<Rightarrow> winscp_values \<Rightarrow> site_config" where
  "convert_winscp_session uuid name vs =
     (let ftps = number_or_zero (winscp_get vs ''Ftps'');
          protocol = (if number_or_zero (winscp_get vs ''FSProtocol'') = 5
            then (if ftps = 1 then FtpsImplicit else if ftps = 2 \<or> ftps = 3 then FtpsExplicit else Ftp)
            else Sftp);
          user = winscp_get vs ''UserName''; key_path = winscp_get vs ''PublicKeyFile'';
          base = default_site uuid
      in base\<lparr>sc_name := name, sc_host := winscp_get vs ''HostName'', sc_user := user, sc_protocol := protocol,
           sc_port := port_or_default (winscp_get vs ''PortNumber'') protocol,
           sc_remote_dir := winscp_get vs ''RemoteDirectory'', sc_local_dir := winscp_get vs ''LocalDirectory'',
           sc_sftp := (sc_sftp base)\<lparr>sf_key_path := key_path\<rparr>,
           sc_transfer_mode := (if winscp_get vs ''FtpPasvMode'' = ''0'' then TmActive else TmDefault),
           sc_logon_type := (if key_path \<noteq> [] then KeyFile
             else if user = [] \<and> is_ftp_family protocol then Anonymous else AskLogon)\<rparr>)"

text \<open>The sections of a WinSCP.ini file.\<close>

type_synonym ini_section = "string \<times> winscp_values"

definition keep_section :: "ini_section option \<Rightarrow> ini_section list" where
  "keep_section section = (case section of
      Some (name, vs) \<Rightarrow> if map_of vs ''hostname'' \<noteq> None then [(name, vs)] else []
    | None \<Rightarrow> [])"

definition session_prefix :: string where
  "session_prefix = ''Sessions'' @ [CHR 0x5C]"

fun read_ini_lines :: "string list \<Rightarrow> ini_section option \<Rightarrow> ini_section list" where
  "read_ini_lines [] current = keep_section current"
| "read_ini_lines (raw # lines) current =
     (let line = trim raw
      in if starts_with line ''['' \<and> ends_with line '']'' then
           keep_section current @ read_ini_lines lines
             (map_option (\<lambda>name. (name, [])) (strip_prefix session_prefix (butlast (tl line))))
         else (case (current, split_once CHR ''='' line) of
             (Some (name, vs), Some (k, v)) \<Rightarrow>
               read_ini_lines lines (Some (name, AList.update (to_ascii_lowercase (trim k)) (trim v) vs))
           | _ \<Rightarrow> read_ini_lines lines current))"

text \<open>\<open>files\<close> are the candidate files that could be read.\<close>

definition read_winscp_ini :: "string list \<Rightarrow> ini_section list" where
  "read_winscp_ini files = concat (map (\<lambda>text. read_ini_lines (str_lines text) None) files)"

text \<open>One registry value: a number's bytes, of which the first four are taken, or the text of another value.\<close>

datatype registry_value = RegDword bytes | RegText string

definition registry_text :: "registry_value \<Rightarrow> string ran" where
  "registry_text v = (case v of RegText t \<Rightarrow> Returned t
     | RegDword bs \<Rightarrow> if length bs < 4 then Panicked
         else Returned (show_nat (foldr (\<lambda>b n. unat b + 256 * n) (take 4 bs) 0)))"

fun registry_values :: "(string \<times> registry_value) list \<Rightarrow> winscp_values \<Rightarrow> winscp_values ran" where
  "registry_values [] acc = Returned acc"
| "registry_values ((k, v) # vs) acc = (case registry_text v of Panicked \<Rightarrow> Panicked
     | Returned t \<Rightarrow> registry_values vs (AList.update (to_ascii_lowercase k) t acc))"

fun read_winscp_registry :: "(string \<times> (string \<times> registry_value) list) list \<Rightarrow> ini_section list ran" where
  "read_winscp_registry [] = Returned []"
| "read_winscp_registry ((name, vs) # keys) =
     (if name = ''Default%20Settings'' then read_winscp_registry keys
      else case registry_values vs [] of Panicked \<Rightarrow> Panicked
        | Returned found \<Rightarrow> (case read_winscp_registry keys of Panicked \<Rightarrow> Panicked
            | Returned rest \<Rightarrow> Returned (keep_section (Some (name, found)) @ rest)))"

text \<open>The folders of the sessions, by name, each with its sites in order.\<close>

definition push_site :: "string \<Rightarrow> site_node \<Rightarrow> (string \<times> site_node list) list \<Rightarrow> (string \<times> site_node list) list" where
  "push_site folder node folders =
     AList.update folder ((case map_of folders folder of Some ns \<Rightarrow> ns | None \<Rightarrow> []) @ [node]) folders"

fun group_sessions ::
  "(nat \<Rightarrow> string) \<Rightarrow> nat \<Rightarrow> ini_section list \<Rightarrow> (string \<times> site_node list) list \<Rightarrow> site_node list
     \<Rightarrow> ((string \<times> site_node list) list \<times> site_node list \<times> nat) ran" where
  "group_sessions uuid k [] folders root = Returned (folders, root, k)"
| "group_sessions uuid k ((full_name, vs) # sessions) folders root = (case percent_decode full_name of
      Panicked \<Rightarrow> Panicked
    | Returned decoded \<Rightarrow> (case rsplit_once CHR ''/'' decoded of
          Some (folder, name) \<Rightarrow> group_sessions uuid (Suc k) sessions
            (push_site folder (site_leaf (convert_winscp_session (uuid k) name vs)) folders) root
        | None \<Rightarrow> group_sessions uuid (Suc k) sessions folders
            (root @ [site_leaf (convert_winscp_session (uuid k) decoded vs)])))"

definition sorted_folders :: "(string \<times> site_node list) list \<Rightarrow> (string \<times> site_node list) list" where
  "sorted_folders folders = sort_key (\<lambda>f. map (of_char :: char \<Rightarrow> nat) (fst f)) folders"

definition import_winscp :: "(nat \<Rightarrow> string) \<Rightarrow> ini_section list \<Rightarrow> imported vresult ran" where
  "import_winscp uuid sessions =
     (if sessions = [] then Returned (Inl (NotFound ''no WinSCP sessions found''))
      else case group_sessions uuid 0 sessions [] [] of
          Panicked \<Rightarrow> Panicked
        | Returned (folders, root, k) \<Rightarrow> Returned (Inr (root @
            map (\<lambda>(j, (name, children)). folder_node (uuid (k + j)) name children)
              (zip [0..<length folders] (sorted_folders folders)), [])))"

section \<open>Remote directories\<close>

text \<open>A directory as FileZilla stores it: server type, prefix, and every segment behind its length.\<close>

definition filezilla_dir :: "string list \<Rightarrow> string" where
  "filezilla_dir segments =
     ''1 0 '' @ join_with '' '' (map (\<lambda>s. show_nat (length (utf8_chars s)) @ '' '' @ s) segments)"

lemma utf8_chars_append: "utf8_valid s \<Longrightarrow> utf8_chars (s @ t) = utf8_chars s @ utf8_chars t"
proof (induction s rule: utf8_valid.induct)
  case (1 s)
  show ?case
  proof (cases "s = []")
    case False
    from "1.prems" False have v: "snd (utf8_step s)" "utf8_valid (drop (fst (utf8_step s)) s)"
      by (simp_all add: utf8_valid.simps [of s])
    have step: "utf8_step (s @ t) = utf8_step s"
      using v(1) utf8_step_extend [OF _ False, of "fst (utf8_step s)" t] by (simp add: prod_eq_iff)
    have "drop (fst (utf8_step s)) (s @ t) = drop (fst (utf8_step s)) s @ t"
      "take (fst (utf8_step s)) (s @ t) = take (fst (utf8_step s)) s"
      using utf8_step_le [OF False] by simp_all
    with "1.IH" [OF False v(2)] False step show ?thesis
      by (simp add: utf8_chars.simps [of s] utf8_chars.simps [of "s @ t"])
  qed simp
qed

lemma utf8_chars_empty_iff: "utf8_chars s = [] \<longleftrightarrow> s = []"
  by (subst utf8_chars.simps) simp

lemma utf8_chars_ascii: "of_char c < (128 :: nat) \<Longrightarrow> utf8_chars (c # s) = [c] # utf8_chars s"
  by (subst utf8_chars.simps) (simp add: utf8_step_def byte_at_def)

lemma utf8_chars_digits: "utf8_chars (show_nat n @ s) = map (\<lambda>c. [c]) (show_nat n) @ utf8_chars s"
proof -
  have "\<forall>c \<in> set ds. of_char c < (128 :: nat) \<Longrightarrow> utf8_chars (ds @ s) = map (\<lambda>c. [c]) ds @ utf8_chars s" for ds
    by (induction ds) (simp_all add: utf8_chars_ascii)
  then show ?thesis using show_radix_digits by (force simp: show_nat_def)
qed

lemma split_token_digits:
  "split_token (map (\<lambda>c. [c]) (show_nat n) @ '' '' # cs) = (map (\<lambda>c. [c]) (show_nat n), cs)"
proof -
  have "CHR '' '' \<notin> set ds \<Longrightarrow> split_token (map (\<lambda>c. [c]) ds @ '' '' # cs) = (map (\<lambda>c. [c]) ds, cs)" for ds
    by (induction ds) auto
  then show ?thesis using show_radix_digits [of "CHR '' ''" n] by (force simp: show_nat_def)
qed

lemma decode_segments_encoded:
  assumes "segments \<noteq> []" "\<forall>s \<in> set segments. utf8_valid s \<and> length (utf8_chars s) < 2 ^ 64"
  shows "decode_segments (utf8_chars (join_with '' '' (map (\<lambda>s. show_nat (length (utf8_chars s)) @ '' '' @ s) segments)))
    = segments"
  using assms
proof (induction segments)
  case (Cons s segments)
  let ?enc = "\<lambda>s. show_nat (length (utf8_chars s)) @ '' '' @ s"
  let ?rest = "utf8_chars (join_with '' '' (map ?enc segments))"
  have number: "parse_u64 (concat (map (\<lambda>c. [c]) (show_nat (length (utf8_chars s))))) = Some (length (utf8_chars s))"
    using Cons.prems(2) by (simp add: parse_u64_def parse_show_nat)
  have valid: "utf8_valid s" using Cons.prems(2) by simp
  have blank: "utf8_chars (CHR '' '' # x) = '' '' # utf8_chars x" for x by (simp add: utf8_chars_ascii)
  show ?case
  proof (cases segments)
    case Nil
    with number show ?thesis
      by (subst decode_segments.simps)
        (simp add: utf8_chars_digits blank split_token_digits skip_blank_def utf8_chars_concat)
  next
    case (Cons s2 ss)
    then have chars: "utf8_chars (join_with '' '' (map ?enc (s # segments))) =
        map (\<lambda>c. [c]) (show_nat (length (utf8_chars s))) @ '' '' # utf8_chars s @ '' '' # ?rest"
      by (simp add: utf8_chars_digits blank utf8_chars_append [OF valid])
    have "?rest \<noteq> []"
      using Cons show_radix_nonempty [of 10] by (cases ss) (simp_all add: utf8_chars_empty_iff show_nat_def)
    moreover have "decode_segments ?rest = segments" using Cons.IH Cons.prems Cons by simp
    ultimately show ?thesis
      unfolding chars using number
      by (subst decode_segments.simps) (simp add: split_token_digits skip_blank_def utf8_chars_concat)
  qed
qed simp

text \<open>Every remote directory FileZilla can store is imported as the path it stands for, blanks and
  characters of several bytes in its segments included.\<close>

theorem remote_dir_roundtrip:
  assumes "segments \<noteq> []" "\<forall>s \<in> set segments. utf8_valid s \<and> length (utf8_chars s) < 2 ^ 64"
  shows "decode_filezilla_remote_dir (filezilla_dir segments) = ''/'' @ join_with ''/'' segments"
proof -
  have "utf8_chars (filezilla_dir segments) = [''1'', '' '', ''0'', '' ''] @
      utf8_chars (join_with '' '' (map (\<lambda>s. show_nat (length (utf8_chars s)) @ '' '' @ s) segments))"
    by (simp add: filezilla_dir_def utf8_chars_ascii)
  with decode_segments_encoded [OF assms] assms(1) show ?thesis
    by (simp add: decode_filezilla_remote_dir_def)
qed

theorem remote_dir_roundtrip_witness:
  "decode_filezilla_remote_dir (filezilla_dir [''my docs'', [CHR 0xC3, CHR 0xA9]]) =
     ''/'' @ join_with ''/'' [''my docs'', [CHR 0xC3, CHR 0xA9]]"
proof -
  have "utf8_step [CHR 0xC3, CHR 0xA9] = (2, True)"
    by (simp add: utf8_step_def byte_at_def is_cont_def Let_def)
  then have "utf8_valid [CHR 0xC3, CHR 0xA9]" "utf8_chars [CHR 0xC3, CHR 0xA9] = [[CHR 0xC3, CHR 0xA9]]"
    by (simp_all add: utf8_valid.simps [of "[CHR 0xC3, CHR 0xA9]"] utf8_chars.simps [of "[CHR 0xC3, CHR 0xA9]"])
  then show ?thesis
    by (intro remote_dir_roundtrip) (simp_all add: utf8_valid_ascii utf8_chars_ascii)
qed

section \<open>Session names\<close>

text \<open>A name as WinSCP stores it; \<open>escaped\<close> tells the bytes that are written as hexadecimal numbers.\<close>

definition hex_digit :: "nat \<Rightarrow> char" where
  "hex_digit d = char_of (if d < 10 then 48 + d else 55 + d)"

definition percent_encode :: "(char \<Rightarrow> bool) \<Rightarrow> string \<Rightarrow> string" where
  "percent_encode escaped s = concat (map (\<lambda>c. if escaped c
     then [CHR ''%'', hex_digit (of_char c div 16), hex_digit (of_char c mod 16)] else [c]) s)"

lemma hex_digit_val: "d < 16 \<Longrightarrow> digit_val (hex_digit d) = Some d"
  by (simp add: digit_val_def hex_digit_def Let_def)

lemma hex_digit_ascii: "d < 16 \<Longrightarrow> of_char (hex_digit d) < (128 :: nat)"
  by (simp add: hex_digit_def)

lemma parse_hex_pair:
  assumes "n < 256"
  shows "parse_radix 16 256 [hex_digit (n div 16), hex_digit (n mod 16)] = Some n"
proof -
  have d: "n div 16 < 16" using assms by simp
  have "hex_digit (n div 16) \<noteq> CHR ''+''"
  proof
    assume "hex_digit (n div 16) = CHR ''+''"
    with hex_digit_val [OF d] show False by (simp add: digit_val_def)
  qed
  with assms d show ?thesis by (simp add: parse_radix_def hex_digit_val)
qed

lemma of_char_bound: "(of_char c :: nat) < 256"
  by simp

lemma hex_pair_ascii:
  "of_char (hex_digit (of_char c div 16)) < (128 :: nat)" "of_char (hex_digit (of_char c mod 16)) < (128 :: nat)"
proof -
  have "(of_char c :: nat) < 16 * 16" using of_char_bound [of c] by simp
  then have "of_char c div 16 < (16 :: nat)" by (rule less_mult_imp_div_less)
  then show "of_char (hex_digit (of_char c div 16)) < (128 :: nat)" by (rule hex_digit_ascii)
  show "of_char (hex_digit (of_char c mod 16)) < (128 :: nat)" by (rule hex_digit_ascii) simp
qed

lemma percent_encode_ascii:
  assumes "\<forall>c. 128 \<le> (of_char c :: nat) \<longrightarrow> escaped c"
  shows "\<forall>c \<in> set (percent_encode escaped s). of_char c < (128 :: nat)"
proof -
  have plain: "of_char c < (128 :: nat)" if "\<not> escaped c" for c
    using assms that not_le by blast
  show ?thesis by (auto simp: percent_encode_def hex_pair_ascii plain split: if_splits)
qed

lemma decode_percent_encoded:
  assumes "escaped CHR ''%''" "\<forall>c. 128 \<le> (of_char c :: nat) \<longrightarrow> escaped c"
  shows "decode_percent (percent_encode escaped s) = Returned s"
proof (induction s)
  case (Cons c s)
  show ?case
  proof (cases "escaped c")
    case True
    let ?h = "[hex_digit (of_char c div 16), hex_digit (of_char c mod 16)]"
    have tail: "percent_encode escaped (c # s) = CHR ''%'' # ?h @ percent_encode escaped s"
      using True by (simp add: percent_encode_def)
    have "\<forall>x \<in> set (?h @ percent_encode escaped s). of_char x < (128 :: nat)"
      using percent_encode_ascii [OF assms(2), of s] by (auto simp: hex_pair_ascii)
    then have "str_slice 0 2 (?h @ percent_encode escaped s) = Returned ?h"
      unfolding str_slice_def by (subst ascii_boundary)+ (auto simp: is_char_boundary_def)
    moreover have "(of_char c :: nat) < 256" by simp
    ultimately show ?thesis
      unfolding tail using Cons.IH parse_hex_pair [of "of_char c"] by simp
  next
    case False
    with assms(1) have "c \<noteq> CHR ''%''" by auto
    with False Cons.IH show ?thesis by (simp add: percent_encode_def)
  qed
qed (simp add: percent_encode_def)

text \<open>A session name comes back from its percent encoding.  A percent sign before a character that is
  not ASCII ends the whole import in a panic.\<close>

theorem percent_decode_roundtrip:
  shows "utf8_valid s \<Longrightarrow> escaped CHR ''%'' \<Longrightarrow> \<forall>c. 128 \<le> (of_char c :: nat) \<longrightarrow> escaped c \<Longrightarrow>
      percent_decode (percent_encode escaped s) = Returned s"
    and "import_winscp uuid ((''100%a'' @ [CHR 0xC3, CHR 0xA9], vs) # sessions) = Panicked"
proof -
  assume "utf8_valid s" "escaped CHR ''%''" "\<forall>c. 128 \<le> (of_char c :: nat) \<longrightarrow> escaped c"
  then show "percent_decode (percent_encode escaped s) = Returned s"
    by (simp add: percent_decode_def decode_percent_encoded from_utf8_lossy_valid)
next
  have "decode_percent (''100%a'' @ [CHR 0xC3, CHR 0xA9]) = Panicked"
    by (simp add: str_slice_def is_char_boundary_def is_cont_def)
  then show "import_winscp uuid ((''100%a'' @ [CHR 0xC3, CHR 0xA9], vs) # sessions) = Panicked"
    by (simp add: import_winscp_def percent_decode_def)
qed

theorem percent_decode_roundtrip_witness:
  "percent_decode (percent_encode (\<lambda>c. c = CHR ''%'' \<or> c = CHR '' '' \<or> 128 \<le> (of_char c :: nat)) ''50% off'') = Returned ''50% off''"
  by (rule percent_decode_roundtrip(1)) (simp_all add: utf8_valid_ascii)

section \<open>Passwords\<close>

text \<open>Every password taken over from FileZilla belongs to a site of the imported tree, under that site's
  identifier and user.\<close>

theorem imported_passwords_belong:
  assumes "convert_filezilla_children base64 uuid k nodes = ((sites, pws), k')" "(key, user, pw) \<in> set pws"
  shows "\<exists>s \<in> set (concat (map node_sites sites)). sc_id s = key \<and> sc_user s = user"
  using assms
proof (induction base64 uuid k nodes arbitrary: sites pws k' rule: convert_filezilla_children.induct)
  case (2 base64 uuid k tag body inner rest)
  show ?case
  proof (cases "tag = ''Folder''")
    case True
    obtain children pws1 k1 where inner: "convert_filezilla_children base64 uuid k inner = ((children, pws1), k1)"
      by (metis prod.collapse)
    obtain ns pws2 k2 where rest: "convert_filezilla_children base64 uuid (Suc k1) rest = ((ns, pws2), k2)"
      by (metis prod.collapse)
    from 2(5,6) True inner rest "2.IH"(1) [OF True inner] "2.IH"(2) [OF True inner [symmetric] refl rest]
    show ?thesis by (auto simp: folder_node_def)
  next
    case False
    show ?thesis
    proof (cases "tag = ''Server''")
      case server: True
      obtain site p where conv: "convert_filezilla_server base64 (uuid k) (XmlNode tag body inner) = (site, p)" by force
      obtain ns pws2 k2 where rest: "convert_filezilla_children base64 uuid (Suc k) rest = ((ns, pws2), k2)"
        by (metis prod.collapse)
      from 2(5,6) False server conv rest "2.IH"(3) [OF False server conv [symmetric] rest]
      show ?thesis by (auto simp: site_leaf_def split: option.splits)
    next
      case other: False
      with 2(5,6) False "2.IH"(4) [OF False other] show ?thesis by simp
    qed
  qed
qed simp

theorem imported_passwords_belong_witness:
  "\<exists>sites pws k'. convert_filezilla_children (\<lambda>t. None) (\<lambda>k. ''id'') 0 [XmlNode ''Server'' [] [XmlNode ''Pass'' ''pw'' []]] =
     ((sites, pws), k') \<and> (''id'', [], ''pw'') \<in> set pws \<and>
   (\<exists>s \<in> set (concat (map node_sites sites)). sc_id s = ''id'' \<and> sc_user s = [])"
proof -
  let ?n = "XmlNode ''Server'' [] [XmlNode ''Pass'' ''pw'' []]"
  let ?c = "convert_filezilla_server (\<lambda>t. None) ''id'' ?n"
  have "trim ''pw'' = ''pw''" by (rule trim_plain) (simp add: plain_char_def ascii_ws_def)
  then have "snd ?c = Some ''pw''"
    by (simp add: convert_filezilla_server_def filezilla_password_def xml_child_def Let_def)
  moreover have "sc_id (fst ?c) = ''id''" "sc_user (fst ?c) = []"
    by (simp_all add: convert_filezilla_server_def child_text_def xml_child_def Let_def default_site_def)
  ultimately have conv: "convert_filezilla_children (\<lambda>t. None) (\<lambda>k. ''id'') 0 [?n] =
      (([site_leaf (fst ?c)], [(''id'', [], ''pw'')]), 1)"
    by (cases ?c) simp
  with imported_passwords_belong [OF conv, of "''id''" "[]" "''pw''"] show ?thesis by auto
qed

end
