(* ===== verification/Edit_Manager.thy ===== *)
theory Edit_Manager
  imports Transfer_Worker
begin

text \<open>
  \<open>src-tauri/src/edit.rs\<close>: remote files opened in a local editor.  The hash of the directory's name, the
  opener and the file watcher are arguments; local files are those of \<open>worker_env\<close>.  Times are
  milliseconds.
\<close>

record watched_file =
  wf_session_id :: string
  wf_site_id :: string
  wf_remote_path :: string
  wf_last_notified :: int

record edit_state =
  ed_watched :: "(string \<times> watched_file) list"
  ed_watcher :: bool

record edited_file_changed =
  ec_session_id :: string
  ec_site_id :: string
  ec_remote_path :: string
  ec_local_path :: string

definition debounce :: int where
  "debounce = 1500"

definition edit_new :: edit_state where
  "edit_new = \<lparr>ed_watched = [], ed_watcher = False\<rparr>"

section \<open>Opening\<close>

text \<open>\<open>hex\<close> is the hexadecimal SHA-256 of a text.\<close>

definition edit_dir :: "'w os_fs \<Rightarrow> (string \<Rightarrow> string) \<Rightarrow> string \<Rightarrow> string \<Rightarrow> string \<Rightarrow> string" where
  "edit_dir os hex temp site_id remote_path = os_join os temp (take 16 (hex (site_id @ remote_path)))"

definition edit_download ::
  "nat \<Rightarrow> 'w worker_env \<Rightarrow> (string \<Rightarrow> string) \<Rightarrow> string \<Rightarrow> 'w live_session \<Rightarrow> string \<Rightarrow> ('w, string) wio" where
  "edit_download fuel env hex temp s remote_path =
     (let dir = edit_dir (we_os env) hex temp (sc_id (ss_site s)) remote_path;
          local_path = os_join (we_os env) dir (basename remote_path)
      in bind_wio (once (os_io (os_create_dir_all (we_os env) dir))) (\<lambda>_.
         bind_wio (once (transfer_client (we_connect env) s)) (\<lambda>lease.
         (\<lambda>body w. case body w of None \<Rightarrow> None | Some (r, w1) \<Rightarrow> Some (r, drop_lease s lease w1))
         (bind_wio (once (rc_open_read (lv_client s (tl_client lease)) remote_path 0)) (\<lambda>reader.
          bind_wio (once (we_open_write env local_path True)) (\<lambda>handle.
          bind_wio (pump fuel (\<lambda>_. None) (rr_read reader) (we_write_all env handle) (\<lambda>n p w. (p, w)) ()) (\<lambda>_.
          bind_wio (once (we_flush env handle)) (\<lambda>_.
          bind_wio (once (rr_finish reader)) (\<lambda>_.
          once (\<lambda>w. (Inr local_path, log_to s (LogStatus (''Opened '' @ remote_path @ '' for editing'')) w)))))))))))"

text \<open>\<open>build\<close> and \<open>start\<close> are the outcomes of creating the watcher and of watching the file.\<close>

definition edit_watch ::
  "string option \<Rightarrow> string option \<Rightarrow> int \<Rightarrow> string \<Rightarrow> 'w live_session \<Rightarrow> string \<Rightarrow> edit_state \<Rightarrow> unit vresult \<times> edit_state" where
  "edit_watch build start now local_path s remote_path st =
     (let st1 = st\<lparr>ed_watched := AList.update local_path \<lparr>wf_session_id = ss_id s, wf_site_id = sc_id (ss_site s),
            wf_remote_path = remote_path, wf_last_notified = now\<rparr> (ed_watched st)\<rparr>
      in case (if ed_watcher st1 then None else build) of
          Some e \<Rightarrow> (Inl (Other (''failed to create file watcher: '' @ e)), st1)
        | None \<Rightarrow> (map_err (\<lambda>e. Other (''failed to watch file: '' @ e))
              (case start of None \<Rightarrow> Inr () | Some e \<Rightarrow> Inl e), st1\<lparr>ed_watcher := True\<rparr>))"

definition edit_open ::
  "nat \<Rightarrow> 'w worker_env \<Rightarrow> (string \<Rightarrow> string) \<Rightarrow> string \<Rightarrow> (string \<Rightarrow> 'w \<Rightarrow> string option) \<Rightarrow> string option \<Rightarrow> string option
     \<Rightarrow> 'w live_session \<Rightarrow> string \<Rightarrow> edit_state \<Rightarrow> 'w \<Rightarrow> (string vresult \<times> edit_state \<times> 'w) option" where
  "edit_open fuel env hex temp opener build start s remote_path st w =
     (case edit_download fuel env hex temp s remote_path w of
        None \<Rightarrow> None
      | Some (Inl e, w1) \<Rightarrow> Some (Inl e, st, w1)
      | Some (Inr local_path, w1) \<Rightarrow> (case opener local_path w1 of
            Some e \<Rightarrow> Some (Inl (Other (''failed to open file: '' @ e)), st, w1)
          | None \<Rightarrow> (case edit_watch build start (we_instant env w1) local_path s remote_path st of
                (Inl e, st1) \<Rightarrow> Some (Inl e, st1, w1)
              | (Inr _, st1) \<Rightarrow> Some (Inr local_path, st1, w1))))"

section \<open>Changes\<close>

datatype watch_event = WatchError | WatchOther | WatchChange "string list"

text \<open>One path of an event: the change that is announced, if any.\<close>

definition changed_path :: "int \<Rightarrow> string \<Rightarrow> edit_state \<Rightarrow> edited_file_changed list \<times> edit_state" where
  "changed_path now path st = (case map_of (ed_watched st) path of
      None \<Rightarrow> ([], st)
    | Some f \<Rightarrow>
        if now - wf_last_notified f < debounce then ([], st)
        else ([\<lparr>ec_session_id = wf_session_id f, ec_site_id = wf_site_id f, ec_remote_path = wf_remote_path f,
                ec_local_path = path\<rparr>],
              st\<lparr>ed_watched := AList.update path (f\<lparr>wf_last_notified := now\<rparr>) (ed_watched st)\<rparr>))"

fun changed_paths :: "int \<Rightarrow> string list \<Rightarrow> edit_state \<Rightarrow> edited_file_changed list \<times> edit_state" where
  "changed_paths now [] st = ([], st)"
| "changed_paths now (p # ps) st = (case changed_path now p st of (es, st1) \<Rightarrow>
     (case changed_paths now ps st1 of (es', st2) \<Rightarrow> (es @ es', st2)))"

definition on_watch_event :: "int \<Rightarrow> watch_event \<Rightarrow> edit_state \<Rightarrow> edited_file_changed list \<times> edit_state" where
  "on_watch_event now ev st = (case ev of WatchChange paths \<Rightarrow> changed_paths now paths st | _ \<Rightarrow> ([], st))"

definition rebind_edits :: "string \<Rightarrow> string \<Rightarrow> edit_state \<Rightarrow> edit_state" where
  "rebind_edits site_id session_id st = st\<lparr>ed_watched := map (\<lambda>(p, f).
     (p, if wf_site_id f = site_id then f\<lparr>wf_session_id := session_id\<rparr> else f)) (ed_watched st)\<rparr>"

section \<open>Properties\<close>

text \<open>The changes of one file at the given times, each an event of its own; which of them are announced.\<close>

fun announced :: "string \<Rightarrow> int list \<Rightarrow> edit_state \<Rightarrow> int list" where
  "announced path [] st = []"
| "announced path (t # ts) st = (case on_watch_event t (WatchChange [path]) st of (es, st1) \<Rightarrow>
     (if es = [] then announced path ts st1 else t # announced path ts st1))"

lemma changed_single:
  assumes "map_of (ed_watched st) path = Some f"
  shows "on_watch_event t (WatchChange [path]) st =
    (if t - wf_last_notified f < debounce then ([], st)
     else ([\<lparr>ec_session_id = wf_session_id f, ec_site_id = wf_site_id f, ec_remote_path = wf_remote_path f,
                ec_local_path = path\<rparr>],
           st\<lparr>ed_watched := AList.update path (f\<lparr>wf_last_notified := t\<rparr>) (ed_watched st)\<rparr>))"
  using assms by (simp add: on_watch_event_def changed_path_def)

text \<open>Two announcements of the same file are at least a second and a half apart, and so is the first
  from opening it.  A change within that time is never announced: if it is the last one, as when
  the file is saved twice in a row, what the user saved is not offered for upload.\<close>

theorem announcements_debounced:
  assumes "map_of (ed_watched st) path = Some f" "sorted (wf_last_notified f # ts)"
  shows "sorted_wrt (\<lambda>a b. a + debounce \<le> b) (wf_last_notified f # announced path ts st) \<and>
    (\<forall>t \<in> set ts. t < wf_last_notified f + debounce \<longrightarrow> t \<notin> set (announced path ts st))"
proof -
  have far: "sorted_wrt (\<lambda>a b. a + debounce \<le> b) (wf_last_notified f # announced path ts st)"
    using assms
  proof (induction ts arbitrary: st f)
    case (Cons t ts)
    show ?case
    proof (cases "t - wf_last_notified f < debounce")
      case True
      with Cons show ?thesis by (simp add: changed_single)
    next
      case False
      let ?f = "f\<lparr>wf_last_notified := t\<rparr>"
      let ?st = "st\<lparr>ed_watched := AList.update path ?f (ed_watched st)\<rparr>"
      have "sorted_wrt (\<lambda>a b. a + debounce \<le> b) (wf_last_notified ?f # announced path ts ?st)"
        by (rule Cons.IH) (use Cons.prems in \<open>simp_all add: update_conv'\<close>)
      with False Cons.prems(1) show ?thesis
        by (auto simp: changed_single debounce_def)
    qed
  qed simp
  then show ?thesis by fastforce
qed

definition opened_edit :: edit_state where
  "opened_edit = \<lparr>ed_watched = [(''f'', \<lparr>wf_session_id = ''s'', wf_site_id = ''site'', wf_remote_path = ''/f'',
     wf_last_notified = 0\<rparr>)], ed_watcher = True\<rparr>"

theorem announcements_debounced_witness:
  "sorted_wrt (\<lambda>a b. a + debounce \<le> b) (0 # announced ''f'' [1000, 2000, 2500] opened_edit) \<and>
   1000 \<notin> set (announced ''f'' [1000, 2000, 2500] opened_edit)"
proof -
  have f: "map_of (ed_watched opened_edit) ''f'' = Some \<lparr>wf_session_id = ''s'', wf_site_id = ''site'',
      wf_remote_path = ''/f'', wf_last_notified = 0\<rparr>"
    by (simp add: opened_edit_def)
  from announcements_debounced [OF f, of "[1000, 2000, 2500]"] show ?thesis by (simp add: debounce_def)
qed

end
