(* ===== verification/Global_Memory.thy ===== *)
theory Global_Memory
  imports Protocol_Types Utf16
begin

text \<open>
  The module \<open>hglobal\<close> of \<open>src-tauri/src/drag_out.rs\<close>: blocks of the system's global memory, in which
  files, texts and numbers travel to other applications, by the clipboard or by dragging.  The memory
  functions of Windows are the fields of \<open>global_memory\<close>; a locked pointer is written with \<open>gm_copy\<close> and
  read with \<open>gm_peek\<close>.
\<close>

section \<open>Memory and numbers\<close>

record ('w, 'h) global_memory =
  gm_alloc :: "nat \<Rightarrow> ('w, string, 'h) io"
  gm_lock :: "'h \<Rightarrow> 'w \<Rightarrow> bool \<times> 'w"
  gm_unlock :: "'h \<Rightarrow> 'w \<Rightarrow> 'w"
  gm_size :: "'h \<Rightarrow> 'w \<Rightarrow> nat"
  gm_copy :: "'h \<Rightarrow> bytes \<Rightarrow> 'w \<Rightarrow> 'w"
  gm_peek :: "'h \<Rightarrow> nat \<Rightarrow> 'w \<Rightarrow> bytes"
  gm_free :: "'h \<Rightarrow> 'w \<Rightarrow> 'w"

text \<open>\<open>u32::to_le_bytes\<close> and the unaligned read of a \<open>u32\<close>.\<close>

definition dword_bytes :: "u32 \<Rightarrow> bytes" where
  "dword_bytes v = map (\<lambda>i. ucast (drop_bit i v)) [0, 8, 16, 24]"

fun bytes_dword :: "bytes \<Rightarrow> u32" where
  "bytes_dword [] = 0"
| "bytes_dword (b # bs) = or (ucast b) (push_bit 8 (bytes_dword bs))"

lemma dword_roundtrip: "bytes_dword (dword_bytes v) = v"
proof (rule bit_word_eqI)
  fix n assume "n < LENGTH(32)"
  then show "bit (bytes_dword (dword_bytes v)) n = bit v n"
    by (cases "n < 8"; cases "n < 16"; cases "n < 24") (auto simp: dword_bytes_def bit_simps)
qed

lemma length_dword_bytes [simp]: "length (dword_bytes v) = 4"
  by (simp add: dword_bytes_def)

section \<open>Filling a block\<close>

definition from_bytes :: "('w, 'h) global_memory \<Rightarrow> bytes \<Rightarrow> ('w, 'h) vio" where
  "from_bytes m bs w = (case gm_alloc m (length bs) w of
      (Inl e, w1) \<Rightarrow> (Inl (Other (''cannot allocate global memory: '' @ e)), w1)
    | (Inr handle, w1) \<Rightarrow> (case gm_lock m handle w1 of
          (False, w2) \<Rightarrow> (Inl (Other ''cannot lock global memory''), w2)
        | (True, w2) \<Rightarrow> (Inr handle, gm_unlock m handle (gm_copy m handle bs w2))))"

text \<open>The structure \<open>DROPFILES\<close>: the offset of the names, a point, \<open>fNC\<close> and \<open>fWide\<close>.\<close>

definition drop_header :: bytes where
  "drop_header = (let header_size = 20 in
     dword_bytes header_size @ dword_bytes 0 @ dword_bytes 0 @ dword_bytes 0 @ dword_bytes 1)"

definition units_bytes :: "u16 list \<Rightarrow> bytes" where
  "units_bytes us = concat (map unit_bytes us)"

definition drop_files :: "('w, 'h) global_memory \<Rightarrow> string list \<Rightarrow> ('w, 'h) vio" where
  "drop_files m paths =
     (let names = concat (map (\<lambda>path. encode_utf16 path @ [0]) paths) @ [0]
      in from_bytes m (drop_header @ units_bytes names))"

definition dword :: "('w, 'h) global_memory \<Rightarrow> u32 \<Rightarrow> ('w, 'h) vio" where
  "dword m v = from_bytes m (dword_bytes v)"

definition text_block :: "('w, 'h) global_memory \<Rightarrow> string \<Rightarrow> ('w, 'h) vio" where
  "text_block m t = from_bytes m (units_bytes (encode_utf16 t @ [0]))"

section \<open>Reading a block\<close>

text \<open>A text ends at its first NUL, or with the block.\<close>

definition read_text :: "('w, 'h) global_memory \<Rightarrow> 'h \<Rightarrow> 'w \<Rightarrow> string option \<times> 'w" where
  "read_text m handle w =
     (let size = gm_size m handle w div 2 in
      case gm_lock m handle w of
        (False, w1) \<Rightarrow> (None, w1)
      | (True, w1) \<Rightarrow>
          (let units = bytes_units (gm_peek m handle (size * 2) w1);
               len = (case position (\<lambda>u. u = 0) units of Some n \<Rightarrow> n | None \<Rightarrow> size)
           in (Some (from_utf16_lossy (take len units)), gm_unlock m handle w1)))"

text \<open>Four bytes are read however large the block is.\<close>

definition read_dword :: "('w, 'h) global_memory \<Rightarrow> 'h \<Rightarrow> 'w \<Rightarrow> u32 option \<times> 'w" where
  "read_dword m handle w = (case gm_lock m handle w of
      (False, w1) \<Rightarrow> (None, w1)
    | (True, w1) \<Rightarrow> (Some (bytes_dword (gm_peek m handle 4 w1)), gm_unlock m handle w1))"

section \<open>What a block holds\<close>

definition block :: "('w, 'h) global_memory \<Rightarrow> 'h \<Rightarrow> 'w \<Rightarrow> bytes" where
  "block m h w = gm_peek m h (gm_size m h w) w"

definition drop_block :: "u16 list list \<Rightarrow> bytes" where
  "drop_block names = drop_header @ units_bytes (concat (map (\<lambda>n. n @ [0]) names) @ [0])"

lemma bytes_units_append: "bytes_units (units_bytes us @ bs) = us @ bytes_units bs"
  by (induction us) (simp_all add: units_bytes_def unit_bytes_def unit_of_bytes)

lemma length_units_bytes [simp]: "length (units_bytes us) = 2 * length us"
  by (induction us) (simp_all add: units_bytes_def unit_bytes_def)

lemma length_bytes_units: "length (bytes_units bs) = length bs div 2"
  by (induction bs rule: bytes_units.induct) simp_all

lemma take_position: "take (case position (\<lambda>u. u = 0) us of Some n \<Rightarrow> n | None \<Rightarrow> length us) us = up_to_nul us"
  unfolding up_to_nul_def by (induction us) (auto split: option.splits)

text \<open>What the functions above rely on of the memory, for a world in which \<open>view\<close> tells the formats of the
  clipboard: a block that has just been allocated holds what is copied into it, allocation and
  locking leave the rest alone, and a block may be larger than was asked for.\<close>

locale memory_blocks =
  fixes m :: "('w, 'h) global_memory" and view :: "'w \<Rightarrow> 'v"
  assumes fill: "gm_alloc m (length bs) w = (Inr h, w1) \<Longrightarrow> gm_lock m h w1 = (True, w2) \<Longrightarrow>
      w' = gm_unlock m h (gm_copy m h bs w2) \<Longrightarrow> view w' = view w \<and> (\<exists>rest. block m h w' = bs @ rest)"
    and peek: "n \<le> gm_size m h w \<Longrightarrow> gm_peek m h n w = take n (block m h w)"
    and block_length: "length (block m h w) = gm_size m h w"
    and lock_view: "view (snd (gm_lock m h w)) = view w"
    and lock_size: "gm_size m h (snd (gm_lock m h w)) = gm_size m h w"
    and lock_block: "block m h (snd (gm_lock m h w)) = block m h w"
    and unlock_view: "view (gm_unlock m h w) = view w"
begin

lemma from_bytes_block:
  assumes "from_bytes m bs w = (Inr h, w')"
  shows "view w' = view w \<and> (\<exists>rest. block m h w' = bs @ rest)"
  using assms fill by (auto simp: from_bytes_def split: sum.splits prod.splits bool.splits)

lemma read_text_block:
  assumes "block m h w = units_bytes (encode_utf16 t @ [0]) @ rest" "plain_text t" "fst (gm_lock m h w)"
  shows "fst (read_text m h w) = Some t"
proof -
  obtain w1 where lock: "gm_lock m h w = (True, w1)" using assms(3) by (cases "gm_lock m h w") auto
  let ?s = "gm_size m h w"
  have "gm_peek m h (?s div 2 * 2) w1 = take (?s div 2 * 2) (block m h w)"
    using peek [of "?s div 2 * 2" h w1] lock_size [of h w] lock_block [of h w] lock by simp
  moreover have "2 * Suc (length (encode_utf16 t)) \<le> ?s div 2 * 2"
  proof -
    have "2 * Suc (length (encode_utf16 t)) \<le> ?s" using block_length [of h w] assms(1) by simp
    then have "Suc (length (encode_utf16 t)) \<le> ?s div 2" using div_le_mono [of _ ?s 2] by fastforce
    then show ?thesis by simp
  qed
  ultimately obtain rest' where "gm_peek m h (?s div 2 * 2) w1 = units_bytes (encode_utf16 t @ [0]) @ rest'"
    using assms(1) by (simp add: take_append)
  moreover have "length (gm_peek m h (?s div 2 * 2) w1) = ?s div 2 * 2"
    using block_length [of h w] \<open>gm_peek _ _ _ _ = take _ _\<close> by simp
  moreover define us where "us = bytes_units (gm_peek m h (?s div 2 * 2) w1)"
  ultimately have us: "us = encode_utf16 t @ 0 # bytes_units rest'" "length us = ?s div 2"
    by (simp_all add: bytes_units_append length_bytes_units)
  have "take (case position (\<lambda>u. u = 0) us of Some n \<Rightarrow> n | None \<Rightarrow> ?s div 2) us = up_to_nul us"
    unfolding us(2) [symmetric] by (rule take_position)
  then have "fst (read_text m h w) = Some (from_utf16_lossy (up_to_nul us))"
    by (simp add: read_text_def lock Let_def us_def [symmetric])
  also have "up_to_nul us = encode_utf16 t"
    using encode_utf16_nonzero [of t] assms(2) unfolding us(1)
    by (auto simp: up_to_nul_def plain_text_def takeWhile_append)
  finally show ?thesis using assms(2) by (simp add: utf16_roundtrip plain_text_def)
qed

lemma read_dword_block:
  assumes "block m h w = dword_bytes v @ rest" "fst (gm_lock m h w)"
  shows "fst (read_dword m h w) = Some v"
proof -
  obtain w1 where lock: "gm_lock m h w = (True, w1)" using assms(2) by (cases "gm_lock m h w") auto
  have "4 \<le> gm_size m h w" using block_length [of h w] assms(1) by simp
  then have "gm_peek m h 4 w1 = dword_bytes v"
    using peek [of 4 h w1] lock_size [of h w] lock_block [of h w] lock assms(1) by simp
  then show ?thesis by (simp add: read_dword_def lock dword_roundtrip)
qed

lemma read_views:
  "view (snd (read_text m h w)) = view w" "view (snd (read_dword m h w)) = view w"
  using lock_view [of h w] unlock_view
  by (auto simp: read_text_def read_dword_def Let_def split: prod.splits bool.splits)

end

end
