(* ===== verification/Clipboard.thy ===== *)
theory Clipboard
  imports Global_Memory
begin

text \<open>
  \<open>src-tauri/src/clipboard.rs\<close>: texts and files on the system's clipboard.  The functions of Windows are
  the fields of \<open>clipboard_api\<close>; a result \<open>Inl\<close> is the error's text.  \<open>DragQueryFileW\<close> is \<open>dq_count\<close>,
  \<open>dq_length\<close> and \<open>dq_copy\<close>, by the three ways it is called; \<open>dq_copy\<close> is the buffer after the call.
\<close>

section \<open>The interface of the system\<close>

record ('w, 'h) clipboard_api =
  cb_open :: "'w \<Rightarrow> bool \<times> 'w"
  cb_close :: "'w \<Rightarrow> 'w"
  cb_sleep :: "'w \<Rightarrow> 'w"
  cb_empty :: "('w, string, unit) io"
  cb_register :: "string \<Rightarrow> u32"
  cb_set :: "u32 \<Rightarrow> 'h \<Rightarrow> ('w, string, unit) io"
  cb_get :: "u32 \<Rightarrow> 'w \<Rightarrow> string + 'h"
  cb_available :: "u32 \<Rightarrow> 'w \<Rightarrow> bool"
  cb_sequence :: "'w \<Rightarrow> u32"
  dq_count :: "'h \<Rightarrow> 'w \<Rightarrow> u32"
  dq_length :: "'h \<Rightarrow> u32 \<Rightarrow> 'w \<Rightarrow> u32"
  dq_copy :: "'h \<Rightarrow> u32 \<Rightarrow> nat \<Rightarrow> 'w \<Rightarrow> u16 list"
  cb_memory :: "('w, 'h) global_memory"

record clipboard_files =
  cf_sequence :: u32
  cf_paths :: "string list"
  cf_cut :: bool
  cf_token :: "string option"

definition no_files :: clipboard_files where
  "no_files = \<lparr>cf_sequence = 0, cf_paths = [], cf_cut = False, cf_token = None\<rparr>"

text \<open>The standard formats and drop effects.\<close>

definition cf_unicodetext :: u32 where "cf_unicodetext = 13"
definition cf_hdrop :: u32 where "cf_hdrop = 15"
definition dropeffect_copy :: u32 where "dropeffect_copy = 1"
definition dropeffect_move :: u32 where "dropeffect_move = 2"

section \<open>Opening and closing\<close>

definition open_attempts :: nat where
  "open_attempts = 10"

text \<open>\<open>k\<close> attempts are left; there is no pause after the last one.\<close>

fun open_loop :: "('w, 'h) clipboard_api \<Rightarrow> nat \<Rightarrow> ('w, unit) vio" where
  "open_loop api 0 w = (Inl (Other ''the clipboard is in use by another application''), w)"
| "open_loop api (Suc k) w = (case cb_open api w of
      (True, w1) \<Rightarrow> (Inr (), w1)
    | (False, w1) \<Rightarrow> open_loop api k (if 0 < k then cb_sleep api w1 else w1))"

definition open_clipboard :: "('w, 'h) clipboard_api \<Rightarrow> ('w, unit) vio" where
  "open_clipboard api = open_loop api open_attempts"

text \<open>The guard \<open>OpenedClipboard\<close> closes the clipboard however the block ends.\<close>

definition with_clipboard :: "('w, 'h) clipboard_api \<Rightarrow> ('w, 'a) vio \<Rightarrow> ('w, 'a) vio" where
  "with_clipboard api body w = (case open_clipboard api w of
      (Inl e, w1) \<Rightarrow> (Inl e, w1)
    | (Inr _, w1) \<Rightarrow> (case body w1 of (r, w2) \<Rightarrow> (r, cb_close api w2)))"

section \<open>Writing\<close>

definition preferred_effect_format :: "('w, 'h) clipboard_api \<Rightarrow> u32" where
  "preferred_effect_format api = cb_register api ''Preferred DropEffect''"

definition token_format :: "('w, 'h) clipboard_api \<Rightarrow> u32" where
  "token_format api = cb_register api ''Vaultra.ClipboardToken''"

definition clipboard_put :: "('w, 'h) clipboard_api \<Rightarrow> u32 \<Rightarrow> 'h \<Rightarrow> ('w, unit) vio" where
  "clipboard_put api format h w = (case cb_set api format h w of
      (Inl e, w1) \<Rightarrow> (Inl (Other (''cannot write to the clipboard: '' @ e)), gm_free (cb_memory api) h w1)
    | (Inr _, w1) \<Rightarrow> (Inr (), w1))"

definition clipboard_clear :: "('w, 'h) clipboard_api \<Rightarrow> ('w, unit) vio" where
  "clipboard_clear api w = (case cb_empty api w of
      (Inl e, w1) \<Rightarrow> (Inl (Other (''cannot clear the clipboard: '' @ e)), w1)
    | (Inr _, w1) \<Rightarrow> (Inr (), w1))"

definition clipboard_fill :: "('w, 'h) clipboard_api \<Rightarrow> string \<Rightarrow> string list \<Rightarrow> string \<Rightarrow> ('w, unit) vio" where
  "clipboard_fill api text files token =
     (let m = cb_memory api in
      then_io (clipboard_clear api)
     (then_io (bind_io (text_block m text) (clipboard_put api cf_unicodetext))
     (then_io (bind_io (text_block m token) (clipboard_put api (token_format api)))
     (if files = [] then ok_io ()
      else then_io (bind_io (drop_files m files) (clipboard_put api cf_hdrop))
                   (bind_io (dword m dropeffect_copy) (clipboard_put api (preferred_effect_format api)))))))"

definition clipboard_write :: "('w, 'h) clipboard_api \<Rightarrow> string \<Rightarrow> string list \<Rightarrow> string \<Rightarrow> ('w, u32) vio" where
  "clipboard_write api text files token =
     bind_io (with_clipboard api (clipboard_fill api text files token))
       (\<lambda>_. read_io (cb_sequence api))"

text \<open>Other systems refuse to write and have nothing to read.\<close>

definition clipboard_write_elsewhere :: "u32 vresult" where
  "clipboard_write_elsewhere = Inl (Unsupported ''the system clipboard is only available on Windows'')"

definition read_files_elsewhere :: "clipboard_files vresult" where
  "read_files_elsewhere = Inr no_files"

section \<open>Reading\<close>

definition read_token :: "('w, 'h) clipboard_api \<Rightarrow> 'w \<Rightarrow> string option \<times> 'w" where
  "read_token api w = (case cb_get api (token_format api) w of
      Inl _ \<Rightarrow> (None, w)
    | Inr h \<Rightarrow> read_text (cb_memory api) h w)"

definition dropped_path :: "('w, 'h) clipboard_api \<Rightarrow> 'h \<Rightarrow> 'w \<Rightarrow> u32 \<Rightarrow> string" where
  "dropped_path api hdrop w index =
     (let len = unat (dq_length api hdrop index w);
          buffer = dq_copy api hdrop index (len + 1) w
      in from_utf16_lossy (take len buffer))"

definition read_cut :: "('w, 'h) clipboard_api \<Rightarrow> 'w \<Rightarrow> bool \<times> 'w" where
  "read_cut api w = (case cb_get api (preferred_effect_format api) w of
      Inl _ \<Rightarrow> (False, w)
    | Inr h \<Rightarrow> (case read_dword (cb_memory api) h w of
          (None, w1) \<Rightarrow> (False, w1)
        | (Some effect, w1) \<Rightarrow> (and effect dropeffect_move \<noteq> 0, w1)))"

definition read_body :: "('w, 'h) clipboard_api \<Rightarrow> ('w, clipboard_files) vio" where
  "read_body api w =
     (let sequence = cb_sequence api w in
      case read_token api w of (token, w1) \<Rightarrow>
        if \<not> cb_available api cf_hdrop w1
        then (Inr (no_files\<lparr>cf_sequence := sequence, cf_token := token\<rparr>), w1)
        else (case cb_get api cf_hdrop w1 of
            Inl e \<Rightarrow> (Inl (Other (''cannot read the clipboard: '' @ e)), w1)
          | Inr hdrop \<Rightarrow>
              (let count = dq_count api hdrop w1;
                   paths = map (\<lambda>index. dropped_path api hdrop w1 (of_nat index)) [0..<unat count]
               in case read_cut api w1 of (is_cut, w2) \<Rightarrow>
                    (Inr \<lparr>cf_sequence = sequence, cf_paths = paths, cf_cut = is_cut, cf_token = token\<rparr>, w2))))"

definition read_files :: "('w, 'h) clipboard_api \<Rightarrow> ('w, clipboard_files) vio" where
  "read_files api = with_clipboard api (read_body api)"

section \<open>What the system promises\<close>

text \<open>
  \<open>view\<close> tells which formats the clipboard holds and with which bytes, as long as no other application
  takes it: opening, waiting and closing leave it alone, \<open>SetClipboardData\<close> hands a block over, a format
  that is there can be read, and \<open>DragQueryFileW\<close> reads the names of a block of the documented form.
\<close>

locale windows_clipboard =
  memory_blocks "cb_memory api" view
  for api :: "('w, 'h) clipboard_api" and view :: "'w \<Rightarrow> u32 \<Rightarrow> bytes option" +
  assumes open_view: "view (snd (cb_open api w)) = view w"
    and open_sequence: "cb_sequence api (snd (cb_open api w)) = cb_sequence api w"
    and sleep_view: "view (cb_sleep api w) = view w"
    and sleep_sequence: "cb_sequence api (cb_sleep api w) = cb_sequence api w"
    and close_view: "view (cb_close api w) = view w"
    and empty_view: "cb_empty api w = (Inr (), w') \<Longrightarrow> view w' = (\<lambda>_. None)"
    and registered: "cf_hdrop \<noteq> cb_register api name" "cf_unicodetext \<noteq> cb_register api name"
      "token_format api \<noteq> preferred_effect_format api"
    and set_view: "cb_set api f h w = (Inr (), w') \<Longrightarrow> view w' = (view w)(f \<mapsto> block (cb_memory api) h w)"
    and get_view: "view w f = Some bs \<Longrightarrow>
      \<exists>h. cb_get api f w = Inr h \<and> block (cb_memory api) h w = bs \<and> fst (gm_lock (cb_memory api) h w)"
    and available_view: "cb_available api f w \<longleftrightarrow> view w f \<noteq> None"
    and query: "block (cb_memory api) h w = drop_block names @ rest \<Longrightarrow> \<forall>n \<in> set names. n \<noteq> [] \<and> 0 \<notin> set n \<Longrightarrow>
      length names < 2 ^ 32 \<Longrightarrow> \<forall>n \<in> set names. length n < 2 ^ 32 \<Longrightarrow>
      dq_count api h w = of_nat (length names) \<and> (\<forall>i < length names.
        dq_length api h (of_nat i) w = of_nat (length (names ! i)) \<and>
        take (length (names ! i)) (dq_copy api h (of_nat i) (Suc (length (names ! i))) w) = names ! i)"
begin

lemma open_keeps: "open_loop api k w = (r, w') \<Longrightarrow> view w' = view w \<and> cb_sequence api w' = cb_sequence api w"
proof (induction k arbitrary: w)
  case (Suc k)
  obtain b w1 where o: "cb_open api w = (b, w1)" by (cases "cb_open api w") auto
  with Suc.prems open_view [of w] open_sequence [of w] Suc.IH [of "if 0 < k then cb_sleep api w1 else w1"]
  show ?case using sleep_view [of w1] sleep_sequence [of w1] by (auto split: bool.splits if_splits)
qed simp

lemma put_view:
  assumes "clipboard_put api f h w = (Inr (), w')" "\<exists>rest. block (cb_memory api) h w = bs @ rest"
  shows "\<exists>rest. view w' = (view w)(f \<mapsto> bs @ rest)"
  using assms set_view by (auto simp: clipboard_put_def split: sum.splits prod.splits)

text \<open>What a block of each kind adds to the clipboard.\<close>

lemma fill_put:
  assumes "bind_io (from_bytes (cb_memory api) bs) (clipboard_put api f) w = (Inr (), w')"
  shows "\<exists>rest. view w' = (view w)(f \<mapsto> bs @ rest)"
proof -
  obtain h w1 where "from_bytes (cb_memory api) bs w = (Inr h, w1)" "clipboard_put api f h w1 = (Inr (), w')"
    using assms by (rule bind_io_InrE)
  with from_bytes_block [of bs w h w1] put_view [of f h w1 w' bs] show ?thesis by auto
qed

lemma fill_view:
  assumes "clipboard_fill api text files token w = (Inr (), w')"
  shows "\<exists>r1 r2. view w' (token_format api) = Some (units_bytes (encode_utf16 token @ [0]) @ r1) \<and>
    (if files = [] then view w' cf_hdrop = None
     else view w' cf_hdrop = Some (drop_block (map encode_utf16 files) @ r2) \<and>
       (\<exists>r3. view w' (preferred_effect_format api) = Some (dword_bytes dropeffect_copy @ r3)))"
proof -
  let ?m = "cb_memory api" and ?t = "token_format api" and ?p = "preferred_effect_format api"
  have formats: "cf_hdrop \<noteq> ?t" "cf_hdrop \<noteq> ?p" "cf_unicodetext \<noteq> ?t" "?t \<noteq> ?p" "cf_hdrop \<noteq> cf_unicodetext"
    using registered by (simp_all add: token_format_def preferred_effect_format_def cf_hdrop_def cf_unicodetext_def)
  let ?rest = "if files = [] then ok_io ()
      else then_io (bind_io (drop_files ?m files) (clipboard_put api cf_hdrop))
                   (bind_io (dword ?m dropeffect_copy) (clipboard_put api ?p))"
  from assms obtain w1 w2 w3 where steps: "clipboard_clear api w = (Inr (), w1)"
      "bind_io (text_block ?m text) (clipboard_put api cf_unicodetext) w1 = (Inr (), w2)"
      "bind_io (text_block ?m token) (clipboard_put api ?t) w2 = (Inr (), w3)" "?rest w3 = (Inr (), w')"
    by (auto simp: clipboard_fill_def Let_def then_io_def bind_io_Inr_iff)
  have v1: "view w1 = (\<lambda>_. None)"
    using steps(1) empty_view by (auto simp: clipboard_clear_def split: sum.splits prod.splits)
  obtain ra rb where v3: "view w3 = (\<lambda>_. None)(cf_unicodetext \<mapsto> ra, ?t \<mapsto> units_bytes (encode_utf16 token @ [0]) @ rb)"
    using fill_put [OF steps(2) [unfolded text_block_def]] fill_put [OF steps(3) [unfolded text_block_def]] v1 by auto
  show ?thesis
  proof (cases "files = []")
    case True
    with steps(4) v3 formats show ?thesis by auto
  next
    case False
    with steps(4) obtain w4 where last: "bind_io (drop_files ?m files) (clipboard_put api cf_hdrop) w3 = (Inr (), w4)"
        "bind_io (dword ?m dropeffect_copy) (clipboard_put api ?p) w4 = (Inr (), w')"
      by (auto simp: then_io_def bind_io_Inr_iff)
    have d: "drop_header @ units_bytes (concat (map (\<lambda>path. encode_utf16 path @ [0]) files) @ [0]) =
        drop_block (map encode_utf16 files)" by (simp add: drop_block_def comp_def)
    obtain rc rd where "view w' = (view w3)(cf_hdrop \<mapsto> drop_block (map encode_utf16 files) @ rc,
        ?p \<mapsto> dword_bytes dropeffect_copy @ rd)"
      using fill_put [OF last(1) [unfolded drop_files_def Let_def d]] fill_put [OF last(2) [unfolded dword_def]] by auto
    with v3 formats False show ?thesis by auto
  qed
qed

lemma read_token_view:
  assumes "view w (token_format api) = Some (units_bytes (encode_utf16 token @ [0]) @ rest)" "plain_text token"
  shows "fst (read_token api w) = Some token \<and> view (snd (read_token api w)) = view w"
  using get_view [OF assms(1)] read_text_block [OF _ assms(2)] read_views
  by (auto simp: read_token_def split: sum.splits)

lemma read_cut_view:
  assumes "view w (preferred_effect_format api) = Some (dword_bytes dropeffect_copy @ rest)"
  shows "\<not> fst (read_cut api w)"
proof -
  obtain h where h: "cb_get api (preferred_effect_format api) w = Inr h" "fst (read_dword (cb_memory api) h w) = Some dropeffect_copy"
    using get_view [OF assms] read_dword_block by blast
  then show ?thesis
    by (auto simp: read_cut_def dropeffect_copy_def dropeffect_move_def split: prod.splits option.splits)
qed

lemma dropped_paths_view:
  assumes "block (cb_memory api) h w = drop_block (map encode_utf16 files) @ rest"
    and files: "\<forall>f \<in> set files. plain_text f \<and> f \<noteq> [] \<and> length f < 2 ^ 32" "length files < 2 ^ 32"
  shows "map (\<lambda>i. dropped_path api h w (of_nat i)) [0..<unat (dq_count api h w)] = files"
proof -
  let ?names = "map encode_utf16 files"
  have "encode_utf16 f \<noteq> [] \<and> 0 \<notin> set (encode_utf16 f)" if "f \<in> set files" for f
    using that files(1) utf16_roundtrip [of f] encode_utf16_nonzero [of f] by (auto simp: plain_text_def)
  moreover have short: "length (encode_utf16 f) < 2 ^ 32" if "f \<in> set files" for f
    using files(1) that encode_utf16_length [of f] by (fastforce simp: plain_text_def)
  ultimately have q: "dq_count api h w = of_nat (length files)" "\<forall>i < length files.
      dq_length api h (of_nat i) w = of_nat (length (encode_utf16 (files ! i))) \<and>
      take (length (encode_utf16 (files ! i))) (dq_copy api h (of_nat i) (Suc (length (encode_utf16 (files ! i)))) w)
        = encode_utf16 (files ! i)"
    using query [OF assms(1)] files by auto
  have "unat (of_nat n :: u32) = n" if "n < 2 ^ 32" for n
    using that by (simp add: unat_of_nat take_bit_eq_mod)
  note u = this
  show ?thesis
  proof (rule nth_equalityI)
    show l: "length (map (\<lambda>i. dropped_path api h w (of_nat i)) [0..<unat (dq_count api h w)]) = length files"
      using q(1) u [OF files(2)] by simp
    fix i assume "i < length (map (\<lambda>i. dropped_path api h w (of_nat i)) [0..<unat (dq_count api h w)])"
    with l have i: "i < length files" "files ! i \<in> set files" by auto
    with files(1) have "plain_text (files ! i)" "unat (of_nat (length (encode_utf16 (files ! i))) :: u32) = length (encode_utf16 (files ! i))"
      using short by (auto intro: u)
    with q i show "map (\<lambda>i. dropped_path api h w (of_nat i)) [0..<unat (dq_count api h w)] ! i = files ! i"
      using l by (simp add: dropped_path_def utf16_roundtrip plain_text_def)
  qed
qed

lemma write_read:
  assumes "plain_text token" "\<forall>f \<in> set files. plain_text f \<and> f \<noteq> [] \<and> length f < 2 ^ 32"
    and "length files < 2 ^ 32" "clipboard_write api text files token w = (Inr seq, w1)" "read_files api w1 = (Inr r, w2)"
  shows "r = \<lparr>cf_sequence = seq, cf_paths = files, cf_cut = False, cf_token = Some token\<rparr>"
proof -
  from assms(4) obtain wa where "with_clipboard api (clipboard_fill api text files token) w = (Inr (), wa)"
      and seq: "w1 = wa" "seq = cb_sequence api wa"
    by (auto simp: clipboard_write_def bind_io_Inr_iff)
  then obtain wb wc where "clipboard_fill api text files token wb = (Inr (), wc)" "w1 = cb_close api wc"
    by (auto simp: with_clipboard_def split: sum.splits prod.splits)
  with fill_view close_view obtain r1 r2 where
    tok: "view w1 (token_format api) = Some (units_bytes (encode_utf16 token @ [0]) @ r1)" and
    fil: "if files = [] then view w1 cf_hdrop = None
       else view w1 cf_hdrop = Some (drop_block (map encode_utf16 files) @ r2) \<and>
         (\<exists>r3. view w1 (preferred_effect_format api) = Some (dword_bytes dropeffect_copy @ r3))" by metis
  from assms(5) obtain wd we where o: "open_clipboard api w1 = (Inr (), wd)" and body: "read_body api wd = (Inr r, we)"
    by (auto simp: read_files_def with_clipboard_def split: sum.splits prod.splits)
  from open_keeps [OF o [unfolded open_clipboard_def]] have d: "view wd = view w1" "cb_sequence api wd = seq" by (simp_all add: seq)
  obtain wf where t: "read_token api wd = (Some token, wf)" "view wf = view w1"
    using read_token_view [OF tok [folded d] assms(1)] d by (cases "read_token api wd") auto
  show ?thesis
  proof (cases "files = []")
    case True
    with body t d fil show ?thesis by (auto simp: read_body_def Let_def available_view no_files_def)
  next
    case False
    with fil t obtain r3 where v: "view wf cf_hdrop = Some (drop_block (map encode_utf16 files) @ r2)"
      "view wf (preferred_effect_format api) = Some (dword_bytes dropeffect_copy @ r3)" by auto
    obtain h where h: "cb_get api cf_hdrop wf = Inr h" "block (cb_memory api) h wf = drop_block (map encode_utf16 files) @ r2"
      using get_view [OF v(1)] by auto
    show ?thesis
      using body t d v h read_cut_view [OF v(2)] dropped_paths_view [OF h(2) assms(2,3)]
      by (auto simp: read_body_def Let_def available_view split: prod.splits)
  qed
qed

end

section \<open>A clipboard that keeps the promise\<close>

text \<open>Blocks of one's own memory, and the blocks the clipboard holds for each format.\<close>

datatype block_handle = Memory nat | Held u32

record board =
  bd_memory :: "bytes list"
  bd_held :: "(u32 \<times> bytes) list"
  bd_sequence :: u32

definition board_block :: "block_handle \<Rightarrow> board \<Rightarrow> bytes" where
  "board_block h b = (case h of
      Memory i \<Rightarrow> if i < length (bd_memory b) then bd_memory b ! i else []
    | Held f \<Rightarrow> (case map_of (bd_held b) f of Some bs \<Rightarrow> bs | None \<Rightarrow> []))"

definition board_memory :: "(board, block_handle) global_memory" where
  "board_memory = \<lparr>
     gm_alloc = (\<lambda>n b. (Inr (Memory (length (bd_memory b))), b\<lparr>bd_memory := bd_memory b @ [replicate n 0]\<rparr>)),
     gm_lock = (\<lambda>h b. (True, b)), gm_unlock = (\<lambda>h b. b),
     gm_size = (\<lambda>h b. length (board_block h b)),
     gm_copy = (\<lambda>h bs b. case h of
         Memory i \<Rightarrow> b\<lparr>bd_memory := (bd_memory b)[i := bs @ drop (length bs) (bd_memory b ! i)]\<rparr>
       | Held _ \<Rightarrow> b),
     gm_peek = (\<lambda>h n b. take n (board_block h b)),
     gm_free = (\<lambda>h b. b)\<rparr>"

function split_names :: "u16 list \<Rightarrow> u16 list list" where
  "split_names us = (let n = up_to_nul us in
     if n = [] then [] else n # split_names (drop (Suc (length n)) us))"
  by auto
termination
proof (relation "measure length")
  fix us n assume "n = up_to_nul us" "n \<noteq> []"
  then have "us \<noteq> []" by (auto simp: up_to_nul_def)
  then show "(drop (Suc (length n)) us, us) \<in> measure length" by simp
qed simp

declare split_names.simps [simp del]

definition board_names :: "block_handle \<Rightarrow> board \<Rightarrow> u16 list list" where
  "board_names h b = split_names (bytes_units (drop 20 (board_block h b)))"

definition board_api :: "(board, block_handle) clipboard_api" where
  "board_api = \<lparr>
     cb_open = (\<lambda>b. (True, b)), cb_close = (\<lambda>b. b), cb_sleep = (\<lambda>b. b),
     cb_empty = (\<lambda>b. (Inr (), b\<lparr>bd_held := [], bd_sequence := bd_sequence b + 1\<rparr>)),
     cb_register = (\<lambda>name. if name = ''Preferred DropEffect'' then 49161 else 49162),
     cb_set = (\<lambda>f h b. (Inr (), b\<lparr>bd_held := (f, board_block h b) # bd_held b, bd_sequence := bd_sequence b + 1\<rparr>)),
     cb_get = (\<lambda>f b. if map_of (bd_held b) f = None then Inl ''no such format'' else Inr (Held f)),
     cb_available = (\<lambda>f b. map_of (bd_held b) f \<noteq> None),
     cb_sequence = bd_sequence,
     dq_count = (\<lambda>h b. of_nat (length (board_names h b))),
     dq_length = (\<lambda>h i b. of_nat (length (board_names h b ! unat i))),
     dq_copy = (\<lambda>h i n b. take n (board_names h b ! unat i @ [0])),
     cb_memory = board_memory\<rparr>"

lemma split_names_concat:
  "\<forall>n \<in> set names. n \<noteq> [] \<and> 0 \<notin> set n \<Longrightarrow> split_names (concat (map (\<lambda>n. n @ [0]) names) @ 0 # us) = names"
proof (induction names)
  case Nil
  show ?case by (simp add: split_names.simps up_to_nul_def)
next
  case (Cons n names)
  have "up_to_nul (n @ 0 # concat (map (\<lambda>n. n @ [0]) names) @ 0 # us) = n"
    using Cons.prems by (auto simp: up_to_nul_def takeWhile_append)
  with Cons show ?case by (subst split_names.simps) (simp add: Let_def)
qed

lemma board_names_block:
  assumes "board_block h b = drop_block names @ rest" "\<forall>n \<in> set names. n \<noteq> [] \<and> 0 \<notin> set n"
  shows "board_names h b = names"
proof -
  have "length drop_header = 20" by (simp add: drop_header_def Let_def)
  then have "drop 20 (board_block h b) = units_bytes (concat (map (\<lambda>n. n @ [0]) names) @ [0]) @ rest"
    using assms(1) by (simp add: drop_block_def)
  then have "bytes_units (drop 20 (board_block h b)) = concat (map (\<lambda>n. n @ [0]) names) @ 0 # bytes_units rest"
    by (simp add: bytes_units_append)
  with split_names_concat [OF assms(2)] show ?thesis by (simp add: board_names_def)
qed

lemma board_block_simp: "block board_memory h b = board_block h b"
  by (simp add: block_def board_memory_def)

lemma board_memory_simp: "cb_memory board_api = board_memory"
  by (simp add: board_api_def)

interpretation board: windows_clipboard board_api "\<lambda>b. map_of (bd_held b)"
proof (unfold_locales, unfold board_memory_simp board_block_simp)
  fix h f names rest and b b' b1 b2 :: board and bs :: bytes
  show "map_of (bd_held b') = map_of (bd_held b) \<and> (\<exists>rest. board_block h b' = bs @ rest)"
    if "gm_alloc board_memory (length bs) b = (Inr h, b1)" "gm_lock board_memory h b1 = (True, b2)"
      "b' = gm_unlock board_memory h (gm_copy board_memory h bs b2)"
    using that by (auto simp: board_memory_def board_block_def)
  show "map_of (bd_held b) f = Some bs \<Longrightarrow> \<exists>h. cb_get board_api f b = Inr h \<and> board_block h b = bs \<and> fst (gm_lock board_memory h b)"
    by (auto simp: board_api_def board_memory_def board_block_def)
  show "dq_count board_api h b = of_nat (length names) \<and> (\<forall>i < length names.
        dq_length board_api h (of_nat i) b = of_nat (length (names ! i)) \<and>
        take (length (names ! i)) (dq_copy board_api h (of_nat i) (Suc (length (names ! i))) b) = names ! i)"
    if "board_block h b = drop_block names @ rest" "\<forall>n \<in> set names. n \<noteq> [] \<and> 0 \<notin> set n" "length names < 2 ^ 32"
    using that board_names_block [OF that(1,2)] by (auto simp: board_api_def unat_of_nat take_bit_eq_mod)
qed (auto simp: board_api_def board_memory_def board_block_def token_format_def preferred_effect_format_def cf_hdrop_def
    cf_unicodetext_def split: if_splits)

lemma board_runs:
  "from_bytes board_memory bs b = (Inr (Memory (length (bd_memory b))), b\<lparr>bd_memory := bd_memory b @ [bs]\<rparr>)"
  "clipboard_put board_api f h b = (Inr (), snd (cb_set board_api f h b))"
  "clipboard_clear board_api b = (Inr (), snd (cb_empty board_api b))"
  "with_clipboard board_api body b = body b"
  by (simp_all add: from_bytes_def board_memory_def clipboard_put_def clipboard_clear_def board_api_def
      with_clipboard_def open_clipboard_def open_attempts_def numeral_eq_Suc)

lemma board_write: "\<exists>seq b'. clipboard_write board_api text files token b = (Inr seq, b')"
  by (simp add: clipboard_write_def clipboard_fill_def text_block_def drop_files_def dword_def io_runs
      Let_def board_memory_simp board_runs)

lemma board_read: "\<exists>r b'. read_files board_api b = (Inr r, b')"
proof -
  obtain token b1 where "read_token board_api b = (token, b1)" by (cases "read_token board_api b") auto
  moreover obtain is_cut b2 where "read_cut board_api b1 = (is_cut, b2)" by (cases "read_cut board_api b1") auto
  moreover have "cb_available board_api f b1 \<Longrightarrow> cb_get board_api f b1 = Inr (Held f)" for f
    by (simp add: board_api_def)
  ultimately show ?thesis by (simp add: read_files_def read_body_def board_runs Let_def)
qed

section \<open>What is copied is pasted\<close>

text \<open>C20: What has been put on the clipboard is read back from it: the token and the files, in their order,
  to be copied and not moved, under the sequence number the writing returned; for texts without NUL and
  names that are not empty, on any clipboard that keeps what the system documents.\<close>

theorem clipboard_roundtrip:
  assumes "windows_clipboard api view" "plain_text token" "length files < 2 ^ 32"
    and "\<forall>f \<in> set files. plain_text f \<and> f \<noteq> [] \<and> length f < 2 ^ 32"
    and "clipboard_write api text files token w = (Inr seq, w1)" "read_files api w1 = (Inr r, w2)"
  shows "r = \<lparr>cf_sequence = seq, cf_paths = files, cf_cut = False, cf_token = Some token\<rparr>"
  using assms by (intro windows_clipboard.write_read [of api view])

theorem clipboard_roundtrip_witness:
  "\<exists>r w2. read_files board_api (snd (clipboard_write board_api ''x'' [''C:/a'', ''b''] ''t'' \<lparr>bd_memory = [], bd_held = [], bd_sequence = 7\<rparr>))
      = (Inr r, w2) \<and> cf_paths r = [''C:/a'', ''b''] \<and> cf_token r = Some ''t''"
proof -
  let ?b = "\<lparr>bd_memory = [], bd_held = [], bd_sequence = 7\<rparr>" and ?fs = "[''C:/a'', ''b'']"
  have plain: "plain_text s" if "\<forall>c \<in> set s. 0 < (of_char c :: nat) \<and> of_char c < (128 :: nat)" for s
    using that by (auto simp: plain_text_def intro!: utf8_valid_ascii)
  have fs: "plain_text ''t''" "\<forall>f \<in> set ?fs. plain_text f \<and> f \<noteq> [] \<and> length f < 2 ^ 32" "length ?fs < 2 ^ 32"
    using plain [of "''t''"] plain [of "''C:/a''"] plain [of "''b''"] by simp_all
  obtain seq w1 where w: "clipboard_write board_api ''x'' ?fs ''t'' ?b = (Inr seq, w1)"
    using board_write by blast
  obtain r w2 where r: "read_files board_api w1 = (Inr r, w2)" using board_read by blast
  from clipboard_roundtrip [OF board.windows_clipboard_axioms fs(1) fs(3) fs(2) w r] w r show ?thesis by simp
qed

end
