(* ===== verification/Drag_Out.thy ===== *)
theory Drag_Out
  imports Global_Memory Transfer_Queue "HOL-Library.Monad_Syntax"
begin

text \<open>
  \<open>src-tauri/src/drag_out.rs\<close>: dragging files out of the window.  Remote files are downloaded by the
  transfer queue at the moment they are dropped, before the drop is let through.  The world of the
  main thread is the transfer queue, the window of the drag host, and \<open>'e\<close> for the rest; what the other
  threads do to it happens in the calls of the system, which are the fields of \<open>drag_env\<close>.  A function that
  waits returns \<open>None\<close> if it waits for ever.
\<close>

section \<open>Data\<close>

datatype drag_outcome = Dropped | DragCancelled

datatype drop_effect = EffectNone | EffectCopy | EffectMove | EffectLink

record drag_result =
  do_outcome :: drag_outcome
  do_effect :: drop_effect

record deferred_download =
  dd_batch :: string
  dd_requests :: "queue_request list"

record drag_job =
  dj_owner :: int
  dj_paths :: "string list"
  dj_allow_move :: bool
  dj_allow_link :: bool
  dj_prefer_move :: bool
  dj_deferred :: "deferred_download option"

text \<open>The codes of \<open>HRESULT\<close> the drag source and \<open>DoDragDrop\<close> use, and the bits of effects and keys.\<close>

datatype hresult = SOk | SDrop | SCancel | SUseDefaultCursors | SFailed string

definition show_hresult :: "hresult \<Rightarrow> string" where
  "show_hresult hr = (case hr of SOk \<Rightarrow> ''HRESULT(0x00000000)'' | SDrop \<Rightarrow> ''HRESULT(0x00040100)''
     | SCancel \<Rightarrow> ''HRESULT(0x00040101)'' | SUseDefaultCursors \<Rightarrow> ''HRESULT(0x00040102)'' | SFailed s \<Rightarrow> s)"

definition effect_none :: u32 where "effect_none = 0"
definition effect_copy :: u32 where "effect_copy = 1"
definition effect_move :: u32 where "effect_move = 2"
definition effect_link :: u32 where "effect_link = 4"
definition mk_lbutton :: u32 where "mk_lbutton = 1"
definition vk_escape :: int where "vk_escape = 27"
definition cf_hdrop_code :: u16 where "cf_hdrop_code = 15"

definition has_bit :: "u32 \<Rightarrow> u32 \<Rightarrow> bool" where
  "has_bit e b \<longleftrightarrow> and e b \<noteq> 0"

definition effect_of :: "u32 \<Rightarrow> drop_effect" where
  "effect_of e = (if has_bit e effect_move then EffectMove
     else if has_bit e effect_copy then EffectCopy
     else if has_bit e effect_link then EffectLink
     else EffectNone)"

text \<open>The cells of \<open>DropSource\<close>; \<open>failure\<close> is shared with \<open>perform\<close>, which reads it at the end.\<close>

record drop_source =
  ds_owner :: int
  ds_deferred :: "deferred_download option"
  ds_rendered :: bool
  ds_last_effect :: u32
  ds_failure :: "verror option"

record 'e drag_world =
  dw_queue :: queue_state
  dw_host :: int
  dw_rest :: 'e

type_synonym 'e source_state = "drop_source \<times> 'e drag_world"

type_synonym 'e query_callback = "bool \<Rightarrow> u32 \<Rightarrow> 'e source_state \<Rightarrow> (hresult \<times> 'e source_state) option"
type_synonym 'e feedback_callback = "u32 \<Rightarrow> 'e source_state \<Rightarrow> hresult \<times> 'e source_state"

text \<open>The interfaces of the system and of the session table and clock the queue needs.\<close>

record ('e, 'h, 'd) drag_env =
  dg_memory :: "('e drag_world, 'h) global_memory"
  dg_create_object :: "('e drag_world, string, 'd) io"
  dg_set_data :: "'d \<Rightarrow> u16 \<Rightarrow> 'h \<Rightarrow> ('e drag_world, string, unit) io"
  dg_register :: "string \<Rightarrow> u32"
  dg_do_drag_drop :: "'d \<Rightarrow> 'e query_callback \<Rightarrow> 'e feedback_callback \<Rightarrow> u32 \<Rightarrow> 'e source_state
     \<Rightarrow> ((hresult \<times> u32) \<times> 'e source_state) option"
  dg_peek :: "'e drag_world \<Rightarrow> bool \<times> 'e drag_world"
  dg_dispatch :: "'e drag_world \<Rightarrow> 'e drag_world"
  dg_wait :: "nat \<Rightarrow> 'e drag_world \<Rightarrow> 'e drag_world"
  dg_key_state :: "int \<Rightarrow> 'e drag_world \<Rightarrow> u16"
  dg_cursor :: "'e drag_world \<Rightarrow> (int \<times> int) option"
  dg_window_at :: "int \<times> int \<Rightarrow> 'e drag_world \<Rightarrow> int option"
  dg_root :: "int \<Rightarrow> 'e drag_world \<Rightarrow> int"
  dg_on_main_thread :: "'e drag_world \<Rightarrow> bool"
  dg_create_window :: "('e drag_world, string, int) io"
  dg_post_message :: "int \<Rightarrow> ('e drag_world, string, unit) io"
  dg_delivered :: "'e drag_world \<Rightarrow> bool"
  dg_sessions :: "'e drag_world \<Rightarrow> string \<Rightarrow> session vresult"
  dg_uuid :: "'e drag_world \<Rightarrow> nat \<Rightarrow> string"
  dg_clock :: "'e drag_world \<Rightarrow> nat \<Rightarrow> int"

section \<open>Downloading before the drop\<close>

definition poll_interval :: nat where
  "poll_interval = 50"

partial_function (option) pump_pending_messages :: "('e, 'h, 'd) drag_env \<Rightarrow> 'e drag_world \<Rightarrow> 'e drag_world option" where
  "pump_pending_messages env w = (case dg_peek env w of
      (got, w1) \<Rightarrow> if got then pump_pending_messages env (dg_dispatch env w1) else Some w1)"

definition escape_is_down :: "('e, 'h, 'd) drag_env \<Rightarrow> 'e drag_world \<Rightarrow> bool" where
  "escape_is_down env w \<longleftrightarrow> and (dg_key_state env vk_escape w) 32768 \<noteq> 0"

definition cursor_over_window :: "('e, 'h, 'd) drag_env \<Rightarrow> int \<Rightarrow> 'e drag_world \<Rightarrow> bool" where
  "cursor_over_window env owner w \<longleftrightarrow>
     (if owner = 0 then False
      else case dg_cursor env w of
        None \<Rightarrow> False
      | Some point \<Rightarrow> (case dg_window_at env point w of
          None \<Rightarrow> False
        | Some hwnd \<Rightarrow> dg_root env hwnd w = owner))"

definition drop_batch :: "string \<Rightarrow> 'e drag_world \<Rightarrow> 'e drag_world" where
  "drop_batch batch w = w\<lparr>dw_queue := remove_batch batch (dw_queue w)\<rparr>"

partial_function (option) download_loop ::
  "('e, 'h, 'd) drag_env \<Rightarrow> string \<Rightarrow> 'e drag_world \<Rightarrow> (unit vresult \<times> 'e drag_world) option" where
  "download_loop env batch w = do {
     w1 \<leftarrow> pump_pending_messages env w;
     let status = batch_status batch (dw_queue w1);
     if 0 < bs_failed status
     then Some (Inl (Other ''download failed before the drop; see the transfer queue''), drop_batch batch w1)
     else if bs_pending status = 0 then Some (Inr (), w1)
     else if escape_is_down env w1 then Some (Inl Cancelled, drop_batch batch w1)
     else download_loop env batch (dg_wait env poll_interval w1) }"

definition download_now ::
  "('e, 'h, 'd) drag_env \<Rightarrow> deferred_download \<Rightarrow> 'e drag_world \<Rightarrow> (unit vresult \<times> 'e drag_world) option" where
  "download_now env deferred w =
     (case add (dg_sessions env w) (dg_uuid env w) (dg_clock env w) (dd_requests deferred) (dw_queue w) of
        (Inl e, q) \<Rightarrow> Some (Inl e, w\<lparr>dw_queue := q\<rparr>)
      | (Inr _, q) \<Rightarrow> download_loop env (dd_batch deferred) (w\<lparr>dw_queue := q\<rparr>))"

section \<open>The drag source\<close>

definition render_before_drop :: "('e, 'h, 'd) drag_env \<Rightarrow> 'e source_state \<Rightarrow> (hresult \<times> 'e source_state) option" where
  "render_before_drop env st = (case st of (src, w) \<Rightarrow>
     let was = ds_rendered src; src = src\<lparr>ds_rendered := True\<rparr> in
     if was then Some (SDrop, src, w)
     else case ds_deferred src of
       None \<Rightarrow> Some (SDrop, src, w)
     | Some deferred \<Rightarrow> do {
         (r, w1) \<leftarrow> download_now env deferred w;
         case r of
           Inr _ \<Rightarrow> Some (SDrop, src, w1)
         | Inl e \<Rightarrow> Some (SCancel, if e \<noteq> Cancelled then src\<lparr>ds_failure := Some e\<rparr> else src, w1) })"

definition query_continue_drag :: "('e, 'h, 'd) drag_env \<Rightarrow> 'e query_callback" where
  "query_continue_drag env escape_pressed key_state st = (case st of (src, w) \<Rightarrow>
     if escape_pressed then Some (SCancel, st)
     else if has_bit key_state mk_lbutton then Some (SOk, st)
     else if ds_last_effect src = effect_none \<or> cursor_over_window env (ds_owner src) w then Some (SCancel, st)
     else render_before_drop env st)"

definition give_feedback :: "'e feedback_callback" where
  "give_feedback effect st = (case st of (src, w) \<Rightarrow> (SUseDefaultCursors, src\<lparr>ds_last_effect := effect\<rparr>, w))"

section \<open>Performing a drag\<close>

definition error_context :: "string \<Rightarrow> ('w, string, 'a) io \<Rightarrow> ('w, 'a) vio" where
  "error_context what m w = (case m w of
      (Inl e, w1) \<Rightarrow> (Inl (Other (what @ e)), w1)
    | (Inr a, w1) \<Rightarrow> (Inr a, w1))"

definition set_global :: "('e, 'h, 'd) drag_env \<Rightarrow> 'd \<Rightarrow> u16 \<Rightarrow> 'h \<Rightarrow> ('e drag_world, unit) vio" where
  "set_global env data format global = error_context ''cannot fill drag data object: '' (dg_set_data env data format global)"

definition drag_data :: "('e, 'h, 'd) drag_env \<Rightarrow> drag_job \<Rightarrow> ('e drag_world, 'd) vio" where
  "drag_data env job =
     bind_io (error_context ''cannot create drag data object: '' (dg_create_object env)) (\<lambda>data.
     then_io (bind_io (drop_files (dg_memory env) (dj_paths job)) (set_global env data cf_hdrop_code))
    (then_io (if dj_prefer_move job
              then bind_io (dword (dg_memory env) effect_move)
                     (set_global env data (ucast (dg_register env ''Preferred DropEffect'')))
              else ok_io ())
    (ok_io data)))"

definition new_source :: "drag_job \<Rightarrow> drop_source" where
  "new_source job = \<lparr>ds_owner = dj_owner job, ds_deferred = dj_deferred job, ds_rendered = False,
     ds_last_effect = effect_none, ds_failure = None\<rparr>"

definition allowed_effects :: "drag_job \<Rightarrow> u32" where
  "allowed_effects job =
     (let allowed = effect_copy;
          allowed = (if dj_allow_move job then or allowed effect_move else allowed)
      in if dj_allow_link job then or allowed effect_link else allowed)"

definition perform :: "('e, 'h, 'd) drag_env \<Rightarrow> drag_job \<Rightarrow> 'e drag_world \<Rightarrow> (drag_result vresult \<times> 'e drag_world) option" where
  "perform env job w = (case drag_data env job w of
      (Inl e, w1) \<Rightarrow> Some (Inl e, w1)
    | (Inr data, w1) \<Rightarrow> do {
        ((status, effect), src, w2) \<leftarrow>
          dg_do_drag_drop env data (query_continue_drag env) give_feedback (allowed_effects job) (new_source job, w1);
        Some (case ds_failure src of
            Some e \<Rightarrow> (Inl e, w2)
          | None \<Rightarrow>
              if status = SDrop then (Inr \<lparr>do_outcome = Dropped, do_effect = effect_of effect\<rparr>, w2)
              else if status = SCancel then (Inr \<lparr>do_outcome = DragCancelled, do_effect = EffectNone\<rparr>, w2)
              else (Inl (Other (''native drag failed: '' @ show_hresult status)), w2)) })"

section \<open>The drag host\<close>

text \<open>The window of the drag host is created on the main thread; until then its handle is 0.\<close>

definition install :: "('e, 'h, 'd) drag_env \<Rightarrow> 'e drag_world \<Rightarrow> 'e drag_world" where
  "install env w = (if dg_on_main_thread env w
     then case dg_create_window env w of
         (Inr hwnd, w1) \<Rightarrow> w1\<lparr>dw_host := hwnd\<rparr>
       | (Inl _, w1) \<Rightarrow> w1
     else w)"

definition post :: "('e, 'h, 'd) drag_env \<Rightarrow> ('e drag_world, unit) vio" where
  "post env w =
     (let hwnd = dw_host w in
      if hwnd = 0 then (Inl (Unsupported ''native drag host is not ready''), w)
      else error_context ''cannot start native drag: '' (dg_post_message env hwnd) w)"

text \<open>\<open>start\<close>: the message reaches \<open>host_proc\<close>, which performs the drag and sends its result, or it is lost
  and the sender of the result with it.\<close>

definition drag_start :: "('e, 'h, 'd) drag_env \<Rightarrow> drag_job \<Rightarrow> 'e drag_world \<Rightarrow> (drag_result vresult \<times> 'e drag_world) option" where
  "drag_start env job w = (case post env w of
      (Inl e, w1) \<Rightarrow> Some (Inl e, w1)
    | (Inr _, w1) \<Rightarrow> if dg_delivered env w1 then perform env job w1 else Some (Inl Cancelled, w1))"

text \<open>The window procedure: a message that starts a drag carries the job and the sender of its result; every other
  message goes to the default procedure (\<open>def_proc\<close>).  The value is the procedure's result, what was sent, and the world.\<close>

definition wm_start_drag :: u32 where
  "wm_start_drag = 0x8000 + 0x51"

definition host_proc ::
  "('e, 'h, 'd) drag_env \<Rightarrow> (u32 \<Rightarrow> 'e drag_world \<Rightarrow> int \<times> 'e drag_world) \<Rightarrow> u32 \<Rightarrow> drag_job \<Rightarrow> 'e drag_world
     \<Rightarrow> (int \<times> drag_result vresult option \<times> 'e drag_world) option" where
  "host_proc env def_proc message job w =
     (if message = wm_start_drag then map_option (\<lambda>(r, w1). (0, Some r, w1)) (perform env job w)
      else case def_proc message w of (l, w1) \<Rightarrow> Some (l, None, w1))"

text \<open>So a drag that is posted and delivered is what the host sends, or \<open>Cancelled\<close> when nothing is sent.\<close>

lemma drag_start_host:
  "drag_start env job w = (case post env w of
      (Inl e, w1) \<Rightarrow> Some (Inl e, w1)
    | (Inr _, w1) \<Rightarrow> if dg_delivered env w1
        then map_option (\<lambda>(_, sent, w2). (case sent of Some r \<Rightarrow> r | None \<Rightarrow> Inl Cancelled, w2))
          (host_proc env def_proc wm_start_drag job w1)
        else Some (Inl Cancelled, w1))"
  by (auto simp: drag_start_def host_proc_def option.map_comp comp_def split_def option.map_ident split: sum.splits)

text \<open>The module for other systems refuses.\<close>

definition post_elsewhere :: "unit vresult" where
  "post_elsewhere = Inl (Unsupported ''native drag out is only available on Windows'')"

section \<open>What a drop has waited for\<close>

definition batch_settled :: "string \<Rightarrow> 'e drag_world \<Rightarrow> bool" where
  "batch_settled b w \<longleftrightarrow> (\<forall>i \<in> set (q_items (dw_queue w)). ti_batch i = Some b \<longrightarrow> ti_status i \<noteq> Failed \<and> \<not> is_pending i)"

definition batch_gone :: "string \<Rightarrow> 'e drag_world \<Rightarrow> bool" where
  "batch_gone b w \<longleftrightarrow> (\<forall>i \<in> set (q_items (dw_queue w)). ti_batch i \<noteq> Some b)"

lemma batch_counts:
  "batch_status b q = \<lparr>bs_pending = length (filter (\<lambda>i. ti_batch i = Some b \<and> ti_status i \<noteq> Failed \<and> is_pending i) (q_items q)),
     bs_failed = length (filter (\<lambda>i. ti_batch i = Some b \<and> ti_status i = Failed) (q_items q))\<rparr>"
proof -
  have "fold (\<lambda>i st. if ti_status i = Failed then st\<lparr>bs_failed := bs_failed st + 1\<rparr>
        else if is_pending i then st\<lparr>bs_pending := bs_pending st + 1\<rparr> else st)
      (filter (\<lambda>i. ti_batch i = Some b) is) \<lparr>bs_pending = p, bs_failed = f\<rparr> =
    \<lparr>bs_pending = p + length (filter (\<lambda>i. ti_batch i = Some b \<and> ti_status i \<noteq> Failed \<and> is_pending i) is),
     bs_failed = f + length (filter (\<lambda>i. ti_batch i = Some b \<and> ti_status i = Failed) is)\<rparr>" for p f "is"
    by (induction "is" arbitrary: p f) auto
  then show ?thesis by (simp add: batch_status_def)
qed

lemma settled_iff: "batch_settled b w \<longleftrightarrow>
    bs_failed (batch_status b (dw_queue w)) = 0 \<and> bs_pending (batch_status b (dw_queue w)) = 0"
  by (auto simp: batch_settled_def batch_counts filter_empty_conv)

lemma gone_settled: "batch_gone b w \<Longrightarrow> batch_settled b w"
  by (simp add: batch_gone_def batch_settled_def)

lemma remove_item_items: "q_items (remove_item key q) = filter (\<lambda>i. ti_id i \<noteq> key) (q_items q)"
  by (simp add: remove_item_def drop_conflict_def cancel_cell_def changed_def Let_def split: option.splits)

lemma fold_remove_items: "q_items (fold remove_item keys q) = filter (\<lambda>i. ti_id i \<notin> set keys) (q_items q)"
  by (induction keys arbitrary: q) (auto simp: remove_item_items intro: filter_cong)

lemma drop_batch_gone: "batch_gone b (drop_batch b w)"
  by (auto simp: batch_gone_def drop_batch_def remove_batch_def fold_remove_items)

text \<open>The wait ends with every download out of the way, or takes the batch out of the queue.\<close>

lemma download_loop_outcome:
  assumes "download_loop env b w = Some y"
  shows "case fst y of Inr _ \<Rightarrow> batch_settled b (snd y) | Inl _ \<Rightarrow> batch_gone b (snd y)"
  using _ assms
proof (rule download_loop.raw_induct [where P = "\<lambda>env b w y.
    case fst y of Inr _ \<Rightarrow> batch_settled b (snd y) | Inl _ \<Rightarrow> batch_gone b (snd y)"])
  fix loop env b w y
  assume "\<And>env b w y. loop env b w = Some y \<Longrightarrow> case fst y of Inr _ \<Rightarrow> batch_settled b (snd y) | Inl _ \<Rightarrow> batch_gone b (snd y)"
    and "pump_pending_messages env w \<bind> (\<lambda>w1. let status = batch_status b (dw_queue w1) in
      if 0 < bs_failed status
      then Some (Inl (Other ''download failed before the drop; see the transfer queue''), drop_batch b w1)
      else if bs_pending status = 0 then Some (Inr (), w1)
      else if escape_is_down env w1 then Some (Inl Cancelled, drop_batch b w1)
      else loop env b (dg_wait env poll_interval w1)) = Some y"
  then show "case fst y of Inr _ \<Rightarrow> batch_settled b (snd y) | Inl _ \<Rightarrow> batch_gone b (snd y)"
    by (auto simp: Let_def settled_iff drop_batch_gone split: bind_splits if_splits)
qed

text \<open>It ends when the downloads do: at some poll none of them is left, one has failed, or Escape is down.\<close>

inductive settles :: "('e, 'h, 'd) drag_env \<Rightarrow> string \<Rightarrow> 'e drag_world \<Rightarrow> bool" for env b where
  now: "pump_pending_messages env w = Some w1 \<Longrightarrow>
    0 < bs_failed (batch_status b (dw_queue w1)) \<or> batch_settled b w1 \<or> escape_is_down env w1 \<Longrightarrow> settles env b w"
| later: "pump_pending_messages env w = Some w1 \<Longrightarrow> settles env b (dg_wait env poll_interval w1) \<Longrightarrow> settles env b w"

lemma download_loop_ends: "settles env b w \<Longrightarrow> \<exists>y. download_loop env b w = Some y"
  by (induction rule: settles.induct; subst download_loop.simps) (auto simp: Let_def settled_iff)

section \<open>The protocol of a drag\<close>

text \<open>What goes on until \<open>DoDragDrop\<close> returns: the source says to continue, gets feedback, and time passes.\<close>

inductive drag_run :: "('e, 'h, 'd) drag_env \<Rightarrow> 'e source_state \<Rightarrow> 'e source_state \<Rightarrow> bool" for env st where
  begins: "drag_run env st st"
| continues: "drag_run env st st1 \<Longrightarrow> query_continue_drag env escape_pressed keys st1 = Some (SOk, st2) \<Longrightarrow> drag_run env st st2"
| feeds_back: "drag_run env st st1 \<Longrightarrow> give_feedback effect st1 = (hr, st2) \<Longrightarrow> drag_run env st st2"
| time_passes: "drag_run env st (src, w) \<Longrightarrow> drag_run env st (src, w')"

text \<open>The documented end: it reports a drop when the source has let it happen.\<close>

locale drag_system =
  fixes env :: "('e, 'h, 'd) drag_env"
  assumes dropped: "dg_do_drag_drop env data (query_continue_drag env) give_feedback allowed st = Some ((SDrop, effect), src', w') \<Longrightarrow>
    \<exists>st1 escape_pressed keys w2. drag_run env st st1 \<and> query_continue_drag env escape_pressed keys st1 = Some (SDrop, src', w2)"
begin

lemma run_not_rendered:
  "drag_run env st st' \<Longrightarrow> \<not> ds_rendered (fst st) \<Longrightarrow>
     \<not> ds_rendered (fst st') \<and> ds_deferred (fst st') = ds_deferred (fst st)"
proof (induction rule: drag_run.induct)
  case (continues st1 escape_pressed keys st2)
  then show ?case
    by (auto simp: query_continue_drag_def render_before_drop_def Let_def split: if_splits option.splits bind_splits sum.splits prod.splits)
qed (auto simp: give_feedback_def split: prod.splits)

lemma perform_downloads:
  assumes "perform env job w = Some (Inr r, w')" "do_outcome r = Dropped" "dj_deferred job = Some d"
  shows "\<exists>w1 w2. download_now env d w1 = Some (Inr (), w2)"
proof -
  from assms(1,2) obtain data wd eff src where drag: "dg_do_drag_drop env data (query_continue_drag env) give_feedback
      (allowed_effects job) (new_source job, wd) = Some ((SDrop, eff), src, w')"
    by (auto simp: perform_def split: prod.splits sum.splits bind_splits option.splits if_splits)
  from dropped [OF drag] obtain st1 esc keys w2 where run: "drag_run env (new_source job, wd) st1"
    and query: "query_continue_drag env esc keys st1 = Some (SDrop, src, w2)" by blast
  obtain src1 w1 where st1: "st1 = (src1, w1)" by (cases st1)
  have "\<not> ds_rendered src1 \<and> ds_deferred src1 = Some d"
    using run_not_rendered [OF run] assms(3) by (simp add: new_source_def st1)
  with query st1 show ?thesis
    by (auto simp: query_continue_drag_def render_before_drop_def Let_def split: if_splits bind_splits prod.splits sum.splits)
qed

end

text \<open>A system that drops at once, and whose queue finishes a transfer each time messages are looked for.\<close>

definition finish_next :: "'e drag_world \<Rightarrow> 'e drag_world" where
  "finish_next w = (case q_items (dw_queue w) of
      [] \<Rightarrow> w | i # _ \<Rightarrow> w\<lparr>dw_queue := complete 0 (ti_id i) Done None (dw_queue w)\<rparr>)"

definition instant_drag :: "('d \<Rightarrow> 'e query_callback \<Rightarrow> 'e feedback_callback \<Rightarrow> u32 \<Rightarrow> 'e source_state
     \<Rightarrow> ((hresult \<times> u32) \<times> 'e source_state) option)" where
  "instant_drag data query feedback allowed st = do {
     (hr, st1) \<leftarrow> query False 0 (snd (feedback effect_copy st));
     Some ((hr, effect_copy), st1) }"

definition instant_env :: "(nat, nat, unit) drag_env" where
  "instant_env = \<lparr>
     dg_memory = \<lparr>gm_alloc = (\<lambda>n w. (Inr 1, w)), gm_lock = (\<lambda>h w. (True, w)), gm_unlock = (\<lambda>h w. w),
       gm_size = (\<lambda>h w. 0), gm_copy = (\<lambda>h bs w. w), gm_peek = (\<lambda>h n w. []), gm_free = (\<lambda>h w. w)\<rparr>,
     dg_create_object = ok_io (), dg_set_data = (\<lambda>data format h. ok_io ()), dg_register = (\<lambda>name. 49161),
     dg_do_drag_drop = instant_drag, dg_peek = (\<lambda>w. (False, finish_next w)), dg_dispatch = id,
     dg_wait = (\<lambda>ms. id), dg_key_state = (\<lambda>k w. 0), dg_cursor = (\<lambda>w. None), dg_window_at = (\<lambda>p w. None),
     dg_root = (\<lambda>h w. h), dg_on_main_thread = (\<lambda>w. True), dg_create_window = ok_io 5,
     dg_post_message = (\<lambda>h. ok_io ()), dg_delivered = (\<lambda>w. True),
     dg_sessions = (\<lambda>w key. Inr \<lparr>ss_id = key, ss_site = default_site ''site''\<rparr>), dg_uuid = (\<lambda>w n. replicate (Suc n) CHR ''i''), dg_clock = (\<lambda>w n. 0)\<rparr>"

lemma instant_sel:
  "dg_memory instant_env = \<lparr>gm_alloc = (\<lambda>n w. (Inr 1, w)), gm_lock = (\<lambda>h w. (True, w)), gm_unlock = (\<lambda>h w. w),
     gm_size = (\<lambda>h w. 0), gm_copy = (\<lambda>h bs w. w), gm_peek = (\<lambda>h n w. []), gm_free = (\<lambda>h w. w)\<rparr>"
  "dg_create_object instant_env = ok_io ()" "dg_set_data instant_env data format h = ok_io ()"
  "dg_do_drag_drop instant_env = instant_drag" "dg_peek instant_env w = (False, finish_next w)"
  "dg_cursor instant_env w = None" "dg_post_message instant_env hwnd = ok_io ()" "dg_delivered instant_env w"
  "dg_sessions instant_env w key = Inr \<lparr>ss_id = key, ss_site = default_site ''site''\<rparr>"
  "dg_uuid instant_env w n = replicate (Suc n) CHR ''i''" "dg_clock instant_env w n = 0"
  by (simp_all add: instant_env_def)

interpretation instant: drag_system instant_env
proof
  fix data allowed effect src' and st :: "nat source_state" and w'
  assume "dg_do_drag_drop instant_env data (query_continue_drag instant_env) give_feedback allowed st = Some ((SDrop, effect), src', w')"
  then have "query_continue_drag instant_env False 0 (snd (give_feedback effect_copy st)) = Some (SDrop, src', w')"
    by (auto simp: instant_drag_def instant_sel split: bind_splits)
  moreover have "drag_run instant_env st (snd (give_feedback effect_copy st))"
    by (rule drag_run.feeds_back [OF drag_run.begins]) (rule prod.collapse [symmetric])
  ultimately show "\<exists>st1 escape_pressed keys w2. drag_run instant_env st st1 \<and>
      query_continue_drag instant_env escape_pressed keys st1 = Some (SDrop, src', w2)" by blast
qed

section \<open>Properties\<close>


definition dragged_file :: queue_request where
  "dragged_file = \<lparr>qr_session_id = ''s'', qr_direction = Download, qr_local_path = ''t/f'', qr_remote_path = ''/f'',
     qr_is_dir = False, qr_size = Some 3, qr_mtime = None, qr_priority = 20, qr_follow_symlink = False,
     qr_conflict_policy = Some Overwrite, qr_start_paused = False, qr_link_target = None, qr_batch = Some ''b'',
     qr_target_session_id = None, qr_target_path = None\<rparr>"

definition dragged_job :: drag_job where
  "dragged_job = \<lparr>dj_owner = 0, dj_paths = [''t/f''], dj_allow_move = True, dj_allow_link = False, dj_prefer_move = True,
     dj_deferred = Some \<lparr>dd_batch = ''b'', dd_requests = [dragged_file]\<rparr>\<rparr>"

definition drag_start_world :: "nat drag_world" where
  "drag_start_world = \<lparr>dw_queue = new_queue None default_settings, dw_host = 5, dw_rest = 0\<rparr>"


text \<open>The drop is let through although nothing was downloaded when the user takes the downloads out of
  the queue while it waits.\<close>

theorem removed_download_dropped:
  assumes "ds_deferred src = Some d" "\<not> ds_rendered src" "batch_gone (dd_batch d) w"
    and "add (dg_sessions env w) (dg_uuid env w) (dg_clock env w) (dd_requests d) (dw_queue w) = (Inr keys, q)"
    and "pump_pending_messages env (w\<lparr>dw_queue := q\<rparr>) = Some w1" "dw_queue w1 = fold remove_item keys q"
  shows "render_before_drop env (src, w) = Some (SDrop, src\<lparr>ds_rendered := True\<rparr>, w1)"
proof -
  obtain new where new: "keys = map ti_id new" "q_items q = q_items (dw_queue w) @ new"
    using assms(4) by (auto simp: add_def changed_def split: sum.splits)
  have "batch_gone (dd_batch d) w1"
    using assms(3) by (auto simp: batch_gone_def assms(6) fold_remove_items new)
  then have "download_loop env (dd_batch d) (w\<lparr>dw_queue := q\<rparr>) = Some (Inr (), w1)"
    by (subst download_loop.simps) (use assms(5) gone_settled in \<open>auto simp: settled_iff Let_def\<close>)
  with assms(1,2,4) show ?thesis by (simp add: render_before_drop_def download_now_def)
qed

definition impatient_env :: "(nat, nat, unit) drag_env" where
  "impatient_env = instant_env\<lparr>dg_peek := \<lambda>w. (False, w\<lparr>dw_queue := fold remove_item [''i''] (dw_queue w)\<rparr>)\<rparr>"

theorem removed_download_dropped_witness:
  "\<exists>w1. render_before_drop impatient_env (new_source dragged_job, drag_start_world)
     = Some (SDrop, (new_source dragged_job)\<lparr>ds_rendered := True\<rparr>, w1)"
proof -
  let ?src = "new_source dragged_job" and ?w = "drag_start_world"
  let ?add = "add (dg_sessions impatient_env ?w) (dg_uuid impatient_env ?w) (dg_clock impatient_env ?w) [dragged_file] (dw_queue ?w)"
  have src: "ds_deferred ?src = Some \<lparr>dd_batch = ''b'', dd_requests = [dragged_file]\<rparr>" "\<not> ds_rendered ?src"
    by (simp_all add: new_source_def dragged_job_def)
  have gone: "batch_gone ''b'' ?w" by (simp add: batch_gone_def drag_start_world_def new_queue_def)
  obtain q where added: "?add = (Inr [''i''], q)"
    by (simp add: add_def impatient_env_def instant_sel dragged_file_def build_item_def)
  have pump: "pump_pending_messages impatient_env (?w\<lparr>dw_queue := q\<rparr>) = Some (?w\<lparr>dw_queue := fold remove_item [''i''] q\<rparr>)"
    by (subst pump_pending_messages.simps) (simp add: impatient_env_def)
  from removed_download_dropped [OF src _ _ pump, of "[''i'']"] gone added show ?thesis by simp
qed

end
