(* ===== verification/Icons.thy ===== *)
theory Icons
  imports Utf16 Protocol_Types
begin

text \<open>
  \<open>src-tauri/src/icons.rs\<close>: the icons the shell shows for folders, drives and kinds of files, scaled to
  one size and kept once they have been looked up.  The shell, the bitmaps of the system and the PNG and base64
  encoders are the fields of \<open>icon_api\<close>; \<open>'i\<close> is an icon of the system and \<open>'b\<close> a bitmap.
\<close>

definition icon_size :: nat where
  "icon_size = 32"

section \<open>Asking the shell\<close>

datatype icon_kind = IconFolder | IconDrive | IconExtension

definition classify_icon :: "string \<Rightarrow> icon_kind \<times> string" where
  "classify_icon key =
     (if key = ''folder'' then (IconFolder, ''folder'')
      else case strip_prefix ''drive:'' key of
        Some drive \<Rightarrow> (IconDrive, drive)
      | None \<Rightarrow>
          let extension = (case strip_prefix ''ext:'' key of Some e \<Rightarrow> e | None \<Rightarrow> key)
          in (IconExtension, if extension = [] then ''file'' else ''.'' @ extension))"

text \<open>\<open>ic_file_info\<close> is \<open>SHGetFileInfoW\<close>, \<open>None\<close> for a result of zero or an invalid icon; \<open>ic_bitmap_size\<close> is
  \<open>GetObjectW\<close>, \<open>None\<close> when nothing was written; \<open>ic_bits\<close> is \<open>GetDIBits\<close>: the number of lines and the bytes that
  were written to the buffer.\<close>

record ('w, 'i, 'b) icon_api =
  ic_file_info :: "u16 list \<Rightarrow> u32 \<Rightarrow> u32 \<Rightarrow> 'w \<Rightarrow> 'i option \<times> 'w"
  ic_icon_info :: "'i \<Rightarrow> 'w \<Rightarrow> ('b option \<times> 'b option) option \<times> 'w"
  ic_bitmap_size :: "'b \<Rightarrow> 'w \<Rightarrow> (int \<times> int) option"
  ic_bits :: "'b \<Rightarrow> nat \<Rightarrow> nat \<Rightarrow> 'w \<Rightarrow> int \<times> u8 list"
  ic_destroy :: "'i \<Rightarrow> 'w \<Rightarrow> 'w"
  ic_delete :: "'b option \<Rightarrow> 'w \<Rightarrow> 'w"
  ic_png :: "u8 list \<Rightarrow> nat \<Rightarrow> nat \<Rightarrow> u8 list option"
  ic_base64 :: "u8 list \<Rightarrow> string"

definition file_attribute_directory :: u32 where "file_attribute_directory = 16"
definition file_attribute_normal :: u32 where "file_attribute_normal = 128"
definition shgfi_icon :: u32 where "shgfi_icon = 256"
definition shgfi_largeicon :: u32 where "shgfi_largeicon = 0"
definition shgfi_usefileattributes :: u32 where "shgfi_usefileattributes = 16"

definition shell_query :: "icon_kind \<Rightarrow> u32 \<times> u32" where
  "shell_query kind = (case kind of
      IconFolder \<Rightarrow> (file_attribute_directory, or (or shgfi_icon shgfi_largeicon) shgfi_usefileattributes)
    | IconDrive \<Rightarrow> (0, or shgfi_icon shgfi_largeicon)
    | IconExtension \<Rightarrow> (file_attribute_normal, or (or shgfi_icon shgfi_largeicon) shgfi_usefileattributes))"

section \<open>Pixels\<close>

record pixels =
  px_bgra :: "u8 list"
  px_width :: nat
  px_height :: nat

definition bitmap_size :: "('w, 'i, 'b) icon_api \<Rightarrow> 'b \<Rightarrow> 'w \<Rightarrow> (nat \<times> nat) option" where
  "bitmap_size api b w = (case ic_bitmap_size api b w of
      None \<Rightarrow> None
    | Some (bm_width, bm_height) \<Rightarrow>
        if bm_width \<le> 0 \<or> bm_height \<le> 0 then None else Some (nat bm_width, nat bm_height))"

text \<open>The buffer is cleared, and what the system writes stays inside it.\<close>

definition read_bitmap :: "('w, 'i, 'b) icon_api \<Rightarrow> 'b option \<Rightarrow> 'w \<Rightarrow> pixels option" where
  "read_bitmap api bitmap w = (case bitmap of
      None \<Rightarrow> None
    | Some b \<Rightarrow> (case bitmap_size api b w of
          None \<Rightarrow> None
        | Some (width, height) \<Rightarrow>
            let (lns, written) = ic_bits api b width height w;
                size = width * height * 4;
                buffer = take size (written @ replicate (size - length written) 0)
            in if 0 < lns then Some \<lparr>px_bgra = buffer, px_width = width, px_height = height\<rparr> else None))"

text \<open>Loops over \<open>chunks_exact_mut(4)\<close>; bytes behind the last chunk of four are left alone.\<close>

fun over_pixels :: "(u8 \<Rightarrow> u8 \<Rightarrow> u8 \<Rightarrow> u8 \<Rightarrow> u8 list) \<Rightarrow> u8 list \<Rightarrow> u8 list" where
  "over_pixels f (b # g # r # a # px) = f b g r a @ over_pixels f px"
| "over_pixels f px = px"

fun has_alpha :: "u8 list \<Rightarrow> bool" where
  "has_alpha (b # g # r # a # px) \<longleftrightarrow> a \<noteq> 0 \<or> has_alpha px"
| "has_alpha px \<longleftrightarrow> False"

fun mask_alpha :: "u8 list \<Rightarrow> u8 list \<Rightarrow> u8 list" where
  "mask_alpha (b # g # r # a # px) (m # _ # _ # _ # ms) =
     b # g # r # (if m = 0 then 255 else 0) # mask_alpha px ms"
| "mask_alpha px _ = px"

definition with_alpha :: "pixels \<Rightarrow> pixels option \<Rightarrow> u8 list" where
  "with_alpha color mask_px =
     (let bgra = px_bgra color in
      if has_alpha bgra then bgra
      else case mask_px of
        Some m \<Rightarrow> if px_width m = px_width color \<and> px_height m = px_height color
            then mask_alpha bgra (px_bgra m)
            else over_pixels (\<lambda>b g r a. [b, g, r, 255]) bgra
      | None \<Rightarrow> over_pixels (\<lambda>b g r a. [b, g, r, 255]) bgra)"

definition swap_red_blue :: "u8 list \<Rightarrow> u8 list" where
  "swap_red_blue = over_pixels (\<lambda>b g r a. [r, g, b, a])"

section \<open>Scaling\<close>

text \<open>The sums over the pixels of a cell, weighted with alpha, and their number.\<close>

record cell_sum =
  cs_red :: u64
  cs_green :: u64
  cs_blue :: u64
  cs_alpha :: u64
  cs_count :: u64

definition empty_cell :: cell_sum where
  "empty_cell = \<lparr>cs_red = 0, cs_green = 0, cs_blue = 0, cs_alpha = 0, cs_count = 0\<rparr>"

text \<open>\<open>&rgba[i..i + 4]\<close>.\<close>

definition pixel_slice :: "u8 list \<Rightarrow> nat \<Rightarrow> u8 list ran" where
  "pixel_slice rgba i = (if i + 4 \<le> length rgba then Returned (take 4 (drop i rgba)) else Panicked)"

definition add_pixel :: "u8 list \<Rightarrow> cell_sum \<Rightarrow> cell_sum" where
  "add_pixel px s =
     (let alpha = ucast (px ! 3) in
      \<lparr>cs_red = cs_red s + ucast (px ! 0) * alpha, cs_green = cs_green s + ucast (px ! 1) * alpha,
       cs_blue = cs_blue s + ucast (px ! 2) * alpha, cs_alpha = cs_alpha s + alpha, cs_count = cs_count s + 1\<rparr>)"

fun sum_cell :: "u8 list \<Rightarrow> nat list \<Rightarrow> cell_sum \<Rightarrow> cell_sum ran" where
  "sum_cell rgba [] s = Returned s"
| "sum_cell rgba (i # is) s = (case pixel_slice rgba (i * 4) of
      Panicked \<Rightarrow> Panicked
    | Returned px \<Rightarrow> sum_cell rgba is (add_pixel px s))"

text \<open>The source rows or columns \<open>a..b\<close> behind row or column \<open>k\<close> of the target.\<close>

definition cell_range :: "nat \<Rightarrow> nat \<Rightarrow> nat \<Rightarrow> nat list" where
  "cell_range extent sz k =
     (let a = k * extent div sz;
          b = min (max ((k + 1) * extent div sz) (a + 1)) extent
      in [a..<b])"

definition cell_pixels :: "nat \<Rightarrow> nat \<Rightarrow> nat \<Rightarrow> nat \<Rightarrow> nat \<Rightarrow> nat list" where
  "cell_pixels width height sz y x =
     concat (map (\<lambda>sy. map (\<lambda>sx. sy * width + sx) (cell_range width sz x)) (cell_range height sz y))"

definition cell_color :: "cell_sum \<Rightarrow> u8 list" where
  "cell_color s = (if 0 < cs_alpha s
     then [ucast (cs_red s div cs_alpha s), ucast (cs_green s div cs_alpha s), ucast (cs_blue s div cs_alpha s),
           ucast (cs_alpha s div cs_count s)]
     else [0, 0, 0, 0])"

text \<open>The target is filled row by row, so its bytes are those of the cells in this order.\<close>

fun fill_cells :: "u8 list \<Rightarrow> nat \<Rightarrow> nat \<Rightarrow> nat \<Rightarrow> (nat \<times> nat) list \<Rightarrow> u8 list ran" where
  "fill_cells rgba width height sz [] = Returned []"
| "fill_cells rgba width height sz ((y, x) # cells) =
     (case sum_cell rgba (cell_pixels width height sz y x) empty_cell of
        Panicked \<Rightarrow> Panicked
      | Returned s \<Rightarrow> (case fill_cells rgba width height sz cells of
            Panicked \<Rightarrow> Panicked
          | Returned out \<Rightarrow> Returned (cell_color s @ out)))"

definition resample :: "u8 list \<Rightarrow> nat \<Rightarrow> nat \<Rightarrow> nat \<Rightarrow> u8 list ran" where
  "resample rgba width height sz =
     (if width = sz \<and> height = sz then Returned rgba
      else fill_cells rgba width height sz (List.product [0..<sz] [0..<sz]))"

section \<open>From the shell to a picture\<close>

definition icon_to_rgba :: "('w, 'i, 'b) icon_api \<Rightarrow> 'i \<Rightarrow> 'w \<Rightarrow> u8 list option ran \<times> 'w" where
  "icon_to_rgba api icon w = (case ic_icon_info api icon w of
      (None, w1) \<Rightarrow> (Returned None, w1)
    | (Some (hbm_color, hbm_mask), w1) \<Rightarrow>
        let color = read_bitmap api hbm_color w1;
            mask_px = read_bitmap api hbm_mask w1;
            w2 = ic_delete api hbm_mask (ic_delete api hbm_color w1)
        in (case color of
            None \<Rightarrow> Returned None
          | Some c \<Rightarrow> (case resample (swap_red_blue (with_alpha c mask_px)) (px_width c) (px_height c) icon_size of
                Panicked \<Rightarrow> Panicked
              | Returned rgba \<Rightarrow> Returned (Some rgba)), w2))"

definition shell_icon_rgba :: "('w, 'i, 'b) icon_api \<Rightarrow> string \<Rightarrow> 'w \<Rightarrow> u8 list option ran \<times> 'w" where
  "shell_icon_rgba api key w =
     (let (kind, path) = classify_icon key;
          (attributes, flags) = shell_query kind
      in case ic_file_info api (up_to_nul (wide path)) attributes flags w of
        (None, w1) \<Rightarrow> (Returned None, w1)
      | (Some icon, w1) \<Rightarrow> (case icon_to_rgba api icon w1 of
            (Panicked, w2) \<Rightarrow> (Panicked, w2)
          | (Returned px, w2) \<Rightarrow> (Returned px, ic_destroy api icon w2)))"

definition shell_icon_png :: "('w, 'i, 'b) icon_api \<Rightarrow> string \<Rightarrow> 'w \<Rightarrow> u8 list option ran \<times> 'w" where
  "shell_icon_png api key w = (case shell_icon_rgba api key w of (r, w1) \<Rightarrow>
     (bind_ran r (\<lambda>rgba. Returned (ic_png api rgba icon_size icon_size)), w1))"

section \<open>The cache\<close>

type_synonym icon_cache = "string \<rightharpoonup> string option"

definition data_url :: "('w, 'i, 'b) icon_api \<Rightarrow> u8 list \<Rightarrow> string" where
  "data_url api png = ''data:image/png;base64,'' @ ic_base64 api png"

text \<open>\<open>IconCache::resolve\<close>: what has been looked up before, found or not, is not asked for again.\<close>

fun resolve_icons :: "('w, 'i, 'b) icon_api \<Rightarrow> string list \<Rightarrow> icon_cache \<Rightarrow> icon_cache \<Rightarrow> 'w
    \<Rightarrow> icon_cache ran \<times> icon_cache \<times> 'w" where
  "resolve_icons api [] out entries w = (Returned out, entries, w)"
| "resolve_icons api (key # keys) out entries w = (case entries key of
      Some v \<Rightarrow> resolve_icons api keys (out(key \<mapsto> v)) entries w
    | None \<Rightarrow> (case shell_icon_png api key w of
          (Panicked, w1) \<Rightarrow> (Panicked, entries, w1)
        | (Returned png, w1) \<Rightarrow>
            let v = map_option (data_url api) png
            in resolve_icons api keys (out(key \<mapsto> v)) (entries(key \<mapsto> v)) w1))"

definition icon_cache_resolve :: "('w, 'i, 'b) icon_api \<Rightarrow> string list \<Rightarrow> icon_cache \<Rightarrow> 'w
    \<Rightarrow> icon_cache ran \<times> icon_cache \<times> 'w" where
  "icon_cache_resolve api keys = resolve_icons api keys (\<lambda>_. None)"

section \<open>Pictures of the right size\<close>

lemma length_over_pixels:
  "\<forall>b g r a. length (f b g r a) = 4 \<Longrightarrow> length (over_pixels f px) = length px"
  by (induction f px rule: over_pixels.induct) auto

lemma length_mask_alpha [simp]: "length (mask_alpha px ms) = length px"
  by (induction px ms rule: mask_alpha.induct) auto

lemma length_with_alpha [simp]: "length (swap_red_blue (with_alpha c m)) = length (px_bgra c)"
  by (auto simp: with_alpha_def swap_red_blue_def Let_def length_over_pixels split: option.splits)

lemma cell_range_bounds:
  assumes "k < sz" "0 < extent"
  shows "set (cell_range extent sz k) \<subseteq> {0..<extent}" and "cell_range extent sz k \<noteq> []"
proof -
  have "k * extent div sz < extent"
    using assms by (simp add: less_mult_imp_div_less)
  then show "set (cell_range extent sz k) \<subseteq> {0..<extent}" "cell_range extent sz k \<noteq> []"
    by (auto simp: cell_range_def Let_def)
qed

lemma set_cell_pixels:
  "set (cell_pixels width height sz y x) =
     {sy * width + sx | sy sx. sy \<in> set (cell_range height sz y) \<and> sx \<in> set (cell_range width sz x)}"
  by (auto simp: cell_pixels_def)

lemma cell_pixels_bounds:
  assumes "y < sz" "x < sz" "0 < width" "0 < height"
  shows "\<forall>i \<in> set (cell_pixels width height sz y x). i < width * height" and "cell_pixels width height sz y x \<noteq> []"
proof -
  have ix: "sy * width + sx < width * height" if "sy < height" "sx < width" for sy sx
  proof -
    have "sy * width + sx < Suc sy * width" using that by simp
    also have "\<dots> \<le> height * width" using that by (intro mult_le_mono1) simp
    finally show ?thesis by (simp add: mult.commute)
  qed
  have "sy < height" "sx < width" if "sy \<in> set (cell_range height sz y)" "sx \<in> set (cell_range width sz x)" for sy sx
    using that cell_range_bounds(1) [OF assms(1,4)] cell_range_bounds(1) [OF assms(2,3)] by auto
  with ix show "\<forall>i \<in> set (cell_pixels width height sz y x). i < width * height"
    unfolding set_cell_pixels by blast
  have "hd (cell_range height sz y) * width + hd (cell_range width sz x) \<in> set (cell_pixels width height sz y x)"
    using cell_range_bounds(2) [OF assms(1,4)] cell_range_bounds(2) [OF assms(2,3)] hd_in_set
    unfolding set_cell_pixels by blast
  then show "cell_pixels width height sz y x \<noteq> []" by auto
qed

lemma sum_cell_returns:
  "\<forall>i \<in> set is. i * 4 + 4 \<le> length rgba \<Longrightarrow>
     sum_cell rgba is s = Returned (fold (\<lambda>i. add_pixel (take 4 (drop (i * 4) rgba))) is s)"
  by (induction "is" arbitrary: s) (simp_all add: pixel_slice_def)

lemma resample_returns:
  assumes "length rgba = width * height * 4" "0 < width" "0 < height"
  shows "\<exists>out. resample rgba width height sz = Returned out \<and> length out = sz * sz * 4"
proof -
  have cells: "\<exists>out. fill_cells rgba width height sz cells = Returned out \<and> length out = length cells * 4"
    if "\<forall>(y, x) \<in> set cells. y < sz \<and> x < sz" for cells
    using that
  proof (induction cells)
    case (Cons c cells)
    obtain y x where c: "c = (y, x)" by (cases c)
    have "\<forall>i \<in> set (cell_pixels width height sz y x). i * 4 + 4 \<le> length rgba"
      using cell_pixels_bounds(1) [of y sz x width height] Cons.prems assms c by fastforce
    moreover have "length (cell_color s) = 4" for s by (simp add: cell_color_def)
    ultimately show ?case using Cons c by (auto simp: sum_cell_returns)
  qed simp
  show ?thesis
    using cells [of "List.product [0..<sz] [0..<sz]"] assms(1)
    by (auto simp: resample_def)
qed

section \<open>Averages\<close>

text \<open>Sums of machine words are the sums of their values as long as these stay small.\<close>

lemma sum_list_word:
  fixes f :: "'a \<Rightarrow> u64"
  assumes "\<forall>p \<in> set ps. unat (f p) \<le> B" "length ps * B < 2 ^ 64"
  shows "unat (sum_list (map f ps)) = sum_list (map (\<lambda>p. unat (f p)) ps)"
  using assms
proof (induction ps)
  case (Cons p ps)
  have "sum_list (map (\<lambda>p. unat (f p)) ps) \<le> length ps * B"
    using sum_list_mono [of ps "\<lambda>p. unat (f p)" "\<lambda>_. B"] Cons.prems(1) by (simp add: sum_list_triv)
  with Cons show ?case
    by (subst list.map, subst sum_list.Cons, subst unat_add_lem [THEN iffD1]) auto
qed simp

lemma fold_pixels:
  "fold add_pixel ps s =
    \<lparr>cs_red = cs_red s + sum_list (map (\<lambda>p. ucast (p ! 0) * ucast (p ! 3)) ps),
     cs_green = cs_green s + sum_list (map (\<lambda>p. ucast (p ! 1) * ucast (p ! 3)) ps),
     cs_blue = cs_blue s + sum_list (map (\<lambda>p. ucast (p ! 2) * ucast (p ! 3)) ps),
     cs_alpha = cs_alpha s + sum_list (map (\<lambda>p. ucast (p ! 3)) ps),
     cs_count = cs_count s + of_nat (length ps)\<rparr>"
  by (induction ps arbitrary: s) (simp_all add: add_pixel_def Let_def add.assoc)

lemma u8_bound: "unat (b :: u8) \<le> 255"
proof -
  have "unat b < 2 ^ LENGTH(8)" by (rule unsigned_less)
  moreover have "2 ^ LENGTH(8) = (256 :: nat)" by simp
  ultimately show ?thesis by linarith
qed

lemma unat_wide: "unat (ucast (b :: u8) :: u64) = unat b"
proof -
  have "unat b < 2 ^ 64" using u8_bound [of b] by simp
  then show ?thesis by (simp add: unsigned_ucast_eq take_bit_nat_eq_self)
qed

lemma unat_weighted: "unat (ucast (a :: u8) * ucast (b :: u8) :: u64) = unat a * unat b"
proof -
  have "unat a * unat b \<le> 255 * 255" by (intro mult_le_mono u8_bound)
  then show ?thesis by (subst unat_mult_lem [THEN iffD1]) (simp_all add: unat_wide)
qed

lemma average_between:
  assumes "\<forall>p \<in> set ps. lo \<le> f p \<and> f p \<le> (hi :: nat)" "0 < sum_list (map g ps)"
  shows "lo \<le> sum_list (map (\<lambda>p. f p * g p) ps) div sum_list (map g ps)"
    and "sum_list (map (\<lambda>p. f p * g p) ps) div sum_list (map g ps) \<le> hi"
proof -
  have "lo * sum_list (map g ps) \<le> sum_list (map (\<lambda>p. f p * g p) ps)"
    "sum_list (map (\<lambda>p. f p * g p) ps) \<le> hi * sum_list (map g ps)"
    using assms(1) by (auto simp: sum_list_const_mult [symmetric] intro!: sum_list_mono mult_le_mono1)
  then show "lo \<le> sum_list (map (\<lambda>p. f p * g p) ps) div sum_list (map g ps)"
      "sum_list (map (\<lambda>p. f p * g p) ps) div sum_list (map g ps) \<le> hi"
    using assms(2) div_le_mono [of "sum_list (map (\<lambda>p. f p * g p) ps)" "hi * sum_list (map g ps)" "sum_list (map g ps)"]
    by (simp_all add: less_eq_div_iff_mult_less_eq)
qed

lemma unat_byte: "unat (x :: u64) \<le> 255 \<Longrightarrow> unat (ucast x :: u8) = unat x"
  by (simp add: unsigned_ucast_eq take_bit_nat_eq_self)

text \<open>A cell has a colour between those of its pixels.\<close>

lemma cell_between:
  fixes lo hi :: u8
  assumes "ps \<noteq> []" "length ps < 2 ^ 47" "\<forall>p \<in> set ps. p ! 3 \<noteq> 0 \<and> lo \<le> p ! c \<and> p ! c \<le> hi" "c < 4"
  shows "lo \<le> cell_color (fold add_pixel ps empty_cell) ! c \<and> cell_color (fold add_pixel ps empty_cell) ! c \<le> hi"
proof -
  let ?s = "fold add_pixel ps empty_cell" and ?alpha = "\<lambda>p. unat (p ! 3 :: u8)"
  have weighted: "unat (sum_list (map (\<lambda>p. ucast (p ! k) * ucast (p ! 3 :: u8)) ps) :: u64)
      = sum_list (map (\<lambda>p. unat (p ! k :: u8) * ?alpha p) ps)" for k
  proof -
    have "\<forall>p \<in> set ps. unat (p ! k :: u8) * ?alpha p \<le> 255 * 255" using u8_bound by (blast intro: mult_le_mono)
    then show ?thesis
      using sum_list_word [of ps "\<lambda>p. ucast (p ! k :: u8) * ucast (p ! 3 :: u8)" "255 * 255"] assms(2)
      by (simp add: unat_weighted)
  qed
  have alpha: "unat (cs_alpha ?s) = sum_list (map ?alpha ps)"
    using sum_list_word [of ps "\<lambda>p. ucast (p ! 3 :: u8)" 255] assms(2) u8_bound
    by (simp add: fold_pixels empty_cell_def unat_wide)
  have count: "unat (cs_count ?s) = length ps"
    using assms(2) by (simp add: fold_pixels empty_cell_def unat_of_nat take_bit_nat_eq_self)
  obtain p ps' where ps: "ps = p # ps'" using assms(1) by (cases ps) auto
  have pos: "0 < sum_list (map ?alpha ps)"
    using assms(3) by (simp add: ps unat_gt_0)
  then have opaque: "0 < cs_alpha ?s" using alpha by (simp add: word_less_nat_alt)
  have bounds: "\<forall>p \<in> set ps. unat lo \<le> unat (p ! c) \<and> unat (p ! c) \<le> unat hi"
    using assms(3) by (simp add: word_le_nat_alt)
  define avg where "avg = (if c < 3 then sum_list (map (\<lambda>p. unat (p ! c) * ?alpha p) ps) div sum_list (map ?alpha ps)
      else sum_list (map ?alpha ps) div length ps)"
  have avg: "unat lo \<le> avg" "avg \<le> unat hi"
    using average_between [OF bounds pos] average_between [OF bounds, of "\<lambda>_. 1"] assms(1,4)
    by (auto simp: avg_def sum_list_triv less_Suc_eq numeral_eq_Suc)
  have "unat (cell_color ?s ! c) = avg"
  proof -
    define x where "x = (if c < 3 then sum_list (map (\<lambda>p. ucast (p ! c) * ucast (p ! 3 :: u8)) ps) div cs_alpha ?s
        else cs_alpha ?s div cs_count ?s)"
    have "cell_color ?s ! c = ucast x"
      using opaque assms(4) unfolding x_def
      by (auto simp: cell_color_def fold_pixels empty_cell_def less_Suc_eq numeral_eq_Suc)
    moreover have "unat x = avg"
      by (simp add: x_def avg_def unat_div_distrib weighted alpha count)
    ultimately show ?thesis using unat_byte [of x] avg u8_bound [of hi] by simp
  qed
  with avg show ?thesis by (simp add: word_le_nat_alt)
qed

lemma concat_pixels:
  "\<forall>px \<in> set src. length px = 4 \<Longrightarrow> length (concat src) = length src * 4"
  "\<forall>px \<in> set src. length px = 4 \<Longrightarrow> i < length src \<Longrightarrow> take 4 (drop (i * 4) (concat src)) = src ! i"
proof -
  show l: "length (concat src) = length src * 4" if "\<forall>px \<in> set src. length px = 4" for src :: "'a list list"
    using that by (induction src) auto
  show "take 4 (drop (i * 4) (concat src)) = src ! i" if "\<forall>px \<in> set src. length px = 4" "i < length src"
    using that by (induction src arbitrary: i) (auto simp: less_Suc_eq_0_disj)
qed

lemma length_cell_pixels:
  assumes "y < sz" "x < sz" "0 < width" "0 < height"
  shows "length (cell_pixels width height sz y x) \<le> width * height"
proof -
  have "length (cell_range e sz k) \<le> e" for e k by (simp add: cell_range_def Let_def)
  then have "length (cell_range height sz y) * length (cell_range width sz x) \<le> height * width" by (intro mult_le_mono)
  then show ?thesis by (simp add: cell_pixels_def length_concat comp_def sum_list_triv mult.commute)
qed



text \<open>A whole icon is the right number of bytes for the encoder, whatever the bitmaps of the system hold.\<close>

lemma read_bitmap_size:
  "read_bitmap api b w = Some px \<Longrightarrow> 0 < px_width px \<and> 0 < px_height px \<and>
     length (px_bgra px) = px_width px * px_height px * 4"
  by (auto simp: read_bitmap_def bitmap_size_def Let_def split: option.splits prod.splits if_splits)

lemma shell_icon_returns:
  "\<exists>r. fst (shell_icon_rgba api key w) = Returned r \<and> (\<forall>rgba. r = Some rgba \<longrightarrow> length rgba = icon_size * icon_size * 4)"
proof -
  have rgba: "\<exists>r. fst (icon_to_rgba api icon w1) = Returned r \<and> (\<forall>rgba. r = Some rgba \<longrightarrow> length rgba = icon_size * icon_size * 4)" for icon w1
  proof (cases "ic_icon_info api icon w1")
    case (Pair info w2)
    show ?thesis
    proof (cases info)
      case (Some bitmaps)
      obtain color_bm mask_bm where b: "bitmaps = (color_bm, mask_bm)" by (cases bitmaps)
      show ?thesis
      proof (cases "read_bitmap api color_bm w2")
        case (Some c)
        from read_bitmap_size [OF this] resample_returns [of "swap_red_blue (with_alpha c (read_bitmap api mask_bm w2))" "px_width c" "px_height c" icon_size]
        obtain out where "resample (swap_red_blue (with_alpha c (read_bitmap api mask_bm w2))) (px_width c) (px_height c) icon_size = Returned out"
          "length out = icon_size * icon_size * 4" by auto
        with Some b Pair \<open>info = Some bitmaps\<close> show ?thesis by (simp add: icon_to_rgba_def Let_def)
      qed (use b Pair Some in \<open>simp add: icon_to_rgba_def Let_def\<close>)
    qed (use Pair in \<open>simp add: icon_to_rgba_def\<close>)
  qed
  show ?thesis
  proof (cases "fst (ic_file_info api (up_to_nul (wide (snd (classify_icon key)))) (fst (shell_query (fst (classify_icon key))))
      (snd (shell_query (fst (classify_icon key)))) w)")
    case (Some icon)
    obtain w1 where info: "ic_file_info api (up_to_nul (wide (snd (classify_icon key)))) (fst (shell_query (fst (classify_icon key))))
        (snd (shell_query (fst (classify_icon key)))) w = (Some icon, w1)" using Some by (metis prod.collapse)
    obtain r w2 where "icon_to_rgba api icon w1 = (Returned r, w2)" "\<forall>rgba. r = Some rgba \<longrightarrow> length rgba = icon_size * icon_size * 4"
      using rgba [of icon w1] by (metis prod.collapse)
    with info show ?thesis by (simp add: shell_icon_rgba_def split_def Let_def)
  qed (simp add: shell_icon_rgba_def split_def Let_def)
qed

text \<open>What the cache holds is not looked up again and stays as it is.\<close>

lemma resolve_icons_cached:
  assumes "\<forall>key \<in> set keys. entries key \<noteq> None"
  shows "icon_cache_resolve api keys entries w = (Returned (\<lambda>key. if key \<in> set keys then entries key else None), entries, w)"
proof -
  have "resolve_icons api keys out entries w = (Returned (\<lambda>key. if key \<in> set keys then entries key else out key), entries, w)" for out
    using assms by (induction keys arbitrary: out) (auto simp: fun_eq_iff)
  then show ?thesis by (simp add: icon_cache_resolve_def)
qed

end
