(* ===== verification/Commands.thy ===== *)
theory Commands
  imports Sync_Compare Trust Site_Import Edit_Manager Throttle Clipboard Drag_Out Icons
begin

text \<open>
  \<open>src-tauri/src/commands.rs\<close>: what the user interface can ask for.  A command gets the parts of the
  application's state it uses, in the code the fields of \<open>AppState\<close>, and composes their operations;
  \<open>tab\<close> is the session table.
\<close>

section \<open>Data\<close>

record listing =
  li_path :: string
  li_entries :: "remote_entry list"

record local_listing =
  ll_path :: string
  ll_parent :: "string option"
  ll_entries :: "local_entry list"

record path_target =
  pt_path :: string
  pt_is_dir :: bool

record link_target =
  lt_target :: string
  lt_is_dir :: bool

record copy_request =
  cq_source :: string
  cq_destination :: string

text \<open>A loop that stops at the first error.\<close>

fun each_io :: "('a \<Rightarrow> ('w, unit) vio) \<Rightarrow> 'a list \<Rightarrow> ('w, unit) vio" where
  "each_io f [] = ok_io ()"
| "each_io f (x # xs) = bind_io (f x) (\<lambda>_. each_io f xs)"

definition with_session :: "'w session_table \<Rightarrow> string \<Rightarrow> ('w live_session \<Rightarrow> ('w, 'a) vio) \<Rightarrow> ('w, 'a) vio" where
  "with_session tab key f = bind_io (lift_io (manager_get tab key)) f"

section \<open>Settings and sites\<close>

text \<open>The bandwidth limit reaches the throttle before the settings are saved, and also when that fails.\<close>

definition settings_command ::
  "(app_settings \<Rightarrow> string + string) \<Rightarrow> (string \<Rightarrow> string + unit) \<Rightarrow> app_settings \<Rightarrow> app_settings \<Rightarrow> throttle
     \<Rightarrow> unit vresult \<times> app_settings \<times> throttle" where
  "settings_command to_json write_file new current th =
     (let th1 = set_limit_kbps (st_bandwidth_limit_kbps new) th
      in case settings_save to_json write_file new current of (r, cur) \<Rightarrow> (r, cur, th1))"

definition merge_import ::
  "'w credentials \<Rightarrow> (site_tree \<Rightarrow> unit vresult) \<Rightarrow> imported \<Rightarrow> site_store \<Rightarrow> 'w \<Rightarrow> site_tree vresult \<times> site_store \<times> 'w" where
  "merge_import cr write_tree imp st w =
     (let tree = (ts_tree st)\<lparr>tr_root := tr_root (ts_tree st) @ fst imp\<rparr>;
          w1 = fold (\<lambda>(key, user, password) w. snd (set_site_password cr key user password w)) (snd imp) w
      in case save_tree cr write_tree tree st w1 of (r, st1, w2) \<Rightarrow> (map_ok (\<lambda>_. tree) r, st1, w2))"

text \<open>The commands about settings, sites, stored passwords, imports and recent connections; \<open>filezilla\<close> and
  \<open>winscp\<close> are the two imports, which may panic.\<close>

datatype site_command =
    CmdSitesGet | CmdSitesSave site_tree | CmdPasswordGet string | CmdPasswordSet string string string
  | CmdImportFilezilla string | CmdImportWinscp | CmdRecentGet | CmdRecentClear

datatype site_reply =
    ReplyTree "site_tree vresult" | ReplyUnit "unit vresult" | ReplyPassword "string option vresult"
  | ReplyRecent "recent_connection list"

definition import_command ::
  "'w credentials \<Rightarrow> (site_tree \<Rightarrow> unit vresult) \<Rightarrow> imported vresult ran \<Rightarrow> site_store \<Rightarrow> 'w
     \<Rightarrow> site_reply ran \<times> site_store \<times> 'w" where
  "import_command cr write_tree imp st w = (case imp of
      Panicked \<Rightarrow> (Panicked, st, w)
    | Returned (Inl e) \<Rightarrow> (Returned (ReplyTree (Inl e)), st, w)
    | Returned (Inr i) \<Rightarrow> (case merge_import cr write_tree i st w of
          (r, st1, w1) \<Rightarrow> (Returned (ReplyTree r), st1, w1)))"

fun site_command_run ::
  "'w credentials \<Rightarrow> (site_tree \<Rightarrow> unit vresult) \<Rightarrow> (recent_connection list \<Rightarrow> unit vresult)
     \<Rightarrow> (string \<Rightarrow> imported vresult ran) \<Rightarrow> imported vresult ran \<Rightarrow> site_command \<Rightarrow> site_store \<Rightarrow> 'w
     \<Rightarrow> site_reply ran \<times> site_store \<times> 'w" where
  "site_command_run cr write_tree write_recent filezilla winscp CmdSitesGet st w =
     (Returned (ReplyTree (Inr (ts_tree st))), st, w)"
| "site_command_run cr write_tree write_recent filezilla winscp (CmdSitesSave tree) st w =
     (case save_tree cr write_tree tree st w of (r, st1, w1) \<Rightarrow> (Returned (ReplyUnit r), st1, w1))"
| "site_command_run cr write_tree write_recent filezilla winscp (CmdPasswordGet key) st w =
     (case site_password cr key w of (r, w1) \<Rightarrow> (Returned (ReplyPassword r), st, w1))"
| "site_command_run cr write_tree write_recent filezilla winscp (CmdPasswordSet key user password) st w =
     (case set_site_password cr key user password w of (r, w1) \<Rightarrow> (Returned (ReplyUnit r), st, w1))"
| "site_command_run cr write_tree write_recent filezilla winscp (CmdImportFilezilla path) st w =
     import_command cr write_tree (filezilla path) st w"
| "site_command_run cr write_tree write_recent filezilla winscp CmdImportWinscp st w =
     import_command cr write_tree winscp st w"
| "site_command_run cr write_tree write_recent filezilla winscp CmdRecentGet st w =
     (Returned (ReplyRecent (ts_recent st)), st, w)"
| "site_command_run cr write_tree write_recent filezilla winscp CmdRecentClear st w =
     (case clear_recent write_recent st of (r, st1) \<Rightarrow> (Returned (ReplyUnit r), st1, w))"

definition settings_get :: "app_settings \<Rightarrow> app_settings" where
  "settings_get current = current"

section \<open>Prompts and trust\<close>

definition prompt_answer :: "string \<Rightarrow> string option \<Rightarrow> prompt_broker \<Rightarrow> bool \<times> prompt_broker" where
  "prompt_answer prompt_id answer broker = broker_answer prompt_id answer broker"

definition hostkey_forget ::
  "string option \<Rightarrow> (string \<Rightarrow> string list \<Rightarrow> 'w \<Rightarrow> (io_error + bool \<times> string) \<times> 'w) \<Rightarrow> string \<Rightarrow> u16 \<Rightarrow> ('w, unit) vio" where
  "hostkey_forget keygen command host port = forget_host_key keygen command host port"

definition certificate_trust :: "string \<Rightarrow> bool \<Rightarrow> trust_store \<Rightarrow> trust_store \<times> string list option" where
  "certificate_trust fingerprint remember t = trust fingerprint remember t"

section \<open>Sessions\<close>

text \<open>The stored password is used when none is given; \<open>connect\<close> is the session manager's.\<close>

definition session_connect ::
  "(site_config \<Rightarrow> string option \<Rightarrow> bool \<Rightarrow> ('z qworld, session_info \<times> 't) vio) \<Rightarrow> 'c credentials
     \<Rightarrow> (recent_connection list \<Rightarrow> unit vresult) \<Rightarrow> int \<Rightarrow> site_config \<Rightarrow> string option \<Rightarrow> bool option \<Rightarrow> bool option
     \<Rightarrow> site_store \<Rightarrow> edit_state \<Rightarrow> 'c \<Rightarrow> 'z qworld
     \<Rightarrow> (session_info \<times> 't) vresult \<times> site_store \<times> edit_state \<times> 'c \<times> 'z qworld" where
  "session_connect connect cr write_recent now site password accept remember st ed c w =
     (case (case password of Some p \<Rightarrow> (Inr (Some p), c) | None \<Rightarrow> site_password cr (sc_id site) c) of
        (Inl e, c1) \<Rightarrow> (Inl e, st, ed, c1, w)
      | (Inr pw, c1) \<Rightarrow> (case connect site pw (accept = Some True) w of
            (Inl e, w1) \<Rightarrow> (Inl e, st, ed, c1, w1)
          | (Inr (info, tab), w1) \<Rightarrow>
              let st1 = (if remember \<noteq> Some False then snd (remember_recent write_recent now site st) else st)
              in (Inr (info, tab), st1, rebind_edits (sc_id site) (si_id info) ed, c1,
                  bind_session (sc_id site) (si_id info) w1)))"

definition session_disconnect ::
  "string \<Rightarrow> 'z qworld session_table \<Rightarrow> 'z qworld \<Rightarrow> 'z qworld session_table \<times> 'z qworld" where
  "session_disconnect key tab w = manager_disconnect key tab (unbind_session key w)"

section \<open>Remote files\<close>

definition remote_list ::
  "('w \<Rightarrow> int) \<Rightarrow> 'w session_table \<Rightarrow> string \<Rightarrow> string \<Rightarrow> bool option \<Rightarrow> ('w, listing) vio" where
  "remote_list clock tab key path force = with_session tab key (\<lambda>s.
     let client = session_client s
     in bind_io (if trim path = [] then rc_initial_dir client else rc_realpath client path) (\<lambda>resolved.
        bind_io (session_list clock s resolved (force = Some True)) (\<lambda>entries.
        ok_io \<lparr>li_path = resolved, li_entries = entries\<rparr>)))"

definition remote_realpath :: "'w session_table \<Rightarrow> string \<Rightarrow> string \<Rightarrow> ('w, string) vio" where
  "remote_realpath tab key path = with_session tab key (\<lambda>s. rc_realpath (session_client s) path)"

definition remote_stat :: "'w session_table \<Rightarrow> string \<Rightarrow> string \<Rightarrow> ('w, remote_entry) vio" where
  "remote_stat tab key path = with_session tab key (\<lambda>s. rc_stat (session_client s) path)"

definition invalidating :: "'w live_session \<Rightarrow> string \<Rightarrow> ('w, unit) vio \<Rightarrow> ('w, unit) vio" where
  "invalidating s path m = bind_io m (\<lambda>_. modify_io (session_invalidate s path))"

definition remote_mkdir :: "'w session_table \<Rightarrow> string \<Rightarrow> string \<Rightarrow> ('w, unit) vio" where
  "remote_mkdir tab key path = with_session tab key (\<lambda>s. invalidating s path (rc_mkdir (session_client s) path))"

definition remote_touch :: "'w session_table \<Rightarrow> string \<Rightarrow> string \<Rightarrow> ('w, unit) vio" where
  "remote_touch tab key path = with_session tab key (\<lambda>s. invalidating s path (rc_touch (session_client s) path))"

definition remote_rename :: "'w session_table \<Rightarrow> string \<Rightarrow> string \<Rightarrow> string \<Rightarrow> ('w, unit) vio" where
  "remote_rename tab key source target = with_session tab key (\<lambda>s.
     invalidating s target (invalidating s source (rc_rename (session_client s) source target)))"

definition remote_chmod :: "'w session_table \<Rightarrow> string \<Rightarrow> string list \<Rightarrow> u32 \<Rightarrow> ('w, unit) vio" where
  "remote_chmod tab key paths mode = with_session tab key (\<lambda>s.
     each_io (\<lambda>path. invalidating s path (rc_chmod (session_client s) path mode)) paths)"

section \<open>Deleting remote trees\<close>

text \<open>The entries of one directory: directories go onto the stack, everything else is removed.\<close>

fun delete_entries ::
  "'w remote_client \<Rightarrow> remote_entry list \<Rightarrow> string list \<Rightarrow> ('w, string list) vio" where
  "delete_entries client [] stack = ok_io stack"
| "delete_entries client (e # es) stack =
     (if re_kind e = KDir then delete_entries client es (re_path e # stack)
      else bind_io (rc_remove client (re_path e)) (\<lambda>_. delete_entries client es stack))"

text \<open>The walk, with one unit of fuel per directory; the stack has its top first, \<open>dirs\<close> the last one visited.\<close>

fun delete_files ::
  "nat \<Rightarrow> 'w remote_client \<Rightarrow> string list \<Rightarrow> string list \<Rightarrow> ('w, string list) wio" where
  "delete_files fuel client [] dirs = once (ok_io dirs)"
| "delete_files 0 client (dir # stack) dirs = (\<lambda>w. None)"
| "delete_files (Suc fuel) client (dir # stack) dirs =
     bind_wio (once (bind_io (rc_list client dir) (\<lambda>es. delete_entries client es stack)))
       (\<lambda>stack'. delete_files fuel client stack' (dir # dirs))"

definition delete_remote_tree :: "nat \<Rightarrow> 'w live_session \<Rightarrow> string \<Rightarrow> ('w, unit) wio" where
  "delete_remote_tree fuel s path =
     bind_wio (delete_files fuel (session_client s) [path] []) (\<lambda>dirs.
       once (each_io (\<lambda>dir. invalidating s dir (rc_rmdir (session_client s) dir)) dirs))"

fun delete_targets :: "nat \<Rightarrow> 'w live_session \<Rightarrow> path_target list \<Rightarrow> ('w, unit) wio" where
  "delete_targets fuel s [] = once (ok_io ())"
| "delete_targets fuel s (t # ts) =
     bind_wio (if pt_is_dir t then delete_remote_tree fuel s (pt_path t)
               else once (rc_remove (session_client s) (pt_path t))) (\<lambda>_.
     bind_wio (once (modify_io (session_invalidate s (pt_path t)))) (\<lambda>_. delete_targets fuel s ts))"

definition remote_delete :: "nat \<Rightarrow> 'w session_table \<Rightarrow> string \<Rightarrow> path_target list \<Rightarrow> ('w, unit) wio" where
  "remote_delete fuel tab key targets =
     bind_wio (once (lift_io (manager_get tab key))) (\<lambda>s. delete_targets fuel s targets)"

definition remote_resolve_link :: "'w session_table \<Rightarrow> string \<Rightarrow> string \<Rightarrow> ('w, link_target) vio" where
  "remote_resolve_link tab key path = with_session tab key (\<lambda>s.
     let client = session_client s
     in bind_io (rc_readlink client path) (\<lambda>raw.
        let resolved = resolve_link_target path raw
        in try_io (rc_realpath client resolved) (\<lambda>real.
           let target = unwrap_or real resolved
           in try_io (rc_stat client target) (\<lambda>st.
              ok_io \<lparr>lt_target = target, lt_is_dir = (case st of Inr e \<Rightarrow> re_kind e = KDir | Inl _ \<Rightarrow> False)\<rparr>))))"

definition remote_edit_open ::
  "nat \<Rightarrow> 'w worker_env \<Rightarrow> (string \<Rightarrow> string) \<Rightarrow> string \<Rightarrow> (string \<Rightarrow> 'w \<Rightarrow> string option) \<Rightarrow> string option \<Rightarrow> string option
     \<Rightarrow> 'w session_table \<Rightarrow> string \<Rightarrow> string \<Rightarrow> edit_state \<Rightarrow> 'w \<Rightarrow> (string vresult \<times> edit_state \<times> 'w) option" where
  "remote_edit_open fuel env hex temp opener build start tab key path st w = (case manager_get tab key of
      Inl e \<Rightarrow> Some (Inl e, st, w)
    | Inr s \<Rightarrow> edit_open fuel env hex temp opener build start s path st w)"

section \<open>Local files\<close>

definition local_list :: "'w os_fs \<Rightarrow> u32 \<Rightarrow> app_settings \<Rightarrow> string \<Rightarrow> bool option \<Rightarrow> 'w \<Rightarrow> local_listing vresult" where
  "local_list os drives settings path show_hidden w =
     (let hidden = (case show_hidden of Some h \<Rightarrow> h | None \<Rightarrow> st_show_hidden settings)
      in if trim path = [] then Inr \<lparr>ll_path = [], ll_parent = None, ll_entries = list_drives drives\<rparr>
         else let canonical = (case os_canonicalize os path w of Inr p \<Rightarrow> strip_verbatim p | Inl _ \<Rightarrow> path)
           in map_ok (\<lambda>entries. \<lparr>ll_path = canonical, ll_parent = parent_of os canonical, ll_entries = entries\<rparr>)
                (list_dir os canonical hidden w))"

definition local_delete_all :: "'w os_fs \<Rightarrow> string list \<Rightarrow> ('w, unit) vio" where
  "local_delete_all os = each_io (local_delete os)"

definition local_resolve_link :: "'w os_fs \<Rightarrow> string \<Rightarrow> 'w \<Rightarrow> link_target vresult" where
  "local_resolve_link os path w = map_ok (\<lambda>target. \<lparr>lt_target = target,
     lt_is_dir = (case os_metadata os target w of Inr m \<Rightarrow> fm_is_dir m | Inl _ \<Rightarrow> False)\<rparr>) (resolve_link os path w)"

fun local_copy :: "nat \<Rightarrow> 'w os_fs \<Rightarrow> copy_request list \<Rightarrow> bool \<Rightarrow> ('w, unit) wio" where
  "local_copy fuel os [] overwrite = once (ok_io ())"
| "local_copy fuel os (item # items) overwrite =
     bind_wio (copy_tree fuel os (cq_source item) (cq_destination item) overwrite)
       (\<lambda>_. local_copy fuel os items overwrite)"

text \<open>\<open>local_home\<close>, \<open>local_mkdir\<close>, \<open>local_touch\<close> and \<open>local_rename\<close>; \<open>home\<close> is the system's home directory.\<close>

datatype local_command = CmdHome | CmdMkdir string | CmdTouch string | CmdRename string string

fun local_command_run :: "'w os_fs \<Rightarrow> string option \<Rightarrow> local_command \<Rightarrow> ('w, string option) vio" where
  "local_command_run os home CmdHome = ok_io (Some (home_dir home))"
| "local_command_run os home (CmdMkdir path) = then_io (local_mkdir os path) (ok_io None)"
| "local_command_run os home (CmdTouch path) = then_io (create_file os path) (ok_io None)"
| "local_command_run os home (CmdRename src dest) = then_io (local_rename os src dest) (ok_io None)"

section \<open>The system\<close>

definition clipboard_write_command ::
  "('w, 'h) clipboard_api \<Rightarrow> string \<Rightarrow> string list option \<Rightarrow> string \<Rightarrow> ('w, u32) vio" where
  "clipboard_write_command api text files token =
     clipboard_write api text (case files of Some fs \<Rightarrow> fs | None \<Rightarrow> []) token"

definition clipboard_read_command :: "('w, 'h) clipboard_api \<Rightarrow> ('w, clipboard_files) vio" where
  "clipboard_read_command api = read_files api"

definition file_icons :: "('w, 'i, 'b) icon_api \<Rightarrow> string list \<Rightarrow> icon_cache \<Rightarrow> 'w \<Rightarrow> icon_cache ran \<times> icon_cache \<times> 'w" where
  "file_icons api keys cache w = icon_cache_resolve api keys cache w"

definition open_path :: "(string \<Rightarrow> ('w, string, unit) io) \<Rightarrow> string \<Rightarrow> ('w, unit) vio" where
  "open_path opener path w = (case opener path w of
      (Inl e, w1) \<Rightarrow> (Inl (Other e), w1) | (Inr _, w1) \<Rightarrow> (Inr (), w1))"

section \<open>Dragging files out\<close>

record drag_request =
  dr_local_paths :: "string list"
  dr_downloads :: "queue_request list"

definition drag_out_priority :: int where
  "drag_out_priority = 20"

definition drag_download :: "'w os_fs \<Rightarrow> string \<Rightarrow> string \<Rightarrow> queue_request \<Rightarrow> queue_request" where
  "drag_download os temp batch r = r\<lparr>qr_local_path := os_join os temp (basename (qr_remote_path r)),
     qr_priority := drag_out_priority, qr_conflict_policy := Some Overwrite, qr_start_paused := False,
     qr_batch := Some batch\<rparr>"

text \<open>\<open>temp\<close> creates the directory for the files that are downloaded when they are dropped, \<open>owner\<close> is the
  handle of the main window, 0 if there is none; the drag itself is carried out on the main thread.\<close>

definition drag_prepare ::
  "'w os_fs \<Rightarrow> 'v session_table \<Rightarrow> string vresult \<Rightarrow> string \<Rightarrow> int \<Rightarrow> drag_request \<Rightarrow> drag_job vresult" where
  "drag_prepare os tab temp batch owner req =
     (if dr_downloads req = [] then
        (if dr_local_paths req = [] then Inl (Other ''nothing to drag'')
         else Inr \<lparr>dj_owner = owner, dj_paths = dr_local_paths req, dj_allow_move = True, dj_allow_link = True,
                dj_prefer_move = False, dj_deferred = None\<rparr>)
      else bind_res temp (\<lambda>dir.
        case find (\<lambda>r. \<not> is_ok (manager_get tab (qr_session_id r))) (dr_downloads req) of
          Some r \<Rightarrow> Inl InvalidSession
        | None \<Rightarrow> let downloads = map (drag_download os dir batch) (dr_downloads req)
            in Inr \<lparr>dj_owner = owner, dj_paths = map qr_local_path downloads, dj_allow_move = True, dj_allow_link = False,
                 dj_prefer_move = True, dj_deferred = Some \<lparr>dd_batch = batch, dd_requests = downloads\<rparr>\<rparr>))"

definition main_window_handle :: "int option \<Rightarrow> int" where
  "main_window_handle window = (case window of Some hwnd \<Rightarrow> hwnd | None \<Rightarrow> 0)"

definition drag_out ::
  "'w os_fs \<Rightarrow> 'v session_table \<Rightarrow> ('e, 'h, 'd) drag_env \<Rightarrow> string vresult \<Rightarrow> string \<Rightarrow> int option \<Rightarrow> drag_request
     \<Rightarrow> 'e drag_world \<Rightarrow> (drag_result vresult \<times> 'e drag_world) option" where
  "drag_out os tab env temp batch window req w =
     (let owner_window = main_window_handle window in
      case drag_prepare os tab temp batch owner_window req of
        Inl e \<Rightarrow> Some (Inl e, w)
      | Inr job \<Rightarrow> drag_start env job w)"

section \<open>The queue\<close>

datatype queue_command =
    CmdAdd "queue_request list" | CmdPause string | CmdResume string | CmdRemove string | CmdMove string nat
  | CmdPriority string int | CmdPauseAll | CmdResumeAll | CmdRetryFailed | CmdRemoveFailed | CmdClear
  | CmdClearHistory | CmdAnswer string conflict_answer

text \<open>What the caller gets: nothing, the ids of the new items, or whether anybody waited for the answer.\<close>

datatype queue_reply = ReplyNone | ReplyIds "string list vresult" | ReplyTaken bool

fun queue_command_run ::
  "(string \<Rightarrow> 'y session_scheme vresult) \<Rightarrow> (nat \<Rightarrow> string) \<Rightarrow> (nat \<Rightarrow> int) \<Rightarrow> queue_command \<Rightarrow> 'z qworld
     \<Rightarrow> queue_reply \<times> 'z qworld" where
  "queue_command_run sessions uuid clock (CmdAdd rs) q = map_prod ReplyIds (\<lambda>q. q) (add sessions uuid clock rs q)"
| "queue_command_run sessions uuid clock (CmdPause key) q = (ReplyNone, pause key q)"
| "queue_command_run sessions uuid clock (CmdResume key) q = (ReplyNone, resume key q)"
| "queue_command_run sessions uuid clock (CmdRemove key) q = (ReplyNone, remove_item key q)"
| "queue_command_run sessions uuid clock (CmdMove key n) q = (ReplyNone, move_item key n q)"
| "queue_command_run sessions uuid clock (CmdPriority key p) q = (ReplyNone, set_priority key p q)"
| "queue_command_run sessions uuid clock CmdPauseAll q = (ReplyNone, pause_all q)"
| "queue_command_run sessions uuid clock CmdResumeAll q = (ReplyNone, resume_all q)"
| "queue_command_run sessions uuid clock CmdRetryFailed q = (ReplyNone, retry_failed q)"
| "queue_command_run sessions uuid clock CmdRemoveFailed q = (ReplyNone, remove_failed q)"
| "queue_command_run sessions uuid clock CmdClear q = (ReplyNone, clear q)"
| "queue_command_run sessions uuid clock CmdClearHistory q = (ReplyNone, clear_history q)"
| "queue_command_run sessions uuid clock (CmdAnswer key a) q = map_prod ReplyTaken (\<lambda>q. q) (answer_conflict key a q)"

definition sync_compare ::
  "nat \<Rightarrow> 'w os_fs \<Rightarrow> (string \<Rightarrow> string \<Rightarrow> bool) \<Rightarrow> ('w \<Rightarrow> int) \<Rightarrow> 'w session_table \<Rightarrow> sync_request \<Rightarrow> 'w
     \<Rightarrow> (diff_entry list vresult \<times> 'w) option" where
  "sync_compare fuel os glob clock tab req w = (case manager_get tab (sy_session_id req) of
      Inl e \<Rightarrow> Some (Inl e, w)
    | Inr s \<Rightarrow> compare_trees fuel os glob clock s req w)"

section \<open>Properties\<close>

text \<open>A remote directory tree, links being leaves whatever they point to, the order in which \<open>remote_delete\<close>
  removes its directories, and that of everything else.\<close>

datatype remote_node = RLeaf string | RDir string "remote_node list"

definition is_rdir :: "remote_node \<Rightarrow> bool" where
  "is_rdir n = (case n of RLeaf _ \<Rightarrow> False | RDir _ _ \<Rightarrow> True)"

definition node_path :: "remote_node \<Rightarrow> string" where
  "node_path n = (case n of RLeaf p \<Rightarrow> p | RDir p _ \<Rightarrow> p)"

lemma remote_node_simps [simp]:
  "is_rdir (RDir d ns)" "\<not> is_rdir (RLeaf p)" "node_path (RDir d ns) = d" "node_path (RLeaf p) = p"
  by (simp_all add: is_rdir_def node_path_def)

fun dirs_of :: "remote_node \<Rightarrow> string list" where
  "dirs_of (RLeaf p) = []"
| "dirs_of (RDir p ns) = concat (map dirs_of ns) @ [p]"

fun leaves_of :: "remote_node \<Rightarrow> string list" where
  "leaves_of (RLeaf p) = []"
| "leaves_of (RDir p ns) = map node_path (filter (Not \<circ> is_rdir) ns) @ concat (map leaves_of (rev ns))"

text \<open>The client shows the tree and reports what it removed in \<open>removed\<close>.\<close>

definition shows_node :: "remote_entry \<Rightarrow> remote_node \<Rightarrow> bool" where
  "shows_node e n = ((re_kind e = KDir) = is_rdir n \<and> re_path e = node_path n)"

fun served :: "'w remote_client \<Rightarrow> ('w \<Rightarrow> string list) \<Rightarrow> remote_node \<Rightarrow> bool" where
  "served client removed (RLeaf p) = True"
| "served client removed (RDir p ns) =
     ((\<forall>w. \<exists>es w'. rc_list client p w = (Inr es, w') \<and> removed w' = removed w \<and> list_all2 shows_node es ns)
      \<and> (\<forall>n \<in> set ns. served client removed n))"

definition removes :: "(string \<Rightarrow> ('w, unit) vio) \<Rightarrow> ('w \<Rightarrow> string list) \<Rightarrow> bool" where
  "removes rm removed = (\<forall>p w. \<exists>w'. rm p w = (Inr (), w') \<and> removed w' = removed w @ [p])"

lemma removesD: "removes rm removed \<Longrightarrow> \<exists>w'. rm p w = (Inr (), w') \<and> removed w' = removed w @ [p]"
  by (simp add: removes_def)

lemma delete_entries_run:
  assumes "removes (rc_remove client) removed" "list_all2 shows_node es ns"
  shows "\<exists>w'. delete_entries client es stack w = (Inr (map node_path (rev (filter is_rdir ns)) @ stack), w')
    \<and> removed w' = removed w @ map node_path (filter (Not \<circ> is_rdir) ns)"
  using assms(2)
proof (induction arbitrary: stack w)
  case Nil
  then show ?case by simp
next
  case (Cons e es n ns)
  show ?case
  proof (cases "is_rdir n")
    case True
    with Cons show ?thesis by (simp add: shows_node_def)
  next
    case False
    obtain w1 where "rc_remove client (re_path e) w = (Inr (), w1)" "removed w1 = removed w @ [re_path e]"
      using removesD [OF assms(1)] by metis
    with Cons.hyps Cons.IH [of stack w1] False show ?thesis
      by (simp add: shows_node_def bind_io_run)
  qed
qed

lemma subdirs_concat: "concat (map dirs_of (filter is_rdir ns)) = concat (map dirs_of ns)"
  by (induction ns) (auto simp: is_rdir_def split: remote_node.splits)

lemma subdirs_leaves: "concat (map leaves_of (rev (filter is_rdir ns))) = concat (map leaves_of (rev ns))"
  by (induction ns) (auto simp: is_rdir_def split: remote_node.splits)

lemma delete_files_run:
  assumes "removes (rc_remove client) removed"
  shows "list_all is_rdir ts \<Longrightarrow> list_all (served client removed) ts
    \<Longrightarrow> length (concat (map dirs_of ts)) \<le> fuel
    \<Longrightarrow> \<exists>w'. delete_files fuel client (map node_path ts) acc w = Some (Inr (concat (map dirs_of (rev ts)) @ acc), w')
      \<and> removed w' = removed w @ concat (map leaves_of ts)"
proof (induction fuel arbitrary: ts acc w)
  case 0
  then show ?case by (cases ts) (auto simp: is_rdir_def once_def split: remote_node.splits)
next
  case (Suc fuel)
  show ?case
  proof (cases ts)
    case Nil
    then show ?thesis by (simp add: once_def)
  next
    case (Cons t us)
    with Suc.prems obtain d ns where t: "t = RDir d ns" by (cases t) auto
    with Suc.prems Cons obtain es w1 where l: "rc_list client d w = (Inr es, w1)" "removed w1 = removed w"
        "list_all2 shows_node es ns" by fastforce
    obtain w2 where e: "delete_entries client es (map node_path us) w1
          = (Inr (map node_path (rev (filter is_rdir ns)) @ map node_path us), w2)"
        "removed w2 = removed w1 @ map node_path (filter (Not \<circ> is_rdir) ns)"
      using delete_entries_run [OF assms l(3)] by blast
    let ?vs = "rev (filter is_rdir ns) @ us"
    have len: "length (concat (map dirs_of (rev (filter is_rdir ns)))) = length (concat (map dirs_of ns))"
      using arg_cong [OF subdirs_concat, of length ns] by (simp add: length_concat rev_map [symmetric] sum_list_rev)
    have "list_all is_rdir ?vs" "list_all (served client removed) ?vs" "length (concat (map dirs_of ?vs)) \<le> fuel"
      using Suc.prems Cons t len by (auto simp: list_all_iff)
    from Suc.IH [OF this, of "d # acc" w2] obtain w' where
        "delete_files fuel client (map node_path ?vs) (d # acc) w2
           = Some (Inr (concat (map dirs_of (rev ?vs)) @ d # acc), w')"
        "removed w' = removed w2 @ concat (map leaves_of ?vs)" by blast
    with l e t Cons show ?thesis
      by (simp add: bind_wio_def once_def bind_io_run subdirs_concat subdirs_leaves)
  qed
qed

lemma remove_dirs_run:
  assumes "removes (rc_rmdir (session_client s)) removed" "\<And>p w. removed (session_invalidate s p w) = removed w"
  shows "\<exists>w'. each_io (\<lambda>dir. invalidating s dir (rc_rmdir (session_client s) dir)) dirs w = (Inr (), w')
    \<and> removed w' = removed w @ dirs"
proof (induction dirs arbitrary: w)
  case Nil
  then show ?case by simp
next
  case (Cons d ds)
  obtain w1 where "rc_rmdir (session_client s) d w = (Inr (), w1)" "removed w1 = removed w @ [d]"
    using removesD [OF assms(1)] by metis
  with Cons [of "session_invalidate s d w1"] assms(2) show ?case
    by (simp add: invalidating_def bind_io_run)
qed

text \<open>C16: Deleting a remote directory removes every file of the tree first and then the directories in
  postorder, so that each directory is removed once and after everything inside it; links are removed and
  never followed.  One unit of fuel for each directory is enough, so the walk ends on every finite tree.\<close>

theorem remote_tree_deleted:
  assumes "served (session_client s) removed (RDir path ns)"
    and "removes (rc_remove (session_client s)) removed" "removes (rc_rmdir (session_client s)) removed"
    and "\<And>p w. removed (session_invalidate s p w) = removed w"
    and "length (dirs_of (RDir path ns)) \<le> fuel"
  shows "\<exists>w'. delete_remote_tree fuel s path w = Some (Inr (), w')
    \<and> removed w' = removed w @ leaves_of (RDir path ns) @ dirs_of (RDir path ns)"
proof -
  obtain w1 where "delete_files fuel (session_client s) [path] [] w = Some (Inr (dirs_of (RDir path ns)), w1)"
      "removed w1 = removed w @ leaves_of (RDir path ns)"
    using delete_files_run [OF assms(2), of "[RDir path ns]" fuel "[]" w] assms(1,5) by auto
  moreover obtain w' where "each_io (\<lambda>dir. invalidating s dir (rc_rmdir (session_client s) dir))
        (dirs_of (RDir path ns)) w1 = (Inr (), w')" "removed w' = removed w1 @ dirs_of (RDir path ns)"
    using remove_dirs_run [OF assms(3,4)] by blast
  ultimately show ?thesis by (simp add: delete_remote_tree_def bind_wio_def once_def)
qed

definition removing_client :: "(string list \<times> session_data) remote_client" where
  "removing_client = sample_client\<lparr>
     rc_list := (\<lambda>p w. (Inr (if p = ''/d'' then [plain_entry ''/d/e'' KDir 0 None, plain_entry ''/d/f'' KSymlink 0 None]
       else []), w)),
     rc_remove := (\<lambda>p (removed, d). (Inr (), (removed @ [p], d))),
     rc_rmdir := (\<lambda>p (removed, d). (Inr (), (removed @ [p], d)))\<rparr>"

definition removing_session :: "(string list \<times> session_data) live_session" where
  "removing_session = \<lparr>ss_id = ''s'', ss_site = default_site ''site'', lv_primary = 0,
     lv_client = (\<lambda>_. removing_client), lv_get = snd, lv_put = (\<lambda>d w. (fst w, d))\<rparr>"

theorem remote_tree_deleted_witness:
  "\<exists>w'. delete_remote_tree 2 removing_session ''/d'' ([], sample_data) = Some (Inr (), w')
    \<and> fst w' = [''/d/f'', ''/d/e'', ''/d'']"
proof -
  let ?t = "[RDir ''/d/e'' [], RLeaf ''/d/f'']"
  have c: "session_client removing_session = removing_client"
    by (simp add: session_client_def removing_session_def)
  have s: "served (session_client removing_session) fst (RDir ''/d'' ?t)"
    unfolding c by (simp add: removing_client_def shows_node_def plain_entry_def)
  have r: "removes (rc_remove (session_client removing_session)) fst" "removes (rc_rmdir (session_client removing_session)) fst"
    unfolding c by (simp_all add: removing_client_def removes_def)
  have i: "\<And>p w. fst (session_invalidate removing_session p w) = fst w"
    by (simp add: session_invalidate_def removing_session_def lv_modify_def)
  show ?thesis using remote_tree_deleted [OF s r i, of 2 "([], sample_data)"] by simp
qed

end
