(* ===== verification/Queue_Typing.thy ===== *)
theory Queue_Typing
  imports Queue_Invariant
begin

text \<open>
  What the items of the queue look like: a listed item waits, runs, is paused or has failed, a failed one
  says why and when, and what is finished is in the history with the time it ended.  Every step of the
  scheduler, the workers and the user keeps this, and so does the file the queue is restored from.
\<close>

section \<open>Well-typed items\<close>

definition listed_item :: "transfer_item \<Rightarrow> bool" where
  "listed_item i \<longleftrightarrow> ti_status i \<noteq> Done \<and> ti_status i \<noteq> Skipped \<and>
     (ti_status i = Failed \<longrightarrow> ti_error i \<noteq> None \<and> ti_finished_at i \<noteq> None)"

definition finished_item :: "transfer_item \<Rightarrow> bool" where
  "finished_item i \<longleftrightarrow> (ti_status i = Done \<or> ti_status i = Skipped) \<and> ti_finished_at i \<noteq> None"

definition snapshot_typed :: "queue_snapshot \<Rightarrow> bool" where
  "snapshot_typed st \<longleftrightarrow> (\<forall>i \<in> set (qs_items st). listed_item i) \<and> (\<forall>i \<in> set (qs_history st). finished_item i)"

definition queue_typed :: "'z queue_state_scheme \<Rightarrow> bool" where
  "queue_typed q \<longleftrightarrow> snapshot_typed (snapshot q) \<and> (\<forall>st. q_stored q = Some st \<longrightarrow> snapshot_typed st)"

text \<open>An operation is harmless when it lists no ill-typed item and leaves history and file alone.\<close>

definition harmless :: "'z queue_state_scheme \<Rightarrow> 'z queue_state_scheme \<Rightarrow> bool" where
  "harmless q q' \<longleftrightarrow> ((\<forall>i \<in> set (q_items q). listed_item i) \<longrightarrow> (\<forall>i \<in> set (q_items q'). listed_item i)) \<and>
     set (q_history q') \<subseteq> set (q_history q) \<and> q_stored q' = q_stored q"

named_theorems harmless_ops \<open>operations that list no ill-typed item\<close>

lemma kept_sel [simp]:
  "q_items (changed q) = q_items q" "q_history (changed q) = q_history q" "q_stored (changed q) = q_stored q"
  "q_items (emit e q) = q_items q" "q_history (emit e q) = q_history q" "q_stored (emit e q) = q_stored q"
  by (simp_all add: changed_def emit_def)

lemma harmless_typed:
  assumes "harmless q q'" "queue_typed q"
  shows "queue_typed q'"
proof -
  have "\<forall>i \<in> set (q_items q). listed_item i" "\<forall>i \<in> set (q_history q). finished_item i"
    using assms(2) by (simp_all add: queue_typed_def snapshot_typed_def snapshot_def)
  with assms(1) have "\<forall>i \<in> set (q_items q'). listed_item i" "\<forall>i \<in> set (q_history q'). finished_item i" "q_stored q' = q_stored q"
    unfolding harmless_def by blast+
  with assms(2) show ?thesis by (simp add: queue_typed_def snapshot_typed_def snapshot_def)
qed

lemma harmless_refl [harmless_ops]: "harmless q q"
  by (simp add: harmless_def)

lemma harmless_trans: "harmless p q \<Longrightarrow> harmless q r \<Longrightarrow> harmless p r"
  unfolding harmless_def by (metis order_trans)

lemma harmless_sub:
  "set (q_items q') \<subseteq> set (q_items q) \<Longrightarrow> q_history q' = q_history q \<Longrightarrow> q_stored q' = q_stored q \<Longrightarrow> harmless q q'"
  by (auto simp: harmless_def)

lemma harmless_same: "q_items q' = q_items q \<Longrightarrow> q_history q' = q_history q \<Longrightarrow> q_stored q' = q_stored q \<Longrightarrow> harmless q q'"
  by (simp add: harmless_def)

lemma harmless_changed: "harmless q (changed r) \<longleftrightarrow> harmless q r"
  by (simp add: harmless_def changed_def)

lemma harmless_control: "harmless q (drop_control key r) \<longleftrightarrow> harmless q r"
  by (simp add: harmless_def drop_control_def)

lemma harmless_update:
  assumes "\<And>i. listed_item i \<Longrightarrow> listed_item (f i)"
  shows "harmless q (snd (update_item key f q))"
proof -
  have "\<forall>i \<in> set (update_first P f xs). listed_item i" if "\<forall>i \<in> set xs. listed_item i" for P xs
    using that assms by (induction xs) auto
  then show ?thesis by (auto simp: harmless_def update_item_def split: option.splits)
qed

lemma harmless_fold:
  assumes "\<And>x q. harmless q (f x q)"
  shows "harmless q (fold f xs q)"
  using assms by (induction xs arbitrary: q) (auto intro: harmless_refl harmless_trans)

section \<open>The operations\<close>

lemma harmless_set_paused [harmless_ops]: "harmless q (set_paused key q)"
  by (auto simp: set_paused_def harmless_changed harmless_control listed_item_def intro!: harmless_update)

lemma harmless_retry [harmless_ops]: "harmless q (schedule_retry now key err delay q)"
  by (auto simp: schedule_retry_def harmless_changed harmless_control listed_item_def intro!: harmless_update)

lemma harmless_cancel [harmless_ops]: "harmless q (cancel_cell p h q)"
  by (simp add: cancel_cell_def harmless_def)

lemma harmless_pause [harmless_ops]: "harmless q (pause key q)"
  by (auto simp: pause_def harmless_changed listed_item_def intro!: harmless_update harmless_ops split: option.splits)

lemma listed_requeue: "listed_item (requeue i)"
  by (simp add: requeue_def listed_item_def)

lemma harmless_resume [harmless_ops]: "harmless q (resume key q)"
  by (auto simp: resume_def harmless_changed listed_requeue intro!: harmless_update)

lemma harmless_drop_conflict [harmless_ops]: "harmless q (drop_conflict key q)"
  by (auto simp: drop_conflict_def intro: harmless_same harmless_refl split: option.splits)

lemma harmless_remove [harmless_ops]: "harmless q (remove_item key q)"
  by (auto simp: remove_item_def harmless_changed Let_def cancel_cell_def split: option.splits
      intro!: harmless_trans [OF harmless_sub harmless_drop_conflict])

lemma harmless_batch [harmless_ops]: "harmless q (remove_batch b q)"
  by (auto simp: remove_batch_def intro!: harmless_fold harmless_ops)

lemma harmless_move [harmless_ops]: "harmless q (move_item key n q)"
proof -
  have "set (insert_at t (q_items q ! c) (remove_at c (q_items q))) \<subseteq> set (q_items q)"
    if "position (\<lambda>i. ti_id i = key) (q_items q) = Some c" for t c
    using set_remove_at_subset [of c "q_items q"] position_SomeD [OF that] by simp
  then show ?thesis
    by (cases "position (\<lambda>i. ti_id i = key) (q_items q)")
      (simp_all add: move_item_def Let_def harmless_refl harmless_changed harmless_sub del: set_insert_at)
qed

lemma harmless_priority [harmless_ops]: "harmless q (set_priority key p q)"
  by (auto simp: set_priority_def harmless_changed listed_item_def intro!: harmless_update)

lemma harmless_all [harmless_ops]: "harmless q (pause_all q)" "harmless q (resume_all q)"
  by (auto simp: pause_all_def resume_all_def intro!: harmless_fold harmless_ops)

lemma harmless_failed [harmless_ops]: "harmless q (retry_failed q)" "harmless q (remove_failed q)"
  by (auto simp: retry_failed_def remove_failed_def harmless_changed harmless_def listed_requeue)

lemma harmless_clear [harmless_ops]: "harmless q (clear q)" "harmless q (clear_history q)"
proof -
  let ?q1 = "fold (cancel_cell False) (map snd (q_controls q)) q"
  have "harmless q ?q1" by (intro harmless_fold harmless_ops)
  moreover have "harmless ?q1 (clear q)" by (simp add: clear_def Let_def harmless_def)
  ultimately show "harmless q (clear q)" by (rule harmless_trans)
qed (simp add: clear_history_def harmless_def)

lemma harmless_bind [harmless_ops]: "harmless q (bind_session site sess q)"
  by (auto simp: bind_session_def harmless_changed harmless_def listed_item_def)

lemma harmless_unbind [harmless_ops]: "harmless q (unbind_session sess q)"
proof -
  let ?q1 = "fold pause (map ti_id (filter (\<lambda>i. ti_session_id i = Some sess) (q_items q))) q"
  have "harmless q ?q1" by (intro harmless_fold harmless_ops)
  moreover have "harmless ?q1 (unbind_session sess q)"
    by (auto simp: unbind_session_def Let_def harmless_def listed_item_def)
  ultimately show ?thesis by (rule harmless_trans)
qed

lemma harmless_answer [harmless_ops]: "harmless q (snd (answer_conflict key a q))"
  by (auto simp: answer_conflict_def Let_def intro: harmless_same harmless_refl split: option.splits)

lemma harmless_user: "harmless q (run_user u q)"
  by (cases u) (simp_all add: harmless_ops)

lemma harmless_emit: "harmless q (emit e r) \<longleftrightarrow> harmless q r"
  by (simp add: harmless_def emit_def)

lemma harmless_worker: "harmless q (run_worker key op q)"
proof (cases op)
  case (WProgress t s sz)
  have "harmless q (snd (update_item key (\<lambda>i. let i = i\<lparr>ti_transferred := t, ti_speed_bps := s\<rparr>
      in if sz \<noteq> None then i\<lparr>ti_size := sz\<rparr> else i) q))"
    by (rule harmless_update) (auto simp: listed_item_def Let_def)
  with WProgress show ?thesis
    by (auto simp: record_progress_def harmless_emit split: prod.splits)
next
  case (WOpenPrompt p)
  then show ?thesis
    using harmless_drop_conflict [of q "cp_item_id p"]
    by (auto simp: open_prompt_def Let_def harmless_emit harmless_def)
next
  case (WClosePrompt sess c)
  then show ?thesis
    by (auto simp: close_prompt_def Let_def intro!: harmless_same split: channel.splits)
qed (auto simp: listed_item_def intro!: harmless_update)

text \<open>What the scheduler and the ends of workers do to items.\<close>

lemma listed_complete:
  assumes "queue_typed q" "status = Done \<or> status = Skipped \<or> status = Failed \<and> err \<noteq> None"
  shows "queue_typed (complete now key status err q)"
proof (cases "position (\<lambda>i. ti_id i = key) (q_items q)")
  case (Some index)
  let ?item = "finish_item now status err (q_items q ! index)"
  have "listed_item ?item" if "status = Failed" using assms(2) that by (simp add: finish_item_def listed_item_def)
  moreover have "finished_item ?item" if "status \<noteq> Failed" using assms(2) that by (simp add: finish_item_def finished_item_def)
  ultimately show ?thesis
    using assms Some set_remove_at_subset [of index "q_items q"] set_update_subset_insert [of "q_items q" index ?item]
    by (auto simp: complete_def queue_typed_def snapshot_typed_def snapshot_def drop_control_def Let_def dest!: in_set_takeD)
qed (use assms in \<open>simp add: complete_def\<close>)

definition all_listed :: "transfer_item list \<Rightarrow> bool" where
  "all_listed items \<longleftrightarrow> (\<forall>i \<in> set items. listed_item i)"

lemma listed_mark: "all_listed (fst st) \<Longrightarrow> all_listed (fst (mark_index k st))"
proof (cases st)
  case (Pair items ts)
  have "listed_item (activate i)" if "listed_item i" for i
    using that by (simp add: activate_def listed_item_def)
  moreover assume "all_listed (fst st)"
  ultimately show ?thesis
    using set_update_subset_insert [of items k "activate (items ! k)"]
    by (cases "k < length items") (auto simp: Pair mark_index_def all_listed_def list_update_beyond not_less)
qed

lemma listed_session: "all_listed (fst st) \<Longrightarrow> all_listed (fst (dispatch_session now s st))"
proof -
  have "all_listed (fst st) \<Longrightarrow> all_listed (fst (fold mark_index ks st))" for ks st
    by (induction ks arbitrary: st) (simp_all add: listed_mark)
  then show "all_listed (fst st) \<Longrightarrow> ?thesis" by (cases st) (simp add: dispatch_session_def)
qed

lemma harmless_marked: "harmless q (snd (mark_items now sessions q))"
proof -
  have "all_listed (fst st) \<Longrightarrow> all_listed (fst (fold (dispatch_session now) sessions st))" for st
    by (induction sessions arbitrary: st) (simp_all add: listed_session)
  from this [of "(q_items q, [])"] show ?thesis
    by (simp add: harmless_def mark_items_def all_listed_def split: prod.splits)
qed

lemma harmless_children:
  assumes "list_all (\<lambda>i. ti_status i = Queued) children"
  shows "harmless q (insert_children key children q)"
proof -
  have "set (q_items (insert_children key children q)) \<subseteq> set (q_items q) \<union> set children"
    unfolding insert_children_items by (auto split: option.splits dest: in_set_takeD in_set_dropD)
  moreover have "q_history (insert_children key children q) = q_history q" "q_stored (insert_children key children q) = q_stored q"
    by (simp_all add: insert_children_def Let_def)
  moreover have "\<forall>i \<in> set children. listed_item i"
    using assms by (simp add: list_all_iff listed_item_def)
  ultimately show ?thesis unfolding harmless_def by (metis UnE order_refl subsetD)
qed

lemma harmless_added: "harmless q (snd (add sessions uuid clock rs q))"
proof -
  have "\<forall>i \<in> set new. listed_item i" if "build_items sessions uuid clock 0 rs = Inr new" for new
    using build_items_status [OF that] by (auto simp: listed_item_def)
  then show ?thesis by (auto simp: add_def harmless_def split: sum.splits)
qed

lemma typed_end:
  assumes "queue_typed q"
  shows "queue_typed (run_end now key e q)"
proof -
  have attempts: "queue_typed (snd (update_item key (\<lambda>i. i\<lparr>ti_attempts := n\<rparr>) q))" for n
    using assms by (rule harmless_typed [OF harmless_update, rotated]) (simp add: listed_item_def)
  show ?thesis
  proof (cases e)
    case (EndOutcome out)
    then show ?thesis
      using listed_complete [OF assms, of Done None] listed_complete [OF assms, of Skipped None]
        harmless_typed [OF harmless_set_paused assms] harmless_typed [OF harmless_remove assms] by (cases out) simp_all
  next
    case (EndFailed err n)
    then show ?thesis by (simp add: listed_complete [OF attempts])
  next
    case (EndRetry err n delay)
    then show ?thesis by (simp add: harmless_typed [OF harmless_retry attempts])
  qed
qed

lemma typed_persist: "queue_typed q \<Longrightarrow> queue_typed (persist ok q)"
  by (auto simp: queue_typed_def snapshot_typed_def snapshot_def persist_def Let_def stored_item_def listed_item_def finished_item_def)

section \<open>Every step\<close>

lemma typed_step: "sys_step s s' \<Longrightarrow> queue_typed (sy_queue s) \<Longrightarrow> queue_typed (sy_queue s')"
proof (induction rule: sys_step.induct)
  case (add_step sessions uuid clock rs s new q')
  then show ?case using harmless_typed [OF harmless_added [of "sy_queue s" sessions uuid clock rs]] by simp
next
  case (mark_step s sessions now ts q')
  then show ?case using harmless_typed [OF harmless_marked [of "sy_queue s" now sessions]] by simp
next
  case (start_step s key keys h q')
  then show ?case by (auto simp: start_item_def queue_typed_def snapshot_typed_def snapshot_def)
next
  case (idle_step s)
  then show ?case by (simp add: clear_apply_all_when_idle_def queue_typed_def snapshot_typed_def snapshot_def)
next
  case (emit_step s e)
  then show ?case by (simp add: queue_typed_def snapshot_typed_def snapshot_def)
qed (simp_all add: harmless_typed [OF harmless_user] harmless_typed [OF harmless_worker] harmless_typed [OF harmless_children]
    typed_end typed_persist)

lemma typed_restored:
  assumes "snapshot_typed st"
  shows "queue_typed (new_queue (Some st) settings)"
proof -
  have "listed_item (restore_item i)" if "listed_item i" for i
    using that by (simp add: restore_item_def listed_item_def Let_def)
  with assms show ?thesis by (auto simp: new_queue_def Let_def queue_typed_def snapshot_typed_def snapshot_def)
qed

text \<open>C18: In every state the queue can get into from a well-typed file, through any interleaving of scheduler,
  workers and users, the listed items wait, run, are paused or have failed, a failed one with its reason and
  time, the history holds exactly finished transfers, and the file written is well-typed again.\<close>

theorem queue_stays_typed:
  assumes "snapshot_typed st"
    and "sys_step\<^sup>*\<^sup>* \<lparr>sy_queue = new_queue (Some st) settings, sy_starting = [], sy_running = []\<rparr> s"
  shows "queue_typed (sy_queue s)"
  using assms(2)
proof (induction rule: rtranclp_induct)
  case base
  show ?case using typed_restored [OF assms(1)] by simp
next
  case (step s s')
  then show ?case by (simp add: typed_step)
qed

theorem queue_stays_typed_witness:
  "queue_typed (pause ''a'' (new_queue (Some \<lparr>qs_items = [build_item ''a'' 0 sample_session (sample_request 1)], qs_history = []\<rparr>)
     default_settings))"
proof -
  let ?st = "\<lparr>qs_items = [build_item ''a'' 0 sample_session (sample_request 1)], qs_history = []\<rparr>"
  let ?s = "\<lparr>sy_queue = new_queue (Some ?st) default_settings, sy_starting = [], sy_running = []\<rparr>"
  have "snapshot_typed ?st" by (simp add: snapshot_typed_def listed_item_def build_item_def sample_request_def)
  from queue_stays_typed [OF this r_into_rtranclp, of _ _, OF user_step [of ?s "UPause ''a''"]] show ?thesis by simp
qed

end
