(* ===== verification/Application.thy ===== *)
theory Application
  imports Commands Logging Queue_Typing
begin

text \<open>
  \<open>src-tauri/src/paths.rs\<close>, the file logging of \<open>logging.rs\<close> and the wiring of \<open>lib.rs\<close>: where the
  application keeps its files, how it starts from them, and what it does when its window is closed.  The
  directories of the system are arguments, and \<open>os\<close> is the file system.
\<close>

section \<open>Directories and files\<close>

definition data_dir :: "'w os_fs \<Rightarrow> string option \<Rightarrow> 'w \<Rightarrow> string \<times> 'w" where
  "data_dir os config_dir w =
     (let base = (case config_dir of Some d \<Rightarrow> d | None \<Rightarrow> ''.'');
          dir = os_join os base ''Vaultra''
      in (dir, snd (os_create_dir_all os dir w)))"

definition data_file :: "'w os_fs \<Rightarrow> string option \<Rightarrow> string \<Rightarrow> 'w \<Rightarrow> string \<times> 'w" where
  "data_file os config_dir name w = (case data_dir os config_dir w of (dir, w1) \<Rightarrow> (os_join os dir name, w1))"

definition sites_file :: "'w os_fs \<Rightarrow> string option \<Rightarrow> 'w \<Rightarrow> string \<times> 'w" where
  "sites_file os config_dir = data_file os config_dir ''sites.json''"

definition settings_file :: "'w os_fs \<Rightarrow> string option \<Rightarrow> 'w \<Rightarrow> string \<times> 'w" where
  "settings_file os config_dir = data_file os config_dir ''settings.json''"

definition queue_file :: "'w os_fs \<Rightarrow> string option \<Rightarrow> 'w \<Rightarrow> string \<times> 'w" where
  "queue_file os config_dir = data_file os config_dir ''queue.json''"

definition trusted_certs_file :: "'w os_fs \<Rightarrow> string option \<Rightarrow> 'w \<Rightarrow> string \<times> 'w" where
  "trusted_certs_file os config_dir = data_file os config_dir ''trusted_certs.json''"

definition recent_file :: "'w os_fs \<Rightarrow> string option \<Rightarrow> 'w \<Rightarrow> string \<times> 'w" where
  "recent_file os config_dir = data_file os config_dir ''recent.json''"

definition log_dir :: "'w os_fs \<Rightarrow> string option \<Rightarrow> 'w \<Rightarrow> string \<times> 'w" where
  "log_dir os config_dir = data_file os config_dir ''logs''"

definition drag_temp_root :: "'w os_fs \<Rightarrow> string \<Rightarrow> string" where
  "drag_temp_root os temp_dir = os_join os (os_join os temp_dir ''Vaultra'') ''drag''"

definition new_drag_temp_dir :: "'w os_fs \<Rightarrow> string \<Rightarrow> string \<Rightarrow> ('w, string) vio" where
  "new_drag_temp_dir os temp_dir uuid =
     (let dir = os_join os (drag_temp_root os temp_dir) uuid
      in then_io (os_io (os_create_dir_all os dir)) (ok_io dir))"

definition clear_drag_temp :: "'w os_fs \<Rightarrow> string \<Rightarrow> 'w \<Rightarrow> 'w" where
  "clear_drag_temp os temp_dir w = snd (os_remove_dir_all os (drag_temp_root os temp_dir) w)"

definition edit_temp_dir :: "'w os_fs \<Rightarrow> string \<Rightarrow> 'w \<Rightarrow> string \<times> 'w" where
  "edit_temp_dir os temp_dir w =
     (let dir = os_join os (os_join os temp_dir ''Vaultra'') ''edit''
      in (dir, snd (os_create_dir_all os dir w)))"

section \<open>Logging to files\<close>

text \<open>The directory is made and old logs are removed; the appender is the \<open>tracing\<close> crates'.  Entries that
  cannot be read are left out.\<close>

definition init_file_logging ::
  "'w os_fs \<Rightarrow> (string list \<Rightarrow> string list) \<Rightarrow> string option \<Rightarrow> 'w \<Rightarrow> bool \<times> 'w" where
  "init_file_logging os sort_paths config_dir w = (case log_dir os config_dir w of (dir, w1) \<Rightarrow>
     case os_create_dir_all os dir w1 of
       (Inl _, w2) \<Rightarrow> (False, w2)
     | (Inr _, w2) \<Rightarrow>
         let entries = ok_option (map_ok (List.map_filter ok_option) (os_read_dir os dir w2));
             w3 = fold (\<lambda>f w. snd (os_remove_file os f w)) (prune_old_logs sort_paths entries) w2
         in (True, w3))"

section \<open>The state of the application\<close>

record 'w app_state =
  app_sites :: site_store
  app_settings :: app_settings
  app_sessions :: "'w session_table"
  app_queue :: queue_state
  app_broker :: prompt_broker
  app_trust :: trust_store
  app_editor :: edit_state
  app_icons :: icon_cache

text \<open>What could be read of the files of the last run.\<close>

record stored_files =
  sf_sites :: "site_tree option"
  sf_recent :: "recent_connection list option"
  sf_settings :: "app_settings option"
  sf_trusted :: "string list option"
  sf_queue :: "queue_snapshot option"

text \<open>The closure given to \<open>setup\<close>.\<close>

definition app_setup :: "stored_files \<Rightarrow> 'w app_state" where
  "app_setup files =
     (let settings = settings_load (sf_settings files)
      in \<lparr>app_sites = store_load (sf_sites files) (sf_recent files), app_settings = settings, app_sessions = [],
          app_queue = new_queue (sf_queue files) settings,
          app_broker = \<lparr>pb_pending = [], pb_channels = [], pb_shown = []\<rparr>,
          app_trust = trust_load (sf_trusted files), app_editor = edit_new, app_icons = (\<lambda>_. None)\<rparr>)"

text \<open>\<open>run\<close>: the process is either the helper of ssh, and ends with its exit code and output, or the
  application, which first clears what earlier drags left behind; \<open>read_files\<close> is what could be read.\<close>

datatype 'w started = HelperExit nat string | Application "'w app_state"

definition app_run ::
  "(nat \<times> string) option \<Rightarrow> 'w os_fs \<Rightarrow> (string list \<Rightarrow> string list) \<Rightarrow> string option \<Rightarrow> string \<Rightarrow> ('w \<Rightarrow> stored_files)
     \<Rightarrow> 'w \<Rightarrow> 'w started \<times> 'w" where
  "app_run helper os sort_paths config_dir temp_dir read_stored w = (case helper of
      Some (code, out) \<Rightarrow> (HelperExit code out, w)
    | None \<Rightarrow>
        let w1 = snd (init_file_logging os sort_paths config_dir w);
            w2 = clear_drag_temp os temp_dir w1
        in (Application (app_setup (read_stored w2)), w2))"

text \<open>When the window is gone every session is closed and the files of drags are removed.\<close>

definition on_window_event :: "bool \<Rightarrow> 'w os_fs \<Rightarrow> string \<Rightarrow> 'w app_state \<Rightarrow> 'w \<Rightarrow> 'w app_state \<times> 'w" where
  "on_window_event destroyed os temp_dir a w =
     (if \<not> destroyed then (a, w)
      else case manager_disconnect_all (app_sessions a) w of
        (tab, w1) \<Rightarrow> (a\<lparr>app_sessions := tab\<rparr>, clear_drag_temp os temp_dir w1))"

record system_facts =
  sy_version :: string
  sy_openssh :: "string option"
  sy_home_dir :: string
  sy_data_dir :: string
  sy_log_dir :: string

definition system_info :: "string \<Rightarrow> string option \<Rightarrow> string option \<Rightarrow> 'w os_fs \<Rightarrow> string option \<Rightarrow> 'w \<Rightarrow> system_facts \<times> 'w" where
  "system_info version openssh home os config_dir w =
     (case data_dir os config_dir w of (data, w1) \<Rightarrow> case log_dir os config_dir w1 of (logs, w2) \<Rightarrow>
        (\<lparr>sy_version = version, sy_openssh = openssh, sy_home_dir = home_dir home, sy_data_dir = data,
          sy_log_dir = logs\<rparr>, w2))"

text \<open>The commands the window may call; a name stands for the function of \<open>commands.rs\<close> with that name.\<close>

definition invoke_handler :: "string list" where
  "invoke_handler =
    [''system_info'', ''settings_get'', ''settings_save'', ''sites_get'', ''sites_save'', ''site_password_get'',
      ''site_password_set'', ''sites_import_filezilla'', ''sites_import_winscp'', ''recent_get'',
      ''recent_clear'', ''session_connect'', ''session_disconnect'', ''prompt_answer'', ''hostkey_forget'',
      ''certificate_trust'', ''remote_list'', ''remote_realpath'', ''remote_stat'', ''remote_mkdir'',
      ''remote_touch'', ''remote_rename'', ''remote_chmod'', ''remote_delete'', ''remote_resolve_link'',
      ''remote_edit_open'', ''local_list'', ''local_home'', ''local_mkdir'', ''local_touch'', ''local_rename'',
      ''local_delete'', ''local_resolve_link'', ''local_copy'', ''clipboard_write'', ''clipboard_read_files'',
      ''drag_out'', ''queue_add'', ''queue_snapshot'', ''queue_stats'', ''queue_pause'', ''queue_resume'',
      ''queue_remove'', ''queue_move'', ''queue_priority'', ''queue_pause_all'', ''queue_resume_all'',
      ''queue_retry_failed'', ''queue_remove_failed'', ''queue_clear'', ''queue_clear_history'',
      ''conflict_answer'', ''sync_compare'', ''open_path'', ''file_icons'']"

text \<open>No name is registered twice, so a call reaches one command.\<close>

lemma invoke_handler_distinct: "distinct invoke_handler"
  by (simp add: invoke_handler_def)

lemma app_starts_typed:
  assumes "\<forall>st. sf_queue files = Some st \<longrightarrow> snapshot_typed st"
  shows "queue_typed (app_queue (app_setup files))"
  using assms typed_restored [of _ "settings_load (sf_settings files)"]
  by (cases "sf_queue files")
    (simp_all add: app_setup_def Let_def queue_typed_def snapshot_typed_def new_queue_def snapshot_def)

end
