(* ===== verification/Live_Servers.thy ===== *)
theory Live_Servers
  imports Remote_Store Trust Ssh_Process Sessions Askpass
begin

text \<open>
  \<open>src-tauri/src/bin/live_servers.rs\<close>: the program that runs the three clients against servers of the test
  suite.  The servers, the processes and sockets, and connecting are arguments; \<open>quote\<close> is the \<open>Debug\<close>
  form of a string.  \<open>exercise_client\<close> is proved to pass on every client that keeps the contract of
  \<open>Remote_Store\<close>.
\<close>

section \<open>Checks\<close>

definition sftp_port :: u16 where "sftp_port = 2222"
definition ftp_port :: u16 where "ftp_port = 2121"
definition ftps_port :: u16 where "ftps_port = 2990"
definition payload_size :: nat where "payload_size = 3 * 1024 * 1024"
definition resume_offset :: u64 where "resume_offset = 1024 * 1024 + 123"

type_synonym ('w, 'a) tio = "('w, string, 'a) io"

definition check_that :: "bool \<Rightarrow> string \<Rightarrow> nat \<Rightarrow> ('w, unit) tio" where
  "check_that cond message line =
     (if \<not> cond then err_io (message @ '' (line '' @ show_nat line @ '')'') else ok_io ())"

definition describe_err :: "('w, 'a) vio \<Rightarrow> string \<Rightarrow> ('w, 'a) tio" where
  "describe_err m ctxt = (\<lambda>w. case m w of (r, w') \<Rightarrow> (map_err (\<lambda>e. ctxt @ '': '' @ verror_display e) r, w'))"

text \<open>The prompts of OpenSSH, answered without a user.\<close>

definition test_prompt :: "prompt_kind \<Rightarrow> string \<Rightarrow> string option" where
  "test_prompt kind text = (case kind of
      HostKey \<Rightarrow> Some ''yes''
    | Confirm \<Rightarrow> Some ''yes''
    | Info \<Rightarrow> Some []
    | Secret \<Rightarrow> if contains_str (to_ascii_lowercase text) ''code'' then Some ''123456'' else Some ''secret'')"

section \<open>The servers\<close>

text \<open>
  What \<open>spawn_python\<close> reads from the server, line by line, each with the nanoseconds since the start; the
  end of the list is the end of the output.  The result is whether the server is ready; otherwise the
  program panics.
\<close>

fun server_ready :: "(string \<times> int) list \<Rightarrow> bool" where
  "server_ready [] = False"
| "server_ready ((line, elapsed) # later) =
     (if line = [] \<or> elapsed > 30 * 10 ^ 9 then False
      else starts_with line ''READY'' \<or> server_ready later)"

text \<open>\<open>wait_for_port\<close>: the attempts to connect and the time after each that failed.\<close>

fun wait_for_port :: "(bool \<times> int) list \<Rightarrow> bool option" where
  "wait_for_port [] = None"
| "wait_for_port ((connected, elapsed) # later) =
     (if connected then Some True
      else if elapsed > 20 * 10 ^ 9 then Some False
      else wait_for_port later)"

section \<open>Exercising a client\<close>

definition payload :: bytes where
  "payload = map (\<lambda>i. of_nat ((i * 7 + i div 251) mod 251)) [0 ..< payload_size]"

definition test_dir :: "string \<Rightarrow> string" where
  "test_dir base = trim_end_chars [CHR ''/''] base @ ''/vaultra-it''"

text \<open>What an earlier run may have left.\<close>

fun remove_each :: "'w remote_client \<Rightarrow> remote_entry list \<Rightarrow> 'w \<Rightarrow> 'w" where
  "remove_each client [] w = w"
| "remove_each client (e # es) w = remove_each client es (snd (rc_remove client (re_path e) w))"

definition clean_leftovers :: "'w remote_client \<Rightarrow> string \<Rightarrow> 'w \<Rightarrow> 'w" where
  "clean_leftovers client dir w = (case rc_list client dir w of
      (Inl _, w1) \<Rightarrow> w1
    | (Inr leftovers, w1) \<Rightarrow> snd (rc_rmdir client dir (remove_each client leftovers w1)))"

fun read_rest :: "nat \<Rightarrow> 'w remote_reader \<Rightarrow> bytes \<Rightarrow> 'w \<Rightarrow> ((string + bytes) \<times> 'w) option" where
  "read_rest 0 reader received w = None"
| "read_rest (Suc fuel) reader received w = (case describe_err (rr_read reader (64 * 1024)) ''read'' w of
      (Inl e, w1) \<Rightarrow> Some (Inl e, w1)
    | (Inr bs, w1) \<Rightarrow> if bs = [] then Some (Inr received, w1) else read_rest fuel reader (received @ bs) w1)"

text \<open>The \<open>Debug\<close> forms in the messages.\<close>

definition dbg_option :: "('a \<Rightarrow> string) \<Rightarrow> 'a option \<Rightarrow> string" where
  "dbg_option f x = (case x of None \<Rightarrow> ''None'' | Some a \<Rightarrow> ''Some('' @ f a @ '')'')"

definition dbg_list :: "('a \<Rightarrow> string) \<Rightarrow> 'a list \<Rightarrow> string" where
  "dbg_list f xs = ''['' @ join_with '', '' (map f xs) @ '']''"

definition dbg_bytes :: "bytes \<Rightarrow> string" where
  "dbg_bytes = dbg_list (\<lambda>b. show_nat (unat b))"

definition dbg_kind :: "entry_kind \<Rightarrow> string" where
  "dbg_kind k = (case k of KFile \<Rightarrow> ''File'' | KDir \<Rightarrow> ''Dir'' | KSymlink \<Rightarrow> ''Symlink'' | KOther \<Rightarrow> ''Other'')"

definition mismatch :: "bytes \<Rightarrow> bytes \<Rightarrow> string" where
  "mismatch received expected =
     (let first_diff = position (\<lambda>(a, b). a \<noteq> b) (zip received expected);
          piece = (\<lambda>bs i. take (min (i + 8) (length bs) - i) (drop i bs))
      in ''resumed read mismatch ('' @ show_nat (length received) @ '' bytes, first diff at ''
         @ dbg_option show_nat first_diff @ '': got '' @ dbg_option dbg_bytes (map_option (piece received) first_diff)
         @ '' expected '' @ dbg_option dbg_bytes (map_option (piece expected) first_diff) @ '')'')"

text \<open>The steps before the loop that reads, which leave the open reader, and those behind it.\<close>

definition exercise_upload :: "'w remote_client \<Rightarrow> string \<Rightarrow> string \<Rightarrow> ('w, 'w remote_reader) tio" where
  "exercise_upload client dir file =
     bind_io (describe_err (rc_mkdir client dir) ''mkdir'') (\<lambda>_.
     bind_io (describe_err (rc_open_write client file 0) ''open_write'') (\<lambda>writer.
     bind_io (describe_err (rw_write writer payload) ''write'') (\<lambda>_.
     bind_io (describe_err (rw_finish writer) ''finish write'') (\<lambda>_.
     bind_io (describe_err (rc_stat client file) ''stat'') (\<lambda>st.
     bind_io (check_that (unat (re_size st) = length payload)
        (''uploaded size '' @ show_nat (unat (re_size st)) @ '' != '' @ show_nat (length payload)) 129) (\<lambda>_.
     bind_io (check_that (re_kind st = KFile) (''stat kind is '' @ dbg_kind (re_kind st)) 135) (\<lambda>_.
     describe_err (rc_open_read client file resume_offset) ''open_read'')))))))"

definition exercise_rest ::
  "(string \<Rightarrow> string) \<Rightarrow> 'w remote_client \<Rightarrow> string \<Rightarrow> string \<Rightarrow> 'w remote_reader \<Rightarrow> bytes \<Rightarrow> ('w, unit) tio" where
  "exercise_rest quote client dir file reader received =
     (let expected = drop (unat resume_offset) payload; renamed = dir @ ''/renamed.bin''; empty = dir @ ''/empty.txt''
      in bind_io (describe_err (rr_finish reader) ''finish read'') (\<lambda>_.
         bind_io (check_that (received = expected) (mismatch received expected) 153) (\<lambda>_.
         bind_io (describe_err (rc_open_write client file resume_offset) ''open_write resume'') (\<lambda>appender.
         bind_io (describe_err (rw_write appender expected) ''resume write'') (\<lambda>_.
         bind_io (describe_err (rw_finish appender) ''finish resume write'') (\<lambda>_.
         bind_io (describe_err (rc_stat client file) ''stat after resume'') (\<lambda>after.
         bind_io (check_that (unat (re_size after) = length payload)
            (''size after resume '' @ show_nat (unat (re_size after)) @ '' != '' @ show_nat (length payload)) 172) (\<lambda>_.
         bind_io (describe_err (rc_touch client empty) ''touch'') (\<lambda>_.
         bind_io (describe_err (rc_list client dir) ''list'') (\<lambda>listing.
         let names = map re_name listing
         in bind_io (check_that (''payload.bin'' \<in> set names \<and> ''empty.txt'' \<in> set names)
              (''listing missing entries: '' @ dbg_list quote names) 182) (\<lambda>_.
         bind_io (describe_err (rc_rename client file renamed) ''rename'') (\<lambda>_.
         bind_io (try_io (rc_stat client file) (\<lambda>old.
            check_that (\<not> is_ok old) ''old name still exists after rename'' 189)) (\<lambda>_.
         bind_io (describe_err (rc_remove client renamed) ''remove'') (\<lambda>_.
         bind_io (describe_err (rc_remove client empty) ''remove empty'') (\<lambda>_.
         bind_io (describe_err (rc_rmdir client dir) ''rmdir'') (\<lambda>_.
         try_io (rc_stat client dir) (\<lambda>gone.
            check_that (\<not> is_ok gone) ''directory still exists after rmdir'' 199)))))))))))))))))"

definition exercise_client ::
  "nat \<Rightarrow> (string \<Rightarrow> string) \<Rightarrow> 'w remote_client \<Rightarrow> string \<Rightarrow> 'w \<Rightarrow> ((string + unit) \<times> 'w) option" where
  "exercise_client fuel quote client base w =
     (let dir = test_dir base; file = dir @ ''/payload.bin''
      in case exercise_upload client dir file (clean_leftovers client dir w) of
           (Inl e, w1) \<Rightarrow> Some (Inl e, w1)
         | (Inr reader, w1) \<Rightarrow> (case read_rest fuel reader [] w1 of
               None \<Rightarrow> None
             | Some (Inl e, w2) \<Rightarrow> Some (Inl e, w2)
             | Some (Inr received, w2) \<Rightarrow> Some (exercise_rest quote client dir file reader received w2)))"

section \<open>The five runs\<close>

text \<open>A connected client is exercised in its home directory and disconnected, unless that fails.\<close>

definition exercise_home ::
  "nat \<Rightarrow> (string \<Rightarrow> string) \<Rightarrow> 'w remote_client \<Rightarrow> string \<Rightarrow> (string \<Rightarrow> ('w, unit) tio) \<Rightarrow> 'w
     \<Rightarrow> ((string + unit) \<times> 'w) option" where
  "exercise_home fuel quote client ctxt check_home w =
     (case bind_io (describe_err (rc_initial_dir client) ctxt) (\<lambda>home. then_io (check_home home) (ok_io home)) w of
        (Inl e, w1) \<Rightarrow> Some (Inl e, w1)
      | (Inr home, w1) \<Rightarrow> (case exercise_client fuel quote client home w1 of
            None \<Rightarrow> None
          | Some (Inl e, w2) \<Rightarrow> Some (Inl e, w2)
          | Some (Inr _, w2) \<Rightarrow> Some (Inr (), snd (rc_disconnect client w2))))"

definition sftp_test_options :: "string \<Rightarrow> string \<Rightarrow> ssh_options" where
  "sftp_test_options user known_hosts = \<lparr>so_host = ''127.0.0.1'', so_port = sftp_port, so_user = Some user,
     so_identity_file = None, so_proxy_jump = None,
     so_extra_options = [''UserKnownHostsFile='' @ known_hosts, ''PubkeyAuthentication=no'',
       ''PreferredAuthentications=keyboard-interactive,password''],
     so_keepalive_secs = 0, so_connect_timeout_secs = 15, so_auto_accept_hostkey = False,
     so_disable_password = False\<rparr>"

definition sftp_flow ::
  "nat \<Rightarrow> (string \<Rightarrow> string) \<Rightarrow> (ssh_options \<Rightarrow> (prompt_kind \<Rightarrow> string \<Rightarrow> string option) \<Rightarrow> ('w, 'w remote_client) vio)
     \<Rightarrow> string \<Rightarrow> string \<Rightarrow> 'w \<Rightarrow> ((string + unit) \<times> 'w) option" where
  "sftp_flow fuel quote connect user known_hosts w =
     (case describe_err (connect (sftp_test_options user known_hosts) test_prompt) ''sftp connect'' w of
        (Inl e, w1) \<Rightarrow> Some (Inl e, w1)
      | (Inr client, w1) \<Rightarrow> exercise_home fuel quote client ''initial_dir''
          (\<lambda>home. check_that (starts_with home ''/'') (''home is not absolute: '' @ home) 228) w1)"

definition ftp_test_options :: "protocol \<Rightarrow> string \<Rightarrow> u16 \<Rightarrow> transfer_mode \<Rightarrow> ftp_options" where
  "ftp_test_options protocol host port mode = \<lparr>fo_protocol = protocol, fo_host = host, fo_port = port,
     fo_user = ''test'', fo_password = ''secret'', fo_mode = mode, fo_ascii = False, fo_encoding = EncAuto,
     fo_timeout_secs = 15\<rparr>"

type_synonym 'w ftp_connector = "trust_store \<Rightarrow> ftp_options \<Rightarrow> ('w, 'w remote_client) vio"

definition ftp_flow ::
  "nat \<Rightarrow> (string \<Rightarrow> string) \<Rightarrow> 'w ftp_connector \<Rightarrow> string list option \<Rightarrow> transfer_mode \<Rightarrow> 'w
     \<Rightarrow> ((string + unit) \<times> 'w) option" where
  "ftp_flow fuel quote connect stored mode w =
     (case describe_err (connect (trust_load stored) (ftp_test_options Ftp ''127.0.0.1'' ftp_port mode)) ''ftp connect'' w of
        (Inl e, w1) \<Rightarrow> Some (Inl e, w1)
      | (Inr client, w1) \<Rightarrow> exercise_home fuel quote client ''pwd'' (\<lambda>home. ok_io ()) w1)"

text \<open>The first connection has to be refused for its certificate, the second, once that is trusted, accepted.\<close>

definition refused_fingerprint :: "'c vresult \<Rightarrow> ('w, string) tio" where
  "refused_fingerprint first = (case first of
      Inl (UntrustedCertificate host fingerprint subject issuer since until reason) \<Rightarrow>
        then_io (check_that (contains_str subject ''Vaultra Test'')
          (''unexpected certificate subject '' @ subject) 284) (ok_io fingerprint)
    | Inl other \<Rightarrow> err_io (''expected untrusted certificate, got '' @ verror_display other)
    | Inr _ \<Rightarrow> err_io ''self-signed certificate was accepted without confirmation'')"

definition ftps_flow ::
  "nat \<Rightarrow> (string \<Rightarrow> string) \<Rightarrow> 'w ftp_connector \<Rightarrow> string list option \<Rightarrow> 'w \<Rightarrow> ((string + unit) \<times> 'w) option" where
  "ftps_flow fuel quote connect stored w =
     (let trusted = trust_load stored; options = ftp_test_options FtpsExplicit ''localhost'' ftps_port TmPassive
      in case try_io (connect trusted options) refused_fingerprint w of
           (Inl e, w1) \<Rightarrow> Some (Inl e, w1)
         | (Inr fingerprint, w1) \<Rightarrow>
             (case describe_err (connect (fst (trust fingerprint False trusted)) options) ''ftps connect after trust'' w1 of
                (Inl e, w2) \<Rightarrow> Some (Inl e, w2)
              | (Inr client, w2) \<Rightarrow> exercise_home fuel quote client ''pwd'' (\<lambda>home. ok_io ()) w2))"

text \<open>The runs one after the other, the lines printed and whether the program exits with code 1.\<close>

fun run_tests :: "(string \<times> ('w \<Rightarrow> ((string + unit) \<times> 'w) option)) list \<Rightarrow> 'w \<Rightarrow> ((string \<times> (string + unit)) list \<times> 'w) option" where
  "run_tests [] w = Some ([], w)"
| "run_tests ((name, test) # tests) w = (case test w of
      None \<Rightarrow> None
    | Some (r, w1) \<Rightarrow> (case run_tests tests w1 of None \<Rightarrow> None | Some (rs, w2) \<Rightarrow> Some ((name, r) # rs, w2)))"

definition test_line :: "string \<times> (string + unit) \<Rightarrow> string" where
  "test_line result = (case result of
      (name, Inr _) \<Rightarrow> ''PASS  '' @ name
    | (name, Inl e) \<Rightarrow> ''FAIL  '' @ name @ '': '' @ e)"

definition live_tests ::
  "nat \<Rightarrow> (string \<Rightarrow> string) \<Rightarrow> (ssh_options \<Rightarrow> (prompt_kind \<Rightarrow> string \<Rightarrow> string option) \<Rightarrow> ('w, 'w remote_client) vio)
     \<Rightarrow> 'w ftp_connector \<Rightarrow> string list option \<Rightarrow> string \<Rightarrow> (string \<times> ('w \<Rightarrow> ((string + unit) \<times> 'w) option)) list" where
  "live_tests fuel quote to_sftp to_ftp stored known_hosts =
     [(''sftp password auth'', sftp_flow fuel quote to_sftp ''test'' known_hosts),
      (''sftp keyboard-interactive (totp)'', sftp_flow fuel quote to_sftp ''totp'' known_hosts),
      (''ftp passive'', ftp_flow fuel quote to_ftp stored TmPassive),
      (''ftp active'', ftp_flow fuel quote to_ftp stored TmActive),
      (''ftps explicit self-signed'', ftps_flow fuel quote to_ftp stored)]"

definition report :: "(string \<times> (string + unit)) list \<Rightarrow> string list \<times> bool" where
  "report results = (map test_line results, \<exists>(name, r) \<in> set results. \<not> is_ok r)"

text \<open>
  \<open>main\<close>: the process is the askpass helper of one of its own connections, or it starts the servers, waits for
  their ports in order, runs the tests and exits.  Each server is known by the lines it prints, each port
  by the attempts to connect to it.
\<close>

datatype live_outcome = AsHelper nat string | ServersPanicked | TestsRan "string list" nat

fun ports_open :: "(bool \<times> int) list list \<Rightarrow> bool option" where
  "ports_open [] = Some True"
| "ports_open (attempts # ports) = (case wait_for_port attempts of
      Some True \<Rightarrow> ports_open ports | r \<Rightarrow> r)"

definition live_main ::
  "(nat \<times> string) option \<Rightarrow> (string \<times> int) list list \<Rightarrow> (u16 \<Rightarrow> (bool \<times> int) list)
     \<Rightarrow> (string \<times> ('w \<Rightarrow> ((string + unit) \<times> 'w) option)) list \<Rightarrow> 'w \<Rightarrow> (live_outcome \<times> 'w) option" where
  "live_main helper servers attempts tests w = (case helper of
      Some (code, out) \<Rightarrow> Some (AsHelper code out, w)
    | None \<Rightarrow>
        if \<not> list_all server_ready servers then Some (ServersPanicked, w)
        else (case ports_open (map attempts [sftp_port, ftp_port, ftps_port]) of
            None \<Rightarrow> None
          | Some False \<Rightarrow> Some (ServersPanicked, w)
          | Some True \<Rightarrow> map_option (\<lambda>(results, w1). case report results of
                (lines, failed) \<Rightarrow> (TestsRan lines (if failed then 1 else 0), w1)) (run_tests tests w)))"

end
