(* ===== verification/Tree_Store.thy ===== *)
theory Tree_Store
  imports Remote_Store Sessions "HOL-Library.AList"
begin

text \<open>
  A server in memory that keeps the contract of \<open>Remote_Store\<close>: an association list from paths to folders
  and files.
\<close>

section \<open>A store in memory\<close>

record tree_world =
  tw_nodes :: "(string \<times> node) list"
  tw_left :: bytes
  tw_pos :: nat

definition tree_of :: "tree_world \<Rightarrow> tree" where
  "tree_of w = map_of (tw_nodes w)"

definition set_node :: "string \<Rightarrow> node \<Rightarrow> tree_world \<Rightarrow> tree_world" where
  "set_node p nd w = w\<lparr>tw_nodes := AList.update p nd (tw_nodes w)\<rparr>"

definition drop_node :: "string \<Rightarrow> tree_world \<Rightarrow> tree_world" where
  "drop_node p w = w\<lparr>tw_nodes := AList.delete p (tw_nodes w)\<rparr>"

lemma tree_changes [simp]:
  "tree_of (set_node p nd w) = (tree_of w)(p \<mapsto> nd)" "tree_of (drop_node p w) = (tree_of w)(p := None)"
  "tree_of (w\<lparr>tw_left := bs\<rparr>) = tree_of w" "tree_of (w\<lparr>tw_pos := k\<rparr>) = tree_of w"
  "tw_pos (set_node p nd w) = tw_pos w"
  by (auto simp: tree_of_def set_node_def drop_node_def update_conv' delete_conv')

definition tree_entry :: "string \<times> node \<Rightarrow> remote_entry" where
  "tree_entry nd = (case nd of
      (p, StoredDir) \<Rightarrow> plain_entry p KDir 0 None
    | (p, StoredFile bs) \<Rightarrow> plain_entry p KFile (of_nat (length bs)) None)"

definition tree_list :: "string \<Rightarrow> tree_world \<Rightarrow> remote_entry list" where
  "tree_list p w = map tree_entry (filter (\<lambda>(q, nd). entry_name (basename q) \<and> q = join p (basename q)) (tw_nodes w))"

definition tree_reader :: "tree_world remote_reader" where
  "tree_reader = \<lparr>rr_read = (\<lambda>n w. (Inr (take n (tw_left w)), w\<lparr>tw_left := drop n (tw_left w)\<rparr>)), rr_finish = ok_io ()\<rparr>"

definition tree_writer :: "string \<Rightarrow> tree_world remote_writer" where
  "tree_writer p = \<lparr>rw_write = (\<lambda>d w. case tree_of w p of
        Some (StoredFile bs) \<Rightarrow> (Inr (), (set_node p (StoredFile (take (tw_pos w) bs @ d @ drop (tw_pos w + length d) bs)) w)
            \<lparr>tw_pos := tw_pos w + length d\<rparr>)
      | _ \<Rightarrow> (Inl (NotFound p), w)), rw_finish = ok_io ()\<rparr>"

definition tree_client :: "tree_world remote_client" where
  "tree_client = sample_client\<lparr>
     rc_stat := (\<lambda>p w. (case tree_of w p of None \<Rightarrow> Inl (NotFound p) | Some nd \<Rightarrow> Inr (tree_entry (p, nd)), w)),
     rc_list := (\<lambda>p w. (if tree_of w p = Some StoredDir then Inr (tree_list p w) else Inl (NotFound p), w)),
     rc_mkdir := (\<lambda>p w. if tree_of w p = None then (Inr (), set_node p StoredDir w) else (Inl (Io p), w)),
     rc_rmdir := (\<lambda>p w. if tree_of w p = Some StoredDir \<and> tree_list p w = []
        then (Inr (), drop_node p w) else (Inl (Io p), w)),
     rc_remove := (\<lambda>p w. case tree_of w p of Some (StoredFile _) \<Rightarrow> (Inr (), drop_node p w) | _ \<Rightarrow> (Inl (NotFound p), w)),
     rc_rename := (\<lambda>p q w. case tree_of w p of
        Some nd \<Rightarrow> (Inr (), set_node q nd (drop_node p w)) | None \<Rightarrow> (Inl (NotFound p), w)),
     rc_touch := (\<lambda>p w. if tree_of w p = None then (Inr (), set_node p (StoredFile []) w) else (Inl (Io p), w)),
     rc_open_read := (\<lambda>p off w. case tree_of w p of
        Some (StoredFile bs) \<Rightarrow> (Inr tree_reader, w\<lparr>tw_left := drop (unat off) bs\<rparr>) | _ \<Rightarrow> (Inl (NotFound p), w)),
     rc_open_write := (\<lambda>p off w. (Inr (tree_writer p),
        (if off = 0 then set_node p (StoredFile []) w else w)\<lparr>tw_pos := unat off\<rparr>))\<rparr>"

definition tree_left :: "tree_world remote_reader \<Rightarrow> tree_world \<Rightarrow> bytes option" where
  "tree_left rd w = (if rd = tree_reader then Some (tw_left w) else None)"

lemma tree_list_names:
  "(\<lambda>e. (re_name e, re_path e)) ` set (tree_list p w) =
     {(n, join p n) | n. entry_name n \<and> tree_of w (join p n) \<noteq> None}"
proof -
  have e: "re_name (tree_entry nd) = basename (fst nd)" "re_path (tree_entry nd) = fst nd" for nd
    by (simp_all add: tree_entry_def plain_entry_def split: prod.splits node.splits)
  have "(n, q) \<in> (\<lambda>e. (re_name e, re_path e)) ` set (tree_list p w) \<longleftrightarrow>
      (\<exists>nd. (q, nd) \<in> set (tw_nodes w) \<and> n = basename q \<and> entry_name n \<and> q = join p n)" for n q
    unfolding tree_list_def by (auto simp: e image_image image_iff split_beta)
  moreover have "(\<exists>nd. (q, nd) \<in> set (tw_nodes w)) \<longleftrightarrow> tree_of w q \<noteq> None" for q
    unfolding tree_of_def map_of_eq_None_iff by force
  ultimately have "(n, q) \<in> (\<lambda>e. (re_name e, re_path e)) ` set (tree_list p w) \<longleftrightarrow>
      entry_name n \<and> q = join p n \<and> tree_of w (join p n) \<noteq> None" for n q
    using basename_join by auto
  then show ?thesis by (intro set_eqI) (auto simp only: split_paired_all mem_Collect_eq prod.inject)
qed

interpretation tree_store: remote_store tree_client tree_of tree_left
proof
  fix w :: tree_world and p
  assume "tree_of w p = Some StoredDir" "no_children (tree_of w) p"
  moreover have "tree_list p w = []"
  proof -
    from calculation have "(\<lambda>e. (re_name e, re_path e)) ` set (tree_list p w) = {}"
      unfolding tree_list_names by (simp add: no_children_def)
    then show ?thesis by simp
  qed
  ultimately show "\<exists>w'. rc_rmdir tree_client p w = (Inr (), w') \<and> tree_of w' = (tree_of w)(p := None)"
    by (simp add: tree_client_def)
next
  fix rd r and n :: nat and w :: tree_world
  assume "tree_left rd w = Some r" "0 < n"
  then show "\<exists>k w'. rr_read rd n w = (Inr (take k r), w') \<and> k \<le> n \<and> (r \<noteq> [] \<longrightarrow> 0 < k) \<and>
      tree_left rd w' = Some (drop k r) \<and> tree_of w' = tree_of w"
    by (auto simp: tree_left_def tree_reader_def split: if_splits intro!: exI [of _ n])
next
  fix w :: tree_world and p bs and off :: u64 and d
  assume "tree_of w p = Some (StoredFile bs)" "0 < off" "unat off \<le> length bs"
  then show "\<exists>w' rest. put_file tree_client p off d w = (Inr (), w') \<and>
      tree_of w' = (tree_of w)(p \<mapsto> StoredFile (take (unat off) bs @ d @ rest)) \<and>
      (rest = [] \<or> rest = drop (unat off + length d) bs)"
    by (auto simp: put_file_def tree_client_def tree_writer_def bind_io_run then_io_def)
qed (use tree_list_names in \<open>auto simp: tree_client_def tree_entry_def plain_entry_def tree_left_def tree_reader_def
    tree_writer_def put_file_def bind_io_run then_io_def split: if_splits\<close>)

end
