(* ===== verification/Live_Properties.thy ===== *)
theory Live_Properties
  imports Live_Servers Tree_Store
begin

text \<open>
  The test program passes on every client that keeps the contract of \<open>Remote_Store\<close>, and leaves the
  server as it found it.
\<close>

section \<open>Steps that succeed\<close>

lemma describe_err_ok: "m w = (Inr a, w') \<Longrightarrow> describe_err m c w = (Inr a, w')"
  by (simp add: describe_err_def)

lemma check_ok: "cond \<Longrightarrow> check_that cond msg line = ok_io ()"
  by (simp add: check_that_def)

lemma put_file_steps:
  assumes "put_file client p off d w = (Inr (), w')"
  obtains wr w1 w2 where "rc_open_write client p off w = (Inr wr, w1)" "rw_write wr d w1 = (Inr (), w2)"
    "rw_finish wr w2 = (Inr (), w')"
  using assms by (auto simp: put_file_def bind_io_Inr_iff then_io_def)

section \<open>Paths below the folder of the tests\<close>

definition below :: "string \<Rightarrow> string \<Rightarrow> bool" where
  "below dir p \<longleftrightarrow> (\<exists>n. entry_name n \<and> p = join dir n)"

lemma test_dir_stem: "dir_stem (test_dir base) = test_dir base"
  by (auto simp: test_dir_def dir_stem_def ends_with_iff)

lemma join_test_dir: "entry_name n \<Longrightarrow> join (test_dir base) n = test_dir base @ ''/'' @ n"
  by (simp add: join_entry test_dir_stem)

lemma parent_test_file: "entry_name n \<Longrightarrow> parent (test_dir base @ ''/'' @ n) = test_dir base"
  using split_at_name(2) [of n "test_dir base"] by (simp add: test_dir_def split: if_splits)

lemma parent_test_dir: "parent (test_dir base) = (if trim_end_chars [CHR ''/''] base = [] then ''/''
    else trim_end_chars [CHR ''/''] base)"
  using split_at_name(2) [of "''vaultra-it''" "trim_end_chars [CHR ''/''] base"]
  by (simp add: test_dir_def entry_name_def)

lemma below_test_dir: "below (test_dir base) p \<longleftrightarrow> (\<exists>n. entry_name n \<and> p = test_dir base @ ''/'' @ n)"
  unfolding below_def using join_test_dir by metis

lemma below_longer: "below (test_dir base) p \<Longrightarrow> length (test_dir base) < length p"
  unfolding below_test_dir by auto

lemma parent_shorter: "length (parent (test_dir base)) < length (test_dir base)"
  by (simp add: parent_test_dir) (simp add: test_dir_def)

lemma test_names: "entry_name ''payload.bin''" "entry_name ''empty.txt''" "entry_name ''renamed.bin''"
  by (simp_all add: entry_name_def)

lemma test_paths:
  "parent (test_dir base @ ''/payload.bin'') = test_dir base" "below (test_dir base) (test_dir base @ ''/payload.bin'')"
  "parent (test_dir base @ ''/empty.txt'') = test_dir base" "below (test_dir base) (test_dir base @ ''/empty.txt'')"
  "parent (test_dir base @ ''/renamed.bin'') = test_dir base" "below (test_dir base) (test_dir base @ ''/renamed.bin'')"
  using test_names [THEN parent_test_file, of base] test_names unfolding below_test_dir by auto

text \<open>The tree without the folder of the tests and what is directly in it.\<close>

definition without_tests :: "string \<Rightarrow> tree \<Rightarrow> tree" where
  "without_tests dir t = (\<lambda>p. if p = dir \<or> below dir p then None else t p)"

text \<open>What the program expects to find: nothing, or a folder with files of an earlier run.\<close>

definition test_ready :: "string \<Rightarrow> tree \<Rightarrow> bool" where
  "test_ready dir t \<longleftrightarrow> t (parent dir) = Some StoredDir \<and>
     (t dir = None \<and> no_children t dir \<or>
      t dir = Some StoredDir \<and> (\<forall>p. below dir p \<longrightarrow> t p = None \<or> (\<exists>bs. t p = Some (StoredFile bs))))"

lemma listed_names:
  assumes "(\<lambda>e. (re_name e, re_path e)) ` set es = {(n, join dir n) | n. entry_name n \<and> t (join dir n) \<noteq> None}"
    and "entry_name n" "t (join dir n) \<noteq> None"
  shows "n \<in> re_name ` set es"
proof -
  have "(n, join dir n) \<in> (\<lambda>e. (re_name e, re_path e)) ` set es" unfolding assms(1) using assms(2,3) by blast
  then show ?thesis by auto
qed

context remote_store
begin

lemma remove_each_clears:
  "(\<And>e. e \<in> set es \<Longrightarrow> tree w (re_path e) = None \<or> (\<exists>bs. tree w (re_path e) = Some (StoredFile bs))) \<Longrightarrow>
     tree (remove_each client es w) = (\<lambda>p. if p \<in> re_path ` set es then None else tree w p)"
proof (induction es arbitrary: w)
  case (Cons e es)
  obtain r w1 where r: "rc_remove client (re_path e) w = (r, w1)" by force
  have t1: "tree w1 = (tree w)(re_path e := None)"
    using Cons.prems [of e] r remove_file [of w "re_path e"] remove_none [of w "re_path e"] by fastforce
  have "tree (remove_each client es w1) = (\<lambda>p. if p \<in> re_path ` set es then None else tree w1 p)"
    by (rule Cons.IH) (use Cons.prems t1 in auto)
  with r t1 show ?case by (auto simp: fun_eq_iff)
qed simp

lemma clean_leftovers_tree:
  assumes "test_ready dir (tree w)" and dir: "dir = test_dir base"
  shows "tree (clean_leftovers client dir w) = without_tests dir (tree w)"
proof (cases "tree w dir")
  case None
  with assms have "no_children (tree w) dir" by (simp add: test_ready_def)
  with None have "without_tests dir (tree w) = tree w"
    by (auto simp: without_tests_def below_def no_children_def fun_eq_iff)
  with list_none [OF None] show ?thesis by (auto simp: clean_leftovers_def)
next
  case (Some nd)
  with assms have folder: "tree w dir = Some StoredDir" by (auto simp: test_ready_def)
  from list_folder [OF folder] obtain es w1 where l: "rc_list client dir w = (Inr es, w1)" "tree w1 = tree w"
    "(\<lambda>e. (re_name e, re_path e)) ` set es = {(n, join dir n) | n. entry_name n \<and> tree w (join dir n) \<noteq> None}"
    by blast
  have "re_path ` set es = snd ` ((\<lambda>e. (re_name e, re_path e)) ` set es)" by (simp add: image_image)
  also have "\<dots> = {p. below dir p \<and> tree w p \<noteq> None}"
    unfolding l(3) below_def by (auto simp: image_iff) blast
  finally have paths: "re_path ` set es = {p. below dir p \<and> tree w p \<noteq> None}" .
  let ?w2 = "remove_each client es w1"
  have t2: "tree ?w2 = (\<lambda>p. if below dir p then None else tree w p)"
  proof -
    have "tree ?w2 = (\<lambda>p. if p \<in> re_path ` set es then None else tree w1 p)"
    proof (rule remove_each_clears)
      fix e assume "e \<in> set es"
      then have "below dir (re_path e)" using paths by blast
      with assms(1) folder show "tree w1 (re_path e) = None \<or> (\<exists>bs. tree w1 (re_path e) = Some (StoredFile bs))"
        by (auto simp: test_ready_def l(2))
    qed
    then show ?thesis by (auto simp: paths l(2) fun_eq_iff)
  qed
  obtain r w3 where r: "rc_rmdir client dir ?w2 = (r, w3)" by force
  have self: "\<not> below dir dir" using below_longer by (auto simp: dir)
  then have "no_children (tree ?w2) dir" "tree ?w2 dir = Some StoredDir"
    by (auto simp: no_children_def t2 below_def folder)
  then have "tree w3 = (tree ?w2)(dir := None)" using rmdir_empty [of ?w2 dir] r by auto
  with l(1) r t2 show ?thesis by (auto simp: clean_leftovers_def without_tests_def fun_eq_iff)
qed

lemma read_rest_all:
  "left rd w = Some r \<Longrightarrow> length r < fuel \<Longrightarrow>
     \<exists>w'. read_rest fuel rd acc w = Some (Inr (acc @ r), w') \<and> left rd w' = Some [] \<and> tree w' = tree w"
proof (induction fuel arbitrary: acc r w)
  case (Suc fuel)
  from read_some [OF Suc.prems(1), of "64 * 1024"] obtain k w1 where k:
    "rr_read rd (64 * 1024) w = (Inr (take k r), w1)" "r \<noteq> [] \<longrightarrow> 0 < k" "left rd w1 = Some (drop k r)"
    "tree w1 = tree w" by auto
  have step: "describe_err (rr_read rd (64 * 1024)) ''read'' w = (Inr (take k r), w1)"
    by (rule describe_err_ok) (rule k(1))
  show ?case
  proof (cases "r = []")
    case True
    with step k show ?thesis by simp
  next
    case False
    with k(2) have ne: "take k r \<noteq> []" by simp
    from False k(2) have "length r - k < length r" by simp
    with Suc.prems(2) have "length (drop k r) < fuel" unfolding length_drop by linarith
    from Suc.IH [OF k(3) this, of "acc @ take k r"] step ne k(4) show ?thesis by auto
  qed
qed simp

lemma exercise_upload_ok:
  assumes T: "tree w = without_tests dir t" and ready: "test_ready dir t" and dir: "dir = test_dir base"
    and fl: "file = dir @ ''/payload.bin''"
  shows "\<exists>rd w'. exercise_upload client dir file w = (Inr rd, w') \<and>
    left rd w' = Some (drop (unat resume_offset) payload) \<and>
    tree w' = (without_tests dir t)(dir \<mapsto> StoredDir, file \<mapsto> StoredFile payload)"
proof -
  have ne: "file \<noteq> dir" and par: "parent file = dir" and bl: "below dir file"
    by (simp_all add: fl dir test_paths)
  have "tree w dir = None" "tree w (parent dir) = Some StoredDir"
    using T ready below_longer [of base "parent dir"] parent_shorter [of base]
    by (auto simp: without_tests_def test_ready_def dir)
  from mkdir_new [OF this] obtain w1 where w1: "rc_mkdir client dir w = (Inr (), w1)"
    "tree w1 = (without_tests dir t)(dir \<mapsto> StoredDir)" using T by auto
  have "tree w1 file = None" "tree w1 (parent file) = Some StoredDir"
    using bl ne by (simp_all add: w1(2) par without_tests_def)
  from put_new [OF this, of payload] obtain w2 where p: "put_file client file 0 payload w1 = (Inr (), w2)"
    "tree w2 = (tree w1)(file \<mapsto> StoredFile payload)" by blast
  from p(1) obtain wr wa wb where put: "rc_open_write client file 0 w1 = (Inr wr, wa)"
    "rw_write wr payload wa = (Inr (), wb)" "rw_finish wr wb = (Inr (), w2)" by (rule put_file_steps)
  have c: "tree w2 file = Some (StoredFile payload)" using p(2) by simp
  from stat_file [OF c] obtain e w3 where s: "rc_stat client file w2 = (Inr e, w3)" "re_kind e = KFile"
    "re_size e = of_nat (length payload)" "tree w3 = tree w2" by blast
  have small: "unat resume_offset \<le> length payload" "unat (of_nat (length payload) :: u64) = length payload"
    by (simp_all add: payload_def payload_size_def resume_offset_def)
  from open_at [of w3 "file" payload resume_offset] obtain rd w4 where o: "rc_open_read client file resume_offset w3 = (Inr rd, w4)"
    "left rd w4 = Some (drop (unat resume_offset) payload)" "tree w4 = tree w3" using c s(4) small(1) by auto
  have "exercise_upload client dir file w = (Inr rd, w4)"
    by (simp add: exercise_upload_def bind_io_run describe_err_def check_ok small s(1-3) w1(1) put o(1))
  with o s(4) p(2) w1(2) show ?thesis by auto
qed

lemma exercise_rest_ok:
  assumes T: "tree w = (without_tests dir t)(dir \<mapsto> StoredDir, dir @ ''/payload.bin'' \<mapsto> StoredFile payload)"
    and dir: "dir = test_dir base" and rd: "left rd w = Some []"
  shows "\<exists>w'. exercise_rest quote client dir (dir @ ''/payload.bin'') rd (drop (unat resume_offset) payload) w = (Inr (), w') \<and>
    tree w' = without_tests dir t"
proof -
  let ?F = "dir @ ''/payload.bin''" and ?E = "dir @ ''/empty.txt''" and ?R = "dir @ ''/renamed.bin''"
  let ?T = "without_tests dir t" and ?off = "unat resume_offset"
  have off: "0 < resume_offset" "?off \<le> length payload" "unat (of_nat (length payload) :: u64) = length payload"
    by (simp_all add: payload_def payload_size_def resume_offset_def)
  have none: "?T ?F = None" "?T ?E = None" "?T ?R = None" "?T dir = None"
    using test_paths [of base] by (simp_all add: without_tests_def dir)
  from finish_read [OF rd] obtain w1 where w1: "rr_finish rd w = (Inr (), w1)" "tree w1 = tree w" by blast
  have "tree w1 ?F = Some (StoredFile payload)" using w1 T by simp
  from put_at [OF this off(1,2), of "drop ?off payload"] obtain w2 rest where p:
    "put_file client ?F resume_offset (drop ?off payload) w1 = (Inr (), w2)"
    "tree w2 = (tree w1)(?F \<mapsto> StoredFile (take ?off payload @ drop ?off payload @ rest))"
    "rest = [] \<or> rest = drop (?off + length (drop ?off payload)) payload" by blast
  from p(3) have "rest = []" using off(2) by auto
  with p(2) w1(2) T have t2: "tree w2 = tree w" by (simp add: fun_eq_iff)
  from p(1) obtain wr wa wb where put: "rc_open_write client ?F resume_offset w1 = (Inr wr, wa)"
    "rw_write wr (drop ?off payload) wa = (Inr (), wb)" "rw_finish wr wb = (Inr (), w2)" by (rule put_file_steps)
  have "tree w2 ?F = Some (StoredFile payload)" using t2 T by simp
  from stat_file [OF this] obtain e w3 where s: "rc_stat client ?F w2 = (Inr e, w3)"
    "re_size e = of_nat (length payload)" "tree w3 = tree w" using t2 by auto
  have "tree w3 ?E = None" "tree w3 (parent ?E) = Some StoredDir"
    using none test_paths(3) [of base] by (simp_all add: s(3) T dir)
  from touch_new [OF this] obtain w4 where w4: "rc_touch client ?E w3 = (Inr (), w4)"
    "tree w4 = (tree w)(?E \<mapsto> StoredFile [])" using s(3) by auto
  have "tree w4 dir = Some StoredDir" by (simp add: w4(2) T)
  from list_folder [OF this] obtain es w5 where l: "rc_list client dir w4 = (Inr es, w5)" "tree w5 = tree w4"
    "(\<lambda>e. (re_name e, re_path e)) ` set es = {(n, join dir n) | n. entry_name n \<and> tree w4 (join dir n) \<noteq> None}"
    by blast
  have names: "''payload.bin'' \<in> re_name ` set es" "''empty.txt'' \<in> re_name ` set es"
    using listed_names [OF l(3)] test_names join_test_dir [of _ base] by (simp_all add: w4(2) T dir)
  have "tree w5 ?F = Some (StoredFile payload)" "tree w5 ?R = None" "tree w5 (parent ?R) = Some StoredDir"
    using none test_paths(5) [of base] by (simp_all add: l(2) w4(2) T dir)
  from rename_file [OF this] obtain w6 where w6: "rc_rename client ?F ?R w5 = (Inr (), w6)"
    "tree w6 = (tree w4)(?F := None, ?R \<mapsto> StoredFile payload)" using l(2) by auto
  have "tree w6 ?F = None" by (simp add: w6(2))
  from stat_none [OF this] obtain e7 w7 where w7: "rc_stat client ?F w6 = (Inl e7, w7)" "tree w7 = tree w6" by blast
  have "tree w7 ?R = Some (StoredFile payload)" by (simp add: w7(2) w6(2))
  from remove_file [OF this] obtain w8 where w8: "rc_remove client ?R w7 = (Inr (), w8)"
    "tree w8 = (tree w6)(?R := None)" using w7(2) by auto
  have "tree w8 ?E = Some (StoredFile [])" by (simp add: w8(2) w6(2) w4(2))
  from remove_file [OF this] obtain w9 where w9: "rc_remove client ?E w8 = (Inr (), w9)"
    "tree w9 = (tree w8)(?E := None)" by auto
  have t9: "tree w9 = ?T(dir \<mapsto> StoredDir)"
    using none by (auto simp: w9(2) w8(2) w6(2) w4(2) T fun_eq_iff)
  have "join dir n \<noteq> dir" if "entry_name n" for n
    using below_longer [of base dir] that unfolding below_def dir by force
  then have "no_children (tree w9) dir" "tree w9 dir = Some StoredDir"
    by (auto simp: no_children_def t9 without_tests_def below_def)
  from rmdir_empty [OF this(2,1)] obtain w10 where w10: "rc_rmdir client dir w9 = (Inr (), w10)"
    "tree w10 = ?T" using t9 none(4) by (auto simp: fun_upd_idem)
  from stat_none [of w10 dir] obtain e11 w11 where w11: "rc_stat client dir w10 = (Inl e11, w11)" "tree w11 = ?T"
    using w10(2) none by auto
  have "exercise_rest quote client dir ?F rd (drop ?off payload) w = (Inr (), w11)"
    by (simp add: exercise_rest_def bind_io_run try_io_run describe_err_def check_ok off(3) Let_def
        w1(1) put s(1,2) w4(1) l(1) names w6(1) w7(1) w8(1) w9(1) w10(1) w11(1))
  with w11(2) show ?thesis by blast
qed

lemma exercise_passes_on_store:
  assumes ready: "test_ready (test_dir base) (tree w)" and fuel: "payload_size < fuel"
  shows "\<exists>w'. exercise_client fuel quote client base w = Some (Inr (), w') \<and>
    tree w' = without_tests (test_dir base) (tree w)"
proof -
  let ?dir = "test_dir base" let ?F = "?dir @ ''/payload.bin''" and ?rest = "drop (unat resume_offset) payload"
  have t0: "tree (clean_leftovers client ?dir w) = without_tests ?dir (tree w)"
    by (rule clean_leftovers_tree [OF ready refl])
  from exercise_upload_ok [OF t0 ready refl refl] obtain rd w1 where up:
    "exercise_upload client ?dir ?F (clean_leftovers client ?dir w) = (Inr rd, w1)" "left rd w1 = Some ?rest"
    "tree w1 = (without_tests ?dir (tree w))(?dir \<mapsto> StoredDir, ?F \<mapsto> StoredFile payload)" by blast
  have "length ?rest < fuel" using fuel by (simp add: payload_def)
  from read_rest_all [OF up(2) this, of "[]"] obtain w2 where rd: "read_rest fuel rd [] w1 = Some (Inr ?rest, w2)"
    "left rd w2 = Some []" "tree w2 = tree w1" by auto
  from exercise_rest_ok [OF rd(3) [unfolded up(3)] refl rd(2), of quote] obtain w3 where
    "exercise_rest quote client ?dir ?F rd ?rest w2 = (Inr (), w3)" "tree w3 = without_tests ?dir (tree w)" by blast
  with up(1) rd(1) show ?thesis by (simp add: exercise_client_def Let_def)
qed

end



end
