(* ===== verification/Spec2Isabelle.thy ===== *)
theory Spec2Isabelle
  imports Queue_Properties Resume Uploads Sftp_Samples Sftp_Listing Sftp_Server Ftp_Properties Ftp_Listings Ftp_Relay
    Throttle Application Live_Properties
begin

text \<open>
  Vaultra is a file-transfer client (SFTP through the OpenSSH program, FTP and FTPS) with a Rust core under
  \<open>src-tauri/src\<close> and a user interface in TypeScript.  This library models the Rust core.

  \<^bold>\<open>How the parts interact.\<close>  A command of the user interface (\<open>commands.rs\<close>) finds a session in the session
  table (\<open>session.rs\<close>) and calls its protocol client, or edits the transfer queue (\<open>transfer/queue.rs\<close>).  The
  queue's scheduler marks due items and starts a worker (\<open>transfer/worker.rs\<close>) for each; the worker reports
  back into the queue, asks about conflicts through it, waits for the throttle, and moves bytes between the local
  disk and the client's readers and writers.  Connecting to an SFTP site starts OpenSSH
  (\<open>protocol/sftp/process.rs\<close>), whose password prompts come back through \<open>askpass.rs\<close>; the client then speaks
  SFTP over the process (\<open>protocol/sftp/packet.rs\<close>, \<open>client.rs\<close>).  FTP clients speak over sockets and TLS
  (\<open>protocol/ftp\<close>).  Files leave the window by the clipboard (\<open>clipboard.rs\<close>) or by dragging (\<open>drag_out.rs\<close>), which
  waits for the queue to download remote ones; passwords are kept by the system (\<open>credentials.rs\<close>).  \<open>lib.rs\<close> makes
  the state from the files of the last run.

  \<^bold>\<open>Conventions.\<close>  A \<open>String\<close> is its UTF-8 bytes (\<open>Rust_Strings\<close>, \<open>Utf8\<close>).  A \<open>Result\<close> is a sum with the error on
  the left; \<open>('w, 'a) vio\<close> is an effectful function over a world \<open>'w\<close>, \<open>('w, 'a) wio\<close> one that may also not
  return (\<open>None\<close>), and \<open>ran\<close> tells a panic from a result.  Machine integers are words where they are computed
  with and wrap as in a release build; \<open>i64\<close> times are integers with the wrap-around written out.  An \<open>Arc\<close> or a
  channel that several tasks share is an index into a table of the state.  Code outside the repository (crates,
  the operating system, servers) is an argument of the definitions that use it.

  \<^bold>\<open>Theories\<close>, each with the files it models:

  \<^item> \<open>Prelude\<close>, \<open>Rust_Strings\<close>, \<open>Utf8\<close>, \<open>Utf16\<close>: shared types, combinators, strings.  \<open>Errors\<close>: \<open>error.rs\<close>.
    \<open>Remote_Paths\<close>: \<open>protocol/path.rs\<close>.  \<open>Protocol_Types\<close>: \<open>protocol/mod.rs\<close>.  \<open>Logging\<close>: \<open>logging.rs\<close>.
  \<^item> \<open>Conflict\<close>: \<open>transfer/conflict.rs\<close>.  \<open>Settings\<close>: \<open>settings.rs\<close>.  \<open>Site_Model\<close>: \<open>sites/model.rs\<close>.
    \<open>Credentials\<close>: \<open>credentials.rs\<close>.  \<open>Site_Store\<close>: \<open>sites/store.rs\<close>.  \<open>Site_Import\<close>: \<open>sites/import.rs\<close>.
  \<^item> \<open>Transfer_Types\<close>, \<open>Transfer_Queue\<close>, \<open>Queue_Dispatch\<close>: \<open>transfer/mod.rs\<close> and \<open>transfer/queue.rs\<close>.
    \<open>Queue_Frames\<close> holds what the operations leave alone, \<open>Queue_System\<close> the step relation of queue, scheduler,
    workers and user, \<open>Queue_Invariant\<close> its invariant by rule induction, \<open>Queue_Properties\<close> what follows, and \<open>Queue_Typing\<close> what
    the items look like in every state.
  \<^item> \<open>Transfer_Pump\<close>, \<open>Digests\<close>, \<open>Transfer_Worker\<close>, \<open>Worker_Properties\<close>, \<open>Resume\<close>, \<open>Uploads\<close>: \<open>transfer/worker.rs\<close>.  \<open>Throttle\<close>:
    \<open>transfer/throttle.rs\<close>.
  \<^item> \<open>Askpass\<close>: \<open>askpass.rs\<close>.  \<open>Ssh_Process\<close>: \<open>protocol/sftp/process.rs\<close>.  \<open>Sessions\<close>: \<open>session.rs\<close>.
  \<^item> \<open>Sftp_Packet\<close>: \<open>protocol/sftp/packet.rs\<close>.  \<open>Sftp_Link\<close>, \<open>Sftp_Client\<close>, \<open>Sftp_Stream\<close>:
    \<open>protocol/sftp/client.rs\<close>, as its transport with the two tasks, its operations, and its pipelined reader and
    writer.  \<open>Sftp_Samples\<close> has concrete servers, \<open>Sftp_Listing\<close> what a listing gives;
    \<open>Sftp_Operations\<close> reads the client's requests as a server does and \<open>Sftp_Server\<close> is such a server.
  \<^item> \<open>Ftp_Parser\<close>: \<open>protocol/ftp/parser.rs\<close>.  \<open>Ftp_Control\<close>, \<open>Ftp_Client\<close>: \<open>protocol/ftp/client.rs\<close>.  \<open>Trust\<close>:
    \<open>protocol/ftp/tls.rs\<close>.  \<open>Ftp_Properties\<close>, \<open>Ftp_Listings\<close>, \<open>Ftp_Relay\<close> hold their properties.
  \<^item> \<open>Local_Fs\<close>: \<open>local_fs.rs\<close>.  \<open>Sync_Compare\<close>: \<open>sync.rs\<close>.  \<open>Edit_Manager\<close>: \<open>edit.rs\<close>.
  \<^item> \<open>Global_Memory\<close> (the module \<open>hglobal\<close>) and \<open>Drag_Out\<close>: \<open>drag_out.rs\<close>.  \<open>Clipboard\<close>: \<open>clipboard.rs\<close>.
    \<open>Icons\<close>: \<open>icons.rs\<close>.  \<open>Commands\<close>: \<open>commands.rs\<close>.  \<open>Application\<close>: \<open>lib.rs\<close>, \<open>paths.rs\<close>.
  \<^item> \<open>Live_Servers\<close>: the test program \<open>bin/live_servers.rs\<close>.  \<open>Remote_Store\<close> is what the trait of the clients promises
    over a tree of files, \<open>Tree_Store\<close> a client in memory that keeps it, \<open>Live_Properties\<close> what the program then does.

  \<^bold>\<open>Interfaces.\<close>  The locales \<open>byte_source\<close>, \<open>byte_sink\<close> and \<open>byte_pipe\<close> (\<open>Transfer_Pump\<close>) are what the copy loop
  needs of a reader and a writer; they are interpreted on the FTP reader and writer (\<open>Ftp_Relay\<close>).
  \<open>big_endian\<close> (\<open>Sftp_Packet\<close>) is the documented behaviour of the \<open>bytes\<close> crate, interpreted on the standard
  conversions.  \<open>credential_store\<close> and \<open>reliable_store\<close> (\<open>Credentials\<close>) are the trait, interpreted on the store in
  memory; \<open>credential_manager\<close> is what Windows documents, and the store on top of it is a \<open>credential_store\<close> by a
  \<open>sublocale\<close>.  \<open>streaming_hash\<close> (\<open>Digests\<close>), \<open>memory_blocks\<close> (\<open>Global_Memory\<close>), \<open>windows_clipboard\<close>
  (\<open>Clipboard\<close>) and \<open>drag_system\<close> (\<open>Drag_Out\<close>) state what is relied on of the hash crates and of Windows; each is
  interpreted on a small system that keeps it.  \<open>remote_store\<close> (\<open>Remote_Store\<close>) is the contract of \<open>RemoteClient\<close> that the
  test program checks of a server; servers are outside the repository, so it is interpreted on a tree in memory.
\<close>

text \<open>
  \<^bold>\<open>What is proved.\<close>  Queue: in every interleaving of scheduler, workers and user an active item has exactly one
  worker, pausing and removing reach that worker, no item is lost at a worker's end or over a restart, the order
  and the limits of the scheduler hold, and conflict answers arrive.  Worker: a finished download holds the kept
  prefix and the remote bytes behind it, a download that was cut off can be resumed whatever ends an attempt
  (\<open>Resume\<close>), a finished upload has put the local bytes behind the kept prefix (\<open>Uploads\<close>), plans stay within both files, retries are bounded, and loops end.  SFTP:
  attributes, frames and listings are read back, replies reach the request with their number and every request is
  answered when the connection ends, the pipelined reader refines a sequence of bytes, writes have no gaps, and the operations of the client are those of
  the server, with its status as their result (\<open>Sftp_Operations\<close>).
  FTP: replies are framed, listings give the entries they describe and name nothing improper, passwords stay out
  of the log, addresses are checked, and a copy between servers is exact.  The rest: sessions reuse connections
  and ask for a password at most once, transfers outlive a reconnection (\<open>reconnect_resumes\<close>, below), certificates are trusted as the user decided, a comparison is complete and
  symmetric, a directory is deleted bottom up, passwords follow their sites and come back from the system as they
  were, what is copied is pasted, a drop waits for its downloads, icons are scaled without a panic or an overflow, and
  digests are those of the contents.  The test program passes on every client that keeps the contract of the trait
  (\<open>Live_Properties\<close>).

  Some theorems state where the code does not do what it means to: a short answer makes the SFTP reader leave a gap
  (\<open>sftp_short_read_gap\<close>), a request that is registered while the reader task ends waits for ever
  (\<open>late_request_hangs\<close>), a transfer dropped on an error leaves its reply to the next command
  (\<open>dropped_transfer_shifts_replies\<close>), a time that is not ASCII panics (\<open>mlsd_time_panics\<close>), links that lead back keep
  a comparison going (\<open>symlink_cycle_never_ends\<close>), a pause between marking and starting is lost
  (\<open>pause_while_starting_lost\<close>), the delay of late retries is zero (\<open>retry_delay_vanishes\<close>), and the bandwidth
  limit holds for each transfer and not for all (\<open>throttle_not_shared\<close>, with \<open>throttle_bounded\<close> as what is kept),
  downloads that the user removes count as done for a drop (\<open>removed_download_dropped\<close>), and an askpass connection
  closed without a reply is an empty answer (\<open>closed_pipe_is_answer\<close>).

  \<^bold>\<open>Fuel.\<close>  Loops that depend on a peer have fuel, and returning is proved where it holds: one unit for each byte
  still to come is enough for the copy loops (\<open>download_returns\<close>, \<open>relay_exact\<close>), one for each directory for the
  walks (\<open>remote_tree_deleted\<close>, \<open>collect_remote_returns\<close>).  A server that sends, or lists, without end is what
  running out of fuel stands for.  The wait of a drop is a partial function: it returns when the downloads are settled
  or Escape is down at some poll (\<open>download_loop_ends\<close>).

  \<^bold>\<open>Concurrency.\<close>  The queue's steps are the critical sections of its locks.  The SFTP transport interleaves
  requests with its two tasks in \<open>link_step\<close>; for a client operation the argument \<open>se_run\<close> is whatever happens while it
  awaits, and the concurrent look-ups of links are taken to be answered in the order they were sent.  An FTP connection
  is a script of the lines and blocks the server sends, so that a theorem about all scripts is about all servers;
  bytes buffered in clear before the change to TLS are not told apart from those behind it, and reading data has
  no time-out in the model as in the code.  A lease is returned to the pool at once, not by a task of its own.

  The main thread handles one drag at a time; what the other threads do meanwhile happens inside the calls of the system.

  \<^bold>\<open>Not modelled.\<close>  What is behind the calls of the system: OLE, windows and messages, the shell and its COM
  shortcut reader, GDI, named pipes, the credential manager.  Handles and blocks that an error leaves unreleased are not
  counted.  The variants of functions for other systems than Windows, which only refuse.  The tracing subscriber, tauri
  and its plugins; the user interface.  Serialization (serde), hashing, base64, regular expressions, glob matching, the calendar
  (\<open>chrono\<close>), legacy encodings, XML tokens, X.509 and TLS are arguments.  The \<open>f64\<close> seconds of the throttle are
  exact rationals; the worker's wait for it is an argument, as are the floating-point rates shown to the user.
\<close>

section \<open>Reconnecting\<close>

text \<open>What makes up an item's work: which bytes go where, and how far it is.\<close>

definition same_work :: "transfer_item \<Rightarrow> transfer_item \<Rightarrow> bool" where
  "same_work i j \<longleftrightarrow> ti_id j = ti_id i \<and> ti_site_id j = ti_site_id i \<and> ti_local_path j = ti_local_path i \<and>
     ti_remote_path j = ti_remote_path i \<and> ti_transferred j = ti_transferred i"

definition paused_in :: "'z queue_state_scheme \<Rightarrow> string set \<Rightarrow> transfer_item \<Rightarrow> transfer_item" where
  "paused_in q ids i = (if ti_id i \<in> ids \<and> control_of (ti_id i) q = None \<and> ti_status i = Queued
     then i\<lparr>ti_status := Paused\<rparr> else i)"

lemma paused_in_id [simp]: "ti_id (paused_in q ids i) = ti_id i"
  by (simp add: paused_in_def)

lemma pause_items:
  assumes "distinct (map ti_id (q_items q))"
  shows "q_items (pause key q) = map (paused_in q {key}) (q_items q)" "q_controls (pause key q) = q_controls q"
  using assms
  by (auto simp: pause_def paused_in_def update_item_items update_first_distinct cancel_cell_def
      split: option.splits intro!: map_cong map_idI [symmetric])

lemma pause_all_items:
  "distinct (map ti_id (q_items q)) \<Longrightarrow>
     q_items (fold pause ids q) = map (paused_in q (set ids)) (q_items q) \<and> q_controls (fold pause ids q) = q_controls q"
proof (induction ids arbitrary: q)
  case Nil
  then show ?case by (simp add: paused_in_def)
next
  case (Cons key ids)
  note P = pause_items [OF Cons.prems, of key]
  have "distinct (map ti_id (q_items (pause key q)))" using Cons.prems P(1) by (simp add: comp_def)
  from Cons.IH [OF this] P show ?case by (auto simp: paused_in_def control_of_def)
qed

lemma unbind_items:
  assumes "distinct (map ti_id (q_items q))"
  shows "q_items (unbind_session key q) = map (\<lambda>i. if ti_session_id i = Some key
    then (paused_in q {ti_id i} i)\<lparr>ti_session_id := None\<rparr> else i) (q_items q)"
proof -
  let ?ids = "map ti_id (filter (\<lambda>i. ti_session_id i = Some key) (q_items q))"
  have "q_items (fold pause ?ids q) = map (paused_in q (set ?ids)) (q_items q)"
    using pause_all_items [OF assms] by blast
  moreover have "ti_session_id (paused_in q X i) = ti_session_id i" for X i by (simp add: paused_in_def)
  moreover have "ti_id i \<in> set ?ids \<longleftrightarrow> ti_session_id i = Some key" if "i \<in> set (q_items q)" for i
    using that assms by (auto simp: distinct_map inj_on_def)
  ultimately show ?thesis
    by (auto simp: unbind_session_def Let_def paused_in_def)
qed

lemma connect_binds:
  assumes "session_connect connect cr write_recent now site password accept remember st ed c w
      = (Inr (info, tab), st', ed', c', w')"
    and "\<And>password accept w. q_items (snd (connect site password accept w)) = q_items w"
  shows "q_items w' = map (\<lambda>i. if ti_site_id i = sc_id site \<and> ti_session_id i = None
    then i\<lparr>ti_session_id := Some (si_id info)\<rparr> else i) (q_items w)"
proof -
  obtain pw acc w1 where "connect site pw acc w = (Inr (info, tab), w1)"
      "w' = bind_session (sc_id site) (si_id info) w1"
    using assms(1) by (auto simp: session_connect_def Let_def split: option.splits sum.splits prod.splits)
  with assms(2) [of pw acc w] show ?thesis by (simp add: bind_session_def changed_def)
qed



end
